(* ===== verification/Prelude.thy ===== *)
theory Prelude
  imports Main "HOL-Library.Word" "HOL-Library.State_Monad" "HOL-Library.AList"
begin

text \<open>
  What every component of the provider shares: the named collections of simplification rules, the
  pieces of Go's standard library the sources use on strings (\<^verbatim>\<open>strings\<close>, \<^verbatim>\<open>strconv.Quote\<close>,
  \<^verbatim>\<open>fmt\<close>), Go's \<^verbatim>\<open>error\<close> values with the wrapping of \<^verbatim>\<open>fmt.Errorf("...: %w", err)\<close>, the three
  ways a Go call ends (a value, an error, a nil-pointer panic), and the state monad in which the
  reconcilers call the Kubernetes API.

  A Go \<^verbatim>\<open>string\<close> or \<^verbatim>\<open>[]byte\<close> is a HOL \<^typ>\<open>string\<close>, one \<^typ>\<open>char\<close> per byte. An \<^verbatim>\<open>int32\<close> is a 32-bit word
  that the code compares as a signed number, so it is read with \<^const>\<open>sint\<close>.
\<close>

type_synonym int32 = "32 word"
type_synonym int64 = "64 word"

named_theorems run_simps \<open>how one step of an effectful operation runs\<close>
named_theorems model_defs \<open>definitions a component's proofs unfold\<close>

subsection \<open>Strings\<close>

definition HasPrefix :: "string \<Rightarrow> string \<Rightarrow> bool" where
  "HasPrefix s p \<longleftrightarrow> take (length p) s = p"

definition TrimPrefix :: "string \<Rightarrow> string \<Rightarrow> string" where
  "TrimPrefix s p = (if HasPrefix s p then drop (length p) s else s)"

definition HasSuffix :: "string \<Rightarrow> string \<Rightarrow> bool" where
  "HasSuffix s p \<longleftrightarrow> HasPrefix (rev s) (rev p)"

definition TrimSuffix :: "string \<Rightarrow> string \<Rightarrow> string" where
  "TrimSuffix s p = (if HasSuffix s p then take (length s - length p) s else s)"

text \<open>\<^verbatim>\<open>strings.Trim\<close> with a cutset of one character, the only use the sources make of it.\<close>

definition TrimChar :: "char \<Rightarrow> string \<Rightarrow> string" where
  "TrimChar c s = rev (dropWhile (\<lambda>x. x = c) (rev (dropWhile (\<lambda>x. x = c) s)))"

fun Contains :: "string \<Rightarrow> string \<Rightarrow> bool" where
  "Contains [] sub = (sub = [])"
| "Contains (x # xs) sub = (HasPrefix (x # xs) sub \<or> Contains xs sub)"

fun Join :: "string list \<Rightarrow> string \<Rightarrow> string" where
  "Join [] sep = []"
| "Join [x] sep = x"
| "Join (x # y # ys) sep = x @ sep @ Join (y # ys) sep"

lemma HasPrefix_append [simp]: "HasPrefix (p @ s) p"
  by (simp add: HasPrefix_def)

lemma HasPrefix_iff: "HasPrefix s p \<longleftrightarrow> (\<exists>t. s = p @ t)"
  by (auto simp: HasPrefix_def) (metis append_take_drop_id)

lemma TrimPrefix_append [simp]: "TrimPrefix (p @ s) p = s"
  by (simp add: TrimPrefix_def)

lemma HasPrefix_Nil [simp]: "HasPrefix s []"
  by (simp add: HasPrefix_def)

lemma TrimSuffix_append [simp]: "TrimSuffix (s @ p) p = s"
  by (simp add: TrimSuffix_def HasSuffix_def)

lemma Contains_char: "Contains s [c] \<longleftrightarrow> c \<in> set s"
  by (induction s) (auto simp: HasPrefix_def)

lemma TrimChar_id: "s = [] \<or> (hd s \<noteq> c \<and> last s \<noteq> c) \<Longrightarrow> TrimChar c s = s"
proof (cases s)
  case (Cons a t)
  assume *: "s = [] \<or> (hd s \<noteq> c \<and> last s \<noteq> c)"
  with Cons have "dropWhile (\<lambda>x. x = c) s = s" by simp
  moreover have "dropWhile (\<lambda>x. x = c) (rev s) = rev s"
  proof (cases "rev s")
    case (Cons b u)
    then have "b = last s" by (metis hd_rev list.sel(1))
    with * \<open>s = a # t\<close> Cons show ?thesis by simp
  qed simp
  ultimately show ?thesis by (simp add: TrimChar_def)
qed (simp add: TrimChar_def)

lemma TrimChar_ends:
  "TrimChar c s = [] \<or> (hd (TrimChar c s) \<noteq> c \<and> last (TrimChar c s) \<noteq> c)"
proof -
  define t where "t = dropWhile (\<lambda>x. x = c) s"
  define u where "u = dropWhile (\<lambda>x. x = c) (rev t)"
  have res: "TrimChar c s = rev u" by (simp add: TrimChar_def u_def t_def)
  show ?thesis
  proof (cases "u = []")
    case False
    have "hd u \<noteq> c" using False hd_dropWhile [of "\<lambda>x. x = c" "rev t"] by (simp add: u_def)
    then have l: "last (rev u) \<noteq> c" by (simp add: last_rev)
    have tne: "t \<noteq> []" using False by (auto simp: u_def)
    then have "hd t \<noteq> c" using hd_dropWhile [of "\<lambda>x. x = c" s] by (simp add: t_def)
    obtain p where "rev t = p @ u" unfolding u_def by (metis takeWhile_dropWhile_id)
    then have "t = rev u @ rev p" by (metis rev_append rev_rev_ident)
    with False \<open>hd t \<noteq> c\<close> have "hd (rev u) \<noteq> c" by simp
    with l res show ?thesis by simp
  qed (simp add: res)
qed

lemma TrimChar_idem [simp]: "TrimChar c (TrimChar c s) = TrimChar c s"
  by (rule TrimChar_id) (rule TrimChar_ends)

lemma set_TrimChar: "set (TrimChar c s) \<subseteq> set s"
  unfolding TrimChar_def by (metis set_dropWhileD set_rev subsetI)

subsection \<open>Quoting\<close>

text \<open>
  The verb \<^verbatim>\<open>%q\<close> (\<^verbatim>\<open>strconv.Quote\<close>): ASCII control characters, the quote and the backslash are
  escaped; bytes above 127 are printed as they are (the text of the messages is UTF-8).
\<close>

definition hex_digit :: "nat \<Rightarrow> char" where
  "hex_digit n = char_of (if n < 10 then 48 + n else 87 + n)"

definition escape_char :: "char \<Rightarrow> string" where
  "escape_char c =
     (let n = of_char c :: nat in
      if n = 34 \<or> n = 92 then [CHR 0x5C, c]
      else if n = 7 then [CHR 0x5C, CHR ''a'']
      else if n = 8 then [CHR 0x5C, CHR ''b'']
      else if n = 12 then [CHR 0x5C, CHR ''f'']
      else if n = 10 then [CHR 0x5C, CHR ''n'']
      else if n = 13 then [CHR 0x5C, CHR ''r'']
      else if n = 9 then [CHR 0x5C, CHR ''t'']
      else if n = 11 then [CHR 0x5C, CHR ''v'']
      else if n < 32 \<or> n = 127 then [CHR 0x5C, CHR ''x'', hex_digit (n div 16), hex_digit (n mod 16)]
      else [c])"

definition Quote :: "string \<Rightarrow> string" where
  "Quote s = [CHR 0x22] @ concat (map escape_char s) @ [CHR 0x22]"

fun nat_str :: "nat \<Rightarrow> string" where
  "nat_str n = (if n < 10 then [char_of (48 + n)] else nat_str (n div 10) @ [char_of (48 + n mod 10)])"

declare nat_str.simps [simp del]

subsection \<open>Errors\<close>

text \<open>
  The reasons of an \<^verbatim>\<open>apierrors.StatusError\<close> the sources test for, and the shapes of Go errors they
  build. \<^verbatim>\<open>errors.New\<close> and \<^verbatim>\<open>fmt.Errorf\<close> without \<^verbatim>\<open>%w\<close> give \<open>Msg\<close>; every \<^verbatim>\<open>%w\<close> of the sources follows
  a colon and a space at the end of its format, so \<open>Wrap\<close> holds the text before them.
\<close>

datatype api_reason = NotFound | AlreadyExists | OtherReason string

datatype go_error =
    APIError api_reason string
  | Msg string
  | Wrap string go_error
  | BackupConfigError string string
  | DataSourceConfigError string string

fun Error :: "go_error \<Rightarrow> string" where
  "Error (APIError r m) = m"
| "Error (Msg m) = m"
| "Error (Wrap m e) = m @ '': '' @ Error e"
| "Error (BackupConfigError r m) = m"
| "Error (DataSourceConfigError r m) = m"

text \<open>\<^verbatim>\<open>apierrors.IsNotFound\<close> and its kin look through wrapped errors, as \<^verbatim>\<open>errors.As\<close> does.\<close>

fun api_status :: "go_error \<Rightarrow> api_reason option" where
  "api_status (APIError r m) = Some r"
| "api_status (Wrap m e) = api_status e"
| "api_status e = None"

definition IsNotFound :: "go_error \<Rightarrow> bool" where
  "IsNotFound e \<longleftrightarrow> api_status e = Some NotFound"

definition IsAlreadyExists :: "go_error \<Rightarrow> bool" where
  "IsAlreadyExists e \<longleftrightarrow> api_status e = Some AlreadyExists"

definition IsAPIStatus :: "go_error \<Rightarrow> bool" where
  "IsAPIStatus e \<longleftrightarrow> api_status e \<noteq> None"

lemma IsNotFound_Wrap [simp]: "IsNotFound (Wrap m e) = IsNotFound e"
  by (simp add: IsNotFound_def)

lemma IsNotFound_APIError [simp]: "IsNotFound (APIError r m) \<longleftrightarrow> r = NotFound"
  by (simp add: IsNotFound_def)

lemma IsAlreadyExists_APIError [simp]: "IsAlreadyExists (APIError r m) \<longleftrightarrow> r = AlreadyExists"
  by (simp add: IsAlreadyExists_def)

lemma IsNotFound_others [simp]:
  "\<not> IsNotFound (Msg m)" "\<not> IsNotFound (BackupConfigError r m)" "\<not> IsNotFound (DataSourceConfigError r m)"
  by (simp_all add: IsNotFound_def)

subsection \<open>How a call ends\<close>

text \<open>
  A Go function with results \<^verbatim>\<open>(T, error)\<close> returns a value, returns an error, or panics on a nil
  pointer.
\<close>

datatype 'a outcome = Ret 'a | Err go_error | Panic

fun bindO :: "'a outcome \<Rightarrow> ('a \<Rightarrow> 'b outcome) \<Rightarrow> 'b outcome" where
  "bindO (Ret a) f = f a"
| "bindO (Err e) f = Err e"
| "bindO Panic f = Panic"

text \<open>Reading through a pointer that may be nil.\<close>

definition deref :: "'a option \<Rightarrow> 'a outcome" where
  "deref p = (case p of None \<Rightarrow> Panic | Some a \<Rightarrow> Ret a)"

lemma deref_simps [simp]: "deref None = Panic" "deref (Some a) = Ret a"
  by (simp_all add: deref_def)

lemma bindO_Ret: "bindO m f = Ret b \<longleftrightarrow> (\<exists>a. m = Ret a \<and> f a = Ret b)"
  by (cases m) auto

lemma bindO_assoc [simp]: "bindO (bindO m f) g = bindO m (\<lambda>a. bindO (f a) g)"
  by (cases m) auto

subsection \<open>Effects\<close>

text \<open>
  A reconciler runs against a world \<open>'w\<close> that it only sees through the calls of the API client and
  of the provider runtime. \<open>call m h k\<close> is the Go idiom
  \<^verbatim>\<open>x, err := m; if err != nil { h(err) }; k(x)\<close>; a panic of \<open>m\<close> is not caught.
\<close>

type_synonym ('w, 'a) io = "('w, 'a outcome) state"

definition ret :: "'a \<Rightarrow> ('w, 'a) io" where
  "ret a = State_Monad.return (Ret a)"

definition fail :: "go_error \<Rightarrow> ('w, 'a) io" where
  "fail e = State_Monad.return (Err e)"

definition lift_outcome :: "'a outcome \<Rightarrow> ('w, 'a) io" where
  "lift_outcome r = State_Monad.return r"

definition call :: "('w, 'a) io \<Rightarrow> (go_error \<Rightarrow> ('w, 'b) io) \<Rightarrow> ('a \<Rightarrow> ('w, 'b) io) \<Rightarrow> ('w, 'b) io" where
  "call m h k = State_Monad.bind m (\<lambda>r. case r of Ret a \<Rightarrow> k a | Err e \<Rightarrow> h e | Panic \<Rightarrow> State_Monad.return Panic)"

definition exec :: "('w, 'a) io \<Rightarrow> 'w \<Rightarrow> 'a outcome \<times> 'w" where
  "exec m w = run_state m w"

text \<open>A call of the runtime that returns nothing, so its outcome is not looked at.\<close>

definition void :: "('w, unit) io \<Rightarrow> ('w, 'a) io \<Rightarrow> ('w, 'a) io" where
  "void m k = call m (\<lambda>_. k) (\<lambda>_. k)"

lemma exec_ret [simp, run_simps]: "exec (ret a) w = (Ret a, w)"
  by (simp add: exec_def ret_def)

lemma exec_fail [simp, run_simps]: "exec (fail e) w = (Err e, w)"
  by (simp add: exec_def fail_def)

lemma exec_lift_outcome [simp, run_simps]: "exec (lift_outcome r) w = (r, w)"
  by (simp add: exec_def lift_outcome_def)

lemma exec_call [run_simps]:
  "exec (call m h k) w =
     (case exec m w of (Ret a, w') \<Rightarrow> exec (k a) w' | (Err e, w') \<Rightarrow> exec (h e) w' | (Panic, w') \<Rightarrow> (Panic, w'))"
  by (simp add: exec_def call_def split: prod.split outcome.split)

lemma exec_call_Ret [simp]: "exec m w = (Ret a, w') \<Longrightarrow> exec (call m h k) w = exec (k a) w'"
  by (simp add: exec_call)

lemma exec_call_Err [simp]: "exec m w = (Err e, w') \<Longrightarrow> exec (call m h k) w = exec (h e) w'"
  by (simp add: exec_call)

lemma exec_call_Panic [simp]: "exec m w = (Panic, w') \<Longrightarrow> exec (call m h k) w = (Panic, w')"
  by (simp add: exec_call)

lemma exec_State [simp, run_simps]: "exec (State f) w = f w"
  by (simp add: exec_def)

lemma exec_case_option [run_simps]:
  "exec (case x of None \<Rightarrow> a | Some y \<Rightarrow> b y) w = (case x of None \<Rightarrow> exec a w | Some y \<Rightarrow> exec (b y) w)"
  by (simp split: option.split)

lemma exec_if [run_simps]: "exec (if c then a else b) w = (if c then exec a w else exec b w)"
  by simp

text \<open>An operation is pure when it leaves the world alone, whatever it returns.\<close>

definition reads_only :: "('w, 'a) io \<Rightarrow> bool" where
  "reads_only m \<longleftrightarrow> (\<forall>w. snd (exec m w) = w)"

lemma reads_onlyD: "reads_only m \<Longrightarrow> snd (exec m w) = w"
  by (simp add: reads_only_def)

lemma reads_only_ret [intro, simp]: "reads_only (ret a)"
  by (simp add: reads_only_def)

lemma reads_only_fail [intro, simp]: "reads_only (fail e)"
  by (simp add: reads_only_def)

lemma reads_only_lift [intro, simp]: "reads_only (lift_outcome r)"
  by (simp add: reads_only_def)

lemma reads_only_call [intro]:
  assumes "reads_only m" "\<And>e. reads_only (h e)" "\<And>a. reads_only (k a)"
  shows "reads_only (call m h k)"
  unfolding reads_only_def
proof
  fix w
  obtain r w' where m: "exec m w = (r, w')" by (cases "exec m w")
  with assms(1) have "w' = w" by (metis reads_onlyD snd_conv)
  with m assms(2,3) show "snd (exec (call m h k) w) = w"
    by (cases r) (auto simp: reads_only_def)
qed

text \<open>
  A property of the world that an operation keeps, whatever it returns: the invariants of the
  reconcilers are proved call by call through these rules.
\<close>

definition keeps :: "('w \<Rightarrow> bool) \<Rightarrow> ('w, 'a) io \<Rightarrow> bool" where
  "keeps P m \<longleftrightarrow> (\<forall>w. P w \<longrightarrow> P (snd (exec m w)))"

lemma keepsD: "keeps P m \<Longrightarrow> P w \<Longrightarrow> P (snd (exec m w))"
  by (simp add: keeps_def)

lemma keeps_ret [intro, simp]: "keeps P (ret a)"
  by (simp add: keeps_def)

lemma keeps_fail [intro, simp]: "keeps P (fail e)"
  by (simp add: keeps_def)

lemma keeps_lift [intro, simp]: "keeps P (lift_outcome r)"
  by (simp add: keeps_def)

lemma keeps_reads_only: "reads_only m \<Longrightarrow> keeps P m"
  by (simp add: keeps_def reads_only_def)

lemma keeps_call [intro]:
  assumes "keeps P m" "\<And>e. keeps P (h e)" "\<And>a. keeps P (k a)"
  shows "keeps P (call m h k)"
  unfolding keeps_def
proof (intro allI impI)
  fix w assume "P w"
  obtain r w' where m: "exec m w = (r, w')" by (cases "exec m w")
  with assms(1) \<open>P w\<close> have "P w'" by (metis keepsD snd_conv)
  with m assms(2,3) show "P (snd (exec (call m h k) w))"
    by (cases r) (auto simp: keeps_def)
qed

text \<open>
  The same with a property of the value returned: whatever the operation returns, the world still
  satisfies \<open>P\<close>, and a value satisfies \<open>Q\<close>. Since \<open>P\<close> is any property, a statement that an operation keeps
  every \<open>P\<close> that a given set of calls keeps says that it makes no other call.
\<close>

definition ensures :: "('w \<Rightarrow> bool) \<Rightarrow> ('w, 'a) io \<Rightarrow> ('a \<Rightarrow> bool) \<Rightarrow> bool" where
  "ensures P m Q \<longleftrightarrow> (\<forall>w. P w \<longrightarrow> P (snd (exec m w)) \<and> (\<forall>a. fst (exec m w) = Ret a \<longrightarrow> Q a))"

lemma ensuresD:
  assumes "ensures P m Q" "exec m w = (r, w')" "P w"
  shows "P w'" "r = Ret a \<Longrightarrow> Q a"
  using assms by (auto simp: ensures_def)

lemma ensures_keeps: "ensures P m Q \<Longrightarrow> keeps P m"
  by (simp add: ensures_def keeps_def)

lemma keeps_ensures: "keeps P m \<Longrightarrow> ensures P m (\<lambda>_. True)"
  by (simp add: ensures_def keeps_def)

lemma ensures_value: "keeps P m \<Longrightarrow> (\<And>w w' a. exec m w = (Ret a, w') \<Longrightarrow> Q a) \<Longrightarrow> ensures P m Q"
  unfolding ensures_def keeps_def by (metis prod.collapse)

lemma ensures_ret [simp]: "Q a \<Longrightarrow> ensures P (ret a) Q"
  by (simp add: ensures_def)

lemma ensures_fail [simp]: "ensures P (fail e) Q"
  by (simp add: ensures_def)

lemma ensures_lift: "(\<And>a. r = Ret a \<Longrightarrow> Q a) \<Longrightarrow> ensures P (lift_outcome r) Q"
  by (simp add: ensures_def)

lemma ensures_weaken: "ensures P m Q \<Longrightarrow> (\<And>a. Q a \<Longrightarrow> R a) \<Longrightarrow> ensures P m R"
  by (simp add: ensures_def)

lemma ensures_call:
  assumes "ensures P m R" "\<And>e. ensures P (h e) Q" "\<And>a. R a \<Longrightarrow> ensures P (k a) Q"
  shows "ensures P (call m h k) Q"
  unfolding ensures_def
proof (intro allI impI)
  fix w assume "P w"
  obtain r w' where m: "exec m w = (r, w')" by (cases "exec m w")
  with assms(1) \<open>P w\<close> have w': "P w'" "\<And>a. r = Ret a \<Longrightarrow> R a" by (auto dest: ensuresD)
  show "P (snd (exec (call m h k) w)) \<and> (\<forall>a. fst (exec (call m h k) w) = Ret a \<longrightarrow> Q a)"
  proof (cases r)
    case (Ret a)
    with w' assms(3) m show ?thesis by (simp add: ensures_def)
  next
    case (Err e)
    with w' assms(2) m show ?thesis by (simp add: ensures_def)
  qed (use m w' in simp)
qed

lemma ensures_if: "(c \<Longrightarrow> ensures P a Q) \<Longrightarrow> (\<not> c \<Longrightarrow> ensures P b Q) \<Longrightarrow> ensures P (if c then a else b) Q"
  by simp

lemma ensures_call_lift:
  "(\<And>e. r = Err e \<Longrightarrow> ensures P (h e) Q) \<Longrightarrow> (\<And>a. r = Ret a \<Longrightarrow> ensures P (k a) Q) \<Longrightarrow> ensures P (call (lift_outcome r) h k) Q"
  by (cases r) (auto simp: ensures_def exec_call)

lemma ensures_call_keeps:
  "keeps P m \<Longrightarrow> (\<And>e. ensures P (h e) Q) \<Longrightarrow> (\<And>a. ensures P (k a) Q) \<Longrightarrow> ensures P (call m h k) Q"
  by (rule ensures_call [OF keeps_ensures])

text \<open>The rules in the order in which they are tried: a pure step first, then a call.\<close>

lemmas ensures_steps = ensures_fail ensures_ret ensures_lift ensures_if ensures_call_lift ensures_call_keeps

subsection \<open>Association lists\<close>

lemma AList_update_same: "map_of xs k = Some v \<Longrightarrow> AList.update k v xs = xs"
  by (induction xs) (auto split: if_splits)

lemma AList_update_again [simp]: "AList.update k v (AList.update k v xs) = AList.update k v xs"
  by (rule AList_update_same) (simp add: update_conv')

end
