(* ===== verification/Go_Time.thy ===== *)
theory Go_Time
  imports Prelude
begin

text \<open>
  Instants of Go's \<^verbatim>\<open>time.Time\<close> and of \<^verbatim>\<open>metav1.Time\<close>, as the sources use them: \<^verbatim>\<open>After\<close>, \<^verbatim>\<open>Before\<close>,
  \<^verbatim>\<open>IsZero\<close> and \<^verbatim>\<open>UTC().Format\<close> with the two layouts of backup.go. An instant is the number of
  nanoseconds since 1970-01-01T00:00:00Z; the location only affects printing, and every print goes
  through \<^verbatim>\<open>UTC()\<close>. The calendar is the proleptic Gregorian one, computed from the day number by
  400-year eras that start on 1 March. The round trip at the end shows that the text handed to the
  operator denotes the requested second.
\<close>

type_synonym time = int

text \<open>The zero \<^verbatim>\<open>time.Time\<close> is 1 January of the year 1, 62135596800 seconds before the epoch.\<close>

definition zero_time :: time where
  "zero_time = - 62135596800 * 1000000000"

definition IsZero :: "time \<Rightarrow> bool" where
  "IsZero t \<longleftrightarrow> t = zero_time"

text \<open>\<^verbatim>\<open>IsZero\<close> on a nil \<^verbatim>\<open>*metav1.Time\<close> holds too.\<close>

definition IsZero_ptr :: "time option \<Rightarrow> bool" where
  "IsZero_ptr p \<longleftrightarrow> (case p of None \<Rightarrow> True | Some t \<Rightarrow> IsZero t)"

definition After :: "time \<Rightarrow> time \<Rightarrow> bool" where
  "After t u \<longleftrightarrow> t > u"

text \<open>\<^verbatim>\<open>metav1.Time.Before\<close> takes pointers and is false when either is nil.\<close>

definition Before_ptr :: "time option \<Rightarrow> time option \<Rightarrow> bool" where
  "Before_ptr p q \<longleftrightarrow> (case (p, q) of (Some t, Some u) \<Rightarrow> t < u | _ \<Rightarrow> False)"

subsection \<open>Calendar\<close>

definition unix_seconds :: "time \<Rightarrow> int" where
  "unix_seconds t = t div 1000000000"

record civil_date =
  year :: int
  month :: int
  day :: int

text \<open>
  A day of a 400-year era is split as in Go's \<^verbatim>\<open>absDate\<close>: centuries of 36524 days (the last one a day
  longer), cycles of 1461 days, years of 365 days (the last one a day longer).
\<close>

definition era_century :: "int \<Rightarrow> int" where
  "era_century doe = min 3 (doe div 36524)"

definition era_cycle :: "int \<Rightarrow> int" where
  "era_cycle doe = (doe - 36524 * era_century doe) div 1461"

definition cycle_day :: "int \<Rightarrow> int" where
  "cycle_day doe = (doe - 36524 * era_century doe) mod 1461"

definition cycle_year :: "int \<Rightarrow> int" where
  "cycle_year doe = min 3 (cycle_day doe div 365)"

definition era_year :: "int \<Rightarrow> int" where
  "era_year doe = 100 * era_century doe + 4 * era_cycle doe + cycle_year doe"

definition era_year_day :: "int \<Rightarrow> int" where
  "era_year_day doe = cycle_day doe - 365 * cycle_year doe"

definition civil_of_days :: "int \<Rightarrow> civil_date" where
  "civil_of_days n =
     (let z = n + 719468; era = z div 146097; doe = z mod 146097;
          doy = era_year_day doe; mp = (5 * doy + 2) div 153;
          m = (if mp < 10 then mp + 3 else mp - 9)
      in \<lparr>year = era_year doe + era * 400 + (if m \<le> 2 then 1 else 0), month = m,
          day = doy - (153 * mp + 2) div 5 + 1\<rparr>)"

definition days_of_civil :: "civil_date \<Rightarrow> int" where
  "days_of_civil c =
     (let y = (if month c \<le> 2 then year c - 1 else year c);
          mp = (if month c > 2 then month c - 3 else month c + 9);
          era = y div 400; yoe = y mod 400;
          doy = (153 * mp + 2) div 5 + day c - 1;
          doe = yoe * 365 + yoe div 4 - yoe div 100 + doy
      in era * 146097 + doe - 719468)"

subsection \<open>Layouts\<close>

definition digit2 :: "int \<Rightarrow> string" where
  "digit2 n = [char_of (48 + nat n div 10), char_of (48 + nat n mod 10)]"

text \<open>The layout element \<^verbatim>\<open>2006\<close> prints at least four digits, and a minus sign before year 0.\<close>

definition pad_year :: "int \<Rightarrow> string" where
  "pad_year y = (let s = nat_str (nat \<bar>y\<bar>)
                 in (if y < 0 then ''-'' else []) @ replicate (4 - length s) (CHR ''0'') @ s)"

definition clock :: "int \<Rightarrow> string" where
  "clock s = digit2 (s div 3600) @ '':'' @ digit2 (s div 60 mod 60) @ '':'' @ digit2 (s mod 60)"

definition calendar :: "civil_date \<Rightarrow> string" where
  "calendar c = pad_year (year c) @ ''-'' @ digit2 (month c) @ ''-'' @ digit2 (day c)"

text \<open>\<^verbatim>\<open>UTC().Format("2006-01-02 15:04:05")\<close> and \<^verbatim>\<open>UTC().Format(time.RFC3339)\<close>.\<close>

definition Format_DateTime :: "time \<Rightarrow> string" where
  "Format_DateTime t = (let s = unix_seconds t in calendar (civil_of_days (s div 86400)) @ '' '' @ clock (s mod 86400))"

definition Format_RFC3339 :: "time \<Rightarrow> string" where
  "Format_RFC3339 t = (let s = unix_seconds t
     in calendar (civil_of_days (s div 86400)) @ ''T'' @ clock (s mod 86400) @ ''Z'')"

text \<open>
  What a reader of the first layout makes of it: the digits at their fixed columns, for the years
  that take four of them.
\<close>

definition digit_val :: "char \<Rightarrow> int" where
  "digit_val c = int (of_char c) - 48"

definition val2 :: "string \<Rightarrow> int" where
  "val2 s = 10 * digit_val (s ! 0) + digit_val (s ! 1)"

definition parse_DateTime :: "string \<Rightarrow> int" where
  "parse_DateTime s =
     days_of_civil \<lparr>year = 100 * val2 (take 2 s) + val2 (take 2 (drop 2 s)),
        month = val2 (take 2 (drop 5 s)), day = val2 (take 2 (drop 8 s))\<rparr> * 86400
     + val2 (take 2 (drop 11 s)) * 3600 + val2 (take 2 (drop 14 s)) * 60 + val2 (take 2 (drop 17 s))"

subsection \<open>The calendar is exact\<close>

lemma era_century_bounds:
  assumes "0 \<le> doe" "doe < 146097"
  shows "0 \<le> era_century doe" "era_century doe \<le> 3"
    "0 \<le> doe - 36524 * era_century doe" "doe - 36524 * era_century doe \<le> 36524"
  using assms unfolding era_century_def min_def by (auto split: if_splits)

lemma era_cycle_bounds:
  assumes "0 \<le> doe" "doe < 146097"
  shows "0 \<le> era_cycle doe" "era_cycle doe \<le> 24"
  using era_century_bounds [OF assms] unfolding era_cycle_def by linarith+

lemma cycle_split: "doe - 36524 * era_century doe = 1461 * era_cycle doe + cycle_day doe"
  unfolding era_cycle_def cycle_day_def by simp

lemma cycle_day_bounds: "0 \<le> cycle_day doe" "cycle_day doe < 1461"
  unfolding cycle_day_def by simp_all

lemma cycle_year_bounds: "0 \<le> cycle_year doe" "cycle_year doe \<le> 3"
  using cycle_day_bounds [of doe] unfolding cycle_year_def by auto

lemma era_year_day_bounds: "0 \<le> era_year_day doe" "era_year_day doe \<le> 365"
  using cycle_day_bounds [of doe] unfolding era_year_day_def cycle_year_def min_def
  by (auto split: if_splits)

lemma era_year_bounds:
  assumes "0 \<le> doe" "doe < 146097"
  shows "0 \<le> era_year doe" "era_year doe < 400"
  using era_century_bounds(1,2) [OF assms] era_cycle_bounds [OF assms] cycle_year_bounds [of doe]
  unfolding era_year_def by linarith+

lemma era_year_div:
  assumes "0 \<le> doe" "doe < 146097"
  shows "era_year doe div 4 = 25 * era_century doe + era_cycle doe"
    and "era_year doe div 100 = era_century doe"
proof -
  note b = era_century_bounds(1,2) [OF assms] era_cycle_bounds [OF assms] cycle_year_bounds [of doe]
  have "era_year doe = cycle_year doe + 4 * (25 * era_century doe + era_cycle doe)"
    by (simp add: era_year_def)
  then show "era_year doe div 4 = 25 * era_century doe + era_cycle doe"
    using b by simp
  have "era_year doe = (4 * era_cycle doe + cycle_year doe) + 100 * era_century doe"
    by (simp add: era_year_def)
  then show "era_year doe div 100 = era_century doe"
    using b by simp
qed

lemma era_day_rebuild:
  assumes "0 \<le> doe" "doe < 146097"
  shows "era_year doe * 365 + era_year doe div 4 - era_year doe div 100 + era_year_day doe = doe"
  using era_year_div [OF assms] cycle_split [of doe]
  by (simp add: era_year_def era_year_day_def)

lemma days_of_civil_of_days: "days_of_civil (civil_of_days n) = n"
proof -
  define z where "z = n + 719468"
  define doe where "doe = z mod 146097"
  define doy where "doy = era_year_day doe"
  define mp where "mp = (5 * doy + 2) div 153"
  have doe: "0 \<le> doe" "doe < 146097" by (simp_all add: doe_def)
  note y = era_year_bounds [OF doe]
  have doy: "0 \<le> doy" "doy \<le> 365" by (simp_all add: doy_def era_year_day_bounds)
  then have mp: "0 \<le> mp" "mp < 12" by (simp_all add: mp_def)
  let ?c = "civil_of_days n"
  have m: "month ?c = (if mp < 10 then mp + 3 else mp - 9)"
    and yr: "year ?c = era_year doe + z div 146097 * 400 + (if month ?c \<le> 2 then 1 else 0)"
    and d: "day ?c = doy - (153 * mp + 2) div 5 + 1"
    by (simp_all add: civil_of_days_def Let_def z_def doe_def doy_def mp_def)
  have mp': "(if month ?c > 2 then month ?c - 3 else month ?c + 9) = mp"
    using m mp by (simp split: if_splits)
  have y': "(if month ?c \<le> 2 then year ?c - 1 else year ?c) = era_year doe + z div 146097 * 400"
    using yr by simp
  have "(era_year doe + z div 146097 * 400) div 400 = z div 146097"
    and "(era_year doe + z div 146097 * 400) mod 400 = era_year doe"
    using y by simp_all
  then have "days_of_civil ?c = z div 146097 * 146097
      + (era_year doe * 365 + era_year doe div 4 - era_year doe div 100 + doy) - 719468"
    unfolding days_of_civil_def Let_def y' mp' by (simp add: d)
  also have "\<dots> = z div 146097 * 146097 + doe - 719468"
    using era_day_rebuild [OF doe] by (simp add: doy_def)
  also have "\<dots> = n" by (simp add: doe_def z_def)
  finally show ?thesis .
qed

lemma civil_month: "1 \<le> month (civil_of_days n)" "month (civil_of_days n) \<le> 12"
  using era_year_day_bounds [of "(n + 719468) mod 146097"]
  by (auto simp: civil_of_days_def Let_def)

lemma month_day_bounds:
  "0 \<le> doy \<Longrightarrow> doy \<le> 365 \<Longrightarrow>
     0 \<le> doy - (153 * ((5 * doy + 2) div 153) + 2) div 5 \<and> doy - (153 * ((5 * doy + 2) div 153) + 2) div 5 \<le> 30" for doy :: int
  by linarith

lemma civil_day: "1 \<le> day (civil_of_days n)" "day (civil_of_days n) \<le> 31"
  using month_day_bounds [OF era_year_day_bounds, of "(n + 719468) mod 146097"]
  unfolding civil_of_days_def Let_def by simp_all

subsection \<open>The printed second is the requested one\<close>

lemma val2_digit2: "0 \<le> n \<Longrightarrow> n < 100 \<Longrightarrow> val2 (digit2 n) = n"
proof -
  assume *: "0 \<le> n" "n < 100"
  then have "nat n div 10 < 10" "nat n mod 10 < 10" by simp_all
  moreover from this have "(48 + nat n mod 10) mod 256 = 48 + nat n mod 10" by simp
  moreover have "int (nat n div 10) = n div 10" "int (nat n mod 10) = n mod 10"
    using * by (simp_all add: zdiv_int zmod_int)
  ultimately show ?thesis
    by (simp add: val2_def digit2_def digit_val_def)
qed

lemma length_digit2 [simp]: "length (digit2 n) = 2"
  by (simp add: digit2_def)

lemma nat_str_small: "n < 10 \<Longrightarrow> nat_str n = [char_of (48 + n)]"
  by (simp add: nat_str.simps)

lemma nat_str_step: "\<not> n < 10 \<Longrightarrow> nat_str n = nat_str (n div 10) @ [char_of (48 + n mod 10)]"
  by (simp add: nat_str.simps [of n])

lemma pad_year_digits:
  assumes "0 \<le> y" "y < 10000"
  shows "pad_year y = digit2 (y div 100) @ digit2 (y mod 100)"
proof -
  define n where "n = nat y"
  have n: "n < 10000" "y = int n" using assms by (simp_all add: n_def)
  have e: "nat (int n div 100) = n div 100" "nat (int n mod 100) = n mod 100"
    by (simp_all add: nat_div_distrib nat_mod_distrib)
  have s: "nat_str n = (if n < 10 then [char_of (48 + n)]
      else if n < 100 then [char_of (48 + n div 10), char_of (48 + n mod 10)]
      else if n < 1000 then [char_of (48 + n div 100), char_of (48 + n div 10 mod 10), char_of (48 + n mod 10)]
      else [char_of (48 + n div 1000), char_of (48 + n div 100 mod 10), char_of (48 + n div 10 mod 10), char_of (48 + n mod 10)])"
    using n(1) by (simp add: nat_str_small nat_str_step div_mult2_eq [symmetric] div_less_iff_less_mult)
  have r: "replicate 3 (CHR ''0'') = ''000''" "replicate 2 (CHR ''0'') = ''00''"
    by (simp_all add: numeral_eq_Suc)
  have "of_char (CHR ''0'') = (48 :: nat)" by simp
  then have z: "char_of (48 :: nat) = CHR ''0''" by (metis char_of_char)
  have m: "n mod 100 div 10 = n div 10 mod 10" "n mod 100 mod 10 = n mod 10" "n div 100 div 10 = n div 1000"
    using mod_mult2_eq [of n 10 10] by (simp_all add: mod_mod_cancel flip: div_mult2_eq)
  show ?thesis
    using n(1) by (simp add: pad_year_def n(2) digit2_def e s m r z Let_def)
qed

lemma clock_parse:
  assumes "0 \<le> s" "s < 86400"
  shows "val2 (take 2 (clock s)) * 3600 + val2 (take 2 (drop 3 (clock s))) * 60 + val2 (take 2 (drop 6 (clock s))) = s"
proof -
  have "s div 3600 = s div 60 div 60" by (simp add: zdiv_zmult2_eq [of 60 s 60, symmetric])
  then have "s div 3600 * 3600 + s div 60 mod 60 * 60 + s mod 60 = s"
    using div_mult_mod_eq [of "s div 60" 60] div_mult_mod_eq [of s 60] by linarith
  with assms show ?thesis by (simp add: clock_def val2_digit2)
qed

lemma parse_Format_DateTime:
  assumes "0 \<le> year (civil_of_days (unix_seconds t div 86400))" "year (civil_of_days (unix_seconds t div 86400)) < 10000"
  shows "parse_DateTime (Format_DateTime t) = unix_seconds t"
proof -
  define s where "s = unix_seconds t"
  define c where "c = civil_of_days (s div 86400)"
  have yr: "0 \<le> year c" "year c < 10000" using assms by (simp_all add: c_def s_def)
  have md: "1 \<le> month c" "month c \<le> 12" "1 \<le> day c" "day c \<le> 31"
    by (simp_all add: c_def civil_month civil_day)
  have split: "Format_DateTime t = digit2 (year c div 100) @ digit2 (year c mod 100) @ ''-'' @ digit2 (month c)
      @ ''-'' @ digit2 (day c) @ '' '' @ clock (s mod 86400)"
    by (simp add: Format_DateTime_def Let_def calendar_def pad_year_digits [OF yr] flip: s_def c_def)
  have date: "\<lparr>year = 100 * val2 (take 2 (Format_DateTime t)) + val2 (take 2 (drop 2 (Format_DateTime t))),
      month = val2 (take 2 (drop 5 (Format_DateTime t))), day = val2 (take 2 (drop 8 (Format_DateTime t)))\<rparr> = c"
    using yr md by (simp add: split val2_digit2)
  have "parse_DateTime (Format_DateTime t) = days_of_civil c * 86400 + s mod 86400"
    using clock_parse [of "s mod 86400"]
    unfolding parse_DateTime_def date by (simp add: split)
  then show ?thesis by (simp add: c_def days_of_civil_of_days s_def)
qed

end
