(* ===== verification/Go_Json.thy ===== *)
theory Go_Json
  imports Prelude Complex_Main "HOL-Library.Log_Nat"
begin

text \<open>
  The part of Go's \<^verbatim>\<open>encoding/json\<close> the provider uses: \<^verbatim>\<open>json.Unmarshal\<close> of a byte string into a struct
  with \<^verbatim>\<open>string\<close> and \<^verbatim>\<open>*float64\<close> fields. A document is parsed first (Go checks the whole input
  before it stores anything), then the members of the object are stored in their order: a name
  matches a field exactly or up to case, an unknown name is ignored, a later member overrides an
  earlier one, \<^verbatim>\<open>null\<close> resets a pointer and leaves a string alone, and a value of the wrong type
  makes the whole call fail. The text of the errors is not modelled beyond their kind, nor is the
  limit of 10000 nested values. The bytes are taken to be valid UTF-8, as the API server delivers
  them: the replacement of invalid bytes in a string is not modelled.

  The parser takes fuel. \<open>parse_json\<close> gives it one unit more than twice the bytes of the input; the lemmas at
  the end show that a value uses up its bytes, that more fuel never changes a result, and hence that
  every larger amount of fuel gives the same answer.
\<close>

datatype json =
    JNull
  | JBool bool
  | JNum string
  | JStr string
  | JArr "json list"
  | JObj "(string \<times> json) list"

subsection \<open>Scanner\<close>

definition is_space :: "char \<Rightarrow> bool" where
  "is_space c \<longleftrightarrow> c \<in> {CHR '' '', CHR 0x09, CHR 0x0A, CHR 0x0D}"

definition skip_ws :: "string \<Rightarrow> string" where
  "skip_ws s = dropWhile is_space s"

definition is_digit :: "char \<Rightarrow> bool" where
  "is_digit c \<longleftrightarrow> 48 \<le> (of_char c :: nat) \<and> (of_char c :: nat) \<le> 57"

definition hex_val :: "char \<Rightarrow> nat option" where
  "hex_val c = (let n = of_char c in
     if 48 \<le> n \<and> n \<le> 57 then Some (n - 48)
     else if 97 \<le> n \<and> n \<le> 102 then Some (n - 87)
     else if 65 \<le> n \<and> n \<le> 70 then Some (n - 55) else None)"

definition hex4 :: "char \<Rightarrow> char \<Rightarrow> char \<Rightarrow> char \<Rightarrow> nat option" where
  "hex4 a b c d = (case (hex_val a, hex_val b, hex_val c, hex_val d) of
     (Some w, Some x, Some y, Some z) \<Rightarrow> Some (4096 * w + 256 * x + 16 * y + z) | _ \<Rightarrow> None)"

definition utf8 :: "nat \<Rightarrow> string" where
  "utf8 n = map char_of
     (if n < 128 then [n]
      else if n < 2048 then [192 + n div 64, 128 + n mod 64]
      else if n < 65536 then [224 + n div 4096, 128 + n div 64 mod 64, 128 + n mod 64]
      else [240 + n div 262144, 128 + n div 4096 mod 64, 128 + n div 64 mod 64, 128 + n mod 64])"

definition simple_escape :: "char \<Rightarrow> char option" where
  "simple_escape c =
     (if c \<in> {CHR 0x22, CHR 0x5C, CHR ''/''} then Some c
      else if c = CHR ''b'' then Some (CHR 0x08) else if c = CHR ''f'' then Some (CHR 0x0C)
      else if c = CHR ''n'' then Some (CHR 0x0A) else if c = CHR ''r'' then Some (CHR 0x0D)
      else if c = CHR ''t'' then Some (CHR 0x09) else None)"

text \<open>A \<^verbatim>\<open>\u\<close> escape at the start of the input: the code unit and the rest.\<close>

definition u_escape :: "string \<Rightarrow> (nat \<times> string) option" where
  "u_escape s = (case s of
     q # u # a # b # c # d # r \<Rightarrow> if q = CHR 0x5C \<and> u = CHR ''u'' then map_option (\<lambda>n. (n, r)) (hex4 a b c d) else None
   | _ \<Rightarrow> None)"

text \<open>
  The character a \<^verbatim>\<open>\u\<close> escape stands for: a high surrogate takes a following low one with it, a
  surrogate on its own becomes U+FFFD.
\<close>

definition u_char :: "nat \<Rightarrow> string \<Rightarrow> string \<times> string" where
  "u_char n r =
     (if 55296 \<le> n \<and> n < 57344
      then case u_escape r of
          Some (m, r') \<Rightarrow> if n < 56320 \<and> 56320 \<le> m \<and> m < 57344
            then (utf8 (65536 + (n - 55296) * 1024 + (m - 56320)), r') else (utf8 65533, r)
        | None \<Rightarrow> (utf8 65533, r)
      else (utf8 n, r))"

lemma u_escape_shorter: "u_escape s = Some (n, r) \<Longrightarrow> length r + 6 = length s"
  by (auto simp: u_escape_def split: list.splits if_splits)

lemma u_char_shorter: "length (snd (u_char n r)) \<le> length r"
  using u_escape_shorter [of r] by (fastforce simp: u_char_def split: option.split)

text \<open>The rest of a string literal after its opening quote.\<close>

function (sequential) str_body :: "string \<Rightarrow> (string \<times> string) option" where
  "str_body [] = None"
| "str_body (c # r) =
     (if c = CHR 0x22 then Some ([], r)
      else if (of_char c :: nat) < 32 then None
      else if c = CHR 0x5C then
        (case r of [] \<Rightarrow> None
         | e # r' \<Rightarrow>
           (if e = CHR ''u'' then
              (case u_escape (c # r) of None \<Rightarrow> None
               | Some (n, r1) \<Rightarrow> map_option (\<lambda>(t, q). (fst (u_char n r1) @ t, q)) (str_body (snd (u_char n r1))))
            else (case simple_escape e of None \<Rightarrow> None
               | Some x \<Rightarrow> map_option (\<lambda>(t, q). (x # t, q)) (str_body r'))))
      else map_option (\<lambda>(t, q). (c # t, q)) (str_body r))"
  by pat_completeness auto

termination
  by (relation "measure length") (auto dest!: u_escape_shorter intro!: le_less_trans [OF u_char_shorter])

declare str_body.simps [simp del]

definition scan_frac :: "string \<Rightarrow> (string \<times> string) option" where
  "scan_frac s = (case s of
     c # r \<Rightarrow> if c = CHR ''.'' then (if takeWhile is_digit r = [] then None
                else Some (c # takeWhile is_digit r, dropWhile is_digit r)) else Some ([], s)
   | [] \<Rightarrow> Some ([], s))"

definition scan_exp_digits :: "string \<Rightarrow> string \<Rightarrow> (string \<times> string) option" where
  "scan_exp_digits h r = (if takeWhile is_digit r = [] then None else Some (h @ takeWhile is_digit r, dropWhile is_digit r))"

definition scan_exp :: "string \<Rightarrow> (string \<times> string) option" where
  "scan_exp s = (case s of
     c # r \<Rightarrow> if c = CHR ''e'' \<or> c = CHR ''E'' then
         (case r of d # r' \<Rightarrow> if d = CHR ''+'' \<or> d = CHR ''-'' then scan_exp_digits [c, d] r' else scan_exp_digits [c] r
          | [] \<Rightarrow> None)
       else Some ([], s)
   | [] \<Rightarrow> Some ([], s))"

definition scan_number :: "string \<Rightarrow> (string \<times> string) option" where
  "scan_number s =
     (let sg = (if HasPrefix s ''-'' then ''-'' else []); s1 = TrimPrefix s ''-'' in
      case s1 of [] \<Rightarrow> None
      | c # r \<Rightarrow>
        if \<not> is_digit c then None
        else (let ip = (if c = CHR ''0'' then [c] else takeWhile is_digit s1);
                  s2 = (if c = CHR ''0'' then r else dropWhile is_digit s1)
          in case scan_frac s2 of None \<Rightarrow> None
             | Some (fp, s3) \<Rightarrow> (case scan_exp s3 of None \<Rightarrow> None
                | Some (ep, s4) \<Rightarrow> Some (sg @ ip @ fp @ ep, s4))))"

fun p_value :: "nat \<Rightarrow> string \<Rightarrow> (json \<times> string) option"
  and p_elems :: "nat \<Rightarrow> string \<Rightarrow> (json list \<times> string) option"
  and p_members :: "nat \<Rightarrow> string \<Rightarrow> ((string \<times> json) list \<times> string) option"
where
  "p_value 0 s = None"
| "p_value (Suc n) s =
     (case s of [] \<Rightarrow> None
      | c # r \<Rightarrow>
        if c = CHR 0x22 then map_option (\<lambda>(t, q). (JStr t, q)) (str_body r)
        else if c = CHR ''['' then
          (case skip_ws r of [] \<Rightarrow> None
           | d # q \<Rightarrow> if d = CHR '']'' then Some (JArr [], q)
                     else map_option (\<lambda>(vs, q). (JArr vs, q)) (p_elems n (d # q)))
        else if c = CHR ''{'' then
          (case skip_ws r of [] \<Rightarrow> None
           | d # q \<Rightarrow> if d = CHR ''}'' then Some (JObj [], q)
                     else map_option (\<lambda>(ms, q). (JObj ms, q)) (p_members n (d # q)))
        else if HasPrefix s ''true'' then Some (JBool True, drop 4 s)
        else if HasPrefix s ''false'' then Some (JBool False, drop 5 s)
        else if HasPrefix s ''null'' then Some (JNull, drop 4 s)
        else map_option (\<lambda>(t, q). (JNum t, q)) (scan_number s))"
| "p_elems 0 s = None"
| "p_elems (Suc n) s =
     (case p_value n s of None \<Rightarrow> None
      | Some (v, r) \<Rightarrow>
        (case skip_ws r of [] \<Rightarrow> None
         | d # q \<Rightarrow> if d = CHR '']'' then Some ([v], q)
                   else if d = CHR '','' then map_option (\<lambda>(vs, q). (v # vs, q)) (p_elems n (skip_ws q))
                   else None))"
| "p_members 0 s = None"
| "p_members (Suc n) s =
     (case s of [] \<Rightarrow> None
      | c # r \<Rightarrow>
        if c \<noteq> CHR 0x22 then None
        else (case str_body r of None \<Rightarrow> None
          | Some (k, r1) \<Rightarrow>
            (case skip_ws r1 of [] \<Rightarrow> None
             | d # r2 \<Rightarrow>
               if d \<noteq> CHR '':'' then None
               else (case p_value n (skip_ws r2) of None \<Rightarrow> None
                 | Some (v, r3) \<Rightarrow>
                   (case skip_ws r3 of [] \<Rightarrow> None
                    | e # q \<Rightarrow> if e = CHR ''}'' then Some ([(k, v)], q)
                              else if e = CHR '','' then map_option (\<lambda>(ms, q). ((k, v) # ms, q)) (p_members n (skip_ws q))
                              else None)))))"

text \<open>A whole document: one value, with space around it and nothing after it.\<close>

definition json_fuel :: "string \<Rightarrow> nat" where
  "json_fuel s = 2 * length s + 1"

definition parse_json :: "string \<Rightarrow> json option" where
  "parse_json s = (case p_value (json_fuel s) (skip_ws s) of
     Some (v, r) \<Rightarrow> if skip_ws r = [] then Some v else None | None \<Rightarrow> None)"

subsection \<open>Numbers\<close>

text \<open>
  The value of a number literal, and its nearest \<^verbatim>\<open>float64\<close> (\<^verbatim>\<open>strconv.ParseFloat\<close>): 53 significant
  bits, round half to even, gradual underflow, and no value beyond the largest finite number.
  Every finite \<^verbatim>\<open>float64\<close> is a rational.
\<close>

type_synonym float64 = rat

definition digits_val :: "string \<Rightarrow> nat" where
  "digits_val s = foldl (\<lambda>a c. 10 * a + (of_char c - 48)) 0 s"

definition num_val :: "string \<Rightarrow> rat" where
  "num_val t =
     (let u = TrimPrefix t ''-'';
          m = takeWhile (\<lambda>c. c \<noteq> CHR ''e'' \<and> c \<noteq> CHR ''E'') u; x = drop (length m + 1) u;
          ip = takeWhile (\<lambda>c. c \<noteq> CHR ''.'') m; fp = drop (length ip + 1) m;
          ex = (if HasPrefix x ''-'' then - int (digits_val (drop 1 x)) else int (digits_val (TrimPrefix x ''+'')));
          k = ex - int (length fp);
          v = of_nat (digits_val (ip @ fp)) * (if 0 \<le> k then 10 ^ nat k else inverse (10 ^ nat (- k)))
      in if HasPrefix t ''-'' then - v else v)"

definition pow2 :: "int \<Rightarrow> rat" where
  "pow2 k = (if 0 \<le> k then 2 ^ nat k else inverse (2 ^ nat (- k)))"

definition log2_floor :: "rat \<Rightarrow> int" where
  "log2_floor a = (case quotient_of a of (n, d) \<Rightarrow>
     let k = int (floorlog 2 (nat n)) - int (floorlog 2 (nat d)) in if a < pow2 k then k - 1 else k)"

definition round_even :: "rat \<Rightarrow> int" where
  "round_even x = (let f = \<lfloor>x\<rfloor>; r = x - of_int f in
     if r < 1 / 2 then f else if r > 1 / 2 then f + 1 else if even f then f else f + 1)"

definition ParseFloat :: "string \<Rightarrow> float64 option" where
  "ParseFloat t =
     (let x = num_val t; a = \<bar>x\<bar> in
      if x = 0 then Some 0
      else (let q = max (log2_floor a - 52) (-1074); v = of_int (round_even (a / pow2 q)) * pow2 q
            in if v \<ge> pow2 1024 then None else Some (if x < 0 then - v else v)))"

subsection \<open>Storing a document into a struct\<close>

definition json_syntax_error :: go_error where
  "json_syntax_error = Msg ''json: syntax error''"

definition json_type_error :: go_error where
  "json_type_error = Msg ''json: cannot unmarshal value into Go value''"

text \<open>
  Field names are compared up to simple case folding: ASCII letters, the Kelvin sign (folds to k)
  and the long s (folds to s).
\<close>

fun fold_name :: "string \<Rightarrow> string" where
  "fold_name (a # b # c # r) =
     (if a = CHR 0xE2 \<and> b = CHR 0x84 \<and> c = CHR 0xAA then CHR ''k'' # fold_name r
      else if a = CHR 0xC5 \<and> b = CHR 0xBF then CHR ''s'' # fold_name (c # r)
      else (if 65 \<le> (of_char a :: nat) \<and> (of_char a :: nat) \<le> 90 then char_of (of_char a + 32 :: nat) else a) # fold_name (b # c # r))"
| "fold_name [a, b] =
     (if a = CHR 0xC5 \<and> b = CHR 0xBF then ''s''
      else (if 65 \<le> (of_char a :: nat) \<and> (of_char a :: nat) \<le> 90 then char_of (of_char a + 32 :: nat) else a) # fold_name [b])"
| "fold_name [a] = [if 65 \<le> (of_char a :: nat) \<and> (of_char a :: nat) \<le> 90 then char_of (of_char a + 32 :: nat) else a]"
| "fold_name [] = []"

definition names_field :: "string \<Rightarrow> string \<Rightarrow> bool" where
  "names_field key field \<longleftrightarrow> key = field \<or> fold_name key = fold_name field"

definition store_string :: "json \<Rightarrow> string \<Rightarrow> string option" where
  "store_string j old = (case j of JStr t \<Rightarrow> Some t | JNull \<Rightarrow> Some old | _ \<Rightarrow> None)"

definition store_float_ptr :: "json \<Rightarrow> float64 option option" where
  "store_float_ptr j = (case j of JNum t \<Rightarrow> map_option Some (ParseFloat t) | JNull \<Rightarrow> Some None | _ \<Rightarrow> None)"

fun store_members :: "(string \<Rightarrow> json \<Rightarrow> 'a \<Rightarrow> 'a option) \<Rightarrow> (string \<times> json) list \<Rightarrow> 'a \<Rightarrow> 'a option" where
  "store_members st [] a = Some a"
| "store_members st ((k, j) # ms) a = (case st k j a of None \<Rightarrow> None | Some a' \<Rightarrow> store_members st ms a')"

definition Unmarshal :: "(string \<Rightarrow> json \<Rightarrow> 'a \<Rightarrow> 'a option) \<Rightarrow> 'a \<Rightarrow> string \<Rightarrow> 'a outcome" where
  "Unmarshal st zero raw =
     (case parse_json raw of
        None \<Rightarrow> Err json_syntax_error
      | Some JNull \<Rightarrow> Ret zero
      | Some (JObj ms) \<Rightarrow> (case store_members st ms zero of None \<Rightarrow> Err json_type_error | Some a \<Rightarrow> Ret a)
      | Some _ \<Rightarrow> Err json_type_error)"

text \<open>How a string is written in JSON, for the round trip below.\<close>

definition json_escape :: "char \<Rightarrow> string" where
  "json_escape c =
     (let n = of_char c :: nat in
      if c = CHR 0x22 \<or> c = CHR 0x5C then [CHR 0x5C, c]
      else if n < 32 then [CHR 0x5C, CHR ''u'', CHR ''0'', CHR ''0'', hex_digit (n div 16), hex_digit (n mod 16)]
      else [c])"

definition json_string :: "string \<Rightarrow> string" where
  "json_string s = [CHR 0x22] @ concat (map json_escape s) @ [CHR 0x22]"

subsection \<open>The parser's fuel is enough\<close>

lemma skip_ws_shorter: "length (skip_ws s) \<le> length s"
  by (simp add: skip_ws_def length_dropWhile_le)

lemma skip_ws_Cons_shorter: "skip_ws s = c # q \<Longrightarrow> length q < length s"
  using skip_ws_shorter [of s] by simp

lemma str_body_shorter: "str_body s = Some (t, q) \<Longrightarrow> length q < length s"
proof (induction s arbitrary: t q rule: str_body.induct)
  case (2 c r)
  show ?case
  proof (cases "c = CHR 0x5C")
    case False
    with "2.prems" "2.IH"(3) show ?thesis
      by (auto simp: str_body.simps split: if_splits option.splits)
  next
    case esc: True
    then obtain e r' where r: "r = e # r'" using "2.prems" by (auto simp: str_body.simps split: list.splits)
    show ?thesis
    proof (cases "e = CHR ''u''")
      case True
      with "2.prems" esc r obtain n r1 where u: "u_escape (c # r) = Some (n, r1)"
        by (auto simp: str_body.simps split: option.splits)
      with "2.prems" esc r True obtain t' where "str_body (snd (u_char n r1)) = Some (t', q)"
        by (auto simp: str_body.simps)
      with "2.IH"(1) esc r True u have "length q < length (snd (u_char n r1))" by force
      with u_char_shorter [of n r1] u_escape_shorter [OF u] show ?thesis by simp
    next
      case False
      with "2.prems" "2.IH"(2) esc r show ?thesis
        by (auto simp: str_body.simps split: option.splits) fastforce
    qed
  qed
qed (simp add: str_body.simps)

lemma scan_frac_shorter: "scan_frac s = Some (t, q) \<Longrightarrow> length q \<le> length s"
  by (auto simp: scan_frac_def length_dropWhile_le le_SucI split: list.splits if_splits)

lemma scan_exp_digits_shorter: "scan_exp_digits h s = Some (t, q) \<Longrightarrow> length q \<le> length s"
  by (auto simp: scan_exp_digits_def length_dropWhile_le split: if_splits)

lemma scan_exp_shorter: "scan_exp s = Some (t, q) \<Longrightarrow> length q \<le> length s"
  by (auto simp: scan_exp_def dest!: scan_exp_digits_shorter split: list.splits if_splits)

lemma scan_number_shorter:
  assumes "scan_number s = Some (t, q)"
  shows "length q < length s"
proof -
  define s1 where "s1 = TrimPrefix s ''-''"
  have s1: "length s1 \<le> length s" by (simp add: s1_def TrimPrefix_def)
  from assms obtain c r where c: "s1 = c # r" "is_digit c"
    by (auto simp: scan_number_def Let_def s1_def split: list.splits if_splits)
  define s2 where "s2 = (if c = CHR ''0'' then r else dropWhile is_digit s1)"
  have s2: "length s2 < length s1" using c by (auto simp: s2_def length_dropWhile_le less_Suc_eq_le)
  from assms c obtain fp s3 ep where "scan_frac s2 = Some (fp, s3)" "scan_exp s3 = Some (ep, q)"
    unfolding scan_number_def Let_def s1_def [symmetric] c(1) list.case s2_def [unfolded c(1)]
    by (auto split: option.splits prod.splits)
  then have "length q \<le> length s2"
    by (auto dest!: scan_frac_shorter scan_exp_shorter)
  with s1 s2 show ?thesis by simp
qed

lemma p_shorter:
  "p_value n s = Some (v, q) \<Longrightarrow> length q < length s"
  "p_elems n s = Some (vs, q) \<Longrightarrow> length q < length s"
  "p_members n s = Some (ms, q) \<Longrightarrow> length q < length s"
proof (induction n s and n s and n s arbitrary: v q and vs q and ms q rule: p_value_p_elems_p_members.induct)
  case (2 n s)
  then obtain c r where s: "s = c # r" by (cases s) auto
  from "2.prems" s skip_ws_shorter [of r] "2.IH" show ?case
    by (auto dest!: str_body_shorter scan_number_shorter split: if_splits list.splits) fastforce+
next
  case (4 n s)
  then obtain v r where v: "p_value n s = Some (v, r)" by (auto split: option.splits)
  with "4.IH"(1) have r: "length r < length s" by simp
  from "4.prems" v obtain d q' where q': "skip_ws r = d # q'" by (auto split: list.splits)
  note lt = skip_ws_Cons_shorter [OF q'] skip_ws_shorter [of q'] r
  show ?case
  proof (cases "d = CHR '']''")
    case False
    with "4.prems" v q' obtain vs' where "d = CHR '',''" "p_elems n (skip_ws q') = Some (vs', q)"
      by (auto split: if_splits)
    with "4.IH"(2) [OF v refl q' False] have "length q < length (skip_ws q')" by simp
    with lt show ?thesis by simp
  qed (use "4.prems" v q' lt in auto)
next
  case (6 n s)
  then obtain c r k r1 where s: "s = c # r" and k: "c = CHR 0x22" "str_body r = Some (k, r1)"
    by (auto split: list.splits option.splits if_splits)
  with "6.prems" obtain d r2 where d: "skip_ws r1 = d # r2" "d = CHR '':''"
    by (auto split: list.splits if_splits)
  with "6.prems" s k obtain v r3 where v: "p_value n (skip_ws r2) = Some (v, r3)"
    by (auto split: option.splits)
  with "6.IH"(1) s k d have r3: "length r3 < length (skip_ws r2)" by fastforce
  from "6.prems" s k d v obtain e q' where q': "skip_ws r3 = e # q'" by (auto split: list.splits)
  note lt = str_body_shorter [OF k(2)] skip_ws_Cons_shorter [OF d(1)] skip_ws_shorter [of r2] r3
    skip_ws_Cons_shorter [OF q'] skip_ws_shorter [of q']
  show ?case
  proof (cases "e = CHR ''}''")
    case False
    with "6.prems" s k d v q' obtain ms' where "e = CHR '',''" "p_members n (skip_ws q') = Some (ms', q)"
      by (auto split: if_splits)
    with "6.IH"(2) s k d v q' False have "length q < length (skip_ws q')" by fastforce
    with lt s show ?thesis by simp
  qed (use "6.prems" s k d v q' lt in auto)
qed auto

lemma p_enough_aux:
  "(\<forall>n m. 2 * length s + 1 \<le> n \<longrightarrow> 2 * length s + 1 \<le> m \<longrightarrow> p_value n s = p_value m s) \<and>
   (\<forall>n m. 2 * length s + 2 \<le> n \<longrightarrow> 2 * length s + 2 \<le> m \<longrightarrow> p_elems n s = p_elems m s \<and> p_members n s = p_members m s)"
proof (induction "length s" arbitrary: s rule: less_induct)
  case less
  have vals: "p_value n s = p_value m s" if nm': "2 * length s + 1 \<le> n" "2 * length s + 1 \<le> m" for n m
  proof (cases s)
    case (Cons c r)
    from nm' obtain n' m' where nm: "n = Suc n'" "m = Suc m'" by (cases n; cases m) auto
    have "p_elems n' (d # q) = p_elems m' (d # q)" "p_members n' (d # q) = p_members m' (d # q)"
      if "skip_ws r = d # q" for d q
      using skip_ws_shorter [of r] that nm nm' Cons less [of "d # q"] by auto
    then show ?thesis by (auto simp: nm Cons split: list.split)
  qed (cases n; cases m; use nm' in simp)
  have elems: "p_elems n s = p_elems m s" if nm': "2 * length s + 2 \<le> n" "2 * length s + 2 \<le> m" for n m
  proof -
    from nm' obtain n' m' where nm: "n = Suc n'" "m = Suc m'" by (cases n; cases m) auto
    have v: "p_value n' s = p_value m' s" by (rule vals) (use nm nm' in auto)
    have "p_elems n' (skip_ws q) = p_elems m' (skip_ws q)"
      if "p_value m' s = Some (v, r)" "skip_ws r = d # q" for v r d q
      using p_shorter(1) [OF that(1)] skip_ws_Cons_shorter [OF that(2)] skip_ws_shorter [of q] nm nm'
        less [of "skip_ws q"] by auto
    then show ?thesis by (auto simp: nm v split: option.split list.split)
  qed
  have members: "p_members n s = p_members m s" if nm': "2 * length s + 2 \<le> n" "2 * length s + 2 \<le> m" for n m
  proof -
    from nm' obtain n' m' where nm: "n = Suc n'" "m = Suc m'" by (cases n; cases m) auto
    have sv: "p_value n' (skip_ws r2) = p_value m' (skip_ws r2)"
      if "s = c # r" "str_body r = Some (k, r1)" "skip_ws r1 = d # r2" for c r k r1 d r2
      using str_body_shorter [OF that(2)] skip_ws_Cons_shorter [OF that(3)] skip_ws_shorter [of r2] nm nm' that(1)
        less [of "skip_ws r2"] by auto
    have sm: "p_members n' (skip_ws q) = p_members m' (skip_ws q)"
      if "s = c # r" "str_body r = Some (k, r1)" "skip_ws r1 = d # r2"
        "p_value m' (skip_ws r2) = Some (v, r3)" "skip_ws r3 = e # q" for c r k r1 d r2 v r3 e q
      using str_body_shorter [OF that(2)] skip_ws_Cons_shorter [OF that(3)] skip_ws_shorter [of r2]
        p_shorter(1) [OF that(4)] skip_ws_Cons_shorter [OF that(5)] skip_ws_shorter [of q] nm nm' that(1)
        less [of "skip_ws q"] by auto
    show ?thesis
      by (auto simp: nm sv sm split: option.split list.split)
  qed
  from vals elems members show ?case by blast
qed

lemmas p_value_enough = p_enough_aux [THEN conjunct1, rule_format]

text \<open>Every amount of fuel above the one \<^const>\<open>parse_json\<close> takes gives the same document.\<close>

lemma parse_json_fuel:
  "json_fuel s \<le> n \<Longrightarrow> p_value n (skip_ws s) = p_value (json_fuel s) (skip_ws s)"
  using skip_ws_shorter [of s] by (intro p_value_enough) (auto simp: json_fuel_def)

subsection \<open>Strings survive the trip through JSON\<close>

lemma hex_val_hex_digit: "n < 16 \<Longrightarrow> hex_val (hex_digit n) = Some n"
  by (auto simp: hex_val_def hex_digit_def Let_def)

lemma hex4_hex_digit: "n < 32 \<Longrightarrow> hex4 (CHR ''0'') (CHR ''0'') (hex_digit (n div 16)) (hex_digit (n mod 16)) = Some n"
proof -
  assume "n < 32"
  then have "hex_val (hex_digit (n div 16)) = Some (n div 16)" "hex_val (hex_digit (n mod 16)) = Some (n mod 16)"
    by (auto intro: hex_val_hex_digit)
  moreover have "hex_val (CHR ''0'') = Some 0" by (simp add: hex_val_def)
  ultimately show ?thesis by (simp add: hex4_def)
qed

lemma str_body_json_escape:
  "str_body (json_escape c @ r) = map_option (\<lambda>(t, q). (c # t, q)) (str_body r)"
proof -
  consider "c = CHR 0x22" | "c = CHR 0x5C" | "c \<noteq> CHR 0x22" "c \<noteq> CHR 0x5C" "(of_char c :: nat) < 32"
    | "c \<noteq> CHR 0x22" "c \<noteq> CHR 0x5C" "\<not> (of_char c :: nat) < 32" by blast
  then show ?thesis
  proof cases
    case 3
    define n where "n = (of_char c :: nat)"
    have n: "n < 32" "char_of n = c" using 3 by (simp_all add: n_def)
    have "u_escape (CHR 0x5C # CHR ''u'' # CHR ''0'' # CHR ''0'' # hex_digit (n div 16) # hex_digit (n mod 16) # r) = Some (n, r)"
      using n by (simp add: u_escape_def hex4_hex_digit)
    moreover have "u_char n r = ([c], r)" using n by (simp add: u_char_def utf8_def)
    moreover have "json_escape c = [CHR 0x5C, CHR ''u'', CHR ''0'', CHR ''0'', hex_digit (n div 16), hex_digit (n mod 16)]"
      using 3 n by (simp add: json_escape_def Let_def n_def)
    ultimately show ?thesis
      by (simp add: str_body.simps(2) [of "CHR 0x5C" "CHR ''u'' # x" for x])
  qed (simp_all add: json_escape_def str_body.simps(2) simple_escape_def)
qed

lemma str_body_encoded: "str_body (concat (map json_escape s) @ CHR 0x22 # r) = Some (s, r)"
  by (induction s) (simp_all add: str_body.simps(2) [of "CHR 0x22"] str_body_json_escape)

lemma parse_json_one_string:
  "parse_json ([CHR ''{''] @ json_string k @ '':'' @ json_string v @ ''}'') = Some (JObj [(k, JStr v)])"
proof -
  let ?ek = "concat (map json_escape k)" and ?ev = "concat (map json_escape v)"
  let ?d = "[CHR ''{''] @ json_string k @ '':'' @ json_string v @ ''}''"
  have d: "?d = CHR ''{'' # CHR 0x22 # ?ek @ CHR 0x22 # CHR '':'' # CHR 0x22 # ?ev @ CHR 0x22 # ''}''"
    by (simp add: json_string_def)
  have fuel: "\<exists>n. json_fuel ?d = Suc (Suc (Suc n))"
    by (rule exI [of _ "json_fuel ?d - 3"]) (simp add: json_fuel_def json_string_def)
  then obtain n where "json_fuel ?d = Suc (Suc (Suc n))" by blast
  note n = this [unfolded d]
  show ?thesis
    unfolding parse_json_def d n
    by (simp add: skip_ws_def is_space_def str_body_encoded)
qed

end
