(* ===== verification/Api_Types.thy ===== *)
theory Api_Types
  imports Go_Time Go_Json
begin

text \<open>
  The Kubernetes objects the provider reads and writes, one record per Go struct, with the fields
  the sources use. A pointer field is an \<^typ>\<open>'a option\<close>; a field of a struct behind a mandatory
  reference, such as \<^verbatim>\<open>StorageRef.Name\<close>, is flattened to its name. A map is a partial function, or an
  association list where the code asks for its keys or its size. Values the code only passes on
  (an affinity, a topology spread constraint) are represented by their serialised text, and so is a
  \<^verbatim>\<open>resource.Quantity\<close>, whose arithmetic is a parameter of the model.

  An enumeration whose constants are declared in a library is a datatype with the constants the
  sources name and one constructor for every other value.
\<close>

type_synonym quantity = string
type_synonym resource_list = "(string \<times> quantity) list"

subsection \<open>Common Kubernetes data\<close>

record owner_reference =
  or_APIVersion :: string
  or_Kind :: string
  or_Name :: string
  or_UID :: string
  or_Controller :: "bool option"

record object_meta =
  om_Name :: string
  om_Namespace :: string
  om_UID :: string
  om_Labels :: "string \<rightharpoonup> string"
  om_Finalizers :: "string list"
  om_OwnerReferences :: "owner_reference list"
  om_CreationTimestamp :: time
  om_DeletionTimestamp :: "time option"

definition named_meta :: "string \<Rightarrow> string \<Rightarrow> object_meta" where
  "named_meta ns n = \<lparr>om_Name = n, om_Namespace = ns, om_UID = [], om_Labels = Map.empty, om_Finalizers = [],
     om_OwnerReferences = [], om_CreationTimestamp = zero_time, om_DeletionTimestamp = None\<rparr>"

record resource_requirements =
  rr_Limits :: resource_list
  rr_Requests :: resource_list

record secret =
  se_Meta :: object_meta
  se_Data :: "string \<rightharpoonup> string"

record env_var =
  ev_Name :: string
  ev_Value :: string
  ev_SecretKeyRef :: "(string \<times> string) option"

record container_port =
  cp_Name :: string
  cp_ContainerPort :: int32
  cp_Protocol :: string

record container =
  co_Name :: string
  co_Image :: string
  co_ImagePullPolicy :: string
  co_Args :: "string list"
  co_Env :: "env_var list"
  co_Ports :: "container_port list"

subsection \<open>The Instance\<close>

record scheduling_policy =
  sp_Affinity :: "string option"
  sp_Rest :: string

record component_storage =
  cst_Size :: quantity
  cst_StorageClass :: "string option"

record component_service =
  csv_ServiceType :: string
  csv_Annotations :: "(string \<times> string) list"
  csv_LoadBalancerRanges :: "string list option"

record component_spec =
  cs_Type :: string
  cs_Version :: string
  cs_Image :: string
  cs_Replicas :: "int32 option"
  cs_Resources :: "resource_requirements option"
  cs_Storage :: "component_storage option"
  cs_SchedulingPolicy :: "scheduling_policy option"
  cs_Service :: "component_service option"
  cs_Parameters :: "string option"

datatype retention_type = RetentionTypeCount | RetentionTypeOther string

record schedule_retention =
  sr_Type :: retention_type
  sr_Count :: "int32 option"

record instance_schedule =
  is_Name :: string
  is_Enabled :: bool
  is_Cron :: string
  is_Retention :: "schedule_retention option"

record storage_pitr =
  spi_Enabled :: bool
  spi_Parameters :: "string option"

record instance_storage =
  ist_StorageRef :: string
  ist_PITR :: "storage_pitr option"
  ist_Schedules :: "instance_schedule list"

record instance_backup =
  ib_Enabled :: bool
  ib_ClassRef :: string
  ib_Storages :: "instance_storage list"

datatype data_source_type = DataSourceTypeBackup | DataSourceTypePointInTime | DataSourceTypeOther string

text \<open>\<^verbatim>\<open>RecoveryTargetDate\<close> is the recovery target whose text is \<^verbatim>\<open>date\<close> (backup.go, line 387).\<close>

abbreviation RecoveryTargetDate :: string where
  "RecoveryTargetDate \<equiv> ''date''"

record point_in_time =
  pit_RecoveryTarget :: string
  pit_Date :: "time option"
  pit_SourceInstanceRef :: "string option"
  pit_SourceStorageRef :: string

record data_source =
  ds_Type :: data_source_type
  ds_Backup :: "string option"
  ds_PointInTime :: "point_in_time option"

record inst =
  in_Meta :: object_meta
  in_ProviderRef :: string
  in_Version :: string
  in_Components :: "string \<rightharpoonup> component_spec"
  in_Backup :: "instance_backup option"
  in_DataSource :: "data_source option"

subsection \<open>Backups and restores of the runtime\<close>

datatype backup_state =
  BackupStatePending | BackupStateRunning | BackupStateSucceeded | BackupStateFailed | BackupStateOther string

record backup =
  b_Meta :: object_meta
  b_OriginType :: string
  b_InstanceRef :: "string option"
  b_ClassRef :: string
  b_StorageRef :: string
  b_ScheduleName :: string
  b_DeletionPolicy :: string
  b_State :: backup_state
  b_CompletedAt :: "time option"

datatype restore_state =
  RestoreStatePending | RestoreStateRunning | RestoreStateSucceeded | RestoreStateFailed | RestoreStateOther string

record restore =
  re_Meta :: object_meta
  re_InstanceRef :: string
  re_DataSource :: data_source
  re_State :: restore_state

record typed_ref =
  tr_Group :: string
  tr_Kind :: string
  tr_Name :: string

record backup_exec =
  be_State :: backup_state
  be_Message :: string
  be_OperatorBackupRef :: typed_ref
  be_StartedAt :: "time option"
  be_CompletedAt :: "time option"

record restore_exec =
  rx_State :: restore_state
  rx_Message :: string
  rx_OperatorRestoreRef :: typed_ref
  rx_StartedAt :: "time option"
  rx_CompletedAt :: "time option"

record s3_spec =
  s3_Bucket :: string
  s3_CredentialsSecretRef :: string
  s3_Region :: string
  s3_EndpointURL :: string
  s3_VerifyTLS :: "bool option"
  s3_ForcePathStyle :: "bool option"

datatype storage_type = BackupStorageTypeS3 | BackupStorageTypeOther string

record backup_storage =
  bst_Name :: string
  bst_Type :: storage_type
  bst_S3 :: "s3_spec option"

record storage_pitr_status =
  sps_State :: bool \<comment> \<open>\<^verbatim>\<open>PITRStateAvailable\<close>, and false for \<^verbatim>\<open>PITRStateUnavailable\<close>\<close>
  sps_Reason :: string
  sps_Message :: string
  sps_EarliestRestorableTime :: "time option"
  sps_LatestRestorableTime :: "time option"

record storage_status =
  ss_Name :: string
  ss_PITR :: "storage_pitr_status option"

subsection \<open>The provider catalogue\<close>

record component_version =
  cv_Version :: string
  cv_Image :: string

record component_type =
  ct_DefaultVersion :: string
  ct_Versions :: "component_version list"

record version_bundle =
  vb_Name :: string
  vb_Components :: "string \<rightharpoonup> string"

record provider_spec =
  prs_ComponentTypes :: "string \<rightharpoonup> component_type"
  prs_Versions :: "version_bundle list"

subsection \<open>The operator's backups and restores\<close>

datatype op_backup_state =
  BackupStarting | BackupRunning | BackupFailed | BackupSucceeded | BackupOther string

record condition =
  cd_Type :: string
  cd_Status :: string
  cd_Message :: string

record op_backup_status =
  obs_State :: op_backup_state
  obs_Error :: string
  obs_StorageName :: string
  obs_CompletedAt :: "time option"
  obs_LatestRestorableTime :: "time option"
  obs_Conditions :: "condition list"

record op_backup =
  ob_Meta :: object_meta
  ob_SchedulerName :: string
  ob_PXCCluster :: string
  ob_StorageName :: string
  ob_Status :: op_backup_status

datatype op_restore_state =
    RestoreStarting | RestoreStopCluster | RestoreRestore | RestoreStartCluster | RestorePITR
  | RestorePrepareCluster | RestoreFailed | RestoreSucceeded | RestoreOther string

record op_pitr =
  op_BackupSource :: op_backup_status
  op_Type :: string
  op_Date :: string

record op_restore =
  ore_Meta :: object_meta
  ore_PXCCluster :: string
  ore_BackupName :: string
  ore_PITR :: "op_pitr option"
  ore_State :: op_restore_state
  ore_Comments :: string
  ore_CompletedAt :: "time option"

subsection \<open>The operator's cluster\<close>

record pvc_spec =
  pvc_Requests :: resource_list
  pvc_StorageClassName :: "string option"

record volume_spec =
  vs_PersistentVolumeClaim :: "pvc_spec option"
  vs_EmptyDir :: bool

text \<open>\<^verbatim>\<open>pxcv1.PodAffinity\<close>: a topology key for the operator's own anti-affinity, or the user's affinity.\<close>

record pod_affinity =
  pa_TopologyKey :: "string option"
  pa_Advanced :: "string option"

record pod_spec =
  ps_Enabled :: bool
  ps_Size :: int32
  ps_Image :: string
  ps_ImagePullPolicy :: string
  ps_Configuration :: string
  ps_Resources :: resource_requirements
  ps_VolumeSpec :: "volume_spec option"
  ps_Affinity :: "pod_affinity option"
  ps_TopologySpreadConstraints :: "string list"
  ps_Labels :: "string \<rightharpoonup> string"
  ps_Sidecars :: "container list"

definition zero_resources :: resource_requirements where
  "zero_resources = \<lparr>rr_Limits = [], rr_Requests = []\<rparr>"

definition zero_pod :: pod_spec where
  "zero_pod = \<lparr>ps_Enabled = False, ps_Size = 0, ps_Image = [], ps_ImagePullPolicy = [], ps_Configuration = [],
     ps_Resources = zero_resources, ps_VolumeSpec = None, ps_Affinity = None, ps_TopologySpreadConstraints = [],
     ps_Labels = Map.empty, ps_Sidecars = []\<rparr>"

record service_expose =
  sx_Type :: string
  sx_Annotations :: "(string \<times> string) list"
  sx_LoadBalancerSourceRanges :: "string list"

definition zero_expose :: service_expose where
  "zero_expose = \<lparr>sx_Type = [], sx_Annotations = [], sx_LoadBalancerSourceRanges = []\<rparr>"

record haproxy_spec =
  ha_Pod :: pod_spec
  ha_ExposePrimary :: service_expose

record proxysql_spec =
  pq_Pod :: pod_spec
  pq_Expose :: service_expose

record unsafe_flags =
  uf_PXCSize :: bool
  uf_ProxySize :: bool

record op_storage =
  os_Type :: string
  os_Bucket :: string
  os_CredentialsSecret :: string
  os_Region :: string
  os_EndpointURL :: string
  os_VerifyTLS :: "bool option"
  os_ContainerEnv :: "env_var list option"

record op_retention =
  rt_Type :: string
  rt_Count :: int64
  rt_DeleteFromStorage :: bool

record op_schedule =
  sch_Name :: string
  sch_Schedule :: string
  sch_StorageName :: string
  sch_Retention :: "op_retention option"

record op_pitr_spec =
  pis_Enabled :: bool
  pis_StorageName :: string
  pis_TimeBetweenUploads :: float64
  pis_TimeoutSeconds :: float64

record op_backup_spec =
  bs_Image :: string
  bs_Storages :: "string \<rightharpoonup> op_storage"
  bs_Schedule :: "op_schedule list"
  bs_PITR :: op_pitr_spec

record pmm_spec =
  pm_Enabled :: bool
  pm_ServerHost :: string
  pm_Image :: string
  pm_CustomClusterName :: string
  pm_ImagePullPolicy :: string
  pm_Resources :: resource_requirements
  pm_PxcParams :: string
  pm_ProxysqlParams :: string

record pxc_spec =
  px_UpdateStrategy :: string
  px_UpgradeApply :: string
  px_UpgradeSchedule :: string
  px_VolumeExpansionEnabled :: bool
  px_CRVersion :: string
  px_SecretsName :: string
  px_PXC :: "pod_spec option"
  px_HAProxy :: "haproxy_spec option"
  px_ProxySQL :: "proxysql_spec option"
  px_Unsafe :: unsafe_flags
  px_Backup :: "op_backup_spec option"
  px_PMM :: "pmm_spec option"

datatype app_state = AppStatePaused | AppStateReady | AppStateError | AppStateOther string

record pxc_status =
  pst_State :: app_state
  pst_Messages :: "string list"
  pst_Host :: string
  pst_PXCReady :: int32
  pst_HAProxyReady :: int32

record pxc =
  pc_Meta :: object_meta
  pc_Spec :: pxc_spec
  pc_Status :: pxc_status

subsection \<open>Status and monitoring of the runtime\<close>

record connection_details =
  cx_Type :: string
  cx_Provider :: string
  cx_Host :: string
  cx_Port :: string
  cx_Username :: string
  cx_Password :: string
  cx_URI :: string

datatype status =
    Provisioning string
  | Restoring string
  | ReadyWithConnectionDetails connection_details
  | Failed string
  | NoStatus

datatype data_source_state = DataSourceStateWaiting | DataSourceStateFailed | DataSourceStateOther string

record data_source_status =
  dss_Done :: bool
  dss_State :: data_source_state
  dss_Reason :: string
  dss_Message :: string

text \<open>
  The sources name one value of \<^verbatim>\<open>controller.Requirement\<close> and describe the other two answers: nothing asks
  for the source, and it cannot be resolved yet. A name that is missing from the map of integrations
  reads as the zero value of the type, so the map is a total function.
\<close>

datatype requirement = Required | NotRequired | Undetermined

record required_sources =
  rs_Metrics :: requirement
  rs_Integrations :: "string \<Rightarrow> requirement"

record resolved_binding =
  rb_Apply :: bool
  rb_Integration :: string
  rb_BindingName :: string
  rb_BindingParameters :: "string option"
  rb_EntryName :: string
  rb_DestinationName :: string
  rb_DestinationParameters :: "string option"
  rb_AgentImage :: "string option"

datatype endpoint_port = PortName string | PortNumber int32

record metrics_endpoint =
  me_Component :: string
  me_Kind :: string
  me_PodSelector :: "(string \<times> string) list"
  me_Port :: endpoint_port
  me_Path :: string
  me_Scheme :: string

record namespaced_name =
  nn_Namespace :: string
  nn_Name :: string

end
