(* ===== verification/Runtime_Api.thy ===== *)
theory Runtime_Api
  imports Api_Types
begin

text \<open>
  The code outside this repository that the provider calls, as parameters of the model:
  \<^item> \<open>lib\<close>: pure functions and constants of the OpenEverest runtime (\<^verbatim>\<open>controller\<close>), of the Percona
    operator's Go API (\<^verbatim>\<open>pxcv1\<close>, \<^verbatim>\<open>naming\<close>) and of Kubernetes' \<^verbatim>\<open>resource.Quantity\<close>;
  \<^item> \<open>env\<close>: the \<^verbatim>\<open>controller.Context\<close> of one reconcile and the API client, whose calls read and change a
    world \<open>'w\<close> nothing else is known about. Every call may return any value or any error.

  The operations take the \<open>env\<close> (or, where they make no call, any extension of \<open>lib\<close>) as their first
  argument, named \<open>E\<close> (or \<open>L\<close>). What a theorem needs of it is a hypothesis of the theorem, stated as one of
  the interfaces below or in the component that relies on it.
\<close>

record lib =
  QuantityCmp :: "quantity \<Rightarrow> quantity \<Rightarrow> int"
  QuantityIsZero :: "quantity \<Rightarrow> bool"
  GetDefaultImage :: "provider_spec \<Rightarrow> string \<Rightarrow> string"
  GetDefaultImageForComponent :: "provider_spec \<Rightarrow> string \<Rightarrow> string"
  GetImageForVersion :: "provider_spec \<Rightarrow> string \<Rightarrow> string \<Rightarrow> string"
  EffectiveVersionBundleName :: "provider_spec \<Rightarrow> inst \<Rightarrow> string"
  ResolveVersionBundle :: "provider_spec \<Rightarrow> string \<Rightarrow> version_bundle outcome"
  TopologySpreadConstraints :: "scheduling_policy option \<Rightarrow> (string \<rightharpoonup> string) \<Rightarrow> string list"
  LabelsPXC :: "pxc \<Rightarrow> string \<rightharpoonup> string"
  LabelsHAProxy :: "pxc \<Rightarrow> string \<rightharpoonup> string"
  LabelsProxySQL :: "pxc \<Rightarrow> string \<rightharpoonup> string"
  HAProxyEnabled :: "pxc_spec \<Rightarrow> bool"
  ProxySQLEnabled :: "pxc_spec \<Rightarrow> bool"
  NormalizedSourceRanges :: "string list \<Rightarrow> string list"
  ShouldRetainBackupData :: "backup \<Rightarrow> bool"
  ValidateInstanceBackupAgainstClass :: "inst \<Rightarrow> string \<Rightarrow> unit outcome"
  IsLimitsExceeded :: "go_error \<Rightarrow> bool"
  RequirementElse :: "requirement \<Rightarrow> bool \<Rightarrow> bool"
  UnmarshalResources :: "json \<Rightarrow> resource_requirements option"
  OpBackupStateText :: "op_backup_state \<Rightarrow> string"
  OpRestoreStateText :: "op_restore_state \<Rightarrow> string"
  AddFinalizer :: "string list \<Rightarrow> string \<Rightarrow> string list"
  RemoveFinalizer :: "string list \<Rightarrow> string \<Rightarrow> string list"
  ContainsFinalizer :: "string list \<Rightarrow> string \<Rightarrow> bool"
  InstanceLabel :: string
  ComponentLabel :: string
  LabelBackupType :: string
  LabelBackupAncestor :: string
  PITRReadyCondition :: string
  AffinityTopologyKeyOff :: string
  LabelHostname :: string
  PXCGroup :: string
  PXCAPIVersion :: string
  BackupAPIVersion :: string
  BackupOriginTypeInstance :: string
  SmartUpdateStrategy :: string
  LimitsExceededReason :: string
  ReasonDataSourceFailed :: string
  ReasonDataSourceWaitingForCluster :: string
  ReasonRenderFailed :: string
  ReasonAgentTLSNotVerified :: string

record 'w env = lib +
  ctx_Name :: string
  ctx_Namespace :: string
  ctx_Instance :: inst
  ctx_ObjectMeta :: "string \<Rightarrow> object_meta"
  ctx_PodLabels :: "string \<Rightarrow> string \<rightharpoonup> string"
  ctx_ProviderSpec :: "('w, provider_spec) io"
  ctx_BackupClassForInstance :: "('w, string) io"
  ctx_BackupStorage :: "string \<Rightarrow> ('w, backup_storage) io"
  ctx_BackupStorageCredentials :: "backup_storage \<Rightarrow> ('w, string \<times> string) io"
  ctx_GetPXC :: "string \<Rightarrow> ('w, pxc) io"
  ctx_GetSecret :: "string \<Rightarrow> ('w, secret) io"
  ctx_GetBackup :: "string \<Rightarrow> ('w, backup) io"
  ctx_ApplyPXC :: "pxc \<Rightarrow> ('w, unit) io"
  ctx_DeletePXC :: "pxc \<Rightarrow> ('w, unit) io"
  ctx_SetDataSourceStatus :: "data_source_status \<Rightarrow> ('w, unit) io"
  ctx_GetDataSourceStatus :: "('w, data_source_status option) io"
  ctx_ReconcileDataSource :: "('w, unit) io"
  ctx_RequiredSources :: "('w, required_sources) io"
  ctx_MonitoringBindings :: "('w, resolved_binding list) io"
  ctx_MonitoringCredentials :: "resolved_binding \<Rightarrow> ('w, string \<times> (string \<rightharpoonup> string)) io"
  ctx_SetMonitoringBindingResult :: "string \<Rightarrow> string \<Rightarrow> string \<Rightarrow> ('w, unit) io"
  cl_GetOpBackup :: "string \<Rightarrow> string \<Rightarrow> ('w, op_backup) io"
  cl_GetOpRestore :: "string \<Rightarrow> string \<Rightarrow> ('w, op_restore) io"
  cl_GetPXC :: "string \<Rightarrow> string \<Rightarrow> ('w, pxc) io"
  cl_GetBackup :: "string \<Rightarrow> string \<Rightarrow> ('w, backup) io"
  cl_GetInstance :: "string \<Rightarrow> string \<Rightarrow> ('w, inst) io"
  cl_ListRestores :: "string \<Rightarrow> ('w, restore list) io"
  cl_ListBackupsOfInstance :: "string \<Rightarrow> string \<Rightarrow> ('w, backup list) io"
  cl_ListOpBackups :: "string \<Rightarrow> ('w, op_backup list) io"
  cl_CreateOpBackup :: "op_backup \<Rightarrow> ('w, op_backup) io"
  cl_CreateOpRestore :: "op_restore \<Rightarrow> ('w, op_restore) io"
  cl_CreateSecret :: "secret \<Rightarrow> ('w, secret) io"
  cl_PatchBackup :: "backup \<Rightarrow> backup \<Rightarrow> ('w, backup) io"
  cl_PatchRestore :: "restore \<Rightarrow> restore \<Rightarrow> ('w, restore) io"
  cl_PatchOpBackup :: "op_backup \<Rightarrow> op_backup \<Rightarrow> ('w, op_backup) io"
  cl_PatchOpRestore :: "op_restore \<Rightarrow> op_restore \<Rightarrow> ('w, op_restore) io"
  cl_PatchSecret :: "secret \<Rightarrow> secret \<Rightarrow> ('w, secret) io"
  cl_UpdateOpBackup :: "op_backup \<Rightarrow> ('w, op_backup) io"
  cl_DeleteOpBackup :: "op_backup \<Rightarrow> ('w, unit) io"
  cl_DeleteOpRestore :: "op_restore \<Rightarrow> ('w, unit) io"
  SetBackupControllerReference :: "backup \<Rightarrow> op_backup \<Rightarrow> op_backup outcome"
  SetRestoreControllerReference :: "restore \<Rightarrow> op_restore \<Rightarrow> op_restore outcome"

subsection \<open>Interfaces\<close>

definition meta_key :: "object_meta \<Rightarrow> string \<times> string" where
  "meta_key m = (om_Namespace m, om_Name m)"

text \<open>\<^verbatim>\<open>resource.Quantity.Cmp\<close> compares the amounts: a total preorder, given as a sign.\<close>

locale quantity_order =
  fixes cmp :: "quantity \<Rightarrow> quantity \<Rightarrow> int"
  assumes cmp_refl: "cmp q q = 0"
    and cmp_swap: "0 \<le> cmp p q \<longleftrightarrow> cmp q p \<le> 0"
    and cmp_trans: "0 \<le> cmp p q \<Longrightarrow> 0 \<le> cmp q r \<Longrightarrow> 0 \<le> cmp p r"
begin

lemma cmp_total: "0 \<le> cmp p q \<or> 0 \<le> cmp q p"
  using cmp_swap [of p q] by linarith

lemma cmp_not_ge: "\<not> 0 < cmp p q \<longleftrightarrow> 0 \<le> cmp q p"
  using cmp_swap [of q p] by linarith

lemma cmp_le_trans: "cmp p q \<le> 0 \<Longrightarrow> cmp q r \<le> 0 \<Longrightarrow> cmp p r \<le> 0"
  using cmp_swap cmp_trans by blast

end

text \<open>\<^verbatim>\<open>controllerutil\<close>'s finalizer helpers work on the list as a set.\<close>

locale finalizer_ops =
  fixes add remove :: "string list \<Rightarrow> string \<Rightarrow> string list"
    and contains :: "string list \<Rightarrow> string \<Rightarrow> bool"
  assumes contains_iff: "contains fs f \<longleftrightarrow> f \<in> set fs"
    and set_add: "set (add fs f) = insert f (set fs)"
    and set_remove: "set (remove fs f) = set fs - {f}"

text \<open>
  Reading objects of one kind by their key: the client returns the object the world holds, or an
  error that \<^verbatim>\<open>IsNotFound\<close> recognises, and changes nothing.
\<close>

locale object_reads =
  fixes lookup :: "'w \<Rightarrow> 'k \<Rightarrow> 'o option"
    and get :: "'k \<Rightarrow> ('w, 'o) io"
  assumes get_found: "lookup w n = Some x \<Longrightarrow> exec (get n) w = (Ret x, w)"
    and get_absent: "lookup w n = None \<Longrightarrow> \<exists>e. exec (get n) w = (Err e, w) \<and> IsNotFound e"
begin

lemma get_cases:
  obtains (found) x where "lookup w n = Some x" "exec (get n) w = (Ret x, w)"
  | (absent) e where "lookup w n = None" "exec (get n) w = (Err e, w)" "IsNotFound e"
  using get_found get_absent by (cases "lookup w n") blast+

lemma get_Ret: "exec (get n) w = (Ret x, w') \<longleftrightarrow> lookup w n = Some x \<and> w' = w"
  by (cases rule: get_cases [of w n]) auto

end

text \<open>
  Creating objects too: a fresh key is stored with what the server adds, a taken one is refused
  with \<^verbatim>\<open>AlreadyExists\<close> and nothing changes; other objects of the kind stay as they are.
\<close>

locale object_creates = object_reads lookup get
  for lookup :: "'w \<Rightarrow> 'k \<Rightarrow> 'o option" and get :: "'k \<Rightarrow> ('w, 'o) io" +
  fixes key_of :: "'o \<Rightarrow> 'k"
    and stored :: "'o \<Rightarrow> 'o"
    and create :: "'o \<Rightarrow> ('w, 'o) io"
  assumes create_fresh: "lookup w (key_of x) = None \<Longrightarrow>
      \<exists>w'. exec (create x) w = (Ret (stored x), w') \<and> lookup w' = (lookup w)(key_of x \<mapsto> stored x)"
    and create_taken: "lookup w (key_of x) = Some y \<Longrightarrow>
      \<exists>e. exec (create x) w = (Err e, w) \<and> IsAlreadyExists e"
begin

lemma create_then_get:
  assumes "lookup w (key_of x) = None" "exec (create x) w = (r, w')"
  shows "r = Ret (stored x)" "exec (get (key_of x)) w' = (Ret (stored x), w')"
  using create_fresh [OF assms(1)] assms(2) by (auto simp: get_found)

text \<open>Creating never changes an object that is already there.\<close>

lemma create_keeps: "lookup w k = Some y \<Longrightarrow> exec (create x) w = (r, w') \<Longrightarrow> lookup w' k = Some y"
  using create_fresh [of w x] create_taken [of w x] by (cases "lookup w (key_of x)") auto

end

text \<open>
  Patching with the difference to an object that was read: when the object is still the one read and
  is not being deleted, it becomes the new one and the others stay as they are.
\<close>

locale object_patches = object_reads lookup get
  for lookup :: "'w \<Rightarrow> 'k \<Rightarrow> 'o option" and get :: "'k \<Rightarrow> ('w, 'o) io" +
  fixes key_of :: "'o \<Rightarrow> 'k"
    and deleting :: "'o \<Rightarrow> bool"
    and patch :: "'o \<Rightarrow> 'o \<Rightarrow> ('w, 'o) io"
  assumes patch_found: "lookup w (key_of new) = Some old \<Longrightarrow> \<not> deleting new \<Longrightarrow>
      \<exists>w'. exec (patch old new) w = (Ret new, w') \<and> lookup w' = (lookup w)(key_of new \<mapsto> new)"

end
