(* ===== verification/Images.thy ===== *)
theory Images
  imports Runtime_Api
begin

text \<open>
  The constants of internal/common/spec.go and the image selection of provider.go: which container
  image runs for a component type and version, from the catalogue in the Provider object. The
  functions of the runtime that resolve defaults and bundles are parameters.
\<close>

subsection \<open>internal/common/spec.go\<close>

definition ComponentEngine :: string where "ComponentEngine = ''engine''"
definition ComponentProxy :: string where "ComponentProxy = ''proxy''"
definition ComponentBackup :: string where "ComponentBackup = ''backup''"
definition ProxyTypeHAProxy :: string where "ProxyTypeHAProxy = ''haproxy''"
definition ProxyTypeProxySQL :: string where "ProxyTypeProxySQL = ''proxysql''"
definition ComponentTypeMySQLDExporter :: string where "ComponentTypeMySQLDExporter = ''mysqld-exporter''"

lemmas common_consts = ComponentEngine_def ComponentProxy_def ComponentBackup_def
  ProxyTypeHAProxy_def ProxyTypeProxySQL_def ComponentTypeMySQLDExporter_def

text \<open>A missing key of a \<^verbatim>\<open>map[string]string\<close> reads as the empty string.\<close>

definition map_str :: "(string \<rightharpoonup> string) \<Rightarrow> string \<Rightarrow> string" where
  "map_str m k = (case m k of None \<Rightarrow> [] | Some v \<Rightarrow> v)"

subsection \<open>Catalogue lookups\<close>

fun version_image :: "component_version list \<Rightarrow> string \<Rightarrow> string" where
  "version_image [] version = []"
| "version_image (v # vs) version = (if cv_Version v = version then cv_Image v else version_image vs version)"

definition imageForComponentTypeVersion :: "provider_spec \<Rightarrow> string \<Rightarrow> string \<Rightarrow> string" where
  "imageForComponentTypeVersion spec componentType version =
     (case prs_ComponentTypes spec componentType of None \<Rightarrow> [] | Some ct \<Rightarrow> version_image (ct_Versions ct) version)"

fun first_image :: "component_version list \<Rightarrow> string" where
  "first_image [] = []"
| "first_image (v # vs) = (if cv_Image v \<noteq> [] then cv_Image v else first_image vs)"

definition defaultImageForComponentType :: "'m lib_scheme \<Rightarrow> provider_spec \<Rightarrow> string \<Rightarrow> string" where
  "defaultImageForComponentType L spec componentType =
     (let img = GetDefaultImage L spec componentType in
      if img \<noteq> [] then img
      else case prs_ComponentTypes spec componentType of None \<Rightarrow> [] | Some ct \<Rightarrow> first_image (ct_Versions ct))"

fun bundle_backup_image :: "'m lib_scheme \<Rightarrow> provider_spec \<Rightarrow> string \<Rightarrow> version_bundle list \<Rightarrow> string option" where
  "bundle_backup_image L spec engineVersion [] = None"
| "bundle_backup_image L spec engineVersion (bundle # bs) =
     (if map_str (vb_Components bundle) ComponentEngine \<noteq> engineVersion
      then bundle_backup_image L spec engineVersion bs
      else (let backupVersion = map_str (vb_Components bundle) ComponentBackup in
        if backupVersion = [] then bundle_backup_image L spec engineVersion bs
        else (let img = GetImageForVersion L spec ComponentBackup backupVersion in
          if img \<noteq> [] then Some img else bundle_backup_image L spec engineVersion bs)))"

definition backupImageForEngineVersion :: "'m lib_scheme \<Rightarrow> provider_spec option \<Rightarrow> string \<Rightarrow> string" where
  "backupImageForEngineVersion L spec engineVersion =
     (case spec of None \<Rightarrow> []
      | Some sp \<Rightarrow>
        if engineVersion = [] then []
        else case bundle_backup_image L sp engineVersion (prs_Versions sp) of
            Some img \<Rightarrow> img
          | None \<Rightarrow> defaultImageForComponentType L sp ComponentBackup)"

definition imageForBundledProxy :: "'w env \<Rightarrow> provider_spec \<Rightarrow> string \<Rightarrow> string outcome" where
  "imageForBundledProxy E spec proxyType =
     (let selectedBundle = EffectiveVersionBundleName E spec (ctx_Instance E) in
      if selectedBundle \<noteq> [] then
        bindO (ResolveVersionBundle E spec selectedBundle) (\<lambda>bundle.
          case vb_Components bundle ComponentProxy of
            None \<Rightarrow> Ret (defaultImageForComponentType E spec proxyType)
          | Some componentVersion \<Rightarrow>
            (let img = imageForComponentTypeVersion spec proxyType componentVersion in
             if img \<noteq> [] then Ret img else Ret (defaultImageForComponentType E spec proxyType)))
      else Ret (defaultImageForComponentType E spec proxyType))"

subsection \<open>What the lookups return\<close>

lemma version_image_find:
  "version_image vs version = (case find (\<lambda>v. cv_Version v = version) vs of None \<Rightarrow> [] | Some v \<Rightarrow> cv_Image v)"
  by (induction vs) auto

lemma first_image_find:
  "first_image vs = (case find (\<lambda>v. cv_Image v \<noteq> []) vs of None \<Rightarrow> [] | Some v \<Rightarrow> cv_Image v)"
  by (induction vs) auto

lemma first_image_empty: "first_image vs = [] \<longleftrightarrow> (\<forall>v \<in> set vs. cv_Image v = [])"
  by (induction vs) auto

lemma first_image_member: "first_image vs \<noteq> [] \<Longrightarrow> \<exists>v \<in> set vs. cv_Image v = first_image vs"
  by (induction vs) auto

lemma version_image_member: "version_image vs version \<noteq> [] \<Longrightarrow> \<exists>v \<in> set vs. cv_Version v = version \<and> cv_Image v = version_image vs version"
  by (induction vs) auto

text \<open>No default img is found only when the catalogue holds none for the type.\<close>

lemma defaultImage_empty:
  "defaultImageForComponentType L spec t = [] \<longleftrightarrow>
     GetDefaultImage L spec t = [] \<and>
     (\<forall>ct v. prs_ComponentTypes spec t = Some ct \<longrightarrow> v \<in> set (ct_Versions ct) \<longrightarrow> cv_Image v = [])"
  by (auto simp: defaultImageForComponentType_def Let_def first_image_empty split: option.split)

lemma bundle_backup_image_Some:
  "bundle_backup_image L spec ev bs = Some img \<Longrightarrow>
     img \<noteq> [] \<and> (\<exists>b \<in> set bs. map_str (vb_Components b) ComponentEngine = ev \<and>
       map_str (vb_Components b) ComponentBackup \<noteq> [] \<and>
       img = GetImageForVersion L spec ComponentBackup (map_str (vb_Components b) ComponentBackup))"
  by (induction bs) (auto simp: Let_def split: if_splits)

lemma bundle_backup_image_None:
  "bundle_backup_image L spec ev bs = None \<longleftrightarrow>
     (\<forall>b \<in> set bs. map_str (vb_Components b) ComponentEngine = ev \<longrightarrow>
       map_str (vb_Components b) ComponentBackup \<noteq> [] \<longrightarrow>
       GetImageForVersion L spec ComponentBackup (map_str (vb_Components b) ComponentBackup) = [])"
  by (induction bs) (auto simp: Let_def)

end
