(* ===== verification/Reference_Env.thy ===== *)
theory Reference_Env
  imports Runtime_Api
begin

text \<open>
  A concrete environment that satisfies the interfaces of \<^verbatim>\<open>Runtime_Api\<close>, in the manner of the fake
  client the repository's tests run against: an in-memory cluster that keeps the objects of each
  kind by namespace and name, answers reads from them, stamps what it creates, and defers the
  deletion of an object until its finalizers are gone. It is used to show that the hypotheses of
  the theorems can hold together; no definition of the provider depends on it.
\<close>

type_synonym 'o store = "((string \<times> string) \<times> 'o) list"

record cluster =
  wl_Now :: time
  wl_PXC :: "pxc store"
  wl_Secrets :: "secret store"
  wl_OpBackups :: "op_backup store"
  wl_OpRestores :: "op_restore store"
  wl_Backups :: "backup store"
  wl_Restores :: "restore store"
  wl_Instances :: "inst store"
  wl_Provider :: provider_spec
  wl_BackupClass :: string
  wl_Storages :: "(string \<times> backup_storage) list"
  wl_DataSource :: "data_source_status option"
  wl_Required :: required_sources
  wl_Bindings :: "resolved_binding list"
  wl_Credentials :: "string \<rightharpoonup> string"
  wl_Results :: "(string \<times> string \<times> string) list"

definition empty_cluster :: cluster where
  "empty_cluster = \<lparr>wl_Now = 1000000000, wl_PXC = [], wl_Secrets = [], wl_OpBackups = [], wl_OpRestores = [],
     wl_Backups = [], wl_Restores = [], wl_Instances = [],
     wl_Provider = \<lparr>prs_ComponentTypes = Map.empty, prs_Versions = []\<rparr>, wl_BackupClass = ''pxc'', wl_Storages = [],
     wl_DataSource = None, wl_Required = \<lparr>rs_Metrics = NotRequired, rs_Integrations = (\<lambda>_. NotRequired)\<rparr>,
     wl_Bindings = [], wl_Credentials = Map.empty, wl_Results = []\<rparr>"

subsection \<open>Quantities\<close>

definition suffix_factor :: "string \<Rightarrow> rat" where
  "suffix_factor s =
     (if s = ''m'' then 1 / 1000 else if s = ''k'' then 1000 else if s = ''M'' then 1000000
      else if s = ''G'' then 1000000000 else if s = ''Ki'' then 1024 else if s = ''Mi'' then 1048576
      else if s = ''Gi'' then 1073741824 else if s = ''Ti'' then 1099511627776 else 1)"

definition quantity_value :: "quantity \<Rightarrow> rat" where
  "quantity_value q = (let n = takeWhile (\<lambda>c. is_digit c \<or> c = CHR ''.'' \<or> c = CHR ''-'') q
                       in num_val n * suffix_factor (drop (length n) q))"

definition ref_cmp :: "quantity \<Rightarrow> quantity \<Rightarrow> int" where
  "ref_cmp p q = (if quantity_value p < quantity_value q then -1 else if quantity_value p = quantity_value q then 0 else 1)"

interpretation ref_quantity: quantity_order ref_cmp
  by unfold_locales (auto simp: ref_cmp_def split: if_splits)

subsection \<open>Finalizers\<close>

definition ref_add_finalizer :: "string list \<Rightarrow> string \<Rightarrow> string list" where
  "ref_add_finalizer fs f = (if f \<in> set fs then fs else fs @ [f])"

definition ref_remove_finalizer :: "string list \<Rightarrow> string \<Rightarrow> string list" where
  "ref_remove_finalizer fs f = filter (\<lambda>x. x \<noteq> f) fs"

definition ref_contains_finalizer :: "string list \<Rightarrow> string \<Rightarrow> bool" where
  "ref_contains_finalizer fs f \<longleftrightarrow> f \<in> set fs"

interpretation ref_finalizers: finalizer_ops ref_add_finalizer ref_remove_finalizer ref_contains_finalizer
  by unfold_locales (auto simp: ref_add_finalizer_def ref_remove_finalizer_def ref_contains_finalizer_def)

subsection \<open>Object stores\<close>

definition not_found :: "string \<Rightarrow> go_error" where
  "not_found n = APIError NotFound (Quote n @ '' not found'')"

definition already_exists :: "string \<Rightarrow> go_error" where
  "already_exists n = APIError AlreadyExists (Quote n @ '' already exists'')"

definition store_get :: "('w \<Rightarrow> 'o store) \<Rightarrow> string \<Rightarrow> string \<Rightarrow> ('w, 'o) io" where
  "store_get sel ns n = State (\<lambda>w. (case map_of (sel w) (ns, n) of Some x \<Rightarrow> Ret x | None \<Rightarrow> Err (not_found n), w))"

definition store_create :: "('w \<Rightarrow> 'o store) \<Rightarrow> (('o store \<Rightarrow> 'o store) \<Rightarrow> 'w \<Rightarrow> 'w) \<Rightarrow> ('o \<Rightarrow> string \<times> string) \<Rightarrow>
    ('o \<Rightarrow> 'o) \<Rightarrow> 'o \<Rightarrow> ('w, 'o) io" where
  "store_create sel upd key stamp x = State (\<lambda>w. case map_of (sel w) (key x) of
       Some _ \<Rightarrow> (Err (already_exists (snd (key x))), w)
     | None \<Rightarrow> (Ret (stamp x), upd (\<lambda>st. AList.update (key x) (stamp x) st) w))"

text \<open>A write to a deleted object that removes its last finalizer makes the object go away.\<close>

definition store_write :: "('w \<Rightarrow> 'o store) \<Rightarrow> (('o store \<Rightarrow> 'o store) \<Rightarrow> 'w \<Rightarrow> 'w) \<Rightarrow> ('o \<Rightarrow> object_meta) \<Rightarrow>
    'o \<Rightarrow> ('w, 'o) io" where
  "store_write sel upd meta x = State (\<lambda>w.
     let k = (om_Namespace (meta x), om_Name (meta x)) in
     case map_of (sel w) k of
       None \<Rightarrow> (Err (not_found (snd k)), w)
     | Some _ \<Rightarrow> (Ret x, upd (\<lambda>st. if om_DeletionTimestamp (meta x) \<noteq> None \<and> om_Finalizers (meta x) = []
                    then AList.delete k st else AList.update k x st) w))"

definition store_delete :: "('w \<Rightarrow> 'o store) \<Rightarrow> (('o store \<Rightarrow> 'o store) \<Rightarrow> 'w \<Rightarrow> 'w) \<Rightarrow> ('o \<Rightarrow> object_meta) \<Rightarrow>
    ('o \<Rightarrow> 'o) \<Rightarrow> 'o \<Rightarrow> ('w, unit) io" where
  "store_delete sel upd meta mark x = State (\<lambda>w.
     let k = (om_Namespace (meta x), om_Name (meta x)) in
     case map_of (sel w) k of
       None \<Rightarrow> (Err (not_found (snd k)), w)
     | Some y \<Rightarrow> (Ret (), upd (\<lambda>st. if om_Finalizers (meta y) = [] then AList.delete k st else AList.update k (mark y) st) w))"

definition store_list :: "('w \<Rightarrow> 'o store) \<Rightarrow> string \<Rightarrow> ('o \<Rightarrow> bool) \<Rightarrow> ('w, 'o list) io" where
  "store_list sel ns P = State (\<lambda>w. (Ret (filter P (map snd (filter (\<lambda>(k, _). fst k = ns) (sel w)))), w))"

text \<open>The status is a part of its own: applying an object does not write it.\<close>

definition zero_status :: pxc_status where
  "zero_status = \<lparr>pst_State = AppStateOther [], pst_Messages = [], pst_Host = [], pst_PXCReady = 0, pst_HAProxyReady = 0\<rparr>"

definition created_meta :: "object_meta \<Rightarrow> object_meta" where
  "created_meta m = m\<lparr>om_CreationTimestamp := 1000000000, om_UID := ''uid-'' @ om_Name m\<rparr>"

definition deleted_meta :: "object_meta \<Rightarrow> object_meta" where
  "deleted_meta m = (if om_DeletionTimestamp m = None then m\<lparr>om_DeletionTimestamp := Some 2000000000\<rparr> else m)"

lemma exec_store_get [simp]:
  "exec (store_get sel ns n) w = (case map_of (sel w) (ns, n) of Some x \<Rightarrow> Ret x | None \<Rightarrow> Err (not_found n), w)"
  by (simp add: store_get_def)

lemma exec_store_list [simp]:
  "exec (store_list sel ns P) w = (Ret (filter P (map snd (filter (\<lambda>(k, _). fst k = ns) (sel w)))), w)"
  by (simp add: store_list_def)

subsection \<open>The environment\<close>

definition ref_controller_ref :: "string \<Rightarrow> object_meta \<Rightarrow> object_meta \<Rightarrow> object_meta outcome" where
  "ref_controller_ref kind owner m =
     (if \<exists>r \<in> set (om_OwnerReferences m). or_Controller r = Some True \<and> or_UID r \<noteq> om_UID owner
      then Err (Msg ''already owned by another controller'')
      else Ret (m\<lparr>om_OwnerReferences := filter (\<lambda>r. or_UID r \<noteq> om_UID owner) (om_OwnerReferences m)
        @ [\<lparr>or_APIVersion = ''backup.openeverest.io/v1alpha1'', or_Kind = kind, or_Name = om_Name owner,
            or_UID = om_UID owner, or_Controller = Some True\<rparr>]\<rparr>))"

definition ref_default_image :: "provider_spec \<Rightarrow> string \<Rightarrow> string" where
  "ref_default_image spec t = (case prs_ComponentTypes spec t of None \<Rightarrow> []
     | Some ct \<Rightarrow> (case find (\<lambda>v. cv_Version v = ct_DefaultVersion ct) (ct_Versions ct) of None \<Rightarrow> [] | Some v \<Rightarrow> cv_Image v))"

definition ref_version_image :: "provider_spec \<Rightarrow> string \<Rightarrow> string \<Rightarrow> string" where
  "ref_version_image spec t version = (case prs_ComponentTypes spec (if t = ''engine'' then ''pxc'' else t) of None \<Rightarrow> []
     | Some ct \<Rightarrow> (case find (\<lambda>v. cv_Version v = version) (ct_Versions ct) of None \<Rightarrow> [] | Some v \<Rightarrow> cv_Image v))"

definition ref_env :: "inst \<Rightarrow> cluster env" where
  "ref_env i = \<lparr>
     QuantityCmp = ref_cmp,
     QuantityIsZero = (\<lambda>q. quantity_value q = 0),
     GetDefaultImage = ref_default_image,
     GetDefaultImageForComponent = (\<lambda>spec c. ref_default_image spec (if c = ''engine'' then ''pxc'' else c)),
     GetImageForVersion = ref_version_image,
     EffectiveVersionBundleName = (\<lambda>spec j. in_Version j),
     ResolveVersionBundle = (\<lambda>spec n. case find (\<lambda>b. vb_Name b = n) (prs_Versions spec) of
        None \<Rightarrow> Err (Msg ''unknown version bundle'') | Some b \<Rightarrow> Ret b),
     TopologySpreadConstraints = (\<lambda>p ls. case p of None \<Rightarrow> [] | Some sp \<Rightarrow> [sp_Rest sp]),
     LabelsPXC = (\<lambda>p. [''app.kubernetes.io/component'' \<mapsto> ''pxc'']),
     LabelsHAProxy = (\<lambda>p. [''app.kubernetes.io/component'' \<mapsto> ''haproxy'']),
     LabelsProxySQL = (\<lambda>p. [''app.kubernetes.io/component'' \<mapsto> ''proxysql'']),
     HAProxyEnabled = (\<lambda>s. case px_HAProxy s of None \<Rightarrow> False | Some h \<Rightarrow> ps_Enabled (ha_Pod h)),
     ProxySQLEnabled = (\<lambda>s. case px_ProxySQL s of None \<Rightarrow> False | Some q \<Rightarrow> ps_Enabled (pq_Pod q)),
     NormalizedSourceRanges = (\<lambda>rs. rs),
     ShouldRetainBackupData = (\<lambda>b. b_DeletionPolicy b = ''Retain''),
     ValidateInstanceBackupAgainstClass = (\<lambda>j c. Ret ()),
     IsLimitsExceeded = (\<lambda>e. False),
     RequirementElse = (\<lambda>r b. case r of Required \<Rightarrow> True | NotRequired \<Rightarrow> False | Undetermined \<Rightarrow> b),
     UnmarshalResources = (\<lambda>j. None),
     OpBackupStateText = (\<lambda>s. case s of BackupStarting \<Rightarrow> ''Starting'' | BackupRunning \<Rightarrow> ''Running''
        | BackupFailed \<Rightarrow> ''Failed'' | BackupSucceeded \<Rightarrow> ''Succeeded'' | BackupOther t \<Rightarrow> t),
     OpRestoreStateText = (\<lambda>s. case s of RestoreStarting \<Rightarrow> ''Starting'' | RestoreStopCluster \<Rightarrow> ''Stopping Cluster''
        | RestoreRestore \<Rightarrow> ''Restoring'' | RestoreStartCluster \<Rightarrow> ''Starting Cluster''
        | RestorePITR \<Rightarrow> ''Point-in-time recovering'' | RestorePrepareCluster \<Rightarrow> ''Preparing Cluster''
        | RestoreFailed \<Rightarrow> ''Failed'' | RestoreSucceeded \<Rightarrow> ''Succeeded'' | RestoreOther t \<Rightarrow> t),
     AddFinalizer = ref_add_finalizer,
     RemoveFinalizer = ref_remove_finalizer,
     ContainsFinalizer = ref_contains_finalizer,
     InstanceLabel = ''core.openeverest.io/instance'',
     ComponentLabel = ''core.openeverest.io/component'',
     LabelBackupType = ''percona.com/backup-type'',
     LabelBackupAncestor = ''percona.com/backup-ancestor'',
     PITRReadyCondition = ''PITRReady'',
     AffinityTopologyKeyOff = ''none'',
     LabelHostname = ''kubernetes.io/hostname'',
     PXCGroup = ''pxc.percona.com'',
     PXCAPIVersion = ''pxc.percona.com/v1'',
     BackupAPIVersion = ''backup.openeverest.io/v1alpha1'',
     BackupOriginTypeInstance = ''Instance'',
     SmartUpdateStrategy = ''SmartUpdate'',
     LimitsExceededReason = ''LimitsExceeded'',
     ReasonDataSourceFailed = ''DataSourceFailed'',
     ReasonDataSourceWaitingForCluster = ''DataSourceWaitingForCluster'',
     ReasonRenderFailed = ''RenderFailed'',
     ReasonAgentTLSNotVerified = ''AgentTLSNotVerified'',
     ctx_Name = om_Name (in_Meta i),
     ctx_Namespace = om_Namespace (in_Meta i),
     ctx_Instance = i,
     ctx_ObjectMeta = (\<lambda>n. named_meta (om_Namespace (in_Meta i)) n),
     ctx_PodLabels = (\<lambda>c. [''core.openeverest.io/instance'' \<mapsto> om_Name (in_Meta i), ''core.openeverest.io/component'' \<mapsto> c]),
     ctx_ProviderSpec = State (\<lambda>w. (Ret (wl_Provider w), w)),
     ctx_BackupClassForInstance = State (\<lambda>w. (Ret (wl_BackupClass w), w)),
     ctx_BackupStorage = (\<lambda>n. State (\<lambda>w. (case map_of (wl_Storages w) n of Some s \<Rightarrow> Ret s | None \<Rightarrow> Err (not_found n), w))),
     ctx_BackupStorageCredentials = (\<lambda>s. State (\<lambda>w. (Ret (''key'', ''secret''), w))),
     ctx_GetPXC = store_get wl_PXC (om_Namespace (in_Meta i)),
     ctx_GetSecret = store_get wl_Secrets (om_Namespace (in_Meta i)),
     ctx_GetBackup = store_get wl_Backups (om_Namespace (in_Meta i)),
     ctx_ApplyPXC = (\<lambda>p. State (\<lambda>w. (Ret (), w\<lparr>wl_PXC := AList.update (meta_key (pc_Meta p))
        (case map_of (wl_PXC w) (meta_key (pc_Meta p)) of None \<Rightarrow> p\<lparr>pc_Status := zero_status\<rparr> | Some old \<Rightarrow> p\<lparr>pc_Status := pc_Status old\<rparr>) (wl_PXC w)\<rparr>))),
     ctx_DeletePXC = (\<lambda>p. State (\<lambda>w. (Ret (), w\<lparr>wl_PXC := AList.delete (meta_key (pc_Meta p)) (wl_PXC w)\<rparr>))),
     ctx_SetDataSourceStatus = (\<lambda>s. State (\<lambda>w. (Ret (), w\<lparr>wl_DataSource := Some s\<rparr>))),
     ctx_GetDataSourceStatus = State (\<lambda>w. (Ret (wl_DataSource w), w)),
     ctx_ReconcileDataSource = State (\<lambda>w. (Ret (), w)),
     ctx_RequiredSources = State (\<lambda>w. (Ret (wl_Required w), w)),
     ctx_MonitoringBindings = State (\<lambda>w. (Ret (wl_Bindings w), w)),
     ctx_MonitoringCredentials = (\<lambda>rb. State (\<lambda>w. (Ret (''ServiceAccountToken'', wl_Credentials w), w))),
     ctx_SetMonitoringBindingResult = (\<lambda>n r m. State (\<lambda>w. (Ret (), w\<lparr>wl_Results := AList.update n (r, m) (wl_Results w)\<rparr>))),
     cl_GetOpBackup = store_get wl_OpBackups,
     cl_GetOpRestore = store_get wl_OpRestores,
     cl_GetPXC = store_get wl_PXC,
     cl_GetBackup = store_get wl_Backups,
     cl_GetInstance = store_get wl_Instances,
     cl_ListRestores = (\<lambda>ns. store_list wl_Restores ns (\<lambda>_. True)),
     cl_ListBackupsOfInstance = (\<lambda>ns n. store_list wl_Backups ns (\<lambda>b. b_InstanceRef b = Some n)),
     cl_ListOpBackups = (\<lambda>ns. store_list wl_OpBackups ns (\<lambda>_. True)),
     cl_CreateOpBackup = store_create wl_OpBackups wl_OpBackups_update (\<lambda>x. meta_key (ob_Meta x)) (ob_Meta_update created_meta),
     cl_CreateOpRestore = store_create wl_OpRestores wl_OpRestores_update (\<lambda>x. meta_key (ore_Meta x)) (ore_Meta_update created_meta),
     cl_CreateSecret = store_create wl_Secrets wl_Secrets_update (\<lambda>x. meta_key (se_Meta x)) (se_Meta_update created_meta),
     cl_PatchBackup = (\<lambda>old new. store_write wl_Backups wl_Backups_update b_Meta new),
     cl_PatchRestore = (\<lambda>old new. store_write wl_Restores wl_Restores_update re_Meta new),
     cl_PatchOpBackup = (\<lambda>old new. store_write wl_OpBackups wl_OpBackups_update ob_Meta new),
     cl_PatchOpRestore = (\<lambda>old new. store_write wl_OpRestores wl_OpRestores_update ore_Meta new),
     cl_PatchSecret = (\<lambda>old new. store_write wl_Secrets wl_Secrets_update se_Meta new),
     cl_UpdateOpBackup = store_write wl_OpBackups wl_OpBackups_update ob_Meta,
     cl_DeleteOpBackup = store_delete wl_OpBackups wl_OpBackups_update ob_Meta (ob_Meta_update deleted_meta),
     cl_DeleteOpRestore = store_delete wl_OpRestores wl_OpRestores_update ore_Meta (ore_Meta_update deleted_meta),
     SetBackupControllerReference = (\<lambda>owner x. bindO (ref_controller_ref ''Backup'' (b_Meta owner) (ob_Meta x)) (\<lambda>m. Ret (x\<lparr>ob_Meta := m\<rparr>))),
     SetRestoreControllerReference = (\<lambda>owner x. bindO (ref_controller_ref ''Restore'' (re_Meta owner) (ore_Meta x)) (\<lambda>m. Ret (x\<lparr>ore_Meta := m\<rparr>)))\<rparr>"

text \<open>The fields of the environment, one rule each.\<close>

lemma ref_env_fields [simp]:
  "QuantityCmp (ref_env i) = ref_cmp"
  "QuantityIsZero (ref_env i) = (\<lambda>q. quantity_value q = 0)"
  "GetDefaultImage (ref_env i) = ref_default_image"
  "GetDefaultImageForComponent (ref_env i) = (\<lambda>spec c. ref_default_image spec (if c = ''engine'' then ''pxc'' else c))"
  "GetImageForVersion (ref_env i) = ref_version_image"
  "EffectiveVersionBundleName (ref_env i) = (\<lambda>spec j. in_Version j)"
  "ResolveVersionBundle (ref_env i) = (\<lambda>spec n. case find (\<lambda>b. vb_Name b = n) (prs_Versions spec) of None \<Rightarrow> Err (Msg ''unknown version bundle'') | Some b \<Rightarrow> Ret b)"
  "TopologySpreadConstraints (ref_env i) = (\<lambda>p ls. case p of None \<Rightarrow> [] | Some sp \<Rightarrow> [sp_Rest sp])"
  "LabelsPXC (ref_env i) = (\<lambda>p. [''app.kubernetes.io/component'' \<mapsto> ''pxc''])"
  "LabelsHAProxy (ref_env i) = (\<lambda>p. [''app.kubernetes.io/component'' \<mapsto> ''haproxy''])"
  "LabelsProxySQL (ref_env i) = (\<lambda>p. [''app.kubernetes.io/component'' \<mapsto> ''proxysql''])"
  "HAProxyEnabled (ref_env i) = (\<lambda>s. case px_HAProxy s of None \<Rightarrow> False | Some h \<Rightarrow> ps_Enabled (ha_Pod h))"
  "ProxySQLEnabled (ref_env i) = (\<lambda>s. case px_ProxySQL s of None \<Rightarrow> False | Some q \<Rightarrow> ps_Enabled (pq_Pod q))"
  "NormalizedSourceRanges (ref_env i) = (\<lambda>rs. rs)"
  "ShouldRetainBackupData (ref_env i) = (\<lambda>b. b_DeletionPolicy b = ''Retain'')"
  "ValidateInstanceBackupAgainstClass (ref_env i) = (\<lambda>j c. Ret ())"
  "IsLimitsExceeded (ref_env i) = (\<lambda>e. False)"
  "RequirementElse (ref_env i) = (\<lambda>r b. case r of Required \<Rightarrow> True | NotRequired \<Rightarrow> False | Undetermined \<Rightarrow> b)"
  "UnmarshalResources (ref_env i) = (\<lambda>j. None)"
  "OpBackupStateText (ref_env i) = (\<lambda>s. case s of BackupStarting \<Rightarrow> ''Starting'' | BackupRunning \<Rightarrow> ''Running'' | BackupFailed \<Rightarrow> ''Failed'' | BackupSucceeded \<Rightarrow> ''Succeeded'' | BackupOther t \<Rightarrow> t)"
  "OpRestoreStateText (ref_env i) = (\<lambda>s. case s of RestoreStarting \<Rightarrow> ''Starting'' | RestoreStopCluster \<Rightarrow> ''Stopping Cluster'' | RestoreRestore \<Rightarrow> ''Restoring'' | RestoreStartCluster \<Rightarrow> ''Starting Cluster'' | RestorePITR \<Rightarrow> ''Point-in-time recovering'' | RestorePrepareCluster \<Rightarrow> ''Preparing Cluster'' | RestoreFailed \<Rightarrow> ''Failed'' | RestoreSucceeded \<Rightarrow> ''Succeeded'' | RestoreOther t \<Rightarrow> t)"
  "AddFinalizer (ref_env i) = ref_add_finalizer"
  "RemoveFinalizer (ref_env i) = ref_remove_finalizer"
  "ContainsFinalizer (ref_env i) = ref_contains_finalizer"
  "InstanceLabel (ref_env i) = ''core.openeverest.io/instance''"
  "ComponentLabel (ref_env i) = ''core.openeverest.io/component''"
  "LabelBackupType (ref_env i) = ''percona.com/backup-type''"
  "LabelBackupAncestor (ref_env i) = ''percona.com/backup-ancestor''"
  "PITRReadyCondition (ref_env i) = ''PITRReady''"
  "AffinityTopologyKeyOff (ref_env i) = ''none''"
  "LabelHostname (ref_env i) = ''kubernetes.io/hostname''"
  "PXCGroup (ref_env i) = ''pxc.percona.com''"
  "PXCAPIVersion (ref_env i) = ''pxc.percona.com/v1''"
  "BackupAPIVersion (ref_env i) = ''backup.openeverest.io/v1alpha1''"
  "BackupOriginTypeInstance (ref_env i) = ''Instance''"
  "SmartUpdateStrategy (ref_env i) = ''SmartUpdate''"
  "LimitsExceededReason (ref_env i) = ''LimitsExceeded''"
  "ReasonDataSourceFailed (ref_env i) = ''DataSourceFailed''"
  "ReasonDataSourceWaitingForCluster (ref_env i) = ''DataSourceWaitingForCluster''"
  "ReasonRenderFailed (ref_env i) = ''RenderFailed''"
  "ReasonAgentTLSNotVerified (ref_env i) = ''AgentTLSNotVerified''"
  "ctx_Name (ref_env i) = (om_Name (in_Meta i))"
  "ctx_Namespace (ref_env i) = (om_Namespace (in_Meta i))"
  "ctx_Instance (ref_env i) = i"
  "ctx_ObjectMeta (ref_env i) = (\<lambda>n. named_meta (om_Namespace (in_Meta i)) n)"
  "ctx_PodLabels (ref_env i) = (\<lambda>c. [''core.openeverest.io/instance'' \<mapsto> om_Name (in_Meta i), ''core.openeverest.io/component'' \<mapsto> c])"
  "ctx_ProviderSpec (ref_env i) = (State (\<lambda>w. (Ret (wl_Provider w), w)))"
  "ctx_BackupClassForInstance (ref_env i) = (State (\<lambda>w. (Ret (wl_BackupClass w), w)))"
  "ctx_BackupStorage (ref_env i) = (\<lambda>n. State (\<lambda>w. (case map_of (wl_Storages w) n of Some s \<Rightarrow> Ret s | None \<Rightarrow> Err (not_found n), w)))"
  "ctx_BackupStorageCredentials (ref_env i) = (\<lambda>s. State (\<lambda>w. (Ret (''key'', ''secret''), w)))"
  "ctx_GetPXC (ref_env i) = (store_get wl_PXC (om_Namespace (in_Meta i)))"
  "ctx_GetSecret (ref_env i) = (store_get wl_Secrets (om_Namespace (in_Meta i)))"
  "ctx_GetBackup (ref_env i) = (store_get wl_Backups (om_Namespace (in_Meta i)))"
  "ctx_ApplyPXC (ref_env i) = (\<lambda>p. State (\<lambda>w. (Ret (), w\<lparr>wl_PXC := AList.update (meta_key (pc_Meta p)) (case map_of (wl_PXC w) (meta_key (pc_Meta p)) of None \<Rightarrow> p\<lparr>pc_Status := zero_status\<rparr> | Some old \<Rightarrow> p\<lparr>pc_Status := pc_Status old\<rparr>) (wl_PXC w)\<rparr>)))"
  "ctx_DeletePXC (ref_env i) = (\<lambda>p. State (\<lambda>w. (Ret (), w\<lparr>wl_PXC := AList.delete (meta_key (pc_Meta p)) (wl_PXC w)\<rparr>)))"
  "ctx_SetDataSourceStatus (ref_env i) = (\<lambda>s. State (\<lambda>w. (Ret (), w\<lparr>wl_DataSource := Some s\<rparr>)))"
  "ctx_GetDataSourceStatus (ref_env i) = (State (\<lambda>w. (Ret (wl_DataSource w), w)))"
  "ctx_ReconcileDataSource (ref_env i) = (State (\<lambda>w. (Ret (), w)))"
  "ctx_RequiredSources (ref_env i) = (State (\<lambda>w. (Ret (wl_Required w), w)))"
  "ctx_MonitoringBindings (ref_env i) = (State (\<lambda>w. (Ret (wl_Bindings w), w)))"
  "ctx_MonitoringCredentials (ref_env i) = (\<lambda>rb. State (\<lambda>w. (Ret (''ServiceAccountToken'', wl_Credentials w), w)))"
  "ctx_SetMonitoringBindingResult (ref_env i) = (\<lambda>n r m. State (\<lambda>w. (Ret (), w\<lparr>wl_Results := AList.update n (r, m) (wl_Results w)\<rparr>)))"
  "cl_GetOpBackup (ref_env i) = (store_get wl_OpBackups)"
  "cl_GetOpRestore (ref_env i) = (store_get wl_OpRestores)"
  "cl_GetPXC (ref_env i) = (store_get wl_PXC)"
  "cl_GetBackup (ref_env i) = (store_get wl_Backups)"
  "cl_GetInstance (ref_env i) = (store_get wl_Instances)"
  "cl_ListRestores (ref_env i) = (\<lambda>ns. store_list wl_Restores ns (\<lambda>_. True))"
  "cl_ListBackupsOfInstance (ref_env i) = (\<lambda>ns n. store_list wl_Backups ns (\<lambda>b. b_InstanceRef b = Some n))"
  "cl_ListOpBackups (ref_env i) = (\<lambda>ns. store_list wl_OpBackups ns (\<lambda>_. True))"
  "cl_CreateOpBackup (ref_env i) = (store_create wl_OpBackups wl_OpBackups_update (\<lambda>x. meta_key (ob_Meta x)) (ob_Meta_update created_meta))"
  "cl_CreateOpRestore (ref_env i) = (store_create wl_OpRestores wl_OpRestores_update (\<lambda>x. meta_key (ore_Meta x)) (ore_Meta_update created_meta))"
  "cl_CreateSecret (ref_env i) = (store_create wl_Secrets wl_Secrets_update (\<lambda>x. meta_key (se_Meta x)) (se_Meta_update created_meta))"
  "cl_PatchBackup (ref_env i) = (\<lambda>old new. store_write wl_Backups wl_Backups_update b_Meta new)"
  "cl_PatchRestore (ref_env i) = (\<lambda>old new. store_write wl_Restores wl_Restores_update re_Meta new)"
  "cl_PatchOpBackup (ref_env i) = (\<lambda>old new. store_write wl_OpBackups wl_OpBackups_update ob_Meta new)"
  "cl_PatchOpRestore (ref_env i) = (\<lambda>old new. store_write wl_OpRestores wl_OpRestores_update ore_Meta new)"
  "cl_PatchSecret (ref_env i) = (\<lambda>old new. store_write wl_Secrets wl_Secrets_update se_Meta new)"
  "cl_UpdateOpBackup (ref_env i) = (store_write wl_OpBackups wl_OpBackups_update ob_Meta)"
  "cl_DeleteOpBackup (ref_env i) = (store_delete wl_OpBackups wl_OpBackups_update ob_Meta (ob_Meta_update deleted_meta))"
  "cl_DeleteOpRestore (ref_env i) = (store_delete wl_OpRestores wl_OpRestores_update ore_Meta (ore_Meta_update deleted_meta))"
  "SetBackupControllerReference (ref_env i) = (\<lambda>owner x. bindO (ref_controller_ref ''Backup'' (b_Meta owner) (ob_Meta x)) (\<lambda>m. Ret (x\<lparr>ob_Meta := m\<rparr>)))"
  "SetRestoreControllerReference (ref_env i) = (\<lambda>owner x. bindO (ref_controller_ref ''Restore'' (re_Meta owner) (ore_Meta x)) (\<lambda>m. Ret (x\<lparr>ore_Meta := m\<rparr>)))"
  by (simp_all add: ref_env_def)

subsection \<open>The stores satisfy the interfaces\<close>

interpretation ref_reads: object_reads "\<lambda>w n. map_of (sel w) (ns, n)" "store_get sel ns" for sel ns
  by unfold_locales (simp_all add: not_found_def)

interpretation ref_op_backups: object_creates "\<lambda>w. map_of (wl_OpBackups w)" "case_prod (cl_GetOpBackup (ref_env i))"
    "\<lambda>x. meta_key (ob_Meta x)" "ob_Meta_update created_meta" "cl_CreateOpBackup (ref_env i)" for i
  by unfold_locales (auto simp: not_found_def already_exists_def store_create_def update_conv' split: option.splits)

interpretation ref_op_restores: object_creates "\<lambda>w. map_of (wl_OpRestores w)" "case_prod (cl_GetOpRestore (ref_env i))"
    "\<lambda>x. meta_key (ore_Meta x)" "ore_Meta_update created_meta" "cl_CreateOpRestore (ref_env i)" for i
  by unfold_locales (auto simp: not_found_def already_exists_def store_create_def update_conv' split: option.splits)

interpretation ref_secrets: object_creates "\<lambda>w. map_of (wl_Secrets w)" "case_prod (store_get wl_Secrets)"
    "\<lambda>s. meta_key (se_Meta s)" "se_Meta_update created_meta" "cl_CreateSecret (ref_env i)" for i
  by unfold_locales (auto simp: not_found_def already_exists_def store_create_def update_conv' split: option.splits)

interpretation ref_secret_patches: object_patches "\<lambda>w. map_of (wl_Secrets w)" "case_prod (store_get wl_Secrets)"
    "\<lambda>s. meta_key (se_Meta s)" "\<lambda>s. om_DeletionTimestamp (se_Meta s) \<noteq> None" "cl_PatchSecret (ref_env i)" for i
  by unfold_locales (auto simp: not_found_def store_write_def Let_def meta_key_def update_conv')

end
