(* ===== verification/Samples.thy ===== *)
theory Samples
  imports Reference_Env
begin

text \<open>
  Objects for the witnesses, after the fixtures of the repository's own tests: an Instance \<^verbatim>\<open>db\<close> in
  the namespace \<^verbatim>\<open>team-a\<close> with an engine, an HAProxy and one backup storage with point-in-time
  recovery, and operator backups with a completion time, a restorable time and a gap mark.
\<close>

definition sample_component :: "string \<Rightarrow> component_spec" where
  "sample_component t = \<lparr>cs_Type = t, cs_Version = [], cs_Image = [], cs_Replicas = None, cs_Resources = None,
     cs_Storage = None, cs_SchedulingPolicy = None, cs_Service = None, cs_Parameters = None\<rparr>"

definition sample_storage :: instance_storage where
  "sample_storage = \<lparr>ist_StorageRef = ''s3'', ist_PITR = Some \<lparr>spi_Enabled = True, spi_Parameters = None\<rparr>,
     ist_Schedules = []\<rparr>"

definition sample_backup_spec :: instance_backup where
  "sample_backup_spec = \<lparr>ib_Enabled = True, ib_ClassRef = ''pxc'', ib_Storages = [sample_storage]\<rparr>"

definition sample_inst :: inst where
  "sample_inst = \<lparr>in_Meta = (named_meta ''team-a'' ''db'')\<lparr>om_UID := ''u1''\<rparr>, in_ProviderRef = ''percona-xtradb-cluster'',
     in_Version = ''8.0'', in_Components = [''engine'' \<mapsto> sample_component ''pxc'', ''proxy'' \<mapsto> sample_component ''haproxy''],
     in_Backup = Some sample_backup_spec, in_DataSource = None\<rparr>"

definition gap_mark :: condition where
  "gap_mark = \<lparr>cd_Type = ''PITRReady'', cd_Status = ''False'', cd_Message = ''missing GTID set''\<rparr>"

definition sample_op_backup :: "string \<Rightarrow> time \<Rightarrow> bool \<Rightarrow> op_backup" where
  "sample_op_backup n t gap = \<lparr>ob_Meta = named_meta ''team-a'' n, ob_SchedulerName = [], ob_PXCCluster = ''db'',
     ob_StorageName = ''s3'',
     ob_Status = \<lparr>obs_State = BackupSucceeded, obs_Error = [], obs_StorageName = ''s3'', obs_CompletedAt = Some t,
       obs_LatestRestorableTime = Some (t + 5), obs_Conditions = (if gap then [gap_mark] else [])\<rparr>\<rparr>"

definition sample_backup :: "string \<Rightarrow> backup_state \<Rightarrow> time \<Rightarrow> backup" where
  "sample_backup n st t = \<lparr>b_Meta = (named_meta ''team-a'' n)\<lparr>om_UID := ''b'' @ n\<rparr>, b_OriginType = ''Instance'',
     b_InstanceRef = Some ''db'', b_ClassRef = ''pxc'', b_StorageRef = ''s3'', b_ScheduleName = [],
     b_DeletionPolicy = ''Delete'', b_State = st, b_CompletedAt = Some t\<rparr>"

definition put :: "(string \<times> string) \<Rightarrow> 'o \<Rightarrow> 'o store" where
  "put k x = [(k, x)]"

lemmas sample_defs = sample_component_def sample_storage_def sample_backup_spec_def sample_inst_def gap_mark_def
  sample_op_backup_def sample_backup_def named_meta_def empty_cluster_def

end
