(* ===== verification/Backup_Config.thy ===== *)
theory Backup_Config
  imports Images Samples
begin

text \<open>
  The backup settings of a cluster, from internal/provider/backup_mirror.go: the decoding and
  checking of the PITR parameters, the retention of a schedule, the bucket of a storage, and
  \<open>applyBackupSettings\<close>, which turns \<^verbatim>\<open>Instance.spec.backup\<close> into the operator's \<^verbatim>\<open>spec.backup\<close>.
\<close>

subsection \<open>PITR parameters\<close>

record pxcPITRConfig =
  cfg_TimeBetweenUploads :: "float64 option"
  cfg_TimeoutSeconds :: "float64 option"

text \<open>
  The schema of these parameters, from the markers of definition/backupclasses/pxc/types.go: the default
  that the API server fills in and the smallest value it admits.
\<close>

record schema_field =
  sf_Name :: string
  sf_Default :: float64
  sf_Minimum :: float64

definition schema_TimeBetweenUploads :: schema_field where
  "schema_TimeBetweenUploads = \<lparr>sf_Name = ''timeBetweenUploads'', sf_Default = 60, sf_Minimum = 1\<rparr>"

definition schema_TimeoutSeconds :: schema_field where
  "schema_TimeoutSeconds = \<lparr>sf_Name = ''timeoutSeconds'', sf_Default = 3600, sf_Minimum = 1\<rparr>"

definition schema_value :: "schema_field \<Rightarrow> float64 option \<Rightarrow> float64" where
  "schema_value f v = (case v of None \<Rightarrow> sf_Default f | Some x \<Rightarrow> x)"

definition defaultPITRTimeBetweenUploads :: float64 where "defaultPITRTimeBetweenUploads = 60"
definition defaultPITRTimeoutSeconds :: float64 where "defaultPITRTimeoutSeconds = 3600"

text \<open>How \<^verbatim>\<open>json.Unmarshal\<close> stores one member into \<^verbatim>\<open>pxcPITRConfig\<close>.\<close>

definition store_pitr_member :: "string \<Rightarrow> json \<Rightarrow> pxcPITRConfig \<Rightarrow> pxcPITRConfig option" where
  "store_pitr_member k j cfg =
     (if names_field k ''timeBetweenUploads'' then map_option (\<lambda>v. cfg\<lparr>cfg_TimeBetweenUploads := v\<rparr>) (store_float_ptr j)
      else if names_field k ''timeoutSeconds'' then map_option (\<lambda>v. cfg\<lparr>cfg_TimeoutSeconds := v\<rparr>) (store_float_ptr j)
      else Some cfg)"

definition decode_pitr :: "string \<Rightarrow> pxcPITRConfig outcome" where
  "decode_pitr raw =
     (let zero = \<lparr>cfg_TimeBetweenUploads = None, cfg_TimeoutSeconds = None\<rparr> in
      if length raw > 0 then Unmarshal store_pitr_member zero raw else Ret zero)"

definition default_pitr :: "pxcPITRConfig \<Rightarrow> pxcPITRConfig" where
  "default_pitr cfg =
     (let cfg1 = (if cfg_TimeBetweenUploads cfg = None then cfg\<lparr>cfg_TimeBetweenUploads := Some defaultPITRTimeBetweenUploads\<rparr> else cfg)
      in if cfg_TimeoutSeconds cfg1 = None then cfg1\<lparr>cfg_TimeoutSeconds := Some defaultPITRTimeoutSeconds\<rparr> else cfg1)"

definition below_one :: "float64 option \<Rightarrow> bool" where
  "below_one p \<longleftrightarrow> (case p of None \<Rightarrow> False | Some v \<Rightarrow> v < 1)"

definition decodeAndValidatePITRConfig :: "string \<Rightarrow> string \<Rightarrow> pxcPITRConfig outcome" where
  "decodeAndValidatePITRConfig storageName raw =
     (case decode_pitr raw of
        Panic \<Rightarrow> Panic
      | Err e \<Rightarrow> Err (Wrap (''decode PITR config for storage '' @ Quote storageName) e)
      | Ret cfg0 \<Rightarrow>
        (let cfg = default_pitr cfg0 in
         if below_one (cfg_TimeBetweenUploads cfg)
         then Err (Msg (''PITR config for storage '' @ Quote storageName @ '': timeBetweenUploads must be >= 1''))
         else if below_one (cfg_TimeoutSeconds cfg)
         then Err (Msg (''PITR config for storage '' @ Quote storageName @ '': timeoutSeconds must be >= 1''))
         else Ret cfg))"

definition pitr_raw :: "storage_pitr \<Rightarrow> string" where
  "pitr_raw p = (case spi_Parameters p of None \<Rightarrow> [] | Some raw \<Rightarrow> raw)"

subsection \<open>Schedules\<close>

definition retention_type_text :: "retention_type \<Rightarrow> string" where
  "retention_type_text t = (case t of RetentionTypeCount \<Rightarrow> ''count'' | RetentionTypeOther s \<Rightarrow> s)"

text \<open>The conversion of the \<^verbatim>\<open>int32\<close> count to \<^verbatim>\<open>int\<close> extends the sign; a nil count panics.\<close>

definition buildPXCRetention :: "instance_schedule \<Rightarrow> op_retention option outcome" where
  "buildPXCRetention schedule =
     (case is_Retention schedule of
        None \<Rightarrow> Ret None
      | Some r \<Rightarrow>
        if sr_Type r \<noteq> RetentionTypeCount
        then Err (Msg (''schedule '' @ Quote (is_Name schedule) @ '': '' @ retention_type_text (sr_Type r)
               @ '' retention is not supported by PXC, use count''))
        else bindO (deref (sr_Count r)) (\<lambda>n.
          Ret (Some \<lparr>rt_Type = ''count'', rt_Count = scast n, rt_DeleteFromStorage = True\<rparr>)))"

fun build_schedules :: "string \<Rightarrow> instance_schedule list \<Rightarrow> op_schedule list \<Rightarrow> op_schedule list outcome" where
  "build_schedules storageName [] acc = Ret acc"
| "build_schedules storageName (schedule # rest) acc =
     (if \<not> is_Enabled schedule then build_schedules storageName rest acc
      else case buildPXCRetention schedule of
          Panic \<Rightarrow> Panic
        | Err e \<Rightarrow> Err (BackupConfigError ''RetentionTypeUnsupported'' (Error e))
        | Ret retention \<Rightarrow> build_schedules storageName rest
            (acc @ [\<lparr>sch_Name = is_Name schedule, sch_Schedule = is_Cron schedule, sch_StorageName = storageName,
                     sch_Retention = retention\<rparr>]))"

subsection \<open>Storages\<close>

definition resolveBackupBucket :: "string \<Rightarrow> string \<Rightarrow> string" where
  "resolveBackupBucket storageBucket instanceUID =
     (let bucket = TrimChar (CHR ''/'') storageBucket in
      if bucket \<noteq> [] \<and> instanceUID \<noteq> [] \<and> \<not> Contains bucket ''/'' then bucket @ ''/'' @ instanceUID else bucket)"

definition op_storage_of :: "string \<Rightarrow> s3_spec \<Rightarrow> op_storage" where
  "op_storage_of instanceUID s3 =
     \<lparr>os_Type = ''s3'', os_Bucket = resolveBackupBucket (s3_Bucket s3) instanceUID,
      os_CredentialsSecret = s3_CredentialsSecretRef s3, os_Region = s3_Region s3, os_EndpointURL = s3_EndpointURL s3,
      os_VerifyTLS = s3_VerifyTLS s3,
      os_ContainerEnv = (if s3_ForcePathStyle s3 = Some True
        then Some [\<lparr>ev_Name = ''AWS_FORCE_PATH_STYLE'', ev_Value = ''true'', ev_SecretKeyRef = None\<rparr>] else None)\<rparr>"

text \<open>The body of the loop over the storages, after the calls of the runtime have succeeded.\<close>

definition pitr_step :: "instance_storage \<Rightarrow> op_backup_spec \<times> nat \<Rightarrow> (op_backup_spec \<times> nat) outcome" where
  "pitr_step storage acc =
     (case ist_PITR storage of
        Some p \<Rightarrow>
          if spi_Enabled p then
            (case decodeAndValidatePITRConfig (ist_StorageRef storage) (pitr_raw p) of
               Panic \<Rightarrow> Panic
             | Err e \<Rightarrow> Err (BackupConfigError ''InvalidPITRConfig'' (Error e))
             | Ret cfg \<Rightarrow>
               (let bs = fst acc; ps = (bs_PITR bs)\<lparr>pis_Enabled := True, pis_StorageName := ist_StorageRef storage\<rparr>;
                    ps1 = (case cfg_TimeBetweenUploads cfg of None \<Rightarrow> ps | Some v \<Rightarrow> ps\<lparr>pis_TimeBetweenUploads := v\<rparr>);
                    ps2 = (case cfg_TimeoutSeconds cfg of None \<Rightarrow> ps1 | Some v \<Rightarrow> ps1\<lparr>pis_TimeoutSeconds := v\<rparr>)
                in Ret (bs\<lparr>bs_PITR := ps2\<rparr>, snd acc + 1)))
          else Ret acc
      | None \<Rightarrow> Ret acc)"

definition storage_step :: "string \<Rightarrow> instance_storage \<Rightarrow> s3_spec \<Rightarrow> op_backup_spec \<times> nat \<Rightarrow> (op_backup_spec \<times> nat) outcome" where
  "storage_step instanceUID storage s3 acc =
     (let acc1 = ((fst acc)\<lparr>bs_Storages := (bs_Storages (fst acc))(ist_StorageRef storage \<mapsto> op_storage_of instanceUID s3)\<rparr>, snd acc)
      in bindO (pitr_step storage acc1) (\<lambda>acc2.
         bindO (build_schedules (ist_StorageRef storage) (ist_Schedules storage) (bs_Schedule (fst acc2))) (\<lambda>scheds.
         Ret ((fst acc2)\<lparr>bs_Schedule := scheds\<rparr>, snd acc2))))"

fun apply_storages :: "'w env \<Rightarrow> instance_storage list \<Rightarrow> op_backup_spec \<times> nat \<Rightarrow> ('w, op_backup_spec \<times> nat) io" where
  "apply_storages E [] acc = ret acc"
| "apply_storages E (storage # rest) acc =
     (if ist_StorageRef storage = []
      then fail (BackupConfigError ''StorageReferenceMissing'' ''backup storage entries must set storageRef.name'')
      else call (ctx_BackupStorage E (ist_StorageRef storage))
        (\<lambda>e. fail (BackupConfigError ''StorageNotFound'' (Error e)))
        (\<lambda>bs. case (bst_Type bs, bst_S3 bs) of
            (BackupStorageTypeS3, Some s3) \<Rightarrow>
              call (ctx_BackupStorageCredentials E bs)
                (\<lambda>e. fail (BackupConfigError ''StorageCredentialsError'' (Error e)))
                (\<lambda>_. call (lift_outcome (storage_step (om_UID (in_Meta (ctx_Instance E))) storage s3 acc)) fail
                  (\<lambda>acc'. apply_storages E rest acc'))
          | _ \<Rightarrow> fail (BackupConfigError ''StorageTypeUnsupported''
                  (''BackupStorage '' @ Quote (bst_Name bs) @ '' must use type s3''))))"

subsection \<open>The backup image\<close>

definition image_unavailable :: "string \<Rightarrow> go_error" where
  "image_unavailable msg = BackupConfigError ''BackupImageUnavailable'' msg"

text \<open>Older bundles do not name a backup component: the default of the type, or the image that goes with the engine.\<close>

definition compat_backup_image :: "'m lib_scheme \<Rightarrow> provider_spec \<Rightarrow> version_bundle \<Rightarrow> string" where
  "compat_backup_image L providerSpec bundle =
     (let img = defaultImageForComponentType L providerSpec ''backup'' in
      if img = [] then backupImageForEngineVersion L (Some providerSpec) (map_str (vb_Components bundle) ''engine'') else img)"

definition select_backup_image :: "'w env \<Rightarrow> provider_spec \<Rightarrow> string outcome" where
  "select_backup_image E providerSpec =
     (let selectedBundle = EffectiveVersionBundleName E providerSpec (ctx_Instance E) in
      if selectedBundle = [] then Err (image_unavailable ''cannot resolve version bundle for backup image selection'')
      else bindO (ResolveVersionBundle E providerSpec selectedBundle) (\<lambda>bundle.
        let backupVersion = map_str (vb_Components bundle) ''backup'';
            hasBackupComponent = (vb_Components bundle ''backup'' \<noteq> None) in
        if hasBackupComponent \<and> backupVersion \<noteq> [] then
          (let img = GetImageForVersion E providerSpec ''backup'' backupVersion in
           if img = [] then Err (image_unavailable (''backup version '' @ Quote backupVersion @ '' from bundle ''
               @ Quote selectedBundle @ '' is not defined in componentTypes.backup''))
           else Ret img)
        else
          (let img = compat_backup_image E providerSpec bundle in
           if img = [] then Err (image_unavailable (''version bundle '' @ Quote selectedBundle
               @ '' must define components.backup or provider must define a default backup image''))
           else Ret img)))"

subsection \<open>applyBackupSettings\<close>

definition zero_pitr_spec :: op_pitr_spec where
  "zero_pitr_spec = \<lparr>pis_Enabled = False, pis_StorageName = [], pis_TimeBetweenUploads = 0, pis_TimeoutSeconds = 0\<rparr>"

definition empty_backup_spec :: "string \<Rightarrow> op_backup_spec" where
  "empty_backup_spec img = \<lparr>bs_Image = img, bs_Storages = Map.empty, bs_Schedule = [], bs_PITR = zero_pitr_spec\<rparr>"

definition class_error :: "'m lib_scheme \<Rightarrow> go_error \<Rightarrow> go_error" where
  "class_error L e = BackupConfigError (if IsLimitsExceeded L e then LimitsExceededReason L else ''InvalidBackupConfiguration'') (Error e)"

definition set_backup :: "pxc \<Rightarrow> op_backup_spec option \<Rightarrow> pxc" where
  "set_backup p b = p\<lparr>pc_Spec := (pc_Spec p)\<lparr>px_Backup := b\<rparr>\<rparr>"

definition enabled_backup :: "inst \<Rightarrow> instance_backup option" where
  "enabled_backup i = (case in_Backup i of None \<Rightarrow> None | Some bk \<Rightarrow> if ib_Enabled bk then Some bk else None)"

definition applyBackupSettings :: "'w env \<Rightarrow> pxc \<Rightarrow> ('w, pxc) io" where
  "applyBackupSettings E p =
     (case enabled_backup (ctx_Instance E) of
        None \<Rightarrow> ret (set_backup p None)
      | Some bk \<Rightarrow>
        call (ctx_BackupClassForInstance E) (\<lambda>e. fail (BackupConfigError ''BackupClassLookupFailed'' (Error e))) (\<lambda>backupClass.
        call (lift_outcome (ValidateInstanceBackupAgainstClass E (ctx_Instance E) backupClass)) (\<lambda>e. fail (class_error E e)) (\<lambda>_.
        call (ctx_ProviderSpec E) fail (\<lambda>providerSpec.
        call (lift_outcome (select_backup_image E providerSpec)) fail (\<lambda>img.
        call (apply_storages E (ib_Storages bk) (empty_backup_spec img, 0)) fail (\<lambda>(backupSpec, pitrEnabled).
          if ib_Storages bk = []
          then fail (BackupConfigError ''NoStoragesConfigured'' ''spec.backup.enabled=true requires at least one storage'')
          else if pitrEnabled > 1
          then fail (BackupConfigError ''PITRConfigurationInvalid'' ''PXC supports PITR on at most one storage'')
          else ret (set_backup p (Some backupSpec))))))))"

subsection \<open>PITR parameters that are accepted\<close>

lemma decode_pitr_empty: "decode_pitr [] = Ret \<lparr>cfg_TimeBetweenUploads = None, cfg_TimeoutSeconds = None\<rparr>"
  by (simp add: decode_pitr_def)

lemma default_pitr_fields [simp]:
  "cfg_TimeBetweenUploads (default_pitr cfg) =
     Some (case cfg_TimeBetweenUploads cfg of None \<Rightarrow> defaultPITRTimeBetweenUploads | Some v \<Rightarrow> v)"
  "cfg_TimeoutSeconds (default_pitr cfg) =
     Some (case cfg_TimeoutSeconds cfg of None \<Rightarrow> defaultPITRTimeoutSeconds | Some v \<Rightarrow> v)"
  by (auto simp: default_pitr_def Let_def split: option.split)

lemma default_pitr_eq:
  "default_pitr cfg =
     \<lparr>cfg_TimeBetweenUploads = Some (case cfg_TimeBetweenUploads cfg of None \<Rightarrow> defaultPITRTimeBetweenUploads | Some v \<Rightarrow> v),
      cfg_TimeoutSeconds = Some (case cfg_TimeoutSeconds cfg of None \<Rightarrow> defaultPITRTimeoutSeconds | Some v \<Rightarrow> v)\<rparr>"
  by (rule pxcPITRConfig.equality) simp_all

lemma decodeAndValidate_Ret:
  "decodeAndValidatePITRConfig n raw = Ret cfg \<longleftrightarrow>
     (\<exists>cfg0. decode_pitr raw = Ret cfg0 \<and> cfg = default_pitr cfg0 \<and>
        \<not> below_one (cfg_TimeBetweenUploads cfg) \<and> \<not> below_one (cfg_TimeoutSeconds cfg))"
  by (auto simp: decodeAndValidatePITRConfig_def Let_def split: outcome.split)

lemma decodeAndValidate_not_Panic:
  "decode_pitr raw \<noteq> Panic \<Longrightarrow> decodeAndValidatePITRConfig n raw \<noteq> Panic"
  by (auto simp: decodeAndValidatePITRConfig_def Let_def split: outcome.split)

lemma decodeAndValidate_values:
  assumes "decodeAndValidatePITRConfig n raw = Ret cfg"
  obtains u t where "cfg_TimeBetweenUploads cfg = Some u" "1 \<le> u" "cfg_TimeoutSeconds cfg = Some t" "1 \<le> t"
  using assms by (auto simp: decodeAndValidate_Ret below_one_def not_less)

subsection \<open>What the storages loop builds\<close>

definition pitr_on :: "instance_storage \<Rightarrow> bool" where
  "pitr_on st \<longleftrightarrow> (case ist_PITR st of None \<Rightarrow> False | Some p \<Rightarrow> spi_Enabled p)"

definition pitr_parameters :: "instance_storage \<Rightarrow> string" where
  "pitr_parameters st = (case ist_PITR st of None \<Rightarrow> [] | Some p \<Rightarrow> pitr_raw p)"

text \<open>The schedules the operator should run: the enabled ones of every storage, in order.\<close>

definition op_schedule_of :: "string \<Rightarrow> instance_schedule \<Rightarrow> op_schedule" where
  "op_schedule_of storageName s = \<lparr>sch_Name = is_Name s, sch_Schedule = is_Cron s, sch_StorageName = storageName,
     sch_Retention = map_option (\<lambda>r. \<lparr>rt_Type = ''count'', rt_Count = scast (the (sr_Count r)), rt_DeleteFromStorage = True\<rparr>)
       (is_Retention s)\<rparr>"

definition expected_schedules :: "instance_storage list \<Rightarrow> op_schedule list" where
  "expected_schedules sts = concat (map (\<lambda>st. map (op_schedule_of (ist_StorageRef st)) (filter is_Enabled (ist_Schedules st))) sts)"

lemma buildPXCRetention_Ret:
  "buildPXCRetention s = Ret r \<Longrightarrow> r = sch_Retention (op_schedule_of n s)"
  by (auto simp: buildPXCRetention_def op_schedule_of_def bindO_Ret deref_def split: option.splits if_splits)

lemma build_schedules_Ret:
  "build_schedules n ss acc = Ret out \<Longrightarrow> out = acc @ map (op_schedule_of n) (filter is_Enabled ss)"
proof (induction ss arbitrary: acc)
  case (Cons s ss)
  show ?case
  proof (cases "is_Enabled s")
    case True
    with Cons.prems obtain r where r: "buildPXCRetention s = Ret r"
      and rest: "build_schedules n ss (acc @ [\<lparr>sch_Name = is_Name s, sch_Schedule = is_Cron s, sch_StorageName = n, sch_Retention = r\<rparr>]) = Ret out"
      by (auto split: outcome.splits)
    from buildPXCRetention_Ret [OF r, of n] Cons.IH [OF rest] True show ?thesis
      by (simp add: op_schedule_of_def)
  qed (use Cons in auto)
qed simp

text \<open>One storage: what is accumulated and what is added to it.\<close>

definition pitr_spec_ok :: "string \<Rightarrow> op_pitr_spec \<Rightarrow> bool" where
  "pitr_spec_ok n ps \<longleftrightarrow> pis_Enabled ps \<and> pis_StorageName ps = n \<and> 1 \<le> pis_TimeBetweenUploads ps \<and> 1 \<le> pis_TimeoutSeconds ps"

lemma pitr_step_Ret:
  assumes "pitr_step st acc = Ret acc'"
  shows "bs_Image (fst acc') = bs_Image (fst acc)" "bs_Storages (fst acc') = bs_Storages (fst acc)"
    "bs_Schedule (fst acc') = bs_Schedule (fst acc)"
    "snd acc' = snd acc + (if pitr_on st then 1 else 0)"
    "if pitr_on st then pitr_spec_ok (ist_StorageRef st) (bs_PITR (fst acc')) else bs_PITR (fst acc') = bs_PITR (fst acc)"
proof -
  from assms consider "\<not> pitr_on st" "acc' = acc"
    | cfg where "pitr_on st" "decodeAndValidatePITRConfig (ist_StorageRef st) (pitr_parameters st) = Ret cfg"
      "acc' = ((fst acc)\<lparr>bs_PITR := \<lparr>pis_Enabled = True, pis_StorageName = ist_StorageRef st,
          pis_TimeBetweenUploads = the (cfg_TimeBetweenUploads cfg), pis_TimeoutSeconds = the (cfg_TimeoutSeconds cfg)\<rparr>\<rparr>, snd acc + 1)"
    by (auto simp: pitr_step_def pitr_on_def pitr_parameters_def Let_def split: option.splits if_splits outcome.splits
        elim!: decodeAndValidate_values)
  then have "bs_Image (fst acc') = bs_Image (fst acc) \<and> bs_Storages (fst acc') = bs_Storages (fst acc) \<and>
    bs_Schedule (fst acc') = bs_Schedule (fst acc) \<and> snd acc' = snd acc + (if pitr_on st then 1 else 0) \<and>
    (if pitr_on st then pitr_spec_ok (ist_StorageRef st) (bs_PITR (fst acc')) else bs_PITR (fst acc') = bs_PITR (fst acc))"
  proof cases
    case (2 cfg)
    from 2(2) obtain u t where "cfg_TimeBetweenUploads cfg = Some u" "1 \<le> u" "cfg_TimeoutSeconds cfg = Some t" "1 \<le> t"
      by (rule decodeAndValidate_values)
    with 2 show ?thesis by (simp add: pitr_spec_ok_def)
  qed simp
  then show "bs_Image (fst acc') = bs_Image (fst acc)" "bs_Storages (fst acc') = bs_Storages (fst acc)"
    "bs_Schedule (fst acc') = bs_Schedule (fst acc)"
    "snd acc' = snd acc + (if pitr_on st then 1 else 0)"
    "if pitr_on st then pitr_spec_ok (ist_StorageRef st) (bs_PITR (fst acc')) else bs_PITR (fst acc') = bs_PITR (fst acc)"
    by blast+
qed

lemma storage_step_Ret:
  assumes "storage_step uid st s3 acc = Ret acc'"
  shows "bs_Image (fst acc') = bs_Image (fst acc)"
    "bs_Storages (fst acc') = (bs_Storages (fst acc))(ist_StorageRef st \<mapsto> op_storage_of uid s3)"
    "bs_Schedule (fst acc') = bs_Schedule (fst acc) @ expected_schedules [st]"
    "snd acc' = snd acc + (if pitr_on st then 1 else 0)"
    "if pitr_on st then pitr_spec_ok (ist_StorageRef st) (bs_PITR (fst acc')) else bs_PITR (fst acc') = bs_PITR (fst acc)"
proof -
  obtain acc2 scheds where step: "pitr_step st ((fst acc)\<lparr>bs_Storages := (bs_Storages (fst acc))(ist_StorageRef st \<mapsto> op_storage_of uid s3)\<rparr>, snd acc) = Ret acc2"
    and scheds: "build_schedules (ist_StorageRef st) (ist_Schedules st) (bs_Schedule (fst acc2)) = Ret scheds"
    and acc': "acc' = ((fst acc2)\<lparr>bs_Schedule := scheds\<rparr>, snd acc2)"
    using assms by (auto simp: storage_step_def Let_def bindO_Ret)
  from pitr_step_Ret [OF step] build_schedules_Ret [OF scheds] acc'
  show "bs_Image (fst acc') = bs_Image (fst acc)"
    "bs_Storages (fst acc') = (bs_Storages (fst acc))(ist_StorageRef st \<mapsto> op_storage_of uid s3)"
    "bs_Schedule (fst acc') = bs_Schedule (fst acc) @ expected_schedules [st]"
    "snd acc' = snd acc + (if pitr_on st then 1 else 0)"
    "if pitr_on st then pitr_spec_ok (ist_StorageRef st) (bs_PITR (fst acc')) else bs_PITR (fst acc') = bs_PITR (fst acc)"
    by (simp_all add: expected_schedules_def)
qed

lemma expected_schedules_Cons: "expected_schedules (st # sts) = expected_schedules [st] @ expected_schedules sts"
  by (simp add: expected_schedules_def)

text \<open>A successful round of the loop went through the storage object and one step.\<close>

lemma apply_storages_ConsE:
  assumes "exec (apply_storages E (st # sts) acc) w = (Ret out, w')"
  obtains bs s3 w1 w2 acc1 where "ist_StorageRef st \<noteq> []" "exec (ctx_BackupStorage E (ist_StorageRef st)) w = (Ret bs, w1)"
    "bst_Type bs = BackupStorageTypeS3" "bst_S3 bs = Some s3"
    "storage_step (om_UID (in_Meta (ctx_Instance E))) st s3 acc = Ret acc1"
    "exec (apply_storages E sts acc1) w2 = (Ret out, w')"
proof (cases "ist_StorageRef st = []")
  case False
  with assms that show ?thesis
    by (auto simp: exec_call split: prod.splits outcome.splits storage_type.splits option.splits)
qed (use assms in simp)

lemma apply_storages_Ret:
  assumes "exec (apply_storages E sts acc) w = (Ret out, w')"
  shows "bs_Image (fst out) = bs_Image (fst acc)
    \<and> dom (bs_Storages (fst out)) = dom (bs_Storages (fst acc)) \<union> ist_StorageRef ` set sts
    \<and> (\<forall>n x. bs_Storages (fst out) n = Some x \<longrightarrow> bs_Storages (fst acc) n = Some x \<or>
        (\<exists>s3. x = op_storage_of (om_UID (in_Meta (ctx_Instance E))) s3))
    \<and> bs_Schedule (fst out) = bs_Schedule (fst acc) @ expected_schedules sts
    \<and> snd out = snd acc + length (filter pitr_on sts)
    \<and> (if filter pitr_on sts = [] then bs_PITR (fst out) = bs_PITR (fst acc)
       else pitr_spec_ok (ist_StorageRef (last (filter pitr_on sts))) (bs_PITR (fst out)))
    \<and> [] \<notin> ist_StorageRef ` set sts"
  using assms
proof (induction sts arbitrary: acc w)
  case (Cons st sts)
  from Cons.prems obtain bs s3 w1 w2 acc1 where ne: "ist_StorageRef st \<noteq> []"
    and step: "storage_step (om_UID (in_Meta (ctx_Instance E))) st s3 acc = Ret acc1"
    and rest: "exec (apply_storages E sts acc1) w2 = (Ret out, w')"
    by (rule apply_storages_ConsE)
  note acc1 = storage_step_Ret [OF step] and out = Cons.IH [OF rest]
  have "\<forall>n x. bs_Storages (fst out) n = Some x \<longrightarrow> bs_Storages (fst acc) n = Some x \<or>
        (\<exists>s3. x = op_storage_of (om_UID (in_Meta (ctx_Instance E))) s3)"
    using out acc1(2) by (auto split: if_splits)
  moreover have "if filter pitr_on (st # sts) = [] then bs_PITR (fst out) = bs_PITR (fst acc)
       else pitr_spec_ok (ist_StorageRef (last (filter pitr_on (st # sts)))) (bs_PITR (fst out))"
    using out acc1(5) by (auto split: if_splits)
  moreover have "dom (bs_Storages (fst acc1)) = insert (ist_StorageRef st) (dom (bs_Storages (fst acc)))"
    by (subst acc1(2)) simp
  then have "dom (bs_Storages (fst out)) = dom (bs_Storages (fst acc)) \<union> ist_StorageRef ` set (st # sts)"
    using out by simp
  moreover have "bs_Schedule (fst out) = bs_Schedule (fst acc) @ expected_schedules (st # sts)"
    using out acc1(3) by (subst expected_schedules_Cons) simp
  moreover have "snd out = snd acc + length (filter pitr_on (st # sts))" using out acc1(4) by simp
  ultimately show ?case using out acc1(1) ne by auto
qed (simp add: expected_schedules_def)

subsection \<open>What applyBackupSettings sends to the operator\<close>

lemma select_backup_image_nonempty: "select_backup_image E spec = Ret img \<Longrightarrow> img \<noteq> []"
  by (auto simp: select_backup_image_def Let_def bindO_Ret split: if_splits)

lemma set_backup_simps [simp]:
  "px_Backup (pc_Spec (set_backup p b)) = b" "pc_Meta (set_backup p b) = pc_Meta p"
  by (simp_all add: set_backup_def)

lemma applyBackupSettings_enabledE:
  assumes "exec (applyBackupSettings E p) w = (Ret p', w')" "enabled_backup (ctx_Instance E) = Some bk"
  obtains img spec n w1 where "img \<noteq> []" "exec (apply_storages E (ib_Storages bk) (empty_backup_spec img, 0)) w1 = (Ret (spec, n), w')"
    "ib_Storages bk \<noteq> []" "n \<le> 1" "p' = set_backup p (Some spec)"
proof -
  from assms obtain w1 providerSpec img where img: "select_backup_image E providerSpec = Ret img"
    and run: "exec (call (apply_storages E (ib_Storages bk) (empty_backup_spec img, 0)) fail (\<lambda>(backupSpec, pitrEnabled).
          if ib_Storages bk = []
          then fail (BackupConfigError ''NoStoragesConfigured'' ''spec.backup.enabled=true requires at least one storage'')
          else if pitrEnabled > 1
          then fail (BackupConfigError ''PITRConfigurationInvalid'' ''PXC supports PITR on at most one storage'')
          else ret (set_backup p (Some backupSpec)))) w1 = (Ret p', w')"
    by (auto simp: applyBackupSettings_def exec_call [of "ctx_BackupClassForInstance E"] exec_call [of "ctx_ProviderSpec E"]
        exec_call [of "lift_outcome x" for x] split: prod.splits outcome.splits)
  show thesis
  proof (rule that [OF select_backup_image_nonempty [OF img]])
    from run show "exec (apply_storages E (ib_Storages bk) (empty_backup_spec img, 0)) w1 = (Ret (the (px_Backup (pc_Spec p')), length (filter pitr_on (ib_Storages bk))), w')"
      and "ib_Storages bk \<noteq> []" and "length (filter pitr_on (ib_Storages bk)) \<le> 1"
      and "p' = set_backup p (Some (the (px_Backup (pc_Spec p'))))"
      by (auto simp: exec_call not_less dest: apply_storages_Ret split: prod.splits outcome.splits if_splits)
  qed
qed

text \<open>
  C3. When the backup settings of an Instance are accepted and its backups are enabled, the operator
  is given: a backup image; one storage per storage reference and no other, each with its bucket
  resolved for this Instance; exactly the enabled schedules of all storages, in order; and
  point-in-time recovery on at most one storage, which is the one the Instance asks for, with an
  upload interval and a timeout of at least a second. When backups are not enabled the section is
  removed and no call is made.
\<close>

theorem backup_settings_sent:
  assumes "exec (applyBackupSettings E p) w = (Ret p', w')"
  shows "case enabled_backup (ctx_Instance E) of
      None \<Rightarrow> px_Backup (pc_Spec p') = None \<and> w' = w
    | Some bk \<Rightarrow> \<exists>spec. px_Backup (pc_Spec p') = Some spec
        \<and> bs_Image spec \<noteq> []
        \<and> dom (bs_Storages spec) = ist_StorageRef ` set (ib_Storages bk)
        \<and> (\<forall>n x. bs_Storages spec n = Some x \<longrightarrow> (\<exists>s3. x = op_storage_of (om_UID (in_Meta (ctx_Instance E))) s3))
        \<and> bs_Schedule spec = expected_schedules (ib_Storages bk)
        \<and> (case filter pitr_on (ib_Storages bk) of
             [] \<Rightarrow> bs_PITR spec = zero_pitr_spec
           | [st] \<Rightarrow> pitr_spec_ok (ist_StorageRef st) (bs_PITR spec)
           | _ \<Rightarrow> False)"
proof (cases "enabled_backup (ctx_Instance E)")
  case (Some bk)
  with assms obtain img spec n w1 where img: "img \<noteq> []"
    and run: "exec (apply_storages E (ib_Storages bk) (empty_backup_spec img, 0)) w1 = (Ret (spec, n), w')"
    and n: "n \<le> 1" and p': "p' = set_backup p (Some spec)"
    by (rule applyBackupSettings_enabledE)
  note out = apply_storages_Ret [OF run]
  have "length (filter pitr_on (ib_Storages bk)) \<le> 1" using out n by simp
  then have "case filter pitr_on (ib_Storages bk) of [] \<Rightarrow> bs_PITR spec = zero_pitr_spec
           | [st] \<Rightarrow> pitr_spec_ok (ist_StorageRef st) (bs_PITR spec) | _ \<Rightarrow> False"
    using out by (auto simp: empty_backup_spec_def split: list.split)
  with out img p' Some show ?thesis by (auto simp: empty_backup_spec_def)
qed (use assms in \<open>auto simp: applyBackupSettings_def\<close>)

definition sample_catalogue :: provider_spec where
  "sample_catalogue = \<lparr>prs_ComponentTypes =
     [''backup'' \<mapsto> \<lparr>ct_DefaultVersion = ''8.0'', ct_Versions = [\<lparr>cv_Version = ''8.0'', cv_Image = ''backup:8.0''\<rparr>]\<rparr>],
     prs_Versions = [\<lparr>vb_Name = ''8.0'', vb_Components = [''engine'' \<mapsto> ''8.0'', ''backup'' \<mapsto> ''8.0'']\<rparr>]\<rparr>"

definition sample_bucket :: s3_spec where
  "sample_bucket = \<lparr>s3_Bucket = ''backups'', s3_CredentialsSecretRef = ''s3-creds'', s3_Region = ''eu'', s3_EndpointURL = [],
     s3_VerifyTLS = None, s3_ForcePathStyle = Some True\<rparr>"

definition backup_cluster :: cluster where
  "backup_cluster = empty_cluster\<lparr>wl_Provider := sample_catalogue,
     wl_Storages := [(''s3'', \<lparr>bst_Name = ''s3'', bst_Type = BackupStorageTypeS3, bst_S3 = Some sample_bucket\<rparr>)]\<rparr>"

lemma sample_settings_accepted:
  "\<exists>spec. exec (applyBackupSettings (ref_env sample_inst) p) backup_cluster = (Ret (set_backup p (Some spec)), backup_cluster)
     \<and> bs_Storages spec = [''s3'' \<mapsto> op_storage_of ''u1'' sample_bucket] \<and> pis_TimeBetweenUploads (bs_PITR spec) = 60"
  by (simp add: applyBackupSettings_def enabled_backup_def sample_defs backup_cluster_def exec_call select_backup_image_def
      Let_def sample_catalogue_def map_str_def ref_version_image_def storage_step_def pitr_step_def pitr_raw_def
      decodeAndValidatePITRConfig_def decode_pitr_empty below_one_def defaultPITRTimeBetweenUploads_def
      defaultPITRTimeoutSeconds_def empty_backup_spec_def)
    (rule exI, rule conjI, rule refl, simp)

theorem backup_settings_sent_witness:
  "\<exists>p' w'. exec (applyBackupSettings (ref_env sample_inst) \<lparr>pc_Meta = named_meta ''team-a'' ''db'', pc_Spec = undefined, pc_Status = undefined\<rparr>) backup_cluster = (Ret p', w')
     \<and> (\<exists>spec. px_Backup (pc_Spec p') = Some spec \<and> bs_Image spec \<noteq> [] \<and> dom (bs_Storages spec) = {''s3''})"
proof -
  obtain spec where run: "exec (applyBackupSettings (ref_env sample_inst) \<lparr>pc_Meta = named_meta ''team-a'' ''db'', pc_Spec = undefined, pc_Status = undefined\<rparr>) backup_cluster
      = (Ret (set_backup \<lparr>pc_Meta = named_meta ''team-a'' ''db'', pc_Spec = undefined, pc_Status = undefined\<rparr> (Some spec)), backup_cluster)"
    using sample_settings_accepted by blast
  from backup_settings_sent [OF run] run show ?thesis
    by (auto simp: enabled_backup_def sample_defs)
qed

lemma schema_values:
  "schema_value schema_TimeBetweenUploads v = (case v of None \<Rightarrow> 60 | Some x \<Rightarrow> x)" "sf_Minimum schema_TimeBetweenUploads = 1"
  "schema_value schema_TimeoutSeconds v = (case v of None \<Rightarrow> 3600 | Some x \<Rightarrow> x)" "sf_Minimum schema_TimeoutSeconds = 1"
  by (cases v; simp add: schema_value_def schema_TimeBetweenUploads_def schema_TimeoutSeconds_def)+

text \<open>
  C39. The code and the published schema agree on the PITR parameters: a configuration is accepted exactly
  when its JSON decodes and both values, after the defaults of the schema, are at least the minimum of
  the schema; the result is those values. In particular storages without parameters are accepted.
\<close>

theorem pitr_config_accepted:
  "(decodeAndValidatePITRConfig n raw = Ret cfg) =
     (\<exists>cfg0 u t. decode_pitr raw = Ret cfg0
        \<and> u = schema_value schema_TimeBetweenUploads (cfg_TimeBetweenUploads cfg0)
        \<and> t = schema_value schema_TimeoutSeconds (cfg_TimeoutSeconds cfg0)
        \<and> sf_Minimum schema_TimeBetweenUploads \<le> u \<and> sf_Minimum schema_TimeoutSeconds \<le> t
        \<and> cfg = \<lparr>cfg_TimeBetweenUploads = Some u, cfg_TimeoutSeconds = Some t\<rparr>)
   \<and> decodeAndValidatePITRConfig n [] = Ret \<lparr>cfg_TimeBetweenUploads = Some 60, cfg_TimeoutSeconds = Some 3600\<rparr>"
proof
  show "(decodeAndValidatePITRConfig n raw = Ret cfg) =
     (\<exists>cfg0 u t. decode_pitr raw = Ret cfg0
        \<and> u = schema_value schema_TimeBetweenUploads (cfg_TimeBetweenUploads cfg0)
        \<and> t = schema_value schema_TimeoutSeconds (cfg_TimeoutSeconds cfg0)
        \<and> sf_Minimum schema_TimeBetweenUploads \<le> u \<and> sf_Minimum schema_TimeoutSeconds \<le> t
        \<and> cfg = \<lparr>cfg_TimeBetweenUploads = Some u, cfg_TimeoutSeconds = Some t\<rparr>)"
    unfolding decodeAndValidate_Ret default_pitr_eq defaultPITRTimeBetweenUploads_def defaultPITRTimeoutSeconds_def schema_values
    by (cases "decode_pitr raw") (auto simp: below_one_def not_less)
  show "decodeAndValidatePITRConfig n [] = Ret \<lparr>cfg_TimeBetweenUploads = Some 60, cfg_TimeoutSeconds = Some 3600\<rparr>"
    by (simp add: decodeAndValidate_Ret decode_pitr_empty default_pitr_def below_one_def defaultPITRTimeBetweenUploads_def
        defaultPITRTimeoutSeconds_def)
qed

text \<open>
  The bucket of a storage is shared safely: resolving it again for the same Instance changes
  nothing, and two Instances get the same bucket only when the storage already names a path
  inside a bucket (or names nothing).
\<close>

theorem backup_bucket_per_instance:
  assumes "CHR ''/'' \<notin> set u" "CHR ''/'' \<notin> set v" "u \<noteq> []" "v \<noteq> []"
  shows "resolveBackupBucket (resolveBackupBucket b u) u = resolveBackupBucket b u
    \<and> (resolveBackupBucket b u = resolveBackupBucket b v) =
       (u = v \<or> TrimChar (CHR ''/'') b = [] \<or> CHR ''/'' \<in> set (TrimChar (CHR ''/'') b))"
proof -
  let ?t = "TrimChar (CHR ''/'') b"
  have [simp]: "TrimChar (CHR ''/'') [] = []" by (simp add: TrimChar_def)
  have "TrimChar (CHR ''/'') (?t @ ''/'' @ u) = ?t @ ''/'' @ u" if "?t \<noteq> []"
  proof (rule TrimChar_id)
    from that TrimChar_ends [of "CHR ''/''" b] assms(1,3) have "hd ?t \<noteq> CHR ''/''" "last u \<noteq> CHR ''/''"
      by (auto dest: last_in_set)
    with that assms(3) show "?t @ ''/'' @ u = [] \<or> hd (?t @ ''/'' @ u) \<noteq> CHR ''/'' \<and> last (?t @ ''/'' @ u) \<noteq> CHR ''/''"
      by simp
  qed
  then show ?thesis
    using assms(3,4) by (auto simp: resolveBackupBucket_def Let_def Contains_char)
qed

theorem backup_bucket_per_instance_witness:
  "resolveBackupBucket (resolveBackupBucket ''/data/'' ''u1'') ''u1'' = ''data/u1''
    \<and> resolveBackupBucket ''/data/'' ''u1'' \<noteq> resolveBackupBucket ''/data/'' ''u2''"
  using backup_bucket_per_instance [of "''u1''" "''u2''" "''/data/''"]
  by (simp add: TrimChar_def resolveBackupBucket_def HasPrefix_def)

text \<open>
  A schedule's retention is passed on with its count unchanged as a signed number, and only
  when it is by count; a schedule without retention keeps every backup. The one panic is a
  retention by count that sets no count.
\<close>

theorem retention_count_kept:
  "(\<exists>r. buildPXCRetention s = Ret (Some r) \<and> sint (rt_Count r) = k) =
     (\<exists>q c. is_Retention s = Some q \<and> sr_Type q = RetentionTypeCount \<and> sr_Count q = Some c \<and> sint c = k)
   \<and> (buildPXCRetention s = Ret None) = (is_Retention s = None)
   \<and> (buildPXCRetention s = Panic) = (\<exists>q. is_Retention s = Some q \<and> sr_Type q = RetentionTypeCount \<and> sr_Count q = None)"
proof -
  have "sint (scast (c :: int32) :: int64) = sint c" for c
    by (simp add: sint_up_scast is_up)
  then show ?thesis
    by (auto simp: buildPXCRetention_def deref_def split: option.splits if_splits)
qed

end
