(* ===== verification/Validate.thy ===== *)
theory Validate
  imports Backup_Config
begin

text \<open>
  internal/provider/validate.go: the rules about an Instance alone, checked before a reconcile. A
  violation is a field error with the path of the field, as Kubernetes' \<^verbatim>\<open>field\<close> package builds it.
  The theorems say which Instances are accepted and that what this check says about point-in-time
  recovery agrees with what the translation of the backup settings later accepts.
\<close>

datatype field_error =
    Required string string
  | Invalid string "int32 option" string
  | NotSupported string string "string list"

subsection \<open>Field paths\<close>

definition Child :: "string \<Rightarrow> string list \<Rightarrow> string" where
  "Child path names = foldl (\<lambda>p n. p @ ''.'' @ n) path names"

definition Key :: "string \<Rightarrow> string \<Rightarrow> string" where
  "Key path k = path @ ''['' @ k @ '']''"

definition Index :: "string \<Rightarrow> nat \<Rightarrow> string" where
  "Index path i = path @ ''['' @ nat_str i @ '']''"

definition componentsPath :: string where "componentsPath = Child ''spec'' [''components'']"
definition storagesPath :: string where "storagesPath = Child ''spec'' [''backup'', ''storages'']"

subsection \<open>The rules\<close>

definition replicas_error :: "string \<Rightarrow> component_spec \<Rightarrow> field_error list" where
  "replicas_error path c =
     (case cs_Replicas c of None \<Rightarrow> []
      | Some n \<Rightarrow> if sint n < 1 then [Invalid (Child path [''replicas'']) (Some n) ''must be at least 1''] else [])"

definition validate_engine :: "inst \<Rightarrow> field_error list" where
  "validate_engine i =
     (let enginePath = Key componentsPath ComponentEngine in
      case in_Components i ComponentEngine of
        None \<Rightarrow> [Required enginePath []]
      | Some engine \<Rightarrow> replicas_error enginePath engine)"

definition validate_proxy :: "inst \<Rightarrow> field_error list" where
  "validate_proxy i =
     (let proxyPath = Key componentsPath ComponentProxy in
      case in_Components i ComponentProxy of
        None \<Rightarrow> [Required proxyPath []]
      | Some proxy \<Rightarrow>
          (if cs_Type proxy = ProxyTypeHAProxy \<or> cs_Type proxy = ProxyTypeProxySQL then []
           else if cs_Type proxy = [] then [Required (Child proxyPath [''type'']) []]
           else [NotSupported (Child proxyPath [''type'']) (cs_Type proxy) [ProxyTypeHAProxy, ProxyTypeProxySQL]])
          @ replicas_error proxyPath proxy)"

text \<open>The loop over the storages: the errors and the names of the storages with PITR.\<close>

fun validate_storages :: "nat \<Rightarrow> instance_storage list \<Rightarrow> field_error list \<times> string list \<Rightarrow> field_error list \<times> string list" where
  "validate_storages i [] acc = acc"
| "validate_storages i (s # rest) acc =
     (case ist_PITR s of
        None \<Rightarrow> validate_storages (i + 1) rest acc
      | Some p \<Rightarrow>
        if \<not> spi_Enabled p then validate_storages (i + 1) rest acc
        else (let enabled = snd acc @ [ist_StorageRef s];
                  errs = (case decodeAndValidatePITRConfig (ist_StorageRef s) (pitr_raw p) of
                     Err e \<Rightarrow> fst acc @ [Invalid (Child (Index storagesPath i) [''pitr'', ''parameters'']) None (Error e)]
                   | _ \<Rightarrow> fst acc)
              in validate_storages (i + 1) rest (errs, enabled)))"

definition validatePITR :: "instance_backup option \<Rightarrow> field_error list" where
  "validatePITR backup =
     (case backup of None \<Rightarrow> []
      | Some bk \<Rightarrow>
        if \<not> ib_Enabled bk then []
        else (let (errs, enabled) = validate_storages 0 (ib_Storages bk) ([], []) in
          if length enabled > 1
          then errs @ [Invalid storagesPath None (''PXC supports PITR on at most one storage, got ''
                 @ nat_str (length enabled) @ '': '' @ Join enabled '', '')]
          else errs))"

definition Validate :: "inst \<Rightarrow> field_error list" where
  "Validate i = validate_engine i @ validate_proxy i @ validatePITR (in_Backup i)"

subsection \<open>Which Instances are accepted\<close>

definition replicas_ok :: "component_spec \<Rightarrow> bool" where
  "replicas_ok c \<longleftrightarrow> (case cs_Replicas c of None \<Rightarrow> True | Some n \<Rightarrow> 1 \<le> sint n)"

definition pitr_params_ok :: "instance_storage \<Rightarrow> bool" where
  "pitr_params_ok st \<longleftrightarrow> (case decodeAndValidatePITRConfig (ist_StorageRef st) (pitr_parameters st) of Ret _ \<Rightarrow> True | _ \<Rightarrow> False)"

definition pitr_ok :: "instance_storage list \<Rightarrow> bool" where
  "pitr_ok sts \<longleftrightarrow> list_all pitr_params_ok (filter pitr_on sts) \<and> length (filter pitr_on sts) \<le> 1"

lemma replicas_error_Nil: "replicas_error path c = [] \<longleftrightarrow> replicas_ok c"
  by (auto simp: replicas_error_def replicas_ok_def split: option.split)

lemma Unmarshal_not_Panic: "Unmarshal st zero raw \<noteq> Panic"
  by (auto simp: Unmarshal_def split: option.split json.split)

lemma decodeAndValidate_total: "decodeAndValidatePITRConfig n raw \<noteq> Panic"
  by (rule decodeAndValidate_not_Panic) (simp add: decode_pitr_def Let_def Unmarshal_not_Panic)

lemma pitr_params_ok_iff: "pitr_params_ok st \<longleftrightarrow> (\<nexists>e. decodeAndValidatePITRConfig (ist_StorageRef st) (pitr_parameters st) = Err e)"
  using decodeAndValidate_total [of "ist_StorageRef st" "pitr_parameters st"]
  by (auto simp: pitr_params_ok_def split: outcome.splits)

lemma validate_storages_step:
  "validate_storages i (s # rest) acc = validate_storages (i + 1) rest
     (if pitr_on s then
        (if pitr_params_ok s then fst acc else fst acc @ [Invalid (Child (Index storagesPath i) [''pitr'', ''parameters'']) None
             (Error (case decodeAndValidatePITRConfig (ist_StorageRef s) (pitr_parameters s) of Err e \<Rightarrow> e))],
         snd acc @ [ist_StorageRef s])
      else acc)"
  using decodeAndValidate_total [of "ist_StorageRef s" "pitr_parameters s"]
  by (auto simp: pitr_on_def pitr_params_ok_def pitr_parameters_def Let_def split: option.split outcome.splits)

lemma validate_storages_result:
  "(fst (validate_storages i sts acc) = [] \<longleftrightarrow> fst acc = [] \<and> list_all pitr_params_ok (filter pitr_on sts))
   \<and> snd (validate_storages i sts acc) = snd acc @ map ist_StorageRef (filter pitr_on sts)"
proof (induction sts arbitrary: i acc)
  case (Cons st sts)
  show ?case unfolding validate_storages_step by (simp add: Cons.IH)
qed simp

lemma validatePITR_Nil:
  "validatePITR bk = [] \<longleftrightarrow> (case bk of None \<Rightarrow> True | Some b \<Rightarrow> \<not> ib_Enabled b \<or> pitr_ok (ib_Storages b))"
proof (cases bk)
  case (Some b)
  obtain errs enabled where v: "validate_storages 0 (ib_Storages b) ([], []) = (errs, enabled)" by force
  with validate_storages_result [of 0 "ib_Storages b" "([], [])"]
  have "(errs = []) = list_all pitr_params_ok (filter pitr_on (ib_Storages b))"
    and "length enabled = length (filter pitr_on (ib_Storages b))" by simp_all
  with v Some show ?thesis by (auto simp: validatePITR_def pitr_ok_def)
qed (simp add: validatePITR_def)

text \<open>
  C26. Validation accepts exactly the Instances that have an engine and a proxy, each with at least
  one replica when a number is given, whose proxy is an HAProxy or a ProxySQL, and whose backup
  section, when enabled, has at most one storage with point-in-time recovery, with parameters that
  decode to admissible values.
\<close>

theorem validate_accepts:
  "(Validate i = []) =
     ((\<exists>engine. in_Components i ComponentEngine = Some engine \<and> replicas_ok engine)
      \<and> (\<exists>proxy. in_Components i ComponentProxy = Some proxy \<and> replicas_ok proxy \<and>
           (cs_Type proxy = ProxyTypeHAProxy \<or> cs_Type proxy = ProxyTypeProxySQL))
      \<and> (case enabled_backup i of None \<Rightarrow> True | Some bk \<Rightarrow> pitr_ok (ib_Storages bk)))"
  by (auto simp: Validate_def validate_engine_def validate_proxy_def Let_def replicas_error_Nil validatePITR_Nil
      enabled_backup_def split: option.splits)

subsection \<open>Agreement with the translation\<close>

lemma pitr_step_outcome:
  "(pitr_on st \<and> \<not> pitr_params_ok st) = (\<exists>msg. pitr_step st acc = Err (BackupConfigError ''InvalidPITRConfig'' msg))"
  "pitr_step st acc \<noteq> Panic"
  "pitr_step st acc = Err e \<Longrightarrow> \<exists>msg. e = BackupConfigError ''InvalidPITRConfig'' msg"
  using decodeAndValidate_total [of "ist_StorageRef st" "pitr_parameters st"]
  by (auto simp: pitr_step_def pitr_on_def pitr_params_ok_def pitr_parameters_def Let_def split: option.splits outcome.splits if_splits)

lemma build_schedules_Err:
  "build_schedules n ss acc = Err e \<Longrightarrow> \<exists>msg. e = BackupConfigError ''RetentionTypeUnsupported'' msg"
  by (induction ss arbitrary: acc) (auto split: if_splits outcome.splits)

lemma storage_step_pitr:
  "storage_step uid st s3 acc = Err (BackupConfigError ''InvalidPITRConfig'' msg) \<Longrightarrow> pitr_on st \<and> \<not> pitr_params_ok st"
  "storage_step uid st s3 acc = Ret acc' \<Longrightarrow> pitr_on st \<Longrightarrow> pitr_params_ok st"
proof -
  let ?acc = "((fst acc)\<lparr>bs_Storages := (bs_Storages (fst acc))(ist_StorageRef st \<mapsto> op_storage_of uid s3)\<rparr>, snd acc)"
  assume "storage_step uid st s3 acc = Err (BackupConfigError ''InvalidPITRConfig'' msg)"
  then show "pitr_on st \<and> \<not> pitr_params_ok st"
    unfolding pitr_step_outcome(1) [of st ?acc]
    by (cases "pitr_step st ?acc")
      (auto simp: storage_step_def Let_def bindO_Ret elim!: bindO.elims dest!: build_schedules_Err)
next
  let ?acc = "((fst acc)\<lparr>bs_Storages := (bs_Storages (fst acc))(ist_StorageRef st \<mapsto> op_storage_of uid s3)\<rparr>, snd acc)"
  assume "storage_step uid st s3 acc = Ret acc'" "pitr_on st"
  then have "\<nexists>msg. pitr_step st ?acc = Err (BackupConfigError ''InvalidPITRConfig'' msg)"
    by (auto simp: storage_step_def Let_def bindO_Ret)
  with pitr_step_outcome(1) [of st ?acc] \<open>pitr_on st\<close> show "pitr_params_ok st" by blast
qed

lemma apply_storages_pitr_ok:
  "exec (apply_storages E sts acc) w = (Ret out, w') \<Longrightarrow> list_all pitr_params_ok (filter pitr_on sts)"
proof (induction sts arbitrary: acc w)
  case (Cons st sts)
  from Cons.prems show ?case
    by (rule apply_storages_ConsE) (auto dest: Cons.IH storage_step_pitr(2))
qed simp

lemma apply_storages_pitr_error:
  "exec (apply_storages E sts acc) w = (Err (BackupConfigError ''InvalidPITRConfig'' msg), w') \<Longrightarrow>
     \<not> list_all pitr_params_ok (filter pitr_on sts)"
proof (induction sts arbitrary: acc w)
  case (Cons st sts)
  from Cons.prems show ?case
    by (auto simp: exec_call split: if_splits prod.splits outcome.splits storage_type.splits option.splits
        dest: Cons.IH storage_step_pitr(1))
qed simp

text \<open>
  C25. Validation and translation agree on point-in-time recovery: for an Instance with enabled
  backups that validation accepts, the translation of its storages is never refused for its PITR
  parameters and never counts more than one storage with PITR; and an Instance whose backup
  settings have been translated passes the PITR part of the validation.
\<close>

theorem pitr_validation_agrees:
  assumes "enabled_backup (ctx_Instance E) = Some bk"
  shows "(Validate (ctx_Instance E) = [] \<longrightarrow> exec (apply_storages E (ib_Storages bk) (empty_backup_spec img, 0)) w = (r, w') \<longrightarrow>
      (\<nexists>msg. r = Err (BackupConfigError ''InvalidPITRConfig'' msg)) \<and> (\<forall>spec n. r = Ret (spec, n) \<longrightarrow> n \<le> 1))
    \<and> (exec (applyBackupSettings E p) w = (Ret p', w'') \<longrightarrow> validatePITR (in_Backup (ctx_Instance E)) = [])"
proof (intro conjI impI)
  assume "Validate (ctx_Instance E) = []"
    and run: "exec (apply_storages E (ib_Storages bk) (empty_backup_spec img, 0)) w = (r, w')"
  then have ok: "pitr_ok (ib_Storages bk)"
    using assms by (auto simp: Validate_def validatePITR_Nil enabled_backup_def split: option.splits if_splits)
  show "\<nexists>msg. r = Err (BackupConfigError ''InvalidPITRConfig'' msg)"
    using run ok by (auto simp: pitr_ok_def dest: apply_storages_pitr_error)
  show "\<forall>spec n. r = Ret (spec, n) \<longrightarrow> n \<le> 1"
    using run ok by (auto simp: pitr_ok_def dest: apply_storages_Ret)
next
  assume "exec (applyBackupSettings E p) w = (Ret p', w'')"
  then obtain img spec n w1 where "exec (apply_storages E (ib_Storages bk) (empty_backup_spec img, 0)) w1 = (Ret (spec, n), w'')" "n \<le> 1"
    using assms by (rule applyBackupSettings_enabledE)
  then have "pitr_ok (ib_Storages bk)"
    using apply_storages_pitr_ok apply_storages_Ret by (fastforce simp: pitr_ok_def)
  with assms show "validatePITR (in_Backup (ctx_Instance E)) = []"
    by (auto simp: validatePITR_Nil enabled_backup_def split: option.splits if_splits)
qed

theorem pitr_validation_agrees_witness:
  "enabled_backup (ctx_Instance (ref_env sample_inst)) = Some sample_backup_spec
    \<and> validatePITR (in_Backup (ctx_Instance (ref_env sample_inst))) = []"
proof
  show en: "enabled_backup (ctx_Instance (ref_env sample_inst)) = Some sample_backup_spec"
    by (simp add: enabled_backup_def sample_defs)
  obtain spec where run: "exec (applyBackupSettings (ref_env sample_inst) undefined) backup_cluster
      = (Ret (set_backup undefined (Some spec)), backup_cluster)"
    using sample_settings_accepted by blast
  from pitr_validation_agrees [OF en] run show "validatePITR (in_Backup (ctx_Instance (ref_env sample_inst))) = []"
    by blast
qed

end
