(* ===== verification/Go_Sort.thy ===== *)
theory Go_Sort
  imports Prelude "HOL-Library.Multiset"
begin

text \<open>
  \<^verbatim>\<open>sort.Slice\<close> of Go's standard library. Its documentation promises a permutation in the order of
  \<^verbatim>\<open>less\<close> and says that the sort is not stable, so the code that sorts takes the sorting function as
  an argument and its lemmas rest on the contract \<open>slice_sort\<close> alone. \<open>insertionSort\<close> is what Go runs on
  slices of at most 12 elements; it satisfies the contract for every length.
\<close>

locale slice_sort =
  fixes srt :: "('a \<Rightarrow> 'a \<Rightarrow> bool) \<Rightarrow> 'a list \<Rightarrow> 'a list"
  assumes srt_mset: "mset (srt lt xs) = mset xs"
    and srt_sorted: "(\<And>x y. x \<in> set xs \<Longrightarrow> y \<in> set xs \<Longrightarrow> lt x y \<longleftrightarrow> (key x :: int) < key y) \<Longrightarrow>
      sorted (map key (srt lt xs))"
begin

lemma srt_set: "set (srt lt xs) = set xs"
  using srt_mset [of lt xs] by (metis set_mset_mset)

lemma srt_length: "length (srt lt xs) = length xs"
  using srt_mset [of lt xs] by (metis size_mset)

lemma srt_Nil: "srt lt [] = []"
  using srt_length [of lt "[]"] by simp

end

text \<open>
  \<^verbatim>\<open>insertionSort\<close>: element \<open>i\<close> moves left past every neighbour it is less than. \<open>sink\<close> works on the part
  already sorted, reversed.
\<close>

fun sink :: "('a \<Rightarrow> 'a \<Rightarrow> bool) \<Rightarrow> 'a \<Rightarrow> 'a list \<Rightarrow> 'a list" where
  "sink lt x [] = [x]"
| "sink lt x (y # ys) = (if lt x y then y # sink lt x ys else x # y # ys)"

definition insertionSort :: "('a \<Rightarrow> 'a \<Rightarrow> bool) \<Rightarrow> 'a list \<Rightarrow> 'a list" where
  "insertionSort lt xs = rev (foldl (\<lambda>acc x. sink lt x acc) [] xs)"

lemma mset_sink: "mset (sink lt x ys) = add_mset x (mset ys)"
  by (induction ys) auto

lemma set_sink: "set (sink lt x ys) = insert x (set ys)"
  by (induction ys) auto

lemma mset_foldl_sink: "mset (foldl (\<lambda>acc x. sink lt x acc) acc xs) = mset acc + mset xs"
  by (induction xs arbitrary: acc) (auto simp: mset_sink)

lemma sink_sorted:
  assumes "\<And>y. y \<in> set ys \<Longrightarrow> lt x y \<longleftrightarrow> (key x :: int) < key y"
    and "sorted_wrt (\<lambda>a b. key b \<le> key a) ys"
  shows "sorted_wrt (\<lambda>a b. key b \<le> key a) (sink lt x ys)"
  using assms by (induction ys) (auto simp: set_sink not_less order.trans)

lemma foldl_sink_sorted:
  assumes "\<And>x y. x \<in> set xs \<union> set acc \<Longrightarrow> y \<in> set xs \<union> set acc \<Longrightarrow> lt x y \<longleftrightarrow> (key x :: int) < key y"
    and "sorted_wrt (\<lambda>a b. key b \<le> key a) acc"
  shows "sorted_wrt (\<lambda>a b. key b \<le> key a) (foldl (\<lambda>acc x. sink lt x acc) acc xs)"
  using assms
proof (induction xs arbitrary: acc)
  case (Cons x xs)
  have "sorted_wrt (\<lambda>a b. key b \<le> key a) (sink lt x acc)"
    by (rule sink_sorted) (use Cons.prems in auto)
  then show ?case
    using Cons.prems(1) by (auto intro!: Cons.IH simp: set_sink)
qed simp

interpretation insertion: slice_sort insertionSort
proof
  fix lt :: "'a \<Rightarrow> 'a \<Rightarrow> bool" and xs
  show "mset (insertionSort lt xs) = mset xs"
    by (simp add: insertionSort_def mset_foldl_sink)
next
  fix xs and lt :: "'a \<Rightarrow> 'a \<Rightarrow> bool" and key :: "'a \<Rightarrow> int"
  assume "\<And>x y. x \<in> set xs \<Longrightarrow> y \<in> set xs \<Longrightarrow> lt x y \<longleftrightarrow> key x < key y"
  then have "sorted_wrt (\<lambda>a b. key b \<le> key a) (foldl (\<lambda>acc x. sink lt x acc) [] xs)"
    by (intro foldl_sink_sorted) auto
  then show "sorted (map key (insertionSort lt xs))"
    by (simp add: insertionSort_def sorted_map sorted_wrt_rev)
qed

text \<open>A list sorted by a key ends with its greatest element.\<close>

lemma sorted_map_last: "sorted (map f xs) \<Longrightarrow> x \<in> set xs \<Longrightarrow> f x \<le> (f (last xs) :: int)"
  by (induction xs) auto

end
