(* ===== verification/Backup_Status.thy ===== *)
theory Backup_Status
  imports Samples Go_Sort
begin

text \<open>
  internal/provider/backup_status.go: the point-in-time recovery window the provider publishes for
  each storage of an Instance, computed from the operator's backups, and the mapping of a backup
  event to the Instance it belongs to. The theorems show that the published window starts after
  every detected gap of the binlog stream and is exactly the one the comment in the source
  specifies: from the oldest backup newer than every marked one.
\<close>

definition pitrReasonWindowAvailable :: string where "pitrReasonWindowAvailable = ''WindowAvailable''"
definition pitrReasonNoBackups :: string where "pitrReasonNoBackups = ''NoRestorableBackup''"
definition pitrReasonBinlogGap :: string where "pitrReasonBinlogGap = ''BinlogGapDetected''"

text \<open>\<^verbatim>\<open>metav1.ConditionFalse\<close>.\<close>

abbreviation ConditionFalse :: string where "ConditionFalse \<equiv> ''False''"

definition gapCondition :: "'m lib_scheme \<Rightarrow> op_backup \<Rightarrow> condition option" where
  "gapCondition L b =
     find (\<lambda>cond. cd_Type cond = PITRReadyCondition L \<and> cd_Status cond = ConditionFalse) (obs_Conditions (ob_Status b))"

text \<open>The loop over the backups: index and message of the last marked one, starting from \<open>-1\<close>.\<close>

fun scan_marks :: "'m lib_scheme \<Rightarrow> op_backup list \<Rightarrow> int \<Rightarrow> int \<times> string \<Rightarrow> int \<times> string" where
  "scan_marks L [] i acc = acc"
| "scan_marks L (b # bs) i acc =
     scan_marks L bs (i + 1) (case gapCondition L b of None \<Rightarrow> acc | Some cond \<Rightarrow> (i, cd_Message cond))"

definition unavailable :: "string \<Rightarrow> string \<Rightarrow> storage_pitr_status" where
  "unavailable reason msg = \<lparr>sps_State = False, sps_Reason = reason, sps_Message = msg,
     sps_EarliestRestorableTime = None, sps_LatestRestorableTime = None\<rparr>"

definition pitrWindow :: "'m lib_scheme \<Rightarrow> op_backup list \<Rightarrow> storage_pitr_status" where
  "pitrWindow L backups =
     (if backups = [] then unavailable pitrReasonNoBackups ''No Succeeded backup on this storage yet''
      else (let (lastMarked, gapMessage) = scan_marks L backups 0 (-1, []) in
        if lastMarked = int (length backups) - 1
        then unavailable pitrReasonBinlogGap
          (''A binlog gap was detected and no backup has completed since''
           @ (if gapMessage \<noteq> [] then '': '' @ gapMessage else []))
        else (let clean = drop (nat (lastMarked + 1)) backups;
                  window = \<lparr>sps_State = True, sps_Reason = pitrReasonWindowAvailable,
                    sps_Message = (if lastMarked \<ge> 0
                      then ''Window truncated at a detected binlog gap; earlier backups are still restorable individually''
                      else []),
                    sps_EarliestRestorableTime = obs_CompletedAt (ob_Status (hd clean)),
                    sps_LatestRestorableTime = obs_LatestRestorableTime (ob_Status (last clean))\<rparr>
          in if sps_LatestRestorableTime window = None
             then unavailable pitrReasonNoBackups ''Waiting for the binlog collector to report a restorable time''
             else window)))"

definition is_stream_backup :: "string \<Rightarrow> string \<Rightarrow> op_backup \<Rightarrow> bool" where
  "is_stream_backup cluster storage b \<longleftrightarrow>
     \<not> (ob_PXCCluster b \<noteq> cluster \<or> ob_StorageName b \<noteq> storage \<or>
        obs_State (ob_Status b) \<noteq> BackupSucceeded \<or> obs_CompletedAt (ob_Status b) = None)"

definition completed_before :: "op_backup \<Rightarrow> op_backup \<Rightarrow> bool" where
  "completed_before x y \<longleftrightarrow> Before_ptr (obs_CompletedAt (ob_Status x)) (obs_CompletedAt (ob_Status y))"

type_synonym backup_sort = "(op_backup \<Rightarrow> op_backup \<Rightarrow> bool) \<Rightarrow> op_backup list \<Rightarrow> op_backup list"

definition collectStorageBackups :: "backup_sort \<Rightarrow> op_backup list \<Rightarrow> string \<Rightarrow> string \<Rightarrow> op_backup list" where
  "collectStorageBackups srt all_backups cluster storage =
     srt completed_before (filter (is_stream_backup cluster storage) all_backups)"

definition storage_entry :: "'w env \<Rightarrow> backup_sort \<Rightarrow> op_backup list \<Rightarrow> instance_storage \<Rightarrow> storage_status" where
  "storage_entry E srt items storage =
     \<lparr>ss_Name = ist_StorageRef storage,
      ss_PITR = (case ist_PITR storage of
          Some p \<Rightarrow> if spi_Enabled p
            then Some (pitrWindow E (collectStorageBackups srt items (om_Name (in_Meta (ctx_Instance E))) (ist_StorageRef storage)))
            else None
        | None \<Rightarrow> None)\<rparr>"

definition BackupStorageStatuses :: "'w env \<Rightarrow> backup_sort \<Rightarrow> ('w, storage_status list) io" where
  "BackupStorageStatuses E srt =
     (case in_Backup (ctx_Instance E) of
        None \<Rightarrow> ret []
      | Some bk \<Rightarrow>
        if ib_Storages bk = [] then ret []
        else call (cl_ListOpBackups E (om_Namespace (in_Meta (ctx_Instance E))))
          (\<lambda>e. fail (Wrap ''list PerconaXtraDBClusterBackups'' e))
          (\<lambda>items. ret (map (storage_entry E srt items) (ib_Storages bk))))"

text \<open>
  An event carries an object of some type; the handler reacts to operator backups only. The same
  shape serves the Restore handler of backup.go.
\<close>

datatype client_object = OpBackupObj op_backup | RestoreObj restore | OtherObj string

definition enqueueOperatorBackupInstance :: "client_object \<Rightarrow> namespaced_name list" where
  "enqueueOperatorBackupInstance obj =
     (case obj of
        OpBackupObj b \<Rightarrow> if ob_PXCCluster b = [] then []
          else [\<lparr>nn_Namespace = om_Namespace (ob_Meta b), nn_Name = ob_PXCCluster b\<rparr>]
      | _ \<Rightarrow> [])"

subsection \<open>The scan\<close>

definition marked :: "'m lib_scheme \<Rightarrow> op_backup \<Rightarrow> bool" where
  "marked L b \<longleftrightarrow> gapCondition L b \<noteq> None"

lemma marked_iff:
  "marked L b \<longleftrightarrow> (\<exists>c \<in> set (obs_Conditions (ob_Status b)). cd_Type c = PITRReadyCondition L \<and> cd_Status c = ConditionFalse)"
  by (auto simp: marked_def gapCondition_def find_None_iff)

text \<open>The specification of the scan: the longest suffix without a marked backup.\<close>

definition clean_part :: "'m lib_scheme \<Rightarrow> op_backup list \<Rightarrow> op_backup list" where
  "clean_part L bs = rev (takeWhile (\<lambda>b. \<not> marked L b) (rev bs))"

definition gap_part :: "'m lib_scheme \<Rightarrow> op_backup list \<Rightarrow> op_backup list" where
  "gap_part L bs = rev (dropWhile (\<lambda>b. \<not> marked L b) (rev bs))"

lemma gap_clean_split: "gap_part L bs @ clean_part L bs = bs"
  unfolding gap_part_def clean_part_def by (metis rev_append rev_rev_ident takeWhile_dropWhile_id)

lemma clean_part_unmarked: "b \<in> set (clean_part L bs) \<Longrightarrow> \<not> marked L b"
  by (auto simp: clean_part_def dest: set_takeWhileD)

lemma gap_part_last: "gap_part L bs \<noteq> [] \<Longrightarrow> marked L (last (gap_part L bs))"
  unfolding gap_part_def using hd_dropWhile [of "\<lambda>b. \<not> marked L b" "rev bs"] by (simp add: last_rev)

lemma gap_part_Nil: "gap_part L bs = [] \<longleftrightarrow> (\<forall>b \<in> set bs. \<not> marked L b)"
  by (simp add: gap_part_def dropWhile_eq_Nil_conv)

lemma marked_in_gap_part: "b \<in> set bs \<Longrightarrow> marked L b \<Longrightarrow> b \<in> set (gap_part L bs)"
  by (metis Un_iff clean_part_unmarked gap_clean_split set_append)

lemma length_gap_part: "length (gap_part L bs) = length bs - length (clean_part L bs)"
  using gap_clean_split [of L bs] by (metis add_diff_cancel_right' length_append)

lemma scan_marks_snoc:
  "scan_marks L (bs @ [b]) i acc =
     (case gapCondition L b of None \<Rightarrow> scan_marks L bs i acc | Some cond \<Rightarrow> (i + int (length bs), cd_Message cond))"
  by (induction bs arbitrary: i acc) (auto simp: algebra_simps split: option.split)

text \<open>The index the loop leaves is the one before the clean suffix, and the message that of the last gap.\<close>

lemma scan_marks_index:
  "fst (scan_marks L bs 0 (-1, [])) = int (length (gap_part L bs)) - 1"
proof (induction bs rule: rev_induct)
  case (snoc b bs)
  then show ?case
    by (auto simp: scan_marks_snoc gap_part_def marked_def split: option.split)
qed (simp add: gap_part_def)

lemma scan_marks_drop: "drop (nat (fst (scan_marks L bs 0 (-1, [])) + 1)) bs = clean_part L bs"
  using gap_clean_split [of L bs] by (simp add: scan_marks_index) (metis append_eq_conv_conj)

lemma clean_part_Nil: "fst (scan_marks L bs 0 (-1, [])) = int (length bs) - 1 \<longleftrightarrow> clean_part L bs = []"
  using gap_clean_split [of L bs, THEN arg_cong [where f = length]] by (auto simp: scan_marks_index)

text \<open>The window in terms of the clean suffix: the three reasons for having none, and the one window.\<close>

lemma pitrWindow_eq:
  "pitrWindow L bs =
     (if bs = [] then unavailable pitrReasonNoBackups ''No Succeeded backup on this storage yet''
      else if clean_part L bs = [] then unavailable pitrReasonBinlogGap (sps_Message (pitrWindow L bs))
      else if obs_LatestRestorableTime (ob_Status (last (clean_part L bs))) = None
      then unavailable pitrReasonNoBackups ''Waiting for the binlog collector to report a restorable time''
      else \<lparr>sps_State = True, sps_Reason = pitrReasonWindowAvailable,
        sps_Message = (if gap_part L bs = [] then [] else ''Window truncated at a detected binlog gap; earlier backups are still restorable individually''),
        sps_EarliestRestorableTime = obs_CompletedAt (ob_Status (hd (clean_part L bs))),
        sps_LatestRestorableTime = obs_LatestRestorableTime (ob_Status (last (clean_part L bs)))\<rparr>)"
  using clean_part_Nil [of L bs] scan_marks_index [of L bs] scan_marks_drop [of L bs]
  by (cases "scan_marks L bs 0 (-1, [])") (auto simp: pitrWindow_def Let_def unavailable_def)

lemma pitrWindow_available_iff:
  "sps_State (pitrWindow L bs) \<longleftrightarrow>
     clean_part L bs \<noteq> [] \<and> obs_LatestRestorableTime (ob_Status (last (clean_part L bs))) \<noteq> None"
  by (subst pitrWindow_eq) (auto simp: unavailable_def clean_part_def)

lemma pitrWindow_times:
  assumes "sps_State (pitrWindow L bs)"
  shows "sps_EarliestRestorableTime (pitrWindow L bs) = obs_CompletedAt (ob_Status (hd (clean_part L bs)))"
    and "sps_LatestRestorableTime (pitrWindow L bs) = obs_LatestRestorableTime (ob_Status (last (clean_part L bs)))"
proof -
  from assms have c: "clean_part L bs \<noteq> []" "obs_LatestRestorableTime (ob_Status (last (clean_part L bs))) \<noteq> None"
    by (simp_all add: pitrWindow_available_iff)
  then have "bs \<noteq> []" by (auto simp: clean_part_def)
  with c show "sps_EarliestRestorableTime (pitrWindow L bs) = obs_CompletedAt (ob_Status (hd (clean_part L bs)))"
    and "sps_LatestRestorableTime (pitrWindow L bs) = obs_LatestRestorableTime (ob_Status (last (clean_part L bs)))"
    by (subst pitrWindow_eq, auto)+
qed

subsection \<open>A stream of backups, oldest first\<close>

text \<open>
  What \<^const>\<open>pitrWindow\<close> relies on: a list of backups that have all completed, in the order of their
  completion.
\<close>

definition completed :: "op_backup \<Rightarrow> time" where
  "completed b = (case obs_CompletedAt (ob_Status b) of Some t \<Rightarrow> t | None \<Rightarrow> zero_time)"

locale backup_stream =
  fixes L :: "'m lib_scheme" and bs :: "op_backup list"
  assumes all_completed: "b \<in> set bs \<Longrightarrow> obs_CompletedAt (ob_Status b) = Some (completed b)"
    and oldest_first: "sorted (map completed bs)"
begin

lemma parts_sorted: "sorted (map completed (gap_part L bs @ clean_part L bs))"
  by (simp only: gap_clean_split oldest_first)

lemma ordered_parts: "x \<in> set (gap_part L bs) \<Longrightarrow> y \<in> set (clean_part L bs) \<Longrightarrow> completed x \<le> completed y"
  using parts_sorted by (auto simp: sorted_append)

lemma clean_head_oldest: "y \<in> set (clean_part L bs) \<Longrightarrow> completed (hd (clean_part L bs)) \<le> completed y"
  using parts_sorted by (cases "clean_part L bs") (auto simp: sorted_append)

lemma gap_last_newest: "x \<in> set (gap_part L bs) \<Longrightarrow> completed x \<le> completed (last (gap_part L bs))"
  using parts_sorted by (intro sorted_map_last) (simp_all add: sorted_append)

text \<open>An available window starts at an unmarked backup, not before any marked one.\<close>

lemma window_start:
  assumes "sps_State (pitrWindow L bs)"
  shows "\<exists>b \<in> set bs. \<not> marked L b \<and> sps_EarliestRestorableTime (pitrWindow L bs) = Some (completed b) \<and>
    (\<forall>g \<in> set bs. marked L g \<longrightarrow> completed g \<le> completed b) \<and>
    (\<forall>u \<in> set bs. (\<forall>g \<in> set bs. marked L g \<longrightarrow> completed g < completed u) \<longrightarrow> completed b \<le> completed u)"
proof -
  from assms have ne: "clean_part L bs \<noteq> []" by (simp add: pitrWindow_available_iff)
  let ?b = "hd (clean_part L bs)"
  have b: "?b \<in> set (clean_part L bs)" using ne by simp
  then have bs: "?b \<in> set bs" by (metis UnCI gap_clean_split set_append)
  have "sps_EarliestRestorableTime (pitrWindow L bs) = Some (completed ?b)"
    using pitrWindow_times(1) [OF assms] all_completed [OF bs] by simp
  moreover have "completed g \<le> completed ?b" if "g \<in> set bs" "marked L g" for g
    using ordered_parts [OF marked_in_gap_part [OF that] b] .
  moreover have "completed ?b \<le> completed u"
    if u: "u \<in> set bs" "\<forall>g \<in> set bs. marked L g \<longrightarrow> completed g < completed u" for u
  proof (cases "u \<in> set (clean_part L bs)")
    case False
    with u(1) have "u \<in> set (gap_part L bs)" by (metis UnE gap_clean_split set_append)
    then have "gap_part L bs \<noteq> []" by auto
    have last_in: "last (gap_part L bs) \<in> set bs" "marked L (last (gap_part L bs))"
      using \<open>gap_part L bs \<noteq> []\<close> gap_part_last gap_clean_split [of L bs]
      by (metis UnCI last_in_set set_append, blast)
    with last_in u(2) gap_last_newest [OF \<open>u \<in> set (gap_part L bs)\<close>] show ?thesis by (meson leD)
  qed (rule clean_head_oldest)
  ultimately show ?thesis using bs clean_part_unmarked [OF b] by blast
qed

end

subsection \<open>What is collected is such a stream\<close>

lemma stream_backup_completed:
  "is_stream_backup cluster storage b \<Longrightarrow> obs_CompletedAt (ob_Status b) = Some (completed b)"
  by (auto simp: is_stream_backup_def completed_def)

lemma set_collectStorageBackups:
  assumes "slice_sort srt"
  shows "set (collectStorageBackups srt items cluster storage) = {b \<in> set items. is_stream_backup cluster storage b}"
  by (auto simp: collectStorageBackups_def slice_sort.srt_set [OF assms])

lemma collected_is_stream:
  assumes "slice_sort srt"
  shows "backup_stream (collectStorageBackups srt items cluster storage)"
proof
  fix b assume "b \<in> set (collectStorageBackups srt items cluster storage)"
  then show "obs_CompletedAt (ob_Status b) = Some (completed b)"
    by (auto simp: set_collectStorageBackups [OF assms] dest: stream_backup_completed)
next
  show "sorted (map completed (collectStorageBackups srt items cluster storage))"
    unfolding collectStorageBackups_def
  proof (rule slice_sort.srt_sorted [OF assms])
    fix x y assume "x \<in> set (filter (is_stream_backup cluster storage) items)"
      "y \<in> set (filter (is_stream_backup cluster storage) items)"
    then show "completed_before x y \<longleftrightarrow> completed x < completed y"
      by (auto simp: completed_before_def Before_ptr_def dest!: stream_backup_completed)
  qed
qed

interpretation collected: backup_stream L "collectStorageBackups insertionSort items cluster storage"
  for L items cluster storage
  by (rule collected_is_stream) (rule insertion.slice_sort_axioms)

lemma BackupStorageStatuses_entry:
  assumes "exec (BackupStorageStatuses E srt) w = (Ret out, w')" "entry \<in> set out"
  shows "\<exists>items bk storage. exec (cl_ListOpBackups E (om_Namespace (in_Meta (ctx_Instance E)))) w = (Ret items, w') \<and>
    in_Backup (ctx_Instance E) = Some bk \<and> storage \<in> set (ib_Storages bk) \<and> entry = storage_entry E srt items storage"
  using assms
  by (auto simp: BackupStorageStatuses_def exec_call split: option.splits if_splits prod.splits outcome.splits)

lemma clean_part_last: "clean_part L bs \<noteq> [] \<Longrightarrow> last (clean_part L bs) = last bs"
  by (metis gap_clean_split last_append)

lemma clean_part_Nil_iff: "clean_part L bs = [] \<longleftrightarrow> bs = [] \<or> marked L (last bs)"
proof (cases bs rule: rev_cases)
  case (snoc ys y)
  then show ?thesis by (simp add: clean_part_def)
qed (simp add: clean_part_def)

text \<open>
  A window is published exactly when the newest backup of the stream carries no gap mark and
  reports a restorable time; the reason tells apart a stream without backups, one whose newest
  backup is marked, and one whose end is not known yet, and no restorable time is published in these
  cases.
\<close>

theorem pitr_window_by_newest_backup:
  "sps_State (pitrWindow L bs) = (bs \<noteq> [] \<and> \<not> marked L (last bs) \<and> obs_LatestRestorableTime (ob_Status (last bs)) \<noteq> None)
   \<and> sps_Reason (pitrWindow L bs) =
      (if bs = [] then pitrReasonNoBackups
       else if marked L (last bs) then pitrReasonBinlogGap
       else if obs_LatestRestorableTime (ob_Status (last bs)) = None then pitrReasonNoBackups
       else pitrReasonWindowAvailable)
   \<and> (sps_State (pitrWindow L bs) \<or>
      sps_EarliestRestorableTime (pitrWindow L bs) = None \<and> sps_LatestRestorableTime (pitrWindow L bs) = None)"
  by (subst (1 2 3 4 5) pitrWindow_eq) (auto simp: unavailable_def clean_part_Nil_iff clean_part_last)

text \<open>
  C2. Whenever the provider publishes an available recovery window for a storage, the window starts
  at the completion of an unmarked Succeeded backup of that Instance on that storage; no backup of
  the stream that is marked with a binlog gap completed later; and no other backup newer than every
  marked one is older: the start is the oldest backup newer than every marked one.
\<close>

theorem published_window_after_every_gap:
  assumes "slice_sort srt"
    and "exec (BackupStorageStatuses E srt) w = (Ret out, w')"
    and "entry \<in> set out" and "ss_PITR entry = Some win" and "sps_State win"
  shows "\<exists>items. exec (cl_ListOpBackups E (om_Namespace (in_Meta (ctx_Instance E)))) w = (Ret items, w') \<and>
    (let stream = {b \<in> set items. is_stream_backup (om_Name (in_Meta (ctx_Instance E))) (ss_Name entry) b} in
     \<exists>b \<in> stream. \<not> marked E b \<and> sps_EarliestRestorableTime win = Some (completed b) \<and>
       (\<forall>g \<in> stream. marked E g \<longrightarrow> completed g \<le> completed b) \<and>
       (\<forall>u \<in> stream. (\<forall>g \<in> stream. marked E g \<longrightarrow> completed g < completed u) \<longrightarrow> completed b \<le> completed u))"
proof -
  obtain items bk storage where items: "exec (cl_ListOpBackups E (om_Namespace (in_Meta (ctx_Instance E)))) w = (Ret items, w')"
    and entry: "entry = storage_entry E srt items storage"
    using BackupStorageStatuses_entry [OF assms(2,3)] by blast
  let ?bs = "collectStorageBackups srt items (om_Name (in_Meta (ctx_Instance E))) (ss_Name entry)"
  have "win = pitrWindow E ?bs"
    using assms(4) entry by (auto simp: storage_entry_def split: option.splits if_splits)
  with assms(5) backup_stream.window_start [OF collected_is_stream [OF assms(1)]] items show ?thesis
    unfolding Let_def set_collectStorageBackups [OF assms(1), symmetric] by blast
qed

definition two_backups :: cluster where
  "two_backups = empty_cluster\<lparr>wl_OpBackups :=
     [((''team-a'', ''new''), sample_op_backup ''new'' 20 False), ((''team-a'', ''old''), sample_op_backup ''old'' 10 True)]\<rparr>"

definition two_backups_entry :: storage_status where
  "two_backups_entry = storage_entry (ref_env sample_inst) insertionSort
     [sample_op_backup ''new'' 20 False, sample_op_backup ''old'' 10 True] sample_storage"

lemma two_backups_statuses:
  "exec (BackupStorageStatuses (ref_env sample_inst) insertionSort) two_backups = (Ret [two_backups_entry], two_backups)"
  by (simp add: BackupStorageStatuses_def two_backups_def two_backups_entry_def sample_inst_def sample_backup_spec_def
      named_meta_def exec_call)

lemma two_backups_window:
  "ss_PITR two_backups_entry = Some (pitrWindow (ref_env sample_inst) [sample_op_backup ''old'' 10 True, sample_op_backup ''new'' 20 False])"
  by (simp add: two_backups_entry_def storage_entry_def collectStorageBackups_def insertionSort_def is_stream_backup_def
      completed_before_def Before_ptr_def sample_inst_def sample_storage_def sample_op_backup_def named_meta_def)

lemma two_backups_available:
  "sps_State (pitrWindow (ref_env sample_inst) [sample_op_backup ''old'' 10 True, sample_op_backup ''new'' 20 False])"
  by (simp add: pitrWindow_def Let_def sample_op_backup_def gapCondition_def gap_mark_def)

theorem published_window_after_every_gap_witness:
  "\<exists>items. exec (cl_ListOpBackups (ref_env sample_inst) ''team-a'') two_backups = (Ret items, two_backups) \<and>
    (let stream = {b \<in> set items. is_stream_backup ''db'' ''s3'' b} in
     \<exists>b \<in> stream. \<not> marked (ref_env sample_inst) b \<and>
       sps_EarliestRestorableTime (pitrWindow (ref_env sample_inst)
         [sample_op_backup ''old'' 10 True, sample_op_backup ''new'' 20 False]) = Some (completed b))"
  using published_window_after_every_gap [OF insertion.slice_sort_axioms two_backups_statuses _ two_backups_window two_backups_available]
  by (simp add: sample_inst_def named_meta_def two_backups_entry_def storage_entry_def sample_storage_def Let_def) blast

end
