(* ===== verification/Backups.thy ===== *)
theory Backups
  imports Backup_Status Images
begin

text \<open>
  On-demand and scheduled backups, from internal/provider/backup.go: \<open>SyncBackup\<close> creates or adopts the
  operator's backup for a \<^verbatim>\<open>Backup\<close> object and maps its state, \<open>CleanupBackup\<close> deletes it, and
  \<open>BackupWatches\<close> routes its events. Every call of the API client is a step of the model; the log
  lines are not.
\<close>

definition pxcBackupDeleteDataFinalizer :: string where
  "pxcBackupDeleteDataFinalizer = ''percona.com/delete-backup''"

definition instanceNameLabelKey :: string where
  "instanceNameLabelKey = ''instanceName''"

subsection \<open>SyncBackup\<close>

definition backup_ref :: "'m lib_scheme \<Rightarrow> backup \<Rightarrow> typed_ref" where
  "backup_ref L b = \<lparr>tr_Group = PXCGroup L, tr_Kind = ''PerconaXtraDBClusterBackup'', tr_Name = om_Name (b_Meta b)\<rparr>"

definition pending_backup :: "'m lib_scheme \<Rightarrow> backup \<Rightarrow> string \<Rightarrow> backup_exec" where
  "pending_backup L b msg = \<lparr>be_State = BackupStatePending, be_Message = msg, be_OperatorBackupRef = backup_ref L b,
     be_StartedAt = None, be_CompletedAt = None\<rparr>"

text \<open>Reading \<^verbatim>\<open>backup.Spec.Origin.InstanceRef.Name\<close> panics when the origin has no Instance reference.\<close>

definition with_instance :: "backup \<Rightarrow> (string \<Rightarrow> ('w, 'a) io) \<Rightarrow> ('w, 'a) io" where
  "with_instance b k = call (lift_outcome (deref (b_InstanceRef b))) fail k"

definition label_backup :: "'w env \<Rightarrow> backup \<Rightarrow> ('w, backup) io" where
  "label_backup E b = with_instance b (\<lambda>instnc.
     if map_str (om_Labels (b_Meta b)) instanceNameLabelKey \<noteq> instnc
     then call (cl_PatchBackup E b (b\<lparr>b_Meta := (b_Meta b)\<lparr>om_Labels := (om_Labels (b_Meta b))(instanceNameLabelKey \<mapsto> instnc)\<rparr>\<rparr>))
       (\<lambda>e. fail (Wrap (''patch Backup '' @ Quote (om_Name (b_Meta b)) @ '' labels'') e)) ret
     else ret b)"

definition ensureBackupControllerReference :: "'w env \<Rightarrow> backup \<Rightarrow> op_backup \<Rightarrow> op_backup outcome" where
  "ensureBackupControllerReference E b x =
     (case SetBackupControllerReference E b x of Err e \<Rightarrow> Err (Wrap ''set backup controller reference'' e) | r \<Rightarrow> r)"

definition zero_op_backup_status :: op_backup_status where
  "zero_op_backup_status = \<lparr>obs_State = BackupOther [], obs_Error = [], obs_StorageName = [], obs_CompletedAt = None,
     obs_LatestRestorableTime = None, obs_Conditions = []\<rparr>"

definition new_op_backup :: "'m lib_scheme \<Rightarrow> backup \<Rightarrow> string \<Rightarrow> op_backup" where
  "new_op_backup L b instnc =
     \<lparr>ob_Meta = (named_meta (om_Namespace (b_Meta b)) (om_Name (b_Meta b)))\<lparr>om_Finalizers :=
        (if ShouldRetainBackupData L b then [] else [pxcBackupDeleteDataFinalizer])\<rparr>,
      ob_SchedulerName = [], ob_PXCCluster = instnc, ob_StorageName = b_StorageRef b, ob_Status = zero_op_backup_status\<rparr>"

definition pxc_storages :: "pxc \<Rightarrow> string \<rightharpoonup> op_storage" where
  "pxc_storages p = (case px_Backup (pc_Spec p) of None \<Rightarrow> Map.empty | Some bs \<Rightarrow> bs_Storages bs)"

definition managedByRuntime :: "backup \<Rightarrow> bool" where
  "managedByRuntime b \<longleftrightarrow> b_ScheduleName b = []"

text \<open>
  The branch for a backup the operator does not know yet (lines 70 to 136): the result is a status
  to return at once, or the operator backup to go on with.
\<close>

definition start_backup :: "'w env \<Rightarrow> backup \<Rightarrow> ('w, backup_exec + op_backup) io" where
  "start_backup E b =
     (let ns = om_Namespace (b_Meta b); n = om_Name (b_Meta b) in
      if \<not> managedByRuntime b then ret (Inl (pending_backup E b ''Waiting for operator scheduled backup''))
      else with_instance b (\<lambda>instnc.
        call (cl_GetPXC E ns instnc)
          (\<lambda>e. if IsNotFound e then ret (Inl (pending_backup E b ''Waiting for PerconaXtraDBCluster''))
               else fail (Wrap (''get PerconaXtraDBCluster '' @ Quote instnc) e))
          (\<lambda>p. if pxc_storages p (b_StorageRef b) = None
             then ret (Inl (pending_backup E b (''Waiting for storage '' @ Quote (b_StorageRef b) @ '' to be registered on PXC cluster'')))
             else call (lift_outcome (ensureBackupControllerReference E b (new_op_backup E b instnc))) fail (\<lambda>x.
               call (cl_CreateOpBackup E x)
                 (\<lambda>e. if IsAlreadyExists e
                      then call (cl_GetOpBackup E ns n)
                        (\<lambda>e'. fail (Wrap (''get PerconaXtraDBClusterBackup '' @ Quote n @ '' after AlreadyExists'') e')) (\<lambda>y. ret (Inr y))
                      else fail (Wrap (''create PerconaXtraDBClusterBackup '' @ Quote n) e))
                 (\<lambda>y. ret (Inr y))))))"

definition immutableBackupSpecChangeMessage :: "op_backup \<Rightarrow> backup \<Rightarrow> string outcome" where
  "immutableBackupSpecChangeMessage x b = bindO (deref (b_InstanceRef b)) (\<lambda>instnc.
     if instnc \<noteq> ob_PXCCluster x
     then Ret (''cannot change backup spec.origin.instanceRef.name after creation (requested '' @ Quote instnc
            @ '', existing '' @ Quote (ob_PXCCluster x) @ '')'')
     else if b_StorageRef b \<noteq> ob_StorageName x
     then Ret (''cannot change backup spec.storageRef.name after creation (requested '' @ Quote (b_StorageRef b)
            @ '', existing '' @ Quote (ob_StorageName x) @ '')'')
     else Ret [])"

definition protect_data :: "'m lib_scheme \<Rightarrow> backup \<Rightarrow> op_backup \<Rightarrow> op_backup" where
  "protect_data L b x = x\<lparr>ob_Meta := (ob_Meta x)\<lparr>om_Finalizers :=
     (if ShouldRetainBackupData L b then RemoveFinalizer L (om_Finalizers (ob_Meta x)) pxcBackupDeleteDataFinalizer
      else AddFinalizer L (om_Finalizers (ob_Meta x)) pxcBackupDeleteDataFinalizer)\<rparr>\<rparr>"

text \<open>The upkeep of a backup the runtime manages (lines 138 to 164); a changed spec is only logged.\<close>

definition adopt_backup :: "'w env \<Rightarrow> backup \<Rightarrow> op_backup \<Rightarrow> ('w, op_backup) io" where
  "adopt_backup E b x =
     (if \<not> managedByRuntime b then ret x
      else call (lift_outcome (immutableBackupSpecChangeMessage x b)) fail (\<lambda>_.
        call (lift_outcome (ensureBackupControllerReference E b (protect_data E b x))) fail (\<lambda>y.
        call (cl_PatchOpBackup E x y)
          (\<lambda>e. fail (Wrap (''patch PerconaXtraDBClusterBackup '' @ Quote (om_Name (b_Meta b))) e)) ret)))"

definition started_at :: "object_meta \<Rightarrow> time option" where
  "started_at m = (if IsZero (om_CreationTimestamp m) then None else Some (om_CreationTimestamp m))"

definition backup_status_of :: "'m lib_scheme \<Rightarrow> backup \<Rightarrow> op_backup \<Rightarrow> backup_exec" where
  "backup_status_of L b x =
     (let ex = \<lparr>be_State = BackupStatePending, be_Message = OpBackupStateText L (obs_State (ob_Status x)),
                be_OperatorBackupRef = backup_ref L b, be_StartedAt = started_at (ob_Meta x), be_CompletedAt = None\<rparr> in
      case obs_State (ob_Status x) of
        BackupFailed \<Rightarrow> (let ex' = ex\<lparr>be_State := BackupStateFailed\<rparr> in
          if obs_Error (ob_Status x) \<noteq> [] then ex'\<lparr>be_Message := obs_Error (ob_Status x)\<rparr> else ex')
      | BackupSucceeded \<Rightarrow> ex\<lparr>be_State := BackupStateSucceeded, be_CompletedAt := obs_CompletedAt (ob_Status x),
          be_Message := ''Backup completed''\<rparr>
      | BackupRunning \<Rightarrow> ex\<lparr>be_State := BackupStateRunning, be_Message := ''Backup is running''\<rparr>
      | BackupStarting \<Rightarrow> ex\<lparr>be_State := BackupStateRunning, be_Message := ''Backup is running''\<rparr>
      | BackupOther _ \<Rightarrow> ex\<lparr>be_State := BackupStatePending, be_Message := ''Backup is pending''\<rparr>)"

definition SyncBackup :: "'w env \<Rightarrow> backup \<Rightarrow> ('w, backup_exec) io" where
  "SyncBackup E backup0 =
     call (label_backup E backup0) fail (\<lambda>b.
       call (call (cl_GetOpBackup E (om_Namespace (b_Meta b)) (om_Name (b_Meta b)))
              (\<lambda>e. if IsNotFound e then start_backup E b
                   else fail (Wrap (''get PerconaXtraDBClusterBackup '' @ Quote (om_Name (b_Meta b))) e))
              (\<lambda>x. ret (Inr x)))
         fail
         (\<lambda>r. case r of
             Inl ex \<Rightarrow> ret ex
           | Inr x \<Rightarrow> call (adopt_backup E b x) fail (\<lambda>y. ret (backup_status_of E b y))))"

subsection \<open>CleanupBackup and the watches\<close>

definition CleanupBackup :: "'w env \<Rightarrow> backup \<Rightarrow> ('w, bool) io" where
  "CleanupBackup E b =
     (let n = om_Name (b_Meta b) in
      call (cl_GetOpBackup E (om_Namespace (b_Meta b)) n)
        (\<lambda>e. if IsNotFound e then ret True else fail (Wrap (''get PerconaXtraDBClusterBackup '' @ Quote n) e))
        (\<lambda>x. if ShouldRetainBackupData E b \<and> ContainsFinalizer E (om_Finalizers (ob_Meta x)) pxcBackupDeleteDataFinalizer
           then call (cl_UpdateOpBackup E (x\<lparr>ob_Meta := (ob_Meta x)\<lparr>om_Finalizers :=
                    RemoveFinalizer E (om_Finalizers (ob_Meta x)) pxcBackupDeleteDataFinalizer\<rparr>\<rparr>))
                  (\<lambda>e. fail (Wrap (''remove backup finalizer on '' @ Quote n) e)) (\<lambda>_. ret False)
           else if IsZero_ptr (om_DeletionTimestamp (ob_Meta x))
           then call (cl_DeleteOpBackup E x)
                  (\<lambda>e. if IsNotFound e then ret False else fail (Wrap (''delete PerconaXtraDBClusterBackup '' @ Quote n) e)) (\<lambda>_. ret False)
           else ret False))"

text \<open>An operator backup's event is routed to the \<^verbatim>\<open>Backup\<close> of the same name (\<^verbatim>\<open>client.ObjectKeyFromObject\<close>).\<close>

definition BackupWatches :: "object_meta \<Rightarrow> namespaced_name list" where
  "BackupWatches m = [\<lparr>nn_Namespace = om_Namespace m, nn_Name = om_Name m\<rparr>]"

subsection \<open>What the runtime and the API promise\<close>

text \<open>The part of a \<^verbatim>\<open>Backup\<close> that a change of its labels leaves alone.\<close>

definition same_backup :: "backup \<Rightarrow> backup \<Rightarrow> bool" where
  "same_backup b c \<longleftrightarrow> om_Name (b_Meta c) = om_Name (b_Meta b) \<and> om_Namespace (b_Meta c) = om_Namespace (b_Meta b)
     \<and> b_InstanceRef c = b_InstanceRef b \<and> b_StorageRef c = b_StorageRef b \<and> b_ScheduleName c = b_ScheduleName b
     \<and> b_DeletionPolicy c = b_DeletionPolicy b"

definition owner_only :: "op_backup \<Rightarrow> op_backup \<Rightarrow> bool" where
  "owner_only x y \<longleftrightarrow> y = x\<lparr>ob_Meta := (ob_Meta x)\<lparr>om_OwnerReferences := om_OwnerReferences (ob_Meta y)\<rparr>\<rparr>"

lemma owner_onlyD:
  assumes "owner_only x y"
  shows "om_Name (ob_Meta y) = om_Name (ob_Meta x)" "om_Namespace (ob_Meta y) = om_Namespace (ob_Meta x)"
    "om_Finalizers (ob_Meta y) = om_Finalizers (ob_Meta x)" "ob_PXCCluster y = ob_PXCCluster x" "ob_StorageName y = ob_StorageName x"
  by (subst assms [unfolded owner_only_def], simp)+

locale backup_api = finalizer_ops "AddFinalizer E" "RemoveFinalizer E" "ContainsFinalizer E" for E :: "'w env" +
  assumes patched_backup: "exec (cl_PatchBackup E old new) w = (Ret b, w') \<Longrightarrow> same_backup new b"
    and retain_by_spec: "same_backup b c \<Longrightarrow> ShouldRetainBackupData E c = ShouldRetainBackupData E b"
    and owner_set: "SetBackupControllerReference E b x = Ret y \<Longrightarrow> owner_only x y"
begin

lemma ensured_owner: "ensureBackupControllerReference E b x = Ret y \<Longrightarrow> owner_only x y"
  by (auto simp: ensureBackupControllerReference_def dest: owner_set split: outcome.splits)

lemma labelled_same:
  assumes "keeps P (cl_PatchBackup E b (b\<lparr>b_Meta := (b_Meta b)\<lparr>om_Labels := (om_Labels (b_Meta b))(instanceNameLabelKey \<mapsto> the (b_InstanceRef b))\<rparr>\<rparr>))"
  shows "ensures P (label_backup E b) (\<lambda>c. same_backup b c \<and> b_InstanceRef c \<noteq> None)"
proof (cases "b_InstanceRef b")
  case (Some n)
  have "ensures P (cl_PatchBackup E b (b\<lparr>b_Meta := (b_Meta b)\<lparr>om_Labels := (om_Labels (b_Meta b))(instanceNameLabelKey \<mapsto> n)\<rparr>\<rparr>))
      (\<lambda>c. same_backup b c \<and> b_InstanceRef c \<noteq> None)"
    by (rule ensures_value) (use assms Some in \<open>auto simp: same_backup_def dest!: patched_backup\<close>)
  then show ?thesis
    unfolding label_backup_def with_instance_def Some
    by (intro ensures_call_lift ensures_if ensures_call [where R = "\<lambda>c. same_backup b c \<and> b_InstanceRef c \<noteq> None"])
      (auto simp: same_backup_def Some)
qed (auto simp: label_backup_def with_instance_def ensures_def exec_call)

end

subsection \<open>What SyncBackup writes\<close>

definition data_protected :: "'m lib_scheme \<Rightarrow> backup \<Rightarrow> op_backup \<Rightarrow> bool" where
  "data_protected L b x \<longleftrightarrow> (pxcBackupDeleteDataFinalizer \<in> set (om_Finalizers (ob_Meta x))) = (\<not> ShouldRetainBackupData L b)"

definition creates_for :: "'m lib_scheme \<Rightarrow> backup \<Rightarrow> op_backup \<Rightarrow> bool" where
  "creates_for L b x \<longleftrightarrow> managedByRuntime b \<and> om_Name (ob_Meta x) = om_Name (b_Meta b)
     \<and> om_Namespace (ob_Meta x) = om_Namespace (b_Meta b) \<and> b_InstanceRef b = Some (ob_PXCCluster x)
     \<and> ob_StorageName x = b_StorageRef b \<and> data_protected L b x"

definition patches_for :: "'m lib_scheme \<Rightarrow> backup \<Rightarrow> op_backup \<Rightarrow> op_backup \<Rightarrow> bool" where
  "patches_for L b x y \<longleftrightarrow> managedByRuntime b \<and> data_protected L b y
     \<and> y = x\<lparr>ob_Meta := (ob_Meta x)\<lparr>om_Finalizers := om_Finalizers (ob_Meta y), om_OwnerReferences := om_OwnerReferences (ob_Meta y)\<rparr>\<rparr>
     \<and> set (om_Finalizers (ob_Meta x)) - {pxcBackupDeleteDataFinalizer} = set (om_Finalizers (ob_Meta y)) - {pxcBackupDeleteDataFinalizer}"

context backup_api
begin

lemma protect_data_ok:
  assumes "managedByRuntime b" "same_backup b0 b" "owner_only (protect_data E b x) y"
  shows "patches_for E b0 x y"
proof -
  have b0: "managedByRuntime b0" "ShouldRetainBackupData E b = ShouldRetainBackupData E b0"
    using assms(1) retain_by_spec [OF assms(2)] assms(2) by (auto simp: managedByRuntime_def same_backup_def)
  note fs = owner_onlyD(3) [OF assms(3)]
  have "y = x\<lparr>ob_Meta := (ob_Meta x)\<lparr>om_Finalizers := om_Finalizers (ob_Meta y), om_OwnerReferences := om_OwnerReferences (ob_Meta y)\<rparr>\<rparr>"
    unfolding fs by (subst assms(3) [unfolded owner_only_def]) (simp add: protect_data_def)
  then show ?thesis
    using b0 fs by (auto simp: patches_for_def data_protected_def protect_data_def set_add set_remove)
qed

lemma new_op_backup_ok:
  assumes "managedByRuntime b" "same_backup b0 b" "b_InstanceRef b = Some i" "owner_only (new_op_backup E b i) y"
  shows "creates_for E b0 y"
  using assms(1-3) retain_by_spec [OF assms(2)] owner_onlyD [OF assms(4)]
  by (simp add: creates_for_def data_protected_def new_op_backup_def named_meta_def managedByRuntime_def same_backup_def)

lemma start_backup_ensures:
  assumes "\<And>ns n. keeps P (cl_GetOpBackup E ns n)" "\<And>ns n. keeps P (cl_GetPXC E ns n)"
    and "\<And>x. creates_for E b0 x \<Longrightarrow> keeps P (cl_CreateOpBackup E x)" and "same_backup b0 b"
  shows "ensures P (start_backup E b) (\<lambda>_. True)"
  unfolding start_backup_def with_instance_def Let_def
proof (intro ensures_steps assms(1,2) TrueI)
  fix i p x
  assume "\<not> \<not> managedByRuntime b" "deref (b_InstanceRef b) = Ret i" "ensureBackupControllerReference E b (new_op_backup E b i) = Ret x"
  then show "keeps P (cl_CreateOpBackup E x)"
    using assms(3) new_op_backup_ok [OF _ assms(4)] ensured_owner by (auto simp: deref_def split: option.splits)
qed

lemma adopt_backup_ensures:
  assumes "\<And>x y. patches_for E b0 x y \<Longrightarrow> keeps P (cl_PatchOpBackup E x y)" and "same_backup b0 b"
  shows "ensures P (adopt_backup E b x) (\<lambda>_. True)"
  unfolding adopt_backup_def
proof (intro ensures_steps TrueI)
  fix y
  assume "\<not> \<not> managedByRuntime b" "ensureBackupControllerReference E b (protect_data E b x) = Ret y"
  then show "keeps P (cl_PatchOpBackup E x y)"
    using assms(1) protect_data_ok [OF _ assms(2)] ensured_owner by auto
qed

lemma SyncBackup_keeps:
  assumes reads: "\<And>ns n. keeps P (cl_GetOpBackup E ns n)" "\<And>ns n. keeps P (cl_GetPXC E ns n)"
    and label: "\<And>c. same_backup b c \<Longrightarrow> keeps P (cl_PatchBackup E b c)"
    and create: "\<And>x. creates_for E b x \<Longrightarrow> keeps P (cl_CreateOpBackup E x)"
    and patch: "\<And>x y. patches_for E b x y \<Longrightarrow> keeps P (cl_PatchOpBackup E x y)"
  shows "keeps P (SyncBackup E b)"
  unfolding SyncBackup_def
proof (rule ensures_keeps, rule ensures_call)
  show "ensures P (label_backup E b) (\<lambda>c. same_backup b c \<and> b_InstanceRef c \<noteq> None)"
    by (rule labelled_same, rule label) (simp add: same_backup_def)
next
  fix c assume "same_backup b c \<and> b_InstanceRef c \<noteq> None"
  then show "ensures P (call (call (cl_GetOpBackup E (om_Namespace (b_Meta c)) (om_Name (b_Meta c)))
        (\<lambda>e. if IsNotFound e then start_backup E c else fail (Wrap (''get PerconaXtraDBClusterBackup '' @ Quote (om_Name (b_Meta c))) e))
        (\<lambda>x. ret (Inr x))) fail
      (\<lambda>r. case r of Inl ex \<Rightarrow> ret ex | Inr x \<Rightarrow> call (adopt_backup E c x) fail (\<lambda>y. ret (backup_status_of E c y)))) (\<lambda>_. True)"
    by (intro ensures_call [where R = "\<lambda>_. True"] ensures_if)
      (auto simp: keeps_ensures reads start_backup_ensures [OF reads create] split: sum.split
        intro!: ensures_call [where R = "\<lambda>_. True"] adopt_backup_ensures [OF patch])
qed simp

end

interpretation ref_backup_api: backup_api "ref_env i" for i
proof unfold_locales
  fix old new b w w'
  assume "exec (cl_PatchBackup (ref_env i) old new) w = (Ret b, w')"
  then show "same_backup new b"
    by (auto simp: same_backup_def store_write_def Let_def split: option.splits)
next
  fix b c :: backup
  assume "same_backup b c"
  then show "ShouldRetainBackupData (ref_env i) c = ShouldRetainBackupData (ref_env i) b" by (simp add: same_backup_def)
next
  fix b x y
  assume "SetBackupControllerReference (ref_env i) b x = Ret y"
  then show "owner_only x y"
    by (auto simp: bindO_Ret ref_controller_ref_def owner_only_def split: if_splits)
qed (simp_all add: ref_finalizers.contains_iff ref_finalizers.set_add ref_finalizers.set_remove)


definition all_protected :: "cluster \<Rightarrow> bool" where
  "all_protected w \<longleftrightarrow> (\<forall>x \<in> snd ` set (wl_OpBackups w). pxcBackupDeleteDataFinalizer \<in> set (om_Finalizers (ob_Meta x)))"

lemma set_AList_update: "set (AList.update k v xs) \<subseteq> insert (k, v) (set xs)"
  by (induction xs) auto

lemma all_protected_update:
  "all_protected w \<Longrightarrow> pxcBackupDeleteDataFinalizer \<in> set (om_Finalizers (ob_Meta x)) \<Longrightarrow>
     all_protected (wl_OpBackups_update (AList.update k x) w)"
  using set_AList_update [of k x "wl_OpBackups w"] by (fastforce simp: all_protected_def)

lemma all_protected_write:
  "all_protected w \<Longrightarrow> pxcBackupDeleteDataFinalizer \<in> set (om_Finalizers (ob_Meta x)) \<Longrightarrow>
     all_protected (wl_OpBackups_update (\<lambda>st. if c \<and> om_Finalizers (ob_Meta x) = []
       then AList.delete k st else AList.update k x st) w)"
  using all_protected_update [of w x k] by (cases "om_Finalizers (ob_Meta x)") auto


subsection \<open>The state reported\<close>

definition operator_reported :: "'w env \<Rightarrow> op_backup \<Rightarrow> bool" where
  "operator_reported E x \<longleftrightarrow> (\<exists>w w'. (\<exists>ns n. exec (cl_GetOpBackup E ns n) w = (Ret x, w'))
     \<or> (\<exists>y. exec (cl_CreateOpBackup E y) w = (Ret x, w')) \<or> (\<exists>y z. exec (cl_PatchOpBackup E y z) w = (Ret x, w')))"

lemma backup_status_of_states:
  "be_State (backup_status_of L b x) = BackupStateSucceeded \<longleftrightarrow> obs_State (ob_Status x) = BackupSucceeded"
  "be_State (backup_status_of L b x) = BackupStateFailed \<longleftrightarrow> obs_State (ob_Status x) = BackupFailed"
  "be_CompletedAt (backup_status_of L b x) = (if obs_State (ob_Status x) = BackupSucceeded then obs_CompletedAt (ob_Status x) else None)"
  "be_OperatorBackupRef (backup_status_of L b x) = backup_ref L b"
  by (simp_all add: backup_status_of_def Let_def split: op_backup_state.split)

lemma reported_get: "ensures (\<lambda>_. True) (cl_GetOpBackup E ns n) (operator_reported E)"
  and reported_create: "ensures (\<lambda>_. True) (cl_CreateOpBackup E y) (operator_reported E)"
  and reported_patch: "ensures (\<lambda>_. True) (cl_PatchOpBackup E y z) (operator_reported E)"
  unfolding operator_reported_def by (rule ensures_value, simp add: keeps_def, blast)+

lemma start_backup_reports:
  "ensures (\<lambda>_. True) (start_backup E b) (\<lambda>r. case r of Inl ex \<Rightarrow> \<exists>msg. ex = pending_backup E b msg | Inr x \<Rightarrow> operator_reported E x)"
  unfolding start_backup_def Let_def with_instance_def
  by (intro ensures_if ensures_call_lift ensures_call [OF reported_get] ensures_call [OF reported_create]
      ensures_call [where m = "cl_GetPXC E x y" and R = "\<lambda>_. True" for x y])
    (auto simp: ensures_def)

lemma adopt_backup_reports:
  "operator_reported E x \<Longrightarrow> ensures (\<lambda>_. True) (adopt_backup E b x) (operator_reported E)"
  unfolding adopt_backup_def
  by (intro ensures_if ensures_call_lift ensures_call [OF reported_patch]) auto

lemma SyncBackup_reports:
  "ensures (\<lambda>_. True) (SyncBackup E b) (\<lambda>ex. (\<exists>c msg. ex = pending_backup E c msg) \<or> (\<exists>c x. operator_reported E x \<and> ex = backup_status_of E c x))"
  unfolding SyncBackup_def
proof (intro ensures_call [where m = "label_backup E b" and R = "\<lambda>_. True"])
  fix c
  let ?R = "\<lambda>r. case r of Inl ex \<Rightarrow> \<exists>msg. ex = pending_backup E c msg | Inr x \<Rightarrow> operator_reported E x"
  show "ensures (\<lambda>_. True) (call (call (cl_GetOpBackup E (om_Namespace (b_Meta c)) (om_Name (b_Meta c)))
        (\<lambda>e. if IsNotFound e then start_backup E c else fail (Wrap (''get PerconaXtraDBClusterBackup '' @ Quote (om_Name (b_Meta c))) e))
        (\<lambda>x. ret (Inr x))) fail
      (\<lambda>r. case r of Inl ex \<Rightarrow> ret ex | Inr x \<Rightarrow> call (adopt_backup E c x) fail (\<lambda>y. ret (backup_status_of E c y))))
      (\<lambda>ex. (\<exists>c msg. ex = pending_backup E c msg) \<or> (\<exists>c x. operator_reported E x \<and> ex = backup_status_of E c x))"
  proof (rule ensures_call [where R = ?R])
    show "ensures (\<lambda>_. True) (call (cl_GetOpBackup E (om_Namespace (b_Meta c)) (om_Name (b_Meta c)))
        (\<lambda>e. if IsNotFound e then start_backup E c else fail (Wrap (''get PerconaXtraDBClusterBackup '' @ Quote (om_Name (b_Meta c))) e))
        (\<lambda>x. ret (Inr x))) ?R"
      by (rule ensures_call [OF reported_get]) (auto simp: start_backup_reports)
  next
    fix r assume "?R r"
    then show "ensures (\<lambda>_. True) (case r of Inl ex \<Rightarrow> ret ex | Inr x \<Rightarrow> call (adopt_backup E c x) fail (\<lambda>y. ret (backup_status_of E c y)))
      (\<lambda>ex. (\<exists>c msg. ex = pending_backup E c msg) \<or> (\<exists>c x. operator_reported E x \<and> ex = backup_status_of E c x))"
      by (auto split: sum.splits intro!: ensures_call [OF adopt_backup_reports] ensures_ret)
  qed simp
qed (simp_all add: ensures_def)


definition failed_op_backup :: op_backup where
  "failed_op_backup = (sample_op_backup ''b1'' 10 False)\<lparr>ob_Status := zero_op_backup_status\<lparr>obs_State := BackupFailed, obs_Error := ''no space''\<rparr>\<rparr>"

definition failed_backup_cluster :: cluster where
  "failed_backup_cluster = empty_cluster\<lparr>wl_OpBackups := [((''team-a'', ''b1''), failed_op_backup)],
     wl_Backups := [((''team-a'', ''b1''), sample_backup ''b1'' BackupStatePending 0)]\<rparr>"

lemma failed_backup_synced:
  "\<exists>ex w'. exec (SyncBackup (ref_env sample_inst) (sample_backup ''b1'' BackupStatePending 0)) failed_backup_cluster = (Ret ex, w')
     \<and> be_State ex = BackupStateFailed \<and> be_Message ex = ''no space''"
  by (simp add: SyncBackup_def label_backup_def with_instance_def exec_call failed_backup_cluster_def sample_defs map_str_def
      store_write_def Let_def failed_op_backup_def adopt_backup_def managedByRuntime_def immutableBackupSpecChangeMessage_def
      ensureBackupControllerReference_def ref_controller_ref_def protect_data_def backup_status_of_def zero_op_backup_status_def)


text \<open>
  A \<^verbatim>\<open>Backup\<close> whose origin names no Instance makes \<open>SyncBackup\<close> panic before any call, in every world.
\<close>

theorem sync_backup_needs_instance:
  "exec (SyncBackup E (b\<lparr>b_InstanceRef := None\<rparr>)) w = (Panic, w)"
  by (simp add: SyncBackup_def label_backup_def with_instance_def)

subsection \<open>Cleanup\<close>

text \<open>
  C35. \<open>CleanupBackup\<close> reports that the operator backup is gone exactly when the API says that it is
  not found. Otherwise it makes at most one write: when the data is retained and the deleting
  finalizer is still there it only removes that finalizer, and it deletes the operator backup only
  when no deletion has been asked for yet and, when the data is retained, the finalizer is off.
\<close>

theorem cleanup_backup_protects_data:
  fixes P :: "'w \<Rightarrow> bool"
  assumes fin: "finalizer_ops (AddFinalizer E) (RemoveFinalizer E) (ContainsFinalizer E)"
    and reads: "\<And>ns n. keeps P (cl_GetOpBackup E ns n)"
    and update: "\<And>x. ShouldRetainBackupData E b \<Longrightarrow> pxcBackupDeleteDataFinalizer \<notin> set (om_Finalizers (ob_Meta x)) \<Longrightarrow>
        keeps P (cl_UpdateOpBackup E x)"
    and delete: "\<And>x. IsZero_ptr (om_DeletionTimestamp (ob_Meta x)) \<Longrightarrow>
        ShouldRetainBackupData E b \<Longrightarrow> pxcBackupDeleteDataFinalizer \<notin> set (om_Finalizers (ob_Meta x)) \<Longrightarrow> keeps P (cl_DeleteOpBackup E x)"
    and delete_data: "\<And>x. IsZero_ptr (om_DeletionTimestamp (ob_Meta x)) \<Longrightarrow> \<not> ShouldRetainBackupData E b \<Longrightarrow> keeps P (cl_DeleteOpBackup E x)"
  shows "keeps P (CleanupBackup E b)
    \<and> (exec (CleanupBackup E b) w = (Ret True, w')) =
       (\<exists>e. exec (cl_GetOpBackup E (om_Namespace (b_Meta b)) (om_Name (b_Meta b))) w = (Err e, w') \<and> IsNotFound e)"
proof
  have "ensures P (CleanupBackup E b) (\<lambda>_. True)"
    unfolding CleanupBackup_def Let_def
  proof (intro ensures_steps reads TrueI)
    fix x :: op_backup
    assume *: "ShouldRetainBackupData E b \<and> ContainsFinalizer E (om_Finalizers (ob_Meta x)) pxcBackupDeleteDataFinalizer"
    show "keeps P (cl_UpdateOpBackup E (x\<lparr>ob_Meta := (ob_Meta x)\<lparr>om_Finalizers :=
        RemoveFinalizer E (om_Finalizers (ob_Meta x)) pxcBackupDeleteDataFinalizer\<rparr>\<rparr>))"
      by (rule update) (use * in \<open>simp_all add: finalizer_ops.set_remove [OF fin]\<close>)
  next
    fix x :: op_backup
    assume "\<not> (ShouldRetainBackupData E b \<and> ContainsFinalizer E (om_Finalizers (ob_Meta x)) pxcBackupDeleteDataFinalizer)"
      "IsZero_ptr (om_DeletionTimestamp (ob_Meta x))"
    then show "keeps P (cl_DeleteOpBackup E x)"
      using delete delete_data by (auto simp: finalizer_ops.contains_iff [OF fin])
  qed
  then show "keeps P (CleanupBackup E b)" by (rule ensures_keeps)
  show "(exec (CleanupBackup E b) w = (Ret True, w')) =
       (\<exists>e. exec (cl_GetOpBackup E (om_Namespace (b_Meta b)) (om_Name (b_Meta b))) w = (Err e, w') \<and> IsNotFound e)"
    by (auto simp: CleanupBackup_def Let_def exec_call split: prod.splits outcome.splits if_splits)
qed

definition retained_backup :: backup where
  "retained_backup = (sample_backup ''b1'' BackupStateSucceeded 10)\<lparr>b_DeletionPolicy := ''Retain''\<rparr>"

theorem cleanup_backup_protects_data_witness:
  "keeps (\<lambda>w. wl_Backups w = []) (CleanupBackup (ref_env sample_inst) retained_backup)
   \<and> exec (CleanupBackup (ref_env sample_inst) retained_backup) empty_cluster = (Ret True, empty_cluster)"
proof -
  have fin: "finalizer_ops (AddFinalizer (ref_env sample_inst)) (RemoveFinalizer (ref_env sample_inst)) (ContainsFinalizer (ref_env sample_inst))"
    by (simp add: ref_finalizers.finalizer_ops_axioms)
  have calls: "keeps (\<lambda>w. wl_Backups w = []) (cl_GetOpBackup (ref_env sample_inst) ns n)"
    "keeps (\<lambda>w. wl_Backups w = []) (cl_UpdateOpBackup (ref_env sample_inst) x)"
    "keeps (\<lambda>w. wl_Backups w = []) (cl_DeleteOpBackup (ref_env sample_inst) x)" for ns n x
    by (auto simp: keeps_def store_write_def store_delete_def Let_def split: option.split)
  show ?thesis
    using cleanup_backup_protects_data [OF fin calls(1) calls(2) calls(3) calls(3), of retained_backup empty_cluster empty_cluster]
    by (simp add: retained_backup_def sample_defs not_found_def)
qed

text \<open>Reconciling until the object is gone: how often \<open>CleanupBackup\<close> is called again.\<close>

fun repeat_cleanup :: "nat \<Rightarrow> 'w env \<Rightarrow> backup \<Rightarrow> ('w, bool) io" where
  "repeat_cleanup 0 E b = ret False"
| "repeat_cleanup (Suc n) E b = call (CleanupBackup E b) fail (\<lambda>done. if done then ret True else repeat_cleanup n E b)"

lemma store_gone: "map_of (AList.delete k st) k = None"
  by (simp add: delete_conv')



end
