(* ===== verification/Restores.thy ===== *)
theory Restores
  imports Backups
begin

text \<open>
  Restores, from internal/provider/backup.go: the choice of what to restore from (a named backup, or
  the base of a point-in-time recovery), \<open>SyncRestore\<close>, which creates or adopts the operator's restore
  and maps its state, \<open>CleanupRestore\<close>, the test for a restore in progress, and the routing of events.
  A status that the caller returns at once (\<^verbatim>\<open>pending\<close> in the source) is the left side of a sum.
\<close>

definition restore_ref :: "'m lib_scheme \<Rightarrow> restore \<Rightarrow> typed_ref" where
  "restore_ref L r = \<lparr>tr_Group = PXCGroup L, tr_Kind = ''PerconaXtraDBClusterRestore'', tr_Name = om_Name (re_Meta r)\<rparr>"

definition restore_status :: "restore_state \<Rightarrow> string \<Rightarrow> typed_ref \<Rightarrow> restore_exec" where
  "restore_status st msg opRef = \<lparr>rx_State = st, rx_Message = msg, rx_OperatorRestoreRef = opRef, rx_StartedAt = None, rx_CompletedAt = None\<rparr>"

subsection \<open>The source of a restore\<close>

definition resolveBackupSource :: "'w env \<Rightarrow> restore \<Rightarrow> typed_ref \<Rightarrow> ('w, restore_exec + string) io" where
  "resolveBackupSource E r opRef =
     (let ref = (case ds_Backup (re_DataSource r) of None \<Rightarrow> [] | Some n \<Rightarrow> n) in
      if ref = [] then ret (Inl (restore_status RestoreStateFailed ''Restore dataSource.backup.backupRef.name is required'' opRef))
      else call (cl_GetBackup E (om_Namespace (re_Meta r)) ref)
        (\<lambda>e. if IsNotFound e then ret (Inl (restore_status RestoreStatePending ''Waiting for source Backup'' opRef))
             else fail (Wrap (''get source Backup '' @ Quote ref) e))
        (\<lambda>sourceBackup. if b_State sourceBackup = BackupStateFailed
           then ret (Inl (restore_status RestoreStateFailed ''Source Backup failed; cannot restore'' opRef))
           else ret (Inr (om_Name (b_Meta sourceBackup)))))"

text \<open>The loop that keeps the best base so far; a backup in \<open>best\<close> has completed.\<close>

definition is_base :: "string \<Rightarrow> time option \<Rightarrow> backup \<Rightarrow> bool" where
  "is_base storageName date b \<longleftrightarrow>
     \<not> (b_StorageRef b \<noteq> storageName \<or> b_State b \<noteq> BackupStateSucceeded \<or> b_CompletedAt b = None) \<and>
     \<not> (case (date, b_CompletedAt b) of (Some d, Some t) \<Rightarrow> After t d | _ \<Rightarrow> False)"

definition newer :: "backup \<Rightarrow> backup \<Rightarrow> bool" where
  "newer b best \<longleftrightarrow> (case (b_CompletedAt b, b_CompletedAt best) of (Some t, Some u) \<Rightarrow> After t u | _ \<Rightarrow> False)"

fun best_base :: "string \<Rightarrow> time option \<Rightarrow> backup list \<Rightarrow> backup option \<Rightarrow> backup option" where
  "best_base storageName date [] best = best"
| "best_base storageName date (b # bs) best =
     (if \<not> is_base storageName date b then best_base storageName date bs best
      else best_base storageName date bs
        (case best of None \<Rightarrow> Some b | Some c \<Rightarrow> if newer b c then Some b else best))"

definition selectPITRBaseBackup :: "'w env \<Rightarrow> string \<Rightarrow> string \<Rightarrow> string \<Rightarrow> point_in_time \<Rightarrow> typed_ref \<Rightarrow> ('w, restore_exec + string) io" where
  "selectPITRBaseBackup E namespace instanceName storageName pitr opRef =
     call (cl_ListBackupsOfInstance E namespace instanceName)
       (\<lambda>e. ret (Inl (restore_status RestoreStatePending (''Listing backups for instance '' @ Quote instanceName @ '': '' @ Error e) opRef)))
       (\<lambda>items. case best_base storageName (pit_Date pitr) items None of
           Some best \<Rightarrow> ret (Inr (om_Name (b_Meta best)))
         | None \<Rightarrow>
           (let msg = ''No Succeeded backup of instance '' @ Quote instanceName @ '' on storage '' @ Quote storageName @ '' to recover from'';
                msg' = (case pit_Date pitr of None \<Rightarrow> msg | Some d \<Rightarrow> msg @ '' at or before '' @ Format_RFC3339 d)
            in ret (Inl (restore_status RestoreStatePending msg' opRef))))"

definition pitr_block :: "point_in_time \<Rightarrow> op_backup \<Rightarrow> op_pitr" where
  "pitr_block pitr x = \<lparr>op_BackupSource = ob_Status x, op_Type = pit_RecoveryTarget pitr,
     op_Date = (case pit_Date pitr of None \<Rightarrow> [] | Some d \<Rightarrow> Format_DateTime d)\<rparr>"

definition resolvePointInTimeSource :: "'w env \<Rightarrow> restore \<Rightarrow> typed_ref \<Rightarrow> ('w, restore_exec + string \<times> op_pitr option) io" where
  "resolvePointInTimeSource E r opRef =
     (case ds_PointInTime (re_DataSource r) of
        None \<Rightarrow> ret (Inl (restore_status RestoreStateFailed
          (''Restore dataSource.pointInTime is required when type is '' @ Quote ''PointInTime'') opRef))
      | Some pitr \<Rightarrow>
        if pit_RecoveryTarget pitr = RecoveryTargetDate \<and> pit_Date pitr = None
        then ret (Inl (restore_status RestoreStateFailed
          (''Restore dataSource.pointInTime.date is required when recoveryTarget is '' @ Quote ''date'') opRef))
        else (let sourceInstance = (case pit_SourceInstanceRef pitr of None \<Rightarrow> re_InstanceRef r | Some n \<Rightarrow> n) in
          call (selectPITRBaseBackup E (om_Namespace (re_Meta r)) sourceInstance (pit_SourceStorageRef pitr) pitr opRef) fail
            (\<lambda>sel. case sel of
                Inl pending \<Rightarrow> ret (Inl pending)
              | Inr base \<Rightarrow>
                call (cl_GetOpBackup E (om_Namespace (re_Meta r)) base)
                  (\<lambda>e. if IsNotFound e then ret (Inl (restore_status RestoreStatePending ''Waiting for operator backup'' opRef))
                       else fail (Wrap (''get operator backup '' @ Quote base) e))
                  (\<lambda>x. if obs_State (ob_Status x) = BackupFailed
                     then ret (Inl (restore_status RestoreStateFailed
                       (if obs_Error (ob_Status x) \<noteq> [] then obs_Error (ob_Status x) else ''Operator backup failed; cannot run PITR'') opRef))
                     else if obs_State (ob_Status x) \<noteq> BackupSucceeded
                     then ret (Inl (restore_status RestoreStatePending ''Waiting for operator backup to complete'' opRef))
                     else ret (Inr (base, Some (pitr_block pitr x)))))))"

definition resolveRestoreSource :: "'w env \<Rightarrow> restore \<Rightarrow> typed_ref \<Rightarrow> ('w, restore_exec + string \<times> op_pitr option) io" where
  "resolveRestoreSource E r opRef =
     (case ds_Type (re_DataSource r) of
        DataSourceTypeBackup \<Rightarrow> call (resolveBackupSource E r opRef) fail
          (\<lambda>s. case s of Inl pending \<Rightarrow> ret (Inl pending) | Inr name \<Rightarrow> ret (Inr (name, None)))
      | DataSourceTypePointInTime \<Rightarrow> resolvePointInTimeSource E r opRef
      | DataSourceTypeOther t \<Rightarrow> ret (Inl (restore_status RestoreStateFailed (''Unsupported dataSource type '' @ Quote t) opRef)))"

subsection \<open>SyncRestore\<close>

definition label_restore :: "'w env \<Rightarrow> restore \<Rightarrow> ('w, restore) io" where
  "label_restore E r =
     (if map_str (om_Labels (re_Meta r)) instanceNameLabelKey \<noteq> re_InstanceRef r
      then call (cl_PatchRestore E r (r\<lparr>re_Meta := (re_Meta r)\<lparr>om_Labels := (om_Labels (re_Meta r))(instanceNameLabelKey \<mapsto> re_InstanceRef r)\<rparr>\<rparr>))
        (\<lambda>e. fail (Wrap (''patch Restore '' @ Quote (om_Name (re_Meta r)) @ '' labels'') e)) ret
      else ret r)"

definition setRestoreControllerReference :: "'w env \<Rightarrow> restore \<Rightarrow> op_restore \<Rightarrow> op_restore outcome" where
  "setRestoreControllerReference E r x =
     (case SetRestoreControllerReference E r x of Err e \<Rightarrow> Err (Wrap ''set restore controller reference'' e) | o' \<Rightarrow> o')"

definition new_op_restore :: "restore \<Rightarrow> string \<Rightarrow> op_pitr option \<Rightarrow> op_restore" where
  "new_op_restore r opBackupName desiredPITR =
     \<lparr>ore_Meta = named_meta (om_Namespace (re_Meta r)) (om_Name (re_Meta r)), ore_PXCCluster = re_InstanceRef r,
      ore_BackupName = opBackupName, ore_PITR = desiredPITR, ore_State = RestoreOther [], ore_Comments = [], ore_CompletedAt = None\<rparr>"

definition start_restore :: "'w env \<Rightarrow> restore \<Rightarrow> string \<Rightarrow> op_pitr option \<Rightarrow> ('w, op_restore) io" where
  "start_restore E r opBackupName desiredPITR =
     (let ns = om_Namespace (re_Meta r); n = om_Name (re_Meta r) in
      call (lift_outcome (setRestoreControllerReference E r (new_op_restore r opBackupName desiredPITR))) fail (\<lambda>x.
        call (cl_CreateOpRestore E x)
          (\<lambda>e. if IsAlreadyExists e
               then call (cl_GetOpRestore E ns n)
                 (\<lambda>e'. fail (Wrap (''get PerconaXtraDBClusterRestore '' @ Quote n @ '' after AlreadyExists'') e')) ret
               else fail (Wrap (''create PerconaXtraDBClusterRestore '' @ Quote n) e))
          ret))"

definition restore_status_of :: "'m lib_scheme \<Rightarrow> restore \<Rightarrow> op_restore \<Rightarrow> restore_exec" where
  "restore_status_of L r x =
     (let out = \<lparr>rx_State = RestoreStatePending, rx_Message = OpRestoreStateText L (ore_State x),
                 rx_OperatorRestoreRef = restore_ref L r, rx_StartedAt = started_at (ore_Meta x), rx_CompletedAt = None\<rparr>;
          running = out\<lparr>rx_State := RestoreStateRunning, rx_Message := ''Restore is running''\<rparr> in
      case ore_State x of
        RestoreFailed \<Rightarrow> (let out' = out\<lparr>rx_State := RestoreStateFailed\<rparr> in
          if ore_Comments x \<noteq> [] then out'\<lparr>rx_Message := ore_Comments x\<rparr> else out')
      | RestoreSucceeded \<Rightarrow> out\<lparr>rx_State := RestoreStateSucceeded, rx_CompletedAt := ore_CompletedAt x, rx_Message := ''Restore completed''\<rparr>
      | RestoreStarting \<Rightarrow> running | RestoreStopCluster \<Rightarrow> running | RestoreRestore \<Rightarrow> running
      | RestoreStartCluster \<Rightarrow> running | RestorePITR \<Rightarrow> running | RestorePrepareCluster \<Rightarrow> running
      | RestoreOther _ \<Rightarrow> out\<lparr>rx_State := RestoreStatePending, rx_Message := ''Restore is pending''\<rparr>)"

definition SyncRestore :: "'w env \<Rightarrow> restore \<Rightarrow> ('w, restore_exec) io" where
  "SyncRestore E restore0 =
     call (label_restore E restore0) fail (\<lambda>r.
       let n = om_Name (re_Meta r) in
       call (resolveRestoreSource E r (restore_ref E r)) fail (\<lambda>src.
         case src of
           Inl pending \<Rightarrow> ret pending
         | Inr (opBackupName, desiredPITR) \<Rightarrow>
           call (call (cl_GetOpRestore E (om_Namespace (re_Meta r)) n)
                  (\<lambda>e. if IsNotFound e then start_restore E r opBackupName desiredPITR
                       else fail (Wrap (''get PerconaXtraDBClusterRestore '' @ Quote n) e)) ret)
             fail
             (\<lambda>x. call (lift_outcome (setRestoreControllerReference E r x)) fail (\<lambda>y.
                call (cl_PatchOpRestore E x y) (\<lambda>e. fail (Wrap (''patch PerconaXtraDBClusterRestore '' @ Quote n) e))
                  (\<lambda>z. ret (restore_status_of E r z))))))"

subsection \<open>CleanupRestore, activity and watches\<close>

definition CleanupRestore :: "'w env \<Rightarrow> restore \<Rightarrow> ('w, bool) io" where
  "CleanupRestore E r =
     (let n = om_Name (re_Meta r) in
      call (cl_GetOpRestore E (om_Namespace (re_Meta r)) n)
        (\<lambda>e. if IsNotFound e then ret True else fail (Wrap (''get PerconaXtraDBClusterRestore '' @ Quote n) e))
        (\<lambda>x. if IsZero_ptr (om_DeletionTimestamp (ore_Meta x))
           then call (cl_DeleteOpRestore E x)
             (\<lambda>e. if IsNotFound e then ret False else fail (Wrap (''delete PerconaXtraDBClusterRestore '' @ Quote n) e)) (\<lambda>_. ret False)
           else ret False))"

fun active_restore :: "string \<Rightarrow> restore list \<Rightarrow> bool" where
  "active_restore instanceName [] = False"
| "active_restore instanceName (r # rs) =
     (if re_InstanceRef r \<noteq> instanceName \<or> \<not> IsZero_ptr (om_DeletionTimestamp (re_Meta r)) then active_restore instanceName rs
      else (case re_State r of
              RestoreStateSucceeded \<Rightarrow> active_restore instanceName rs
            | RestoreStateFailed \<Rightarrow> active_restore instanceName rs
            | _ \<Rightarrow> True))"

definition hasActiveRestoreForInstance :: "'w env \<Rightarrow> string \<Rightarrow> string \<Rightarrow> ('w, bool) io" where
  "hasActiveRestoreForInstance E namespace instanceName =
     call (cl_ListRestores E namespace)
       (\<lambda>e. fail (Wrap (''list Restore resources for instance '' @ Quote instanceName) e))
       (\<lambda>items. ret (active_restore instanceName items))"

definition enqueueRestoreInstance :: "client_object \<Rightarrow> namespaced_name list" where
  "enqueueRestoreInstance obj =
     (case obj of
        RestoreObj r \<Rightarrow> if re_InstanceRef r = [] then []
          else [\<lparr>nn_Namespace = om_Namespace (re_Meta r), nn_Name = re_InstanceRef r\<rparr>]
      | _ \<Rightarrow> [])"

definition RestoreWatches :: "object_meta \<Rightarrow> namespaced_name list" where
  "RestoreWatches m = [\<lparr>nn_Namespace = om_Namespace m, nn_Name = om_Name m\<rparr>]"

subsection \<open>The base of a point-in-time recovery\<close>

text \<open>When a usable base completed; \<open>0\<close> never matters, for a base has completed.\<close>

definition base_time :: "backup \<Rightarrow> time" where
  "base_time b = (case b_CompletedAt b of Some t \<Rightarrow> t | None \<Rightarrow> 0)"

lemma is_base_iff:
  "is_base storage date b \<longleftrightarrow> b_StorageRef b = storage \<and> b_State b = BackupStateSucceeded \<and>
     b_CompletedAt b = Some (base_time b) \<and> (\<forall>d. date = Some d \<longrightarrow> base_time b \<le> d)"
  by (auto simp: is_base_def base_time_def After_def split: option.splits)

lemma newer_iff: "is_base s d b \<Longrightarrow> is_base s d c \<Longrightarrow> newer b c \<longleftrightarrow> base_time c < base_time b"
  by (auto simp: newer_def is_base_iff After_def)

lemma best_base_result:
  assumes "\<forall>c. best = Some c \<longrightarrow> is_base s d c"
  shows "case best_base s d bs best of
      None \<Rightarrow> best = None \<and> (\<forall>b \<in> set bs. \<not> is_base s d b)
    | Some r \<Rightarrow> is_base s d r \<and> (r \<in> set bs \<or> best = Some r) \<and>
        (\<forall>b \<in> set bs. is_base s d b \<longrightarrow> base_time b \<le> base_time r) \<and> (\<forall>c. best = Some c \<longrightarrow> base_time c \<le> base_time r)"
  using assms
proof (induction bs arbitrary: best)
  case (Cons b bs)
  show ?case
  proof (cases "is_base s d b")
    case True
    let ?best = "case best of None \<Rightarrow> Some b | Some c \<Rightarrow> if newer b c then Some b else best"
    have "\<forall>c. ?best = Some c \<longrightarrow> is_base s d c" using True Cons.prems by (auto split: option.splits)
    from Cons.IH [OF this] True Cons.prems show ?thesis
      by (cases best) (fastforce simp: newer_iff split: option.splits if_splits)+
  next
    case False
    with Cons.IH [OF Cons.prems] show ?thesis by (auto split: option.splits)
  qed
qed (auto split: option.split)

lemmas best_base_of_all = best_base_result [where best = None, simplified]

text \<open>A backup that a recovery to a date can start from, with the time it completed.\<close>

definition usable_base :: "string \<Rightarrow> time option \<Rightarrow> backup \<Rightarrow> time \<Rightarrow> bool" where
  "usable_base storage date b t \<longleftrightarrow> b_StorageRef b = storage \<and> b_State b = BackupStateSucceeded \<and> b_CompletedAt b = Some t
     \<and> (case date of None \<Rightarrow> True | Some d \<Rightarrow> t \<le> d)"

lemma usable_base_iff: "usable_base s d b t \<longleftrightarrow> is_base s d b \<and> t = base_time b"
  by (auto simp: usable_base_def is_base_iff base_time_def split: option.splits)

text \<open>
  C4. The base backup of a point-in-time recovery is a Succeeded backup of the source Instance on the
  named storage that completed at or before the target, and none of those completed later; when the
  list of backups holds no such backup the restore stays pending.
\<close>

theorem pitr_base_is_newest_before_target:
  "(exec (selectPITRBaseBackup E ns i storage pitr opRef) w = (Ret (Inr n), w') \<longrightarrow>
     (\<exists>items b t. exec (cl_ListBackupsOfInstance E ns i) w = (Ret items, w') \<and> b \<in> set items \<and> om_Name (b_Meta b) = n
        \<and> usable_base storage (pit_Date pitr) b t
        \<and> (\<forall>c \<in> set items. \<forall>u. usable_base storage (pit_Date pitr) c u \<longrightarrow> u \<le> t)))
   \<and> (exec (cl_ListBackupsOfInstance E ns i) w = (Ret items, w') \<longrightarrow>
        (\<exists>n. exec (selectPITRBaseBackup E ns i storage pitr opRef) w = (Ret (Inr n), w')) =
        (\<exists>b \<in> set items. \<exists>t. usable_base storage (pit_Date pitr) b t))"
  unfolding usable_base_iff
proof (intro conjI impI)
  assume "exec (selectPITRBaseBackup E ns i storage pitr opRef) w = (Ret (Inr n), w')"
  then obtain items b where "exec (cl_ListBackupsOfInstance E ns i) w = (Ret items, w')"
    "best_base storage (pit_Date pitr) items None = Some b" "om_Name (b_Meta b) = n"
    by (auto simp: selectPITRBaseBackup_def exec_call Let_def split: prod.splits outcome.splits option.splits)
  with best_base_of_all [where s = storage and d = "pit_Date pitr" and bs = items]
  show "\<exists>items b t. exec (cl_ListBackupsOfInstance E ns i) w = (Ret items, w') \<and> b \<in> set items \<and> om_Name (b_Meta b) = n
        \<and> (is_base storage (pit_Date pitr) b \<and> t = base_time b)
        \<and> (\<forall>c \<in> set items. \<forall>u. is_base storage (pit_Date pitr) c \<and> u = base_time c \<longrightarrow> u \<le> t)"
    by auto
next
  assume "exec (cl_ListBackupsOfInstance E ns i) w = (Ret items, w')"
  with best_base_of_all [where s = storage and d = "pit_Date pitr" and bs = items]
  show "(\<exists>n. exec (selectPITRBaseBackup E ns i storage pitr opRef) w = (Ret (Inr n), w')) =
        (\<exists>b \<in> set items. \<exists>t. is_base storage (pit_Date pitr) b \<and> t = base_time b)"
    by (auto simp: selectPITRBaseBackup_def Let_def split: option.splits)
qed

definition target_20 :: point_in_time where
  "target_20 = \<lparr>pit_RecoveryTarget = ''date'', pit_Date = Some 20, pit_SourceInstanceRef = None, pit_SourceStorageRef = ''s3''\<rparr>"

definition three_backups :: cluster where
  "three_backups = empty_cluster\<lparr>wl_Backups := [((''team-a'', ''b1''), sample_backup ''b1'' BackupStateSucceeded 10),
     ((''team-a'', ''b2''), sample_backup ''b2'' BackupStateSucceeded 15), ((''team-a'', ''b3''), sample_backup ''b3'' BackupStateSucceeded 30)]\<rparr>"

lemma three_backups_base:
  "exec (selectPITRBaseBackup (ref_env sample_inst) ''team-a'' ''db'' ''s3'' target_20 undefined) three_backups = (Ret (Inr ''b2''), three_backups)"
  by (simp add: selectPITRBaseBackup_def exec_call three_backups_def sample_defs target_20_def is_base_def newer_def After_def)

theorem pitr_base_is_newest_before_target_witness:
  "\<exists>items b t. exec (cl_ListBackupsOfInstance (ref_env sample_inst) ''team-a'' ''db'') three_backups = (Ret items, three_backups)
     \<and> b \<in> set items \<and> om_Name (b_Meta b) = ''b2'' \<and> usable_base ''s3'' (Some 20) b t"
  using pitr_base_is_newest_before_target [THEN conjunct1, rule_format, OF three_backups_base]
  by (auto simp: target_20_def)


definition restore_to :: "data_source \<Rightarrow> restore" where
  "restore_to src = \<lparr>re_Meta = (named_meta ''team-a'' ''r1'')\<lparr>om_UID := ''ur1''\<rparr>, re_InstanceRef = ''db'', re_DataSource = src, re_State = RestoreStatePending\<rparr>"

definition pitr_source :: data_source where
  "pitr_source = \<lparr>ds_Type = DataSourceTypePointInTime, ds_Backup = None, ds_PointInTime = Some target_20\<rparr>"

definition pitr_cluster :: cluster where
  "pitr_cluster = three_backups\<lparr>wl_OpBackups := [((''team-a'', ''b2''), sample_op_backup ''b2'' 15 False)]\<rparr>"

lemma pitr_cluster_resolved:
  "exec (resolvePointInTimeSource (ref_env sample_inst) (restore_to pitr_source) undefined) pitr_cluster =
     (Ret (Inr (''b2'', Some (pitr_block target_20 (sample_op_backup ''b2'' 15 False)))), pitr_cluster)"
proof -
  have "exec (selectPITRBaseBackup (ref_env sample_inst) ''team-a'' ''db'' ''s3'' target_20 undefined) pitr_cluster = (Ret (Inr ''b2''), pitr_cluster)"
    by (simp add: selectPITRBaseBackup_def exec_call pitr_cluster_def three_backups_def sample_defs target_20_def is_base_def newer_def After_def)
  then show ?thesis
    by (simp add: resolvePointInTimeSource_def pitr_source_def restore_to_def named_meta_def target_20_def pitr_cluster_def
        sample_op_backup_def exec_call)
qed


subsection \<open>Restoring a named backup\<close>

text \<open>
  C38. A restore of a named backup goes ahead exactly when that \<^verbatim>\<open>Backup\<close> exists and has not failed;
  one that is still pending or running is accepted too.
\<close>

theorem backup_source_accepts:
  "(exec (resolveBackupSource E r opRef) w = (Ret (Inr n), w')) =
     (\<exists>ref b. ds_Backup (re_DataSource r) = Some ref \<and> ref \<noteq> []
        \<and> exec (cl_GetBackup E (om_Namespace (re_Meta r)) ref) w = (Ret b, w') \<and> om_Name (b_Meta b) = n
        \<and> b_State b \<noteq> BackupStateFailed)
   \<and> (\<exists>b. b_State b = BackupStateRunning \<and>
        exec (resolveBackupSource (ref_env sample_inst) (restore_to \<lparr>ds_Type = DataSourceTypeBackup, ds_Backup = Some ''b1'', ds_PointInTime = None\<rparr>) opRef)
          (empty_cluster\<lparr>wl_Backups := [((''team-a'', ''b1''), b)]\<rparr>) = (Ret (Inr ''b1''), empty_cluster\<lparr>wl_Backups := [((''team-a'', ''b1''), b)]\<rparr>))"
proof
  show "(exec (resolveBackupSource E r opRef) w = (Ret (Inr n), w')) =
     (\<exists>ref b. ds_Backup (re_DataSource r) = Some ref \<and> ref \<noteq> []
        \<and> exec (cl_GetBackup E (om_Namespace (re_Meta r)) ref) w = (Ret b, w') \<and> om_Name (b_Meta b) = n
        \<and> b_State b \<noteq> BackupStateFailed)"
    by (cases "ds_Backup (re_DataSource r)")
      (auto simp: resolveBackupSource_def Let_def exec_call split: prod.splits outcome.splits)
  show "\<exists>b. b_State b = BackupStateRunning \<and>
        exec (resolveBackupSource (ref_env sample_inst) (restore_to \<lparr>ds_Type = DataSourceTypeBackup, ds_Backup = Some ''b1'', ds_PointInTime = None\<rparr>) opRef)
          (empty_cluster\<lparr>wl_Backups := [((''team-a'', ''b1''), b)]\<rparr>) = (Ret (Inr ''b1''), empty_cluster\<lparr>wl_Backups := [((''team-a'', ''b1''), b)]\<rparr>)"
    by (rule exI [of _ "sample_backup ''b1'' BackupStateRunning 10"])
      (simp add: resolveBackupSource_def Let_def exec_call restore_to_def sample_backup_def named_meta_def)
qed

subsection \<open>What SyncRestore writes and reports\<close>

text \<open>The part of a \<^verbatim>\<open>Restore\<close> that a change of its labels leaves alone, and the laws the restore reconciler relies on.\<close>

definition same_restore :: "restore \<Rightarrow> restore \<Rightarrow> bool" where
  "same_restore r s \<longleftrightarrow> om_Name (re_Meta s) = om_Name (re_Meta r) \<and> om_Namespace (re_Meta s) = om_Namespace (re_Meta r)
     \<and> re_InstanceRef s = re_InstanceRef r \<and> re_DataSource s = re_DataSource r"

definition restore_owner_only :: "op_restore \<Rightarrow> op_restore \<Rightarrow> bool" where
  "restore_owner_only x y \<longleftrightarrow> y = x\<lparr>ore_Meta := (ore_Meta x)\<lparr>om_OwnerReferences := om_OwnerReferences (ore_Meta y)\<rparr>\<rparr>"

lemma restore_owner_onlyD:
  assumes "restore_owner_only x y"
  shows "om_Name (ore_Meta y) = om_Name (ore_Meta x)" "om_Namespace (ore_Meta y) = om_Namespace (ore_Meta x)"
    "ore_PXCCluster y = ore_PXCCluster x"
  by (subst assms [unfolded restore_owner_only_def], simp)+

locale restore_api =
  fixes E :: "'w env"
  assumes patched_restore: "exec (cl_PatchRestore E old new) w = (Ret r, w') \<Longrightarrow> same_restore new r"
    and restore_owner_set: "SetRestoreControllerReference E r x = Ret y \<Longrightarrow> restore_owner_only x y"
begin

lemma set_restore_owner: "setRestoreControllerReference E r x = Ret y \<Longrightarrow> restore_owner_only x y"
  by (auto simp: setRestoreControllerReference_def dest: restore_owner_set split: outcome.splits)

lemma labelled_restore:
  assumes "\<And>s. same_restore r s \<Longrightarrow> keeps P (cl_PatchRestore E r s)"
  shows "ensures P (label_restore E r) (same_restore r)"
  unfolding label_restore_def
proof (intro ensures_if ensures_call [where R = "same_restore r"])
  let ?new = "r\<lparr>re_Meta := (re_Meta r)\<lparr>om_Labels := (om_Labels (re_Meta r))(instanceNameLabelKey \<mapsto> re_InstanceRef r)\<rparr>\<rparr>"
  have same: "same_restore r ?new" by (simp add: same_restore_def)
  show "ensures P (cl_PatchRestore E r ?new) (same_restore r)"
    by (rule ensures_value, rule assms [OF same]) (auto simp: same_restore_def dest!: patched_restore)
qed (simp_all add: same_restore_def)

end

interpretation ref_restore_api: restore_api "ref_env i" for i
proof unfold_locales
  fix old new r w w'
  assume "exec (cl_PatchRestore (ref_env i) old new) w = (Ret r, w')"
  then show "same_restore new r" by (auto simp: same_restore_def store_write_def Let_def split: option.splits)
next
  fix r x y
  assume "SetRestoreControllerReference (ref_env i) r x = Ret y"
  then show "restore_owner_only x y" by (auto simp: bindO_Ret ref_controller_ref_def restore_owner_only_def split: if_splits)
qed

definition starts_for :: "restore \<Rightarrow> op_restore \<Rightarrow> bool" where
  "starts_for r x \<longleftrightarrow> om_Name (ore_Meta x) = om_Name (re_Meta r) \<and> om_Namespace (ore_Meta x) = om_Namespace (re_Meta r)
     \<and> ore_PXCCluster x = re_InstanceRef r"

locale restore_reads = restore_api E for E :: "'w env" +
  fixes P :: "'w \<Rightarrow> bool"
  assumes reads: "keeps P (cl_GetBackup E ns n)" "keeps P (cl_GetOpBackup E ns n)" "keeps P (cl_GetOpRestore E ns n)"
    "keeps P (cl_ListBackupsOfInstance E ns n)"
begin

lemma select_keeps: "ensures P (selectPITRBaseBackup E ns i storage pitr opRef) (\<lambda>_. True)"
  unfolding selectPITRBaseBackup_def Let_def by (rule ensures_call_keeps [OF reads(4)]) (simp_all split: option.split)

lemma resolve_keeps: "ensures P (resolveRestoreSource E r opRef) (\<lambda>_. True)"
proof -
  have named: "ensures P (resolveBackupSource E r opRef) (\<lambda>_. True)"
    unfolding resolveBackupSource_def Let_def by (intro ensures_if ensures_call_keeps reads) simp_all
  have pitr: "ensures P (resolvePointInTimeSource E r opRef) (\<lambda>_. True)"
    unfolding resolvePointInTimeSource_def Let_def
    by (auto split: option.split sum.split intro!: ensures_call [OF select_keeps] ensures_call_keeps reads)
  show ?thesis
    unfolding resolveRestoreSource_def
    by (auto split: data_source_type.split sum.split intro!: ensures_call [OF named] pitr)
qed

lemma start_restore_keeps:
  assumes "\<And>x. starts_for r0 x \<Longrightarrow> keeps P (cl_CreateOpRestore E x)" "same_restore r0 r"
  shows "ensures P (start_restore E r n pitr) (\<lambda>_. True)"
  unfolding start_restore_def Let_def
proof (intro ensures_call_lift ensures_call_keeps ensures_if reads)
  fix x assume "setRestoreControllerReference E r (new_op_restore r n pitr) = Ret x"
  from restore_owner_onlyD [OF set_restore_owner [OF this]] assms(2)
  have "starts_for r0 x" by (simp add: starts_for_def new_op_restore_def named_meta_def same_restore_def)
  then show "keeps P (cl_CreateOpRestore E x)" by (rule assms(1))
qed simp_all

lemma SyncRestore_keeps:
  assumes label: "\<And>s. same_restore r s \<Longrightarrow> keeps P (cl_PatchRestore E r s)"
    and create: "\<And>x. starts_for r x \<Longrightarrow> keeps P (cl_CreateOpRestore E x)"
    and patch: "\<And>x y. restore_owner_only x y \<Longrightarrow> keeps P (cl_PatchOpRestore E x y)"
  shows "keeps P (SyncRestore E r)"
proof -
  have "ensures P (SyncRestore E r) (\<lambda>_. True)"
    unfolding SyncRestore_def Let_def
  proof (rule ensures_call [OF labelled_restore [OF label]])
    fix s assume same: "same_restore r s"
    have get: "ensures P (call (cl_GetOpRestore E (om_Namespace (re_Meta s)) (om_Name (re_Meta s)))
        (\<lambda>e. if IsNotFound e then start_restore E s opBackupName desiredPITR
             else fail (Wrap (''get PerconaXtraDBClusterRestore '' @ Quote (om_Name (re_Meta s))) e)) ret) (\<lambda>_. True)"
      for opBackupName desiredPITR
      by (intro ensures_call_keeps reads ensures_if start_restore_keeps [OF create same]) simp_all
    show "ensures P (call (resolveRestoreSource E s (restore_ref E s)) fail (\<lambda>src. case src of
           Inl pending \<Rightarrow> ret pending
         | Inr (opBackupName, desiredPITR) \<Rightarrow>
           call (call (cl_GetOpRestore E (om_Namespace (re_Meta s)) (om_Name (re_Meta s)))
                  (\<lambda>e. if IsNotFound e then start_restore E s opBackupName desiredPITR
                       else fail (Wrap (''get PerconaXtraDBClusterRestore '' @ Quote (om_Name (re_Meta s))) e)) ret)
             fail
             (\<lambda>x. call (lift_outcome (setRestoreControllerReference E s x)) fail (\<lambda>y.
                call (cl_PatchOpRestore E x y) (\<lambda>e. fail (Wrap (''patch PerconaXtraDBClusterRestore '' @ Quote (om_Name (re_Meta s))) e))
                  (\<lambda>z. ret (restore_status_of E s z)))))) (\<lambda>_. True)"
      by (rule ensures_call [OF resolve_keeps])
        (auto split: sum.split intro!: ensures_call [OF get] ensures_call_lift ensures_call_keeps patch set_restore_owner)
  qed simp_all
  then show ?thesis by (rule ensures_keeps)
qed

end


interpretation ref_restore_reads: restore_reads "ref_env i" P for i P
  by unfold_locales (simp_all add: keeps_def)


definition operator_restore_reported :: "'w env \<Rightarrow> op_restore \<Rightarrow> bool" where
  "operator_restore_reported E x \<longleftrightarrow> (\<exists>y z w w'. exec (cl_PatchOpRestore E y z) w = (Ret x, w'))"

lemma restore_status_of_states:
  "rx_State (restore_status_of L r x) = RestoreStateSucceeded \<longleftrightarrow> ore_State x = RestoreSucceeded"
  "rx_State (restore_status_of L r x) = RestoreStateFailed \<longleftrightarrow> ore_State x = RestoreFailed"
  "rx_CompletedAt (restore_status_of L r x) = (if ore_State x = RestoreSucceeded then ore_CompletedAt x else None)"
  by (simp_all add: restore_status_of_def Let_def split: op_restore_state.split)

text \<open>What the source can make of a restore without asking the operator: waiting, or a failure.\<close>

definition source_verdict :: "restore_exec \<Rightarrow> bool" where
  "source_verdict ex \<longleftrightarrow> (\<exists>msg opRef. ex = restore_status RestoreStatePending msg opRef \<or> ex = restore_status RestoreStateFailed msg opRef)"

lemma resolve_verdict:
  assumes "exec (resolveRestoreSource E r opRef) w = (Ret (Inl ex), w')"
  shows "source_verdict ex"
proof (cases "ds_Type (re_DataSource r)")
  case DataSourceTypeBackup
  with assms show ?thesis
    by (auto simp: resolveRestoreSource_def resolveBackupSource_def Let_def exec_call source_verdict_def
        split: prod.splits outcome.splits sum.splits if_splits)
next
  case DataSourceTypePointInTime
  have "source_verdict pending" if "exec (selectPITRBaseBackup E ns i st pitr opRef) v = (Ret (Inl pending), v')" for ns i st pitr v v' pending
    using that by (auto simp: selectPITRBaseBackup_def Let_def exec_call source_verdict_def split: prod.splits outcome.splits option.splits)
  with assms DataSourceTypePointInTime show ?thesis
    by (cases "ds_PointInTime (re_DataSource r)")
      (force simp: resolveRestoreSource_def resolvePointInTimeSource_def Let_def exec_call source_verdict_def
        split: prod.splits outcome.splits sum.splits if_splits)+
qed (use assms in \<open>auto simp: resolveRestoreSource_def source_verdict_def\<close>)


lemma unsupported_source_failed:
  "exec (SyncRestore (ref_env sample_inst) (restore_to \<lparr>ds_Type = DataSourceTypeOther ''Clone'', ds_Backup = None, ds_PointInTime = None\<rparr>))
     (empty_cluster\<lparr>wl_Restores := [((''team-a'', ''r1''), restore_to pitr_source)]\<rparr>) =
   (Ret (restore_status RestoreStateFailed (''Unsupported dataSource type '' @ Quote ''Clone'')
        (restore_ref (ref_env sample_inst) (restore_to pitr_source))),
    empty_cluster\<lparr>wl_Restores := [((''team-a'', ''r1''), (restore_to \<lparr>ds_Type = DataSourceTypeOther ''Clone'', ds_Backup = None, ds_PointInTime = None\<rparr>)
       \<lparr>re_Meta := (named_meta ''team-a'' ''r1'')\<lparr>om_UID := ''ur1'', om_Labels := [''instanceName'' \<mapsto> ''db'']\<rparr>\<rparr>)]\<rparr>)"
  by (simp add: SyncRestore_def label_restore_def exec_call restore_to_def named_meta_def map_str_def instanceNameLabelKey_def
      store_write_def Let_def resolveRestoreSource_def restore_ref_def)


subsection \<open>Restores in progress\<close>

definition in_progress :: "string \<Rightarrow> restore \<Rightarrow> bool" where
  "in_progress i r \<longleftrightarrow> re_InstanceRef r = i \<and> IsZero_ptr (om_DeletionTimestamp (re_Meta r))
     \<and> re_State r \<noteq> RestoreStateSucceeded \<and> re_State r \<noteq> RestoreStateFailed"

lemma active_restore_iff: "active_restore i rs \<longleftrightarrow> (\<exists>r \<in> set rs. in_progress i r)"
  by (induction rs) (auto simp: in_progress_def split: restore_state.splits)

text \<open>
  An Instance counts as being restored exactly when the namespace holds a Restore for it that is
  neither deleted nor finished; and every such Restore is routed to that Instance when it changes,
  so the end of the restore is noticed.
\<close>

theorem active_restore_detected:
  "(exec (hasActiveRestoreForInstance E ns i) w = (Ret b, w')) =
     (\<exists>items. exec (cl_ListRestores E ns) w = (Ret items, w') \<and> b = (\<exists>r \<in> set items. in_progress i r))
   \<and> (i \<noteq> [] \<and> in_progress i r \<longrightarrow> enqueueRestoreInstance (RestoreObj r) = [\<lparr>nn_Namespace = om_Namespace (re_Meta r), nn_Name = i\<rparr>])"
proof
  show "(exec (hasActiveRestoreForInstance E ns i) w = (Ret b, w')) =
     (\<exists>items. exec (cl_ListRestores E ns) w = (Ret items, w') \<and> b = (\<exists>r \<in> set items. in_progress i r))"
    by (auto simp: hasActiveRestoreForInstance_def exec_call active_restore_iff split: prod.splits outcome.splits)
qed (auto simp: enqueueRestoreInstance_def in_progress_def)

theorem active_restore_detected_witness:
  "exec (hasActiveRestoreForInstance (ref_env sample_inst) ''team-a'' ''db'') (empty_cluster\<lparr>wl_Restores := [((''team-a'', ''r1''), restore_to pitr_source)]\<rparr>)
     = (Ret True, empty_cluster\<lparr>wl_Restores := [((''team-a'', ''r1''), restore_to pitr_source)]\<rparr>)
   \<and> enqueueRestoreInstance (RestoreObj (restore_to pitr_source)) = [\<lparr>nn_Namespace = ''team-a'', nn_Name = ''db''\<rparr>]"
  using active_restore_detected [of "ref_env sample_inst" "''team-a''" "''db''" "empty_cluster\<lparr>wl_Restores := [((''team-a'', ''r1''), restore_to pitr_source)]\<rparr>"
      True "empty_cluster\<lparr>wl_Restores := [((''team-a'', ''r1''), restore_to pitr_source)]\<rparr>" "restore_to pitr_source"]
  by (simp add: in_progress_def restore_to_def named_meta_def IsZero_ptr_def)

subsection \<open>Cleanup\<close>

text \<open>Reconciling until the operator restore is gone.\<close>

fun repeat_cleanup_restore :: "nat \<Rightarrow> 'w env \<Rightarrow> restore \<Rightarrow> ('w, bool) io" where
  "repeat_cleanup_restore 0 E r = ret False"
| "repeat_cleanup_restore (Suc n) E r = call (CleanupRestore E r) fail (\<lambda>finished. if finished then ret True else repeat_cleanup_restore n E r)"

lemma CleanupRestore_completes:
  "(exec (CleanupRestore E r) w = (Ret True, w')) =
     (\<exists>e. exec (cl_GetOpRestore E (om_Namespace (re_Meta r)) (om_Name (re_Meta r))) w = (Err e, w') \<and> IsNotFound e)"
  by (auto simp: CleanupRestore_def Let_def exec_call split: prod.splits outcome.splits if_splits)

text \<open>
  Cleaning up a \<^verbatim>\<open>Restore\<close> is complete exactly when the API does not find its operator restore. Against
  the reference store, an operator restore that is already being deleted is left as it is, and one that is
  not and has no finalizers is gone after two reconciles, while every other operator restore is kept.
\<close>

theorem cleanup_restore_converges:
  "((exec (CleanupRestore E r) v = (Ret True, v')) =
      (\<exists>e. exec (cl_GetOpRestore E (om_Namespace (re_Meta r)) (om_Name (re_Meta r))) v = (Err e, v') \<and> IsNotFound e))
   \<and> (map_of (wl_OpRestores w) (meta_key (re_Meta r)) = Some x \<and> meta_key (ore_Meta x) = meta_key (re_Meta r) \<longrightarrow>
        (if \<not> IsZero_ptr (om_DeletionTimestamp (ore_Meta x)) then exec (CleanupRestore (ref_env i) r) w = (Ret False, w)
         else if om_Finalizers (ore_Meta x) = [] then \<exists>w'. exec (repeat_cleanup_restore 2 (ref_env i) r) w = (Ret True, w')
            \<and> map_of (wl_OpRestores w') = (map_of (wl_OpRestores w))(meta_key (re_Meta r) := None)
         else True))"
proof (intro conjI impI CleanupRestore_completes)
  let ?k = "meta_key (re_Meta r)"
  assume x: "map_of (wl_OpRestores w) ?k = Some x \<and> meta_key (ore_Meta x) = ?k"
  have del: "exec (CleanupRestore (ref_env i) r) w = (Ret False, wl_OpRestores_update (AList.delete ?k) w)"
    if "IsZero_ptr (om_DeletionTimestamp (ore_Meta x))" "om_Finalizers (ore_Meta x) = []"
    using that x by (simp add: CleanupRestore_def Let_def exec_call store_delete_def meta_key_def)
  have gone: "exec (CleanupRestore (ref_env i) r) (wl_OpRestores_update (AList.delete ?k) w) = (Ret True, wl_OpRestores_update (AList.delete ?k) w)"
    by (simp add: CleanupRestore_def Let_def exec_call meta_key_def delete_conv' not_found_def)
  have busy: "exec (CleanupRestore (ref_env i) r) w = (Ret False, w)" if "\<not> IsZero_ptr (om_DeletionTimestamp (ore_Meta x))"
    using that x by (simp add: CleanupRestore_def Let_def exec_call meta_key_def)
  show "if \<not> IsZero_ptr (om_DeletionTimestamp (ore_Meta x)) then exec (CleanupRestore (ref_env i) r) w = (Ret False, w)
         else if om_Finalizers (ore_Meta x) = [] then \<exists>w'. exec (repeat_cleanup_restore 2 (ref_env i) r) w = (Ret True, w')
            \<and> map_of (wl_OpRestores w') = (map_of (wl_OpRestores w))(?k := None)
         else True"
    using busy del gone by (simp add: numeral_2_eq_2 exec_call delete_conv')
qed

definition op_restore_r1 :: op_restore where
  "op_restore_r1 = new_op_restore (restore_to pitr_source) ''b1'' None"

theorem cleanup_restore_converges_witness:
  "\<exists>w'. exec (repeat_cleanup_restore 2 (ref_env sample_inst) (restore_to pitr_source)) (empty_cluster\<lparr>wl_OpRestores := [((''team-a'', ''r1''), op_restore_r1)]\<rparr>) = (Ret True, w')"
  using cleanup_restore_converges [of "ref_env sample_inst" "restore_to pitr_source" empty_cluster empty_cluster
      "empty_cluster\<lparr>wl_OpRestores := [((''team-a'', ''r1''), op_restore_r1)]\<rparr>" op_restore_r1 sample_inst]
  by (auto simp: op_restore_r1_def new_op_restore_def restore_to_def named_meta_def meta_key_def IsZero_ptr_def)

end
