(* ===== verification/Scheduling.thy ===== *)
theory Scheduling
  imports Images
begin

text \<open>
  internal/provider/scheduling.go: where the pods of a component run, and the labels by which the
  runtime finds them.
\<close>

definition applyScheduling :: "'m lib_scheme \<Rightarrow> pod_spec \<Rightarrow> scheduling_policy option \<Rightarrow> (string \<rightharpoonup> string) \<Rightarrow> string \<Rightarrow> pod_spec" where
  "applyScheduling L spec policy podLabels antiAffinityKey =
     (let off = \<lparr>pa_TopologyKey = Some antiAffinityKey, pa_Advanced = None\<rparr>;
          affinity = (case policy of None \<Rightarrow> off
            | Some p \<Rightarrow> (case sp_Affinity p of None \<Rightarrow> off | Some a \<Rightarrow> \<lparr>pa_TopologyKey = None, pa_Advanced = Some a\<rparr>))
      in spec\<lparr>ps_Affinity := Some affinity, ps_TopologySpreadConstraints := TopologySpreadConstraints L policy podLabels\<rparr>)"

text \<open>Changes of one part of the cluster's spec.\<close>

definition on_spec :: "(pxc_spec \<Rightarrow> pxc_spec) \<Rightarrow> pxc \<Rightarrow> pxc" where
  "on_spec f p = p\<lparr>pc_Spec := f (pc_Spec p)\<rparr>"

definition on_haproxy :: "(haproxy_spec \<Rightarrow> haproxy_spec) \<Rightarrow> pxc_spec \<Rightarrow> pxc_spec" where
  "on_haproxy f s = s\<lparr>px_HAProxy := map_option f (px_HAProxy s)\<rparr>"

definition on_proxysql :: "(proxysql_spec \<Rightarrow> proxysql_spec) \<Rightarrow> pxc_spec \<Rightarrow> pxc_spec" where
  "on_proxysql f s = s\<lparr>px_ProxySQL := map_option f (px_ProxySQL s)\<rparr>"

text \<open>The engine's pod spec is read through a pointer.\<close>

definition on_engine :: "(pod_spec \<Rightarrow> pod_spec) \<Rightarrow> pxc \<Rightarrow> pxc outcome" where
  "on_engine f p = bindO (deref (px_PXC (pc_Spec p))) (\<lambda>e. Ret (on_spec (px_PXC_update (\<lambda>_. Some (f e))) p))"

definition labelPods :: "'w env \<Rightarrow> pxc \<Rightarrow> pxc outcome" where
  "labelPods E p = bindO (on_engine (ps_Labels_update (\<lambda>_. ctx_PodLabels E ComponentEngine)) p) (\<lambda>p1.
     Ret (on_spec (\<lambda>s. on_proxysql (pq_Pod_update (ps_Labels_update (\<lambda>_. ctx_PodLabels E ComponentProxy)))
                     (on_haproxy (ha_Pod_update (ps_Labels_update (\<lambda>_. ctx_PodLabels E ComponentProxy))) s)) p1))"

lemma on_spec_simps [simp]: "pc_Spec (on_spec f p) = f (pc_Spec p)" "pc_Meta (on_spec f p) = pc_Meta p" "pc_Status (on_spec f p) = pc_Status p"
  by (simp_all add: on_spec_def)

lemma on_engine_Ret: "on_engine f p = Ret q \<longleftrightarrow> (\<exists>e. px_PXC (pc_Spec p) = Some e \<and> q = on_spec (px_PXC_update (\<lambda>_. Some (f e))) p)"
  by (auto simp: on_engine_def bindO_Ret deref_def split: option.splits)

text \<open>
  The affinity is the user's own, or the operator's anti-affinity by the given key; never both.
\<close>

lemma applyScheduling_affinity:
  "ps_Affinity (applyScheduling L spec policy ls key) =
     Some (case Option.bind policy sp_Affinity of
       None \<Rightarrow> \<lparr>pa_TopologyKey = Some key, pa_Advanced = None\<rparr> | Some a \<Rightarrow> \<lparr>pa_TopologyKey = None, pa_Advanced = Some a\<rparr>)"
  by (auto simp: applyScheduling_def Let_def split: option.split)

lemma applyScheduling_rest [simp]:
  "ps_Enabled (applyScheduling L spec policy ls key) = ps_Enabled spec"
  "ps_Size (applyScheduling L spec policy ls key) = ps_Size spec"
  "ps_Image (applyScheduling L spec policy ls key) = ps_Image spec"
  "ps_Resources (applyScheduling L spec policy ls key) = ps_Resources spec"
  "ps_VolumeSpec (applyScheduling L spec policy ls key) = ps_VolumeSpec spec"
  "ps_Sidecars (applyScheduling L spec policy ls key) = ps_Sidecars spec"
  by (simp_all add: applyScheduling_def Let_def)

end
