(* ===== verification/Metrics.thy ===== *)
theory Metrics
  imports Scheduling Samples
begin

text \<open>
  internal/provider/metrics.go: the \<^verbatim>\<open>mysqld_exporter\<close> sidecar of the engine pods, added while a class
  bound to the Instance requires metrics and kept as it is while that is not known.
\<close>

definition monitorUser :: string where "monitorUser = ''monitor''"
definition mysqldExporterContainerName :: string where "mysqldExporterContainerName = ''mysqld-exporter''"
definition mysqldExporterPort :: int32 where "mysqldExporterPort = 9104"
definition metricsPortName :: string where "metricsPortName = ''metrics''"
definition metricsPath :: string where "metricsPath = ''/metrics''"

abbreviation PullIfNotPresent :: string where "PullIfNotPresent \<equiv> ''IfNotPresent''"

definition mysqldExporterContainer :: "string \<Rightarrow> string \<Rightarrow> container" where
  "mysqldExporterContainer img usersSecretName =
     \<lparr>co_Name = mysqldExporterContainerName, co_Image = img, co_ImagePullPolicy = PullIfNotPresent,
      co_Args = [''--mysqld.address=127.0.0.1:3306'', ''--mysqld.username='' @ monitorUser],
      co_Env = [\<lparr>ev_Name = ''MYSQLD_EXPORTER_PASSWORD'', ev_Value = [], ev_SecretKeyRef = Some (usersSecretName, monitorUser)\<rparr>],
      co_Ports = [\<lparr>cp_Name = metricsPortName, cp_ContainerPort = mysqldExporterPort, cp_Protocol = ''TCP''\<rparr>]\<rparr>"

definition hasMetricsExporter :: "pxc option \<Rightarrow> bool" where
  "hasMetricsExporter p = (case p of None \<Rightarrow> False
     | Some q \<Rightarrow> (case px_PXC (pc_Spec q) of None \<Rightarrow> False
         | Some e \<Rightarrow> list_ex (\<lambda>c. co_Name c = mysqldExporterContainerName) (ps_Sidecars e)))"

definition applyMetricsExporter :: "'m lib_scheme \<Rightarrow> pxc \<Rightarrow> pxc option \<Rightarrow> requirement \<Rightarrow> provider_spec \<Rightarrow> pxc outcome" where
  "applyMetricsExporter L p live required providerSpec =
     (if \<not> RequirementElse L required (hasMetricsExporter live) then Ret p
      else (let img = defaultImageForComponentType L providerSpec ComponentTypeMySQLDExporter in
        if img = [] then Err (Msg (''cannot resolve image for component type '' @ Quote ComponentTypeMySQLDExporter))
        else on_engine (\<lambda>e. e\<lparr>ps_Sidecars := ps_Sidecars e @ [mysqldExporterContainer img (px_SecretsName (pc_Spec p))]\<rparr>) p))"

subsection \<open>When the sidecar is there\<close>

text \<open>\<^verbatim>\<open>Requirement.Else\<close>: a known answer, or the fallback while it is not known.\<close>

locale requirement_else =
  fixes els :: "requirement \<Rightarrow> bool \<Rightarrow> bool"
  assumes else_required: "els Required b" and else_not: "\<not> els NotRequired b" and else_unknown: "els Undetermined b = b"
begin

lemma else_cases: "els r b \<longleftrightarrow> r = Required \<or> r = Undetermined \<and> b"
  by (cases r) (simp_all add: else_required else_not else_unknown)

end

interpretation ref_else: requirement_else "RequirementElse (ref_env i)" for i
  by unfold_locales simp_all

lemma has_exporter_appended:
  "px_PXC (pc_Spec p) = Some e \<Longrightarrow>
     hasMetricsExporter (Some (on_spec (px_PXC_update (\<lambda>_. Some (e\<lparr>ps_Sidecars := ps_Sidecars e @ [mysqldExporterContainer img s]\<rparr>))) p))"
  by (simp add: hasMetricsExporter_def mysqldExporterContainer_def)

text \<open>
  When the exporter settings are applied to a cluster that has no sidecar yet, the result has it
  exactly when metrics are required, or when that is not known and the live cluster has it; with an
  image, the monitoring user and the password from the cluster's own users Secret. So while the
  requirement is unknown a running cluster does not roll its pods.
\<close>

theorem exporter_follows_requirement:
  assumes "requirement_else (RequirementElse L)" and "\<not> hasMetricsExporter (Some p)"
    and "applyMetricsExporter L p live required spec = Ret q"
  shows "hasMetricsExporter (Some q) = (required = Required \<or> required = Undetermined \<and> hasMetricsExporter live)
    \<and> (hasMetricsExporter (Some q) \<longrightarrow> (\<exists>e f img. px_PXC (pc_Spec p) = Some e \<and> px_PXC (pc_Spec q) = Some f \<and> img \<noteq> []
        \<and> ps_Sidecars f = ps_Sidecars e @ [mysqldExporterContainer img (px_SecretsName (pc_Spec p))]))
    \<and> (hasMetricsExporter (Some q) \<or> q = p)"
proof (cases "RequirementElse L required (hasMetricsExporter live)")
  case True
  with assms(3) obtain img e where img: "img \<noteq> []" and e: "px_PXC (pc_Spec p) = Some e"
    and q: "q = on_spec (px_PXC_update (\<lambda>_. Some (e\<lparr>ps_Sidecars := ps_Sidecars e @ [mysqldExporterContainer img (px_SecretsName (pc_Spec p))]\<rparr>))) p"
    by (auto simp: applyMetricsExporter_def Let_def on_engine_Ret split: if_splits)
  have "hasMetricsExporter (Some q)" unfolding q by (rule has_exporter_appended [OF e])
  moreover have "required = Required \<or> required = Undetermined \<and> hasMetricsExporter live"
    using True requirement_else.else_cases [OF assms(1)] by simp
  moreover have "px_PXC (pc_Spec q) = Some (e\<lparr>ps_Sidecars := ps_Sidecars e @ [mysqldExporterContainer img (px_SecretsName (pc_Spec p))]\<rparr>)"
    by (simp add: q)
  ultimately show ?thesis using e img by auto
next
  case False
  with assms requirement_else.else_cases [OF assms(1)] show ?thesis by (auto simp: applyMetricsExporter_def)
qed

definition engine_only :: pxc where
  "engine_only = \<lparr>pc_Meta = named_meta ''team-a'' ''db'',
     pc_Spec = \<lparr>px_UpdateStrategy = [], px_UpgradeApply = [], px_UpgradeSchedule = [], px_VolumeExpansionEnabled = True,
       px_CRVersion = [], px_SecretsName = ''everest-secrets-db'', px_PXC = Some zero_pod, px_HAProxy = None, px_ProxySQL = None,
       px_Unsafe = \<lparr>uf_PXCSize = False, uf_ProxySize = False\<rparr>, px_Backup = None, px_PMM = None\<rparr>,
     pc_Status = \<lparr>pst_State = AppStateReady, pst_Messages = [], pst_Host = [], pst_PXCReady = 1, pst_HAProxyReady = 0\<rparr>\<rparr>"

definition exporter_catalogue :: provider_spec where
  "exporter_catalogue = \<lparr>prs_ComponentTypes = [''mysqld-exporter'' \<mapsto> \<lparr>ct_DefaultVersion = ''0.15'',
     ct_Versions = [\<lparr>cv_Version = ''0.15'', cv_Image = ''exporter:0.15''\<rparr>]\<rparr>], prs_Versions = []\<rparr>"

lemma exporter_applied:
  "applyMetricsExporter (ref_env sample_inst) engine_only None Required exporter_catalogue =
     Ret (on_spec (px_PXC_update (\<lambda>_. Some (zero_pod\<lparr>ps_Sidecars := [mysqldExporterContainer ''exporter:0.15'' ''everest-secrets-db'']\<rparr>))) engine_only)"
  by (simp add: applyMetricsExporter_def Let_def defaultImageForComponentType_def ref_default_image_def exporter_catalogue_def
      ComponentTypeMySQLDExporter_def on_engine_def engine_only_def zero_pod_def)

theorem exporter_follows_requirement_witness:
  "hasMetricsExporter (Some (on_spec (px_PXC_update (\<lambda>_. Some (zero_pod\<lparr>ps_Sidecars := [mysqldExporterContainer ''exporter:0.15'' ''everest-secrets-db'']\<rparr>))) engine_only))"
proof -
  have "\<not> hasMetricsExporter (Some engine_only)" by (simp add: hasMetricsExporter_def engine_only_def zero_pod_def)
  from exporter_follows_requirement [OF ref_else.requirement_else_axioms this exporter_applied] show ?thesis by blast
qed

end
