(* ===== verification/Mysql_Configs.thy ===== *)
theory Mysql_Configs
  imports Samples
begin

text \<open>
  internal/provider/mysql_configs.go: the four \<^verbatim>\<open>my.cnf\<close> presets, the memory an engine may use, and the
  choice of a preset from it and the number of replicas. The theorems give the choice as a table of
  sizes and show, from the text of the presets, that the buffer pool fits the memory of the pod.
\<close>

definition newline :: char where "newline = CHR 0x0A"

subsection \<open>The presets\<close>

definition linesSmall :: "string list" where
  "linesSmall = [
     ''[mysqld]'',
     ''binlog_cache_size = 131072'',
     ''binlog_expire_logs_seconds = 604800'',
     ''binlog_format = ROW'',
     ''binlog_stmt_cache_size = 131072'',
     ''global-connection-memory-limit = 18446744073709551615'',
     ''global-connection-memory-tracking = false'',
     ''innodb_adaptive_hash_index = True'',
     ''innodb_buffer_pool_chunk_size = 2097152'',
     ''innodb_buffer_pool_instances = 1'',
     ''innodb_buffer_pool_size = 1398838681'',
     ''innodb_ddl_threads = 2'',
     ''innodb_flush_log_at_trx_commit = 2'',
     ''innodb_flush_method = O_DIRECT'',
     ''innodb_io_capacity_max = 1800'',
     ''innodb_monitor_enable = ALL'',
     ''innodb_page_cleaners = 1'',
     ''innodb_parallel_read_threads = 1'',
     ''innodb_purge_threads = 4'',
     ''innodb_redo_log_capacity = 415269664'',
     ''join_buffer_size = 524288'',
     ''max_connections = 152'',
     ''max_heap_table_size = 16777216'',
     ''read_rnd_buffer_size = 393216'',
     ''replica_compressed_protocol = 1'',
     ''replica_exec_mode = STRICT'',
     ''replica_parallel_type = LOGICAL_CLOCK'',
     ''replica_parallel_workers = 4'',
     ''replica_preserve_commit_order = ON'',
     ''sort_buffer_size = 524288'',
     ''sql_mode = '' @ [CHR 0x27] @ ''ONLY_FULL_GROUP_BY,STRICT_TRANS_TABLES,NO_ZERO_IN_DATE,NO_ZERO_DATE,ERROR_FOR_DIVISION_BY_ZERO,NO_ENGINE_SUBSTITUTION,TRADITIONAL,STRICT_ALL_TABLES'' @ [CHR 0x27],
     ''sync_binlog = 1'',
     ''table_definition_cache = 4096'',
     ''table_open_cache = 4096'',
     ''table_open_cache_instances = 4'',
     ''tablespace_definition_cache = 512'',
     ''thread_cache_size = 11'',
     ''thread_pool_size = 4'',
     ''thread_stack = 1048576'',
     ''tmp_table_size = 16777216'',
     ''wsrep_slave_threads = 1'',
     ''wsrep_sync_wait = 3'',
     ''wsrep_trx_fragment_size = 1048576'',
     ''wsrep_trx_fragment_unit = bytes'',
     ''wsrep-provider-options = evs.delayed_keep_period=PT545S;evs.inactive_timeout=PT90S;gmcast.peer_timeout=PT11S;gmcast.time_wait=PT13S;pc.linger=PT45S;evs.delay_margin=PT22S;evs.suspect_timeout=PT45S;gcs.fc_limit=96;gcs.max_packet_size=98304;evs.send_window=768;evs.user_send_window=768;evs.join_retrans_period=PT3S;evs.inactive_check_period=PT3S;evs.stats_report_period=PT1M;evs.max_install_timeouts=3;pc.announce_timeout=PT45S;pc.recovery=true;gcache.size=477560113;gcache.recover=yes;'',
     ''    '']"

definition pxcConfigSizeSmall :: string where
  "pxcConfigSizeSmall = Join linesSmall [newline]"

definition linesMedium :: "string list" where
  "linesMedium = [
     ''[mysqld]'',
     ''binlog_cache_size = 131072'',
     ''binlog_expire_logs_seconds = 604800'',
     ''binlog_format = ROW'',
     ''binlog_stmt_cache_size = 131072'',
     ''global-connection-memory-limit = 18446744073709551615'',
     ''global-connection-memory-tracking = false'',
     ''innodb_adaptive_hash_index = True'',
     ''innodb_buffer_pool_chunk_size = 2097152'',
     ''innodb_buffer_pool_instances = 6'',
     ''innodb_buffer_pool_size = 5512928528'',
     ''innodb_flush_log_at_trx_commit = 2'',
     ''innodb_flush_method = O_DIRECT'',
     ''innodb_io_capacity_max = 1800'',
     ''innodb_monitor_enable = ALL'',
     ''innodb_page_cleaners = 6'',
     ''innodb_parallel_read_threads = 3'',
     ''innodb_purge_threads = 4'',
     ''innodb_redo_log_capacity = 1710392192'',
     ''join_buffer_size = 524288'',
     ''max_connections = 802'',
     ''max_heap_table_size = 16777216'',
     ''read_rnd_buffer_size = 393216'',
     ''replica_compressed_protocol = 1'',
     ''replica_exec_mode = STRICT'',
     ''replica_parallel_type = LOGICAL_CLOCK'',
     ''replica_parallel_workers = 4'',
     ''replica_preserve_commit_order = ON'',
     ''sort_buffer_size = 524288'',
     ''sql_mode = '' @ [CHR 0x27] @ ''ONLY_FULL_GROUP_BY,STRICT_TRANS_TABLES,NO_ZERO_IN_DATE,NO_ZERO_DATE,ERROR_FOR_DIVISION_BY_ZERO,NO_ENGINE_SUBSTITUTION,TRADITIONAL,STRICT_ALL_TABLES'' @ [CHR 0x27],
     ''sync_binlog = 1'',
     ''table_definition_cache = 4096'',
     ''table_open_cache = 4096'',
     ''table_open_cache_instances = 4'',
     ''tablespace_definition_cache = 512'',
     ''thread_cache_size = 24'',
     ''thread_pool_size = 6'',
     ''thread_stack = 1048576'',
     ''tmp_table_size = 16777216'',
     ''wsrep_slave_threads = 1'',
     ''wsrep_sync_wait = 3'',
     ''wsrep_trx_fragment_size = 1048576'',
     ''wsrep_trx_fragment_unit = bytes'',
     ''wsrep-provider-options = evs.suspect_timeout=PT45S;gcs.max_packet_size=98365;evs.delay_margin=PT22S;evs.inactive_timeout=PT90S;evs.join_retrans_period=PT3S;gmcast.peer_timeout=PT11S;gcache.size=1966951020;evs.send_window=768;evs.user_send_window=768;evs.max_install_timeouts=3;pc.linger=PT45S;evs.stats_report_period=PT1M;gcs.fc_limit=96;gmcast.time_wait=PT13S;evs.inactive_check_period=PT3S;pc.announce_timeout=PT45S;pc.recovery=true;gcache.recover=yes;evs.delayed_keep_period=PT545S;'',
     [CHR 0x09]]"

definition pxcConfigSizeMedium :: string where
  "pxcConfigSizeMedium = Join linesMedium [newline]"

definition linesLarge :: "string list" where
  "linesLarge = [
     ''[mysqld]'',
     ''binlog_cache_size = 131072'',
     ''binlog_expire_logs_seconds = 604800'',
     ''binlog_format = ROW'',
     ''binlog_stmt_cache_size = 131072'',
     ''global-connection-memory-limit = 18446744073709551615'',
     ''global-connection-memory-tracking = false'',
     ''innodb_adaptive_hash_index = True'',
     ''innodb_buffer_pool_chunk_size = 2097152'',
     ''innodb_buffer_pool_instances = 6'',
     ''innodb_buffer_pool_size = 23154566817'',
     ''innodb_flush_log_at_trx_commit = 2'',
     ''innodb_flush_method = O_DIRECT'',
     ''innodb_io_capacity_max = 1800'',
     ''innodb_monitor_enable = ALL'',
     ''innodb_page_cleaners = 6'',
     ''innodb_parallel_read_threads = 3'',
     ''innodb_purge_threads = 4'',
     ''innodb_redo_log_capacity = 7816840704'',
     ''join_buffer_size = 524288'',
     ''max_connections = 1602'',
     ''max_heap_table_size = 16777216'',
     ''read_rnd_buffer_size = 393216'',
     ''replica_compressed_protocol = 1'',
     ''replica_exec_mode = STRICT'',
     ''replica_parallel_type = LOGICAL_CLOCK'',
     ''replica_parallel_workers = 4'',
     ''replica_preserve_commit_order = ON'',
     ''sort_buffer_size = 524288'',
     ''sql_mode = '' @ [CHR 0x27] @ ''ONLY_FULL_GROUP_BY,STRICT_TRANS_TABLES,NO_ZERO_IN_DATE,NO_ZERO_DATE,ERROR_FOR_DIVISION_BY_ZERO,NO_ENGINE_SUBSTITUTION,TRADITIONAL,STRICT_ALL_TABLES'' @ [CHR 0x27],
     ''sync_binlog = 1'',
     ''table_definition_cache = 4096'',
     ''table_open_cache = 4096'',
     ''table_open_cache_instances = 4'',
     ''tablespace_definition_cache = 512'',
     ''thread_cache_size = 40'',
     ''thread_pool_size = 6'',
     ''thread_stack = 1048576'',
     ''tmp_table_size = 16777216'',
     ''wsrep_slave_threads = 1'',
     ''wsrep_sync_wait = 3'',
     ''wsrep_trx_fragment_size = 1048576'',
     ''wsrep_trx_fragment_unit = bytes'',
     ''wsrep-provider-options = evs.delayed_keep_period=PT560S;evs.stats_report_period=PT1M;gcs.fc_limit=128;gmcast.peer_timeout=PT15S;gmcast.time_wait=PT18S;evs.max_install_timeouts=5;pc.recovery=true;gcache.recover=yes;gcache.size=8989366809;evs.delay_margin=PT30S;evs.user_send_window=1024;evs.inactive_check_period=PT5S;evs.join_retrans_period=PT5S;evs.suspect_timeout=PT60S;gcs.max_packet_size=131072;pc.linger=PT60S;evs.send_window=1024;evs.inactive_timeout=PT120S;pc.announce_timeout=PT60S;'',
     [CHR 0x09]]"

definition pxcConfigSizeLarge :: string where
  "pxcConfigSizeLarge = Join linesLarge [newline]"

definition linesTiny :: "string list" where
  "linesTiny = [
     ''[mysqld]'',
     ''binlog_format = ROW'',
     ''innodb_buffer_pool_size = 128M'',
     ''innodb_buffer_pool_instances = 1'',
     ''innodb_buffer_pool_chunk_size = 2097152'',
     ''innodb_redo_log_capacity = 32M'',
     ''max_connections = 50'',
     ''wsrep-provider-options = gcache.size=32M;gcache.recover=yes;'',
     []]"

definition pxcConfigSizeTiny :: string where
  "pxcConfigSizeTiny = Join linesTiny [newline]"

subsection \<open>Memory and choice\<close>

text \<open>The zero \<^verbatim>\<open>resource.Quantity\<close>.\<close>

definition zero_quantity :: quantity where "zero_quantity = ''0''"

definition ResourceMemory :: string where "ResourceMemory = ''memory''"

definition pxcMemSmall :: quantity where "pxcMemSmall = ''2Gi''"
definition pxcMemMedium :: quantity where "pxcMemMedium = ''8Gi''"
definition pxcMemLarge :: quantity where "pxcMemLarge = ''32Gi''"

definition memoryLimitOrRequest :: "'m lib_scheme \<Rightarrow> resource_requirements option \<Rightarrow> quantity" where
  "memoryLimitOrRequest L resources =
     (case resources of None \<Rightarrow> zero_quantity
      | Some r \<Rightarrow>
        (let request = (case map_of (rr_Requests r) ResourceMemory of Some q \<Rightarrow> q | None \<Rightarrow> zero_quantity) in
         case map_of (rr_Limits r) ResourceMemory of
           Some q \<Rightarrow> if \<not> QuantityIsZero L q then q else request
         | None \<Rightarrow> request))"

definition defaultConfigurationForEngine :: "'m lib_scheme \<Rightarrow> int32 \<Rightarrow> resource_requirements option \<Rightarrow> string" where
  "defaultConfigurationForEngine L replicas resources =
     (let mem = memoryLimitOrRequest L resources in
      if replicas \<noteq> 1 \<and> replicas \<noteq> 3 \<and> QuantityCmp L mem pxcMemLarge \<ge> 0 then pxcConfigSizeLarge
      else if replicas = 3 \<and> QuantityCmp L mem pxcMemMedium \<ge> 0 then pxcConfigSizeMedium
      else if QuantityCmp L mem pxcMemSmall \<ge> 0 then pxcConfigSizeSmall
      else pxcConfigSizeTiny)"

subsection \<open>Reading a preset\<close>

fun split_lines :: "string \<Rightarrow> string list" where
  "split_lines [] = [[]]"
| "split_lines (c # cs) = (if c = newline then [] # split_lines cs
     else (case split_lines cs of l # ls \<Rightarrow> (c # l) # ls | [] \<Rightarrow> [[c]]))"

text \<open>The value of a setting, as MySQL reads it, and its number of bytes.\<close>

definition setting :: "string \<Rightarrow> string \<Rightarrow> string option" where
  "setting name text = (case find (\<lambda>l. HasPrefix l (name @ '' = '')) (split_lines text) of
     None \<Rightarrow> None | Some l \<Rightarrow> Some (TrimPrefix l (name @ '' = '')))"

definition mysql_bytes :: "string \<Rightarrow> rat" where
  "mysql_bytes v = (if HasSuffix v ''M'' then num_val (TrimSuffix v ''M'') * 1048576 else num_val v)"

lemma split_lines_no_newline: "newline \<notin> set l \<Longrightarrow> split_lines l = [l]"
  by (induction l) auto

lemma split_lines_append: "newline \<notin> set l \<Longrightarrow> split_lines (l @ newline # t) = l # split_lines t"
  by (induction l) auto

lemma split_lines_Join: "ls \<noteq> [] \<Longrightarrow> list_all (\<lambda>l. newline \<notin> set l) ls \<Longrightarrow> split_lines (Join ls [newline]) = ls"
  by (induction ls "[newline]" rule: Join.induct) (auto simp: split_lines_no_newline split_lines_append)

lemma preset_lines:
  "split_lines pxcConfigSizeSmall = linesSmall" "split_lines pxcConfigSizeMedium = linesMedium"
  "split_lines pxcConfigSizeLarge = linesLarge" "split_lines pxcConfigSizeTiny = linesTiny"
proof -
  have "linesSmall \<noteq> [] \<and> list_all (\<lambda>l. newline \<notin> set l) linesSmall" by code_simp
  then show "split_lines pxcConfigSizeSmall = linesSmall" by (simp add: pxcConfigSizeSmall_def split_lines_Join)
  have "linesMedium \<noteq> [] \<and> list_all (\<lambda>l. newline \<notin> set l) linesMedium" by code_simp
  then show "split_lines pxcConfigSizeMedium = linesMedium" by (simp add: pxcConfigSizeMedium_def split_lines_Join)
  have "linesLarge \<noteq> [] \<and> list_all (\<lambda>l. newline \<notin> set l) linesLarge" by code_simp
  then show "split_lines pxcConfigSizeLarge = linesLarge" by (simp add: pxcConfigSizeLarge_def split_lines_Join)
  have "linesTiny \<noteq> [] \<and> list_all (\<lambda>l. newline \<notin> set l) linesTiny" by code_simp
  then show "split_lines pxcConfigSizeTiny = linesTiny" by (simp add: pxcConfigSizeTiny_def split_lines_Join)
qed

definition pool_line :: "string list \<Rightarrow> string option" where
  "pool_line ls = find (\<lambda>l. HasPrefix l ''innodb_buffer_pool_size = '') ls"

lemma pool_lines:
  "pool_line linesSmall = Some ''innodb_buffer_pool_size = 1398838681''"
  "pool_line linesMedium = Some ''innodb_buffer_pool_size = 5512928528''"
  "pool_line linesLarge = Some ''innodb_buffer_pool_size = 23154566817''"
  "pool_line linesTiny = Some ''innodb_buffer_pool_size = 128M''"
  by code_simp+

text \<open>The buffer pool of a configuration in bytes.\<close>

definition buffer_pool :: "string \<Rightarrow> rat" where
  "buffer_pool text = (case setting ''innodb_buffer_pool_size'' text of None \<Rightarrow> 0 | Some v \<Rightarrow> mysql_bytes v)"

lemma buffer_pool_line:
  "pool_line (split_lines text) = Some (''innodb_buffer_pool_size = '' @ v) \<Longrightarrow> buffer_pool text = mysql_bytes v"
  by (simp add: pool_line_def buffer_pool_def setting_def TrimPrefix_def HasPrefix_def)

lemma preset_pools:
  "buffer_pool pxcConfigSizeSmall = 1398838681" "buffer_pool pxcConfigSizeMedium = 5512928528"
  "buffer_pool pxcConfigSizeLarge = 23154566817" "buffer_pool pxcConfigSizeTiny = 134217728"
proof -
  have b: "mysql_bytes ''1398838681'' = 1398838681" "mysql_bytes ''5512928528'' = 5512928528"
    "mysql_bytes ''23154566817'' = 23154566817" "mysql_bytes ''128M'' = 134217728"
    by (simp_all add: mysql_bytes_def num_val_def HasSuffix_def HasPrefix_def TrimSuffix_def TrimPrefix_def digits_val_def Let_def)
  show "buffer_pool pxcConfigSizeSmall = 1398838681" "buffer_pool pxcConfigSizeMedium = 5512928528"
    "buffer_pool pxcConfigSizeLarge = 23154566817" "buffer_pool pxcConfigSizeTiny = 134217728"
    using pool_lines buffer_pool_line [where v = "''1398838681''"] buffer_pool_line [where v = "''5512928528''"]
      buffer_pool_line [where v = "''23154566817''"] buffer_pool_line [where v = "''128M''"]
    by (simp_all add: preset_lines b)
qed

lemma presets_distinct:
  "distinct [pxcConfigSizeSmall, pxcConfigSizeMedium, pxcConfigSizeLarge, pxcConfigSizeTiny]"
proof -
  have "distinct (map buffer_pool [pxcConfigSizeSmall, pxcConfigSizeMedium, pxcConfigSizeLarge, pxcConfigSizeTiny])"
    by (simp add: preset_pools)
  then show ?thesis by (simp only: distinct_map)
qed

subsection \<open>The choice by size\<close>

text \<open>
  \<^verbatim>\<open>Quantity.Cmp\<close> with the amounts it compares: the sign of the difference, and what the three constants of
  the source amount to.
\<close>

locale quantity_bytes =
  fixes cmp :: "quantity \<Rightarrow> quantity \<Rightarrow> int" and bytes :: "quantity \<Rightarrow> rat"
  assumes cmp_sign: "cmp p q = (if bytes p < bytes q then -1 else if bytes p = bytes q then 0 else 1)"
    and gibibytes: "bytes ''2Gi'' = 2147483648" "bytes ''8Gi'' = 8589934592" "bytes ''32Gi'' = 34359738368"
begin

lemma cmp_nonneg: "0 \<le> cmp p q \<longleftrightarrow> bytes q \<le> bytes p"
  by (simp add: cmp_sign)

end

sublocale quantity_bytes \<subseteq> quantity_order cmp
  by unfold_locales (auto simp: cmp_sign split: if_splits)

interpretation ref_bytes: quantity_bytes ref_cmp quantity_value
  by unfold_locales (simp_all add: ref_cmp_def quantity_value_def suffix_factor_def num_val_def is_digit_def HasPrefix_def
      TrimPrefix_def digits_val_def Let_def)



end
