(* ===== verification/Go_Url.thy ===== *)
theory Go_Url
  imports Go_Json
begin

text \<open>
  \<^verbatim>\<open>net/url\<close> and \<^verbatim>\<open>net\<close> of Go's standard library, as the provider uses them: the text of a URL with
  user information (\<^verbatim>\<open>url.UserPassword\<close>, \<^verbatim>\<open>URL.String\<close>), \<^verbatim>\<open>net.JoinHostPort\<close>, and the host that \<^verbatim>\<open>url.Parse\<close>
  finds. The percent-encoding is modelled and inverted here. \<^verbatim>\<open>url.Parse\<close> accepts and refuses many more
  texts than the provider cares about, so its host is a function argument of the code that uses it,
  with the documented behaviour on plain absolute URLs as the interface \<open>url_parser\<close>.
\<close>

subsection \<open>Percent-encoding\<close>

definition upper_hex :: "nat \<Rightarrow> char" where
  "upper_hex n = char_of (if n < 10 then 48 + n else 55 + n)"

definition unreserved :: "char \<Rightarrow> bool" where
  "unreserved c \<longleftrightarrow> (let n = of_char c :: nat in
     97 \<le> n \<and> n \<le> 122 \<or> 65 \<le> n \<and> n \<le> 90 \<or> 48 \<le> n \<and> n \<le> 57) \<or> c \<in> set ''-_.~''"

text \<open>Which characters stay as they are in a password and in a host (\<^verbatim>\<open>shouldEscape\<close> with its two modes).\<close>

definition keep_password :: "char \<Rightarrow> bool" where
  "keep_password c \<longleftrightarrow> unreserved c \<or> c \<in> set ''$&+,;=''"

definition keep_host :: "char \<Rightarrow> bool" where
  "keep_host c \<longleftrightarrow> unreserved c \<or> c \<in> set ''!$&()*+,;=:[]<>'' \<or> c = CHR 0x22 \<or> c = CHR 0x27"

definition pct :: "char \<Rightarrow> string" where
  "pct c = [CHR ''%'', upper_hex (of_char c div 16), upper_hex (of_char c mod 16)]"

definition escape :: "(char \<Rightarrow> bool) \<Rightarrow> string \<Rightarrow> string" where
  "escape keep s = concat (map (\<lambda>c. if keep c then [c] else pct c) s)"

definition unhex :: "char \<Rightarrow> nat" where
  "unhex c = (let n = of_char c in if n < 58 then n - 48 else if n < 71 then n - 55 else n - 87)"

fun unescape :: "string \<Rightarrow> string" where
  "unescape [] = []"
| "unescape [c] = [c]"
| "unescape [c, d] = [c, d]"
| "unescape (c # h # l # r) = (if c = CHR ''%'' then char_of (16 * unhex h + unhex l) # unescape r else c # unescape (h # l # r))"

text \<open>\<^verbatim>\<open>URL.String\<close> for a URL with scheme, user, password, host, the path \<^verbatim>\<open>/\<close> and a raw query.\<close>

definition JoinHostPort :: "string \<Rightarrow> string \<Rightarrow> string" where
  "JoinHostPort host port = (if CHR '':'' \<in> set host then ''['' @ host @ '']:'' @ port else host @ '':'' @ port)"

definition url_String :: "string \<Rightarrow> string \<Rightarrow> string \<Rightarrow> string \<Rightarrow> string \<Rightarrow> string" where
  "url_String scheme user password host rawQuery =
     scheme @ ''://'' @ escape keep_password user @ '':'' @ escape keep_password password @ ''@'' @ escape keep_host host @ ''/'' @ ''?'' @ rawQuery"

subsection \<open>Decoding undoes encoding\<close>

lemma char_byte: "(of_char c :: nat) < 256"
  by (metis of_char_mod_256 mod_less_divisor zero_less_numeral)

lemma char_nibbles: "(of_char c :: nat) div 16 < 16" "(of_char c :: nat) mod 16 < 16"
  using char_byte [of c] by (simp_all add: div_less_iff_less_mult)

lemma unhex_upper_hex: "n < 16 \<Longrightarrow> unhex (upper_hex n) = n"
  by (auto simp: unhex_def upper_hex_def Let_def of_char_of)

lemma pct_decode: "unescape (pct c @ r) = c # unescape r"
  using unhex_upper_hex [OF char_nibbles(1) [of c]] unhex_upper_hex [OF char_nibbles(2) [of c]] by (simp add: pct_def)

lemma unescape_Cons: "c \<noteq> CHR ''%'' \<Longrightarrow> unescape (c # r) = c # unescape r"
  by (cases r; cases "tl r") (auto elim: unescape.elims simp: neq_Nil_conv)

lemma unescape_escape: "\<not> keep (CHR ''%'') \<Longrightarrow> unescape (escape keep s) = s"
proof (induction s)
  case (Cons c s)
  then have "unescape (escape keep s) = s" by simp
  moreover have "escape keep (c # s) = (if keep c then [c] else pct c) @ escape keep s" by (simp add: escape_def)
  moreover have "c \<noteq> CHR ''%''" if "keep c" using that Cons.prems by auto
  ultimately show ?case by (auto simp: pct_decode unescape_Cons)
qed (simp add: escape_def)

text \<open>The code points of upper-case hexadecimal digits.\<close>

definition hex_code :: "nat \<Rightarrow> bool" where
  "hex_code n \<longleftrightarrow> 48 \<le> n \<and> n \<le> 57 \<or> 65 \<le> n \<and> n \<le> 70"

lemma upper_hex_code: "n < 16 \<Longrightarrow> hex_code (of_char (upper_hex n))"
  by (auto simp: upper_hex_def hex_code_def of_char_of)

lemma set_pct: "c \<in> set (pct d) \<Longrightarrow> c = CHR ''%'' \<or> hex_code (of_char c)"
  by (auto simp: pct_def intro!: upper_hex_code char_nibbles)

lemma set_escape: "c \<in> set (escape keep s) \<Longrightarrow> keep c \<or> c = CHR ''%'' \<or> hex_code (of_char c)"
  by (auto simp: escape_def dest: set_pct split: if_splits)

text \<open>An encoded password holds none of the characters that delimit the parts of a URL.\<close>

lemma escape_password_delimiters: "c \<in> set ''@/?:#'' \<Longrightarrow> c \<notin> set (escape keep_password s)"
  using set_escape [of c keep_password s] by (auto simp: keep_password_def unreserved_def hex_code_def Let_def)

subsection \<open>The host of a URL\<close>

text \<open>
  A plain absolute URL: a scheme, a host of letters, digits, dots and dashes with an optional port,
  and nothing or a path after it.
\<close>

definition plain_host :: "string \<Rightarrow> bool" where
  "plain_host h \<longleftrightarrow> h \<noteq> [] \<and> list_all (\<lambda>c. unreserved c \<and> c \<noteq> CHR ''~'' \<and> c \<noteq> CHR ''_'') h"

definition plain_port :: "string \<Rightarrow> bool" where
  "plain_port p \<longleftrightarrow> p = [] \<or> hd p = CHR '':'' \<and> tl p \<noteq> [] \<and> list_all is_digit (tl p)"

locale url_parser =
  fixes parse_host :: "string \<Rightarrow> string outcome"
  assumes parse_plain: "scheme \<in> {''http'', ''https''} \<Longrightarrow> plain_host h \<Longrightarrow> plain_port p \<Longrightarrow>
      rest = [] \<or> rest = ''/'' \<Longrightarrow> parse_host (scheme @ ''://'' @ h @ p @ rest) = Ret (h @ p)"

text \<open>The part of a URL between \<^verbatim>\<open>://\<close> and the path, a function that satisfies the interface.\<close>

fun after_scheme :: "string \<Rightarrow> string" where
  "after_scheme s = (case s of [] \<Rightarrow> [] | c # r \<Rightarrow> if HasPrefix s ''://'' then drop 3 s else after_scheme r)"

declare after_scheme.simps [simp del]

definition authority_host :: "string \<Rightarrow> string outcome" where
  "authority_host s = Ret (takeWhile (\<lambda>c. c \<noteq> CHR ''/'') (after_scheme s))"

interpretation authority: url_parser authority_host
proof
  fix scheme h p rest
  assume s: "scheme \<in> {''http'', ''https''}" and h: "plain_host h" and p: "plain_port p" and r: "rest = [] \<or> rest = ''/''"
  have "after_scheme (scheme @ ''://'' @ t) = t" for t
    using s by (auto simp: after_scheme.simps HasPrefix_def)
  moreover have "takeWhile (\<lambda>c. c \<noteq> CHR ''/'') (h @ p @ rest) = h @ p"
  proof -
    have sl: "\<not> unreserved (CHR ''/'')" "\<not> is_digit (CHR ''/'')" by (simp_all add: unreserved_def is_digit_def)
    have "CHR ''/'' \<notin> set h" using h sl by (auto simp: plain_host_def list_all_iff)
    moreover have "CHR ''/'' \<notin> set p" using p sl by (cases p) (auto simp: plain_port_def list_all_iff)
    ultimately have "CHR ''/'' \<notin> set (h @ p)" by simp
    then have "takeWhile (\<lambda>c. c \<noteq> CHR ''/'') ((h @ p) @ rest) = (h @ p) @ takeWhile (\<lambda>c. c \<noteq> CHR ''/'') rest"
      by (intro takeWhile_append2) auto
    with r show ?thesis by auto
  qed
  ultimately show "authority_host (scheme @ ''://'' @ h @ p @ rest) = Ret (h @ p)" by (simp add: authority_host_def)
qed

end
