(* ===== verification/Pmm.thy ===== *)
theory Pmm
  imports Mysql_Configs Go_Url Go_Sort Images
begin

text \<open>
  internal/provider/pmm.go: what the PMM client of a cluster gets: its resources from the size of the
  engine and the destination entry, its labels, the server's host from the configured URL, and the
  server token, which is mirrored into the cluster's users Secret.
\<close>

definition pmmTokenKey :: string where "pmmTokenKey = ''token''"
definition pmmServerTokenKey :: string where "pmmServerTokenKey = ''pmmservertoken''"

definition pmmRequestsSmall :: resource_list where "pmmRequestsSmall = [(''cpu'', ''95m''), (''memory'', ''99604Ki'')]"
definition pmmRequestsMedium :: resource_list where "pmmRequestsMedium = [(''cpu'', ''228m''), (''memory'', ''199168Ki'')]"
definition pmmRequestsLarge :: resource_list where "pmmRequestsLarge = [(''cpu'', ''228m''), (''memory'', ''796907Ki'')]"

subsection \<open>Resources\<close>

text \<open>The order of strings by their bytes, in which \<^verbatim>\<open>slices.Sorted\<close> puts the names.\<close>

fun str_less :: "string \<Rightarrow> string \<Rightarrow> bool" where
  "str_less _ [] = False"
| "str_less [] (_ # _) = True"
| "str_less (a # as) (b # bs) = ((of_char a :: nat) < of_char b \<or> a = b \<and> str_less as bs)"

definition sized_requests :: "'m lib_scheme \<Rightarrow> resource_requirements option \<Rightarrow> resource_list" where
  "sized_requests L engine =
     (let mem = memoryLimitOrRequest L engine in
      if QuantityCmp L mem pxcMemLarge \<ge> 0 then pmmRequestsLarge
      else if QuantityCmp L mem pxcMemMedium \<ge> 0 then pmmRequestsMedium
      else pmmRequestsSmall)"

fun lower_requests :: "'m lib_scheme \<Rightarrow> resource_requirements \<Rightarrow> string list \<Rightarrow> resource_list \<Rightarrow> resource_list outcome" where
  "lower_requests L entry [] requests = Ret requests"
| "lower_requests L entry (name # names) requests =
     (let limit = (case map_of (rr_Limits entry) name of Some l \<Rightarrow> l | None \<Rightarrow> zero_quantity) in
      case map_of (rr_Requests entry) name of
        Some request \<Rightarrow>
          if QuantityCmp L request limit > 0
          then Err (Msg (''resources.requests.'' @ name @ '' ('' @ request @ '') is above resources.limits.'' @ name @ '' ('' @ limit @ '')''))
          else lower_requests L entry names requests
      | None \<Rightarrow>
          (case map_of requests name of
             Some sized \<Rightarrow> lower_requests L entry names (if QuantityCmp L sized limit > 0 then AList.update name limit requests else requests)
           | None \<Rightarrow> lower_requests L entry names requests))"

definition maps_Copy :: "resource_list \<Rightarrow> resource_list \<Rightarrow> resource_list" where
  "maps_Copy dst src = foldl (\<lambda>d (k, v). AList.update k v d) dst src"

definition pmmResources :: "'m lib_scheme \<Rightarrow> resource_requirements option \<Rightarrow> resource_requirements option \<Rightarrow> resource_requirements outcome" where
  "pmmResources L engine entry =
     (let requests = sized_requests L engine in
      case entry of
        None \<Rightarrow> Ret \<lparr>rr_Limits = [], rr_Requests = requests\<rparr>
      | Some en \<Rightarrow>
        bindO (lower_requests L en (insertionSort str_less (map fst (rr_Limits en))) requests) (\<lambda>lowered.
          Ret \<lparr>rr_Limits = rr_Limits en, rr_Requests = maps_Copy lowered (rr_Requests en)\<rparr>))"

subsection \<open>Labels\<close>

text \<open>The names are Kubernetes label keys, which are ASCII.\<close>

definition prometheusLabelName :: "string \<Rightarrow> string" where
  "prometheusLabelName k = map (\<lambda>c. let n = of_char c :: nat in
     if 97 \<le> n \<and> n \<le> 122 \<or> 65 \<le> n \<and> n \<le> 90 \<or> 48 \<le> n \<and> n \<le> 57 \<or> c = CHR ''_'' then c else CHR ''_'') k"

definition pmmAdminParams :: "'w env \<Rightarrow> string \<Rightarrow> string" where
  "pmmAdminParams E component =
     (let labels = [''namespace='' @ ctx_Namespace E, prometheusLabelName (InstanceLabel E) @ ''='' @ ctx_Name E];
          labels' = (if component \<noteq> [] then labels @ [prometheusLabelName (ComponentLabel E) @ ''='' @ component] else labels)
      in ''--custom-labels='' @ Join labels' '','')"

subsection \<open>The server's host\<close>

text \<open>The argument \<open>U\<close> is the host that \<^verbatim>\<open>url.Parse\<close> finds, or its error.\<close>

type_synonym url_host = "string \<Rightarrow> string outcome"

definition pmmServerHostFromURL :: "url_host \<Rightarrow> string \<Rightarrow> string outcome" where
  "pmmServerHostFromURL U rawURL =
     (if rawURL = [] then Err (Msg ''url is empty'')
      else if \<not> Contains rawURL ''://'' then Ret (TrimSuffix rawURL ''/'')
      else bindO (U rawURL) (\<lambda>host. if host = [] then Err (Msg ''missing host'') else Ret host))"

subsection \<open>The token\<close>

definition syncPMMServerToken :: "'w env \<Rightarrow> string \<Rightarrow> string option \<Rightarrow> ('w, unit) io" where
  "syncPMMServerToken E usersSecretName token =
     call (ctx_GetSecret E usersSecretName)
       (\<lambda>e. if IsNotFound e then ret () else fail (Wrap (''get users Secret '' @ Quote usersSecretName) e))
       (\<lambda>secret.
         let current = se_Data secret pmmServerTokenKey in
         if (case token of None \<Rightarrow> current = None | Some t \<Rightarrow> (case current of None \<Rightarrow> [] | Some c \<Rightarrow> c) = t)
         then ret ()
         else call (cl_PatchSecret E secret (secret\<lparr>se_Data := (se_Data secret)(pmmServerTokenKey := token)\<rparr>))
           (\<lambda>e. fail (Wrap (''sync PMM server token to Secret '' @ Quote usersSecretName) e)) (\<lambda>_. ret ()))"

subsection \<open>Requests stay within the limits\<close>

lemma map_of_maps_Copy: "distinct (map fst src) \<Longrightarrow> map_of (maps_Copy dst src) = map_of dst ++ map_of src"
proof (induction src arbitrary: dst)
  case (Cons x src)
  then have "map_of src (fst x) = None" by (simp add: map_of_eq_None_iff)
  with Cons show ?case
    by (cases x) (auto simp: maps_Copy_def update_conv' map_add_def fun_eq_iff split: option.split)
qed (simp add: maps_Copy_def)

definition inside_limit :: "'m lib_scheme \<Rightarrow> resource_requirements \<Rightarrow> resource_list \<Rightarrow> string \<Rightarrow> bool" where
  "inside_limit L entry requests n \<longleftrightarrow> (\<forall>l q. map_of (rr_Limits entry) n = Some l \<longrightarrow>
     map_of (rr_Requests entry) n = Some q \<or> map_of (rr_Requests entry) n = None \<and> map_of requests n = Some q \<longrightarrow>
     QuantityCmp L q l \<le> 0)"

lemma lower_requests_within:
  assumes "quantity_order (QuantityCmp L)" "lower_requests L entry names requests = Ret out"
    and "set names \<subseteq> dom (map_of (rr_Limits entry))"
  shows "(\<forall>n \<in> set names. inside_limit L entry out n) \<and> (\<forall>n. n \<notin> set names \<longrightarrow> map_of out n = map_of requests n)
    \<and> (\<forall>n. inside_limit L entry requests n \<longrightarrow> inside_limit L entry out n) \<and> dom (map_of out) = dom (map_of requests)"
  using assms(2,3)
proof (induction names arbitrary: requests)
  case (Cons n names)
  then obtain l where l: "map_of (rr_Limits entry) n = Some l" by auto
  define requests' where "requests' = (if map_of (rr_Requests entry) n = None \<and> (\<exists>s. map_of requests n = Some s \<and> QuantityCmp L s l > 0)
      then AList.update n l requests else requests)"
  from Cons.prems l have rest: "lower_requests L entry names requests' = Ret out"
    and ok: "\<And>q. map_of (rr_Requests entry) n = Some q \<Longrightarrow> QuantityCmp L q l \<le> 0"
    by (auto simp: requests'_def Let_def split: option.splits if_splits)
  have n: "inside_limit L entry requests' n"
    using l ok quantity_order.cmp_refl [OF assms(1)] by (auto simp: inside_limit_def requests'_def update_conv')
  have other: "m \<noteq> n \<Longrightarrow> map_of requests' m = map_of requests m" for m
    by (auto simp: requests'_def update_conv')
  have "inside_limit L entry requests m \<Longrightarrow> inside_limit L entry requests' m" for m
    using n other by (cases "m = n") (simp_all add: inside_limit_def)
  moreover have "dom (map_of requests') = dom (map_of requests)" by (auto simp: requests'_def update_conv')
  ultimately show ?case using Cons.IH [OF rest] Cons.prems(2) n other by auto
qed simp

text \<open>
  C29. The resources of the PMM client: whatever the destination entry sets is kept, every request is
  within the limit of the same resource, and the entry is refused only when it itself asks for more
  than its own limit.
\<close>

theorem pmm_requests_within_limits:
  assumes "quantity_order (QuantityCmp L)" "distinct (map fst (rr_Requests entry))"
    and "pmmResources L engine (Some entry) = Ret out"
  shows "rr_Limits out = rr_Limits entry
    \<and> (\<forall>n l q. map_of (rr_Limits out) n = Some l \<longrightarrow> map_of (rr_Requests out) n = Some q \<longrightarrow> QuantityCmp L q l \<le> 0)
    \<and> (\<forall>n q. map_of (rr_Requests entry) n = Some q \<longrightarrow> map_of (rr_Requests out) n = Some q)
    \<and> dom (map_of (rr_Requests out)) = dom (map_of (rr_Requests entry)) \<union> {''cpu'', ''memory''}"
proof -
  from assms(3) obtain lowered where low: "lower_requests L entry (insertionSort str_less (map fst (rr_Limits entry))) (sized_requests L engine) = Ret lowered"
    and out: "out = \<lparr>rr_Limits = rr_Limits entry, rr_Requests = maps_Copy lowered (rr_Requests entry)\<rparr>"
    by (auto simp: pmmResources_def Let_def bindO_Ret)
  have names: "set (insertionSort str_less (map fst (rr_Limits entry))) = dom (map_of (rr_Limits entry))"
    by (simp add: insertion.srt_set dom_map_of_conv_image_fst)
  note * = lower_requests_within [OF assms(1) low, unfolded names, OF order.refl]
  have reqs: "map_of (rr_Requests out) = map_of lowered ++ map_of (rr_Requests entry)"
    by (simp add: out map_of_maps_Copy [OF assms(2)])
  have lim: "QuantityCmp L q l \<le> 0" if "map_of (rr_Limits out) n = Some l" "map_of (rr_Requests out) n = Some q" for n l q
  proof -
    from that(1) have "map_of (rr_Limits entry) n = Some l" by (simp add: out)
    moreover from this have "inside_limit L entry lowered n" using * by blast
    ultimately show ?thesis using that(2) unfolding reqs inside_limit_def by (auto simp: map_add_def split: option.splits)
  qed
  have "dom (map_of (sized_requests L engine)) = {''cpu'', ''memory''}"
    by (auto simp: sized_requests_def Let_def pmmRequestsSmall_def pmmRequestsMedium_def pmmRequestsLarge_def split: if_splits)
  with * have "dom (map_of lowered) = {''cpu'', ''memory''}" by simp
  then have "dom (map_of (rr_Requests out)) = dom (map_of (rr_Requests entry)) \<union> {''cpu'', ''memory''}"
    by (simp add: reqs)
  with lim show ?thesis by (auto simp: out reqs [unfolded out, simplified] map_add_def)
qed

definition small_limit :: resource_requirements where
  "small_limit = \<lparr>rr_Limits = [(''memory'', ''64Ki'')], rr_Requests = [(''cpu'', ''1'')]\<rparr>"

lemma small_limit_applied:
  "pmmResources (ref_env sample_inst) None (Some small_limit) =
     Ret \<lparr>rr_Limits = [(''memory'', ''64Ki'')], rr_Requests = [(''cpu'', ''1''), (''memory'', ''64Ki'')]\<rparr>"
  by (simp add: pmmResources_def sized_requests_def Let_def memoryLimitOrRequest_def zero_quantity_def ref_cmp_def quantity_value_def
      suffix_factor_def num_val_def digits_val_def is_digit_def HasPrefix_def TrimPrefix_def pxcMemLarge_def pxcMemMedium_def
      pmmRequestsSmall_def small_limit_def insertionSort_def maps_Copy_def)

theorem pmm_requests_within_limits_witness:
  "QuantityCmp (ref_env sample_inst) ''64Ki'' ''64Ki'' \<le> 0
   \<and> pmmResources (ref_env sample_inst) None (Some small_limit) =
       Ret \<lparr>rr_Limits = [(''memory'', ''64Ki'')], rr_Requests = [(''cpu'', ''1''), (''memory'', ''64Ki'')]\<rparr>"
proof -
  have q: "quantity_order (QuantityCmp (ref_env sample_inst))" by (simp add: ref_quantity.quantity_order_axioms)
  have "distinct (map fst (rr_Requests small_limit))" by (simp add: small_limit_def)
  from pmm_requests_within_limits [OF q this small_limit_applied, THEN conjunct2, THEN conjunct1, rule_format, of "''memory''" "''64Ki''" "''64Ki''"]
  have "QuantityCmp (ref_env sample_inst) ''64Ki'' ''64Ki'' \<le> 0" by simp
  with small_limit_applied show ?thesis by simp
qed

subsection \<open>The host\<close>

text \<open>
  The server host: a plain \<^verbatim>\<open>http\<close> or \<^verbatim>\<open>https\<close> URL gives its host with its port, a text without a
  scheme is taken as the host itself but for one final slash, and an empty URL is refused. An empty
  host is never returned, with one exception: the URL \<^verbatim>\<open>/\<close> gives the empty host and no error.
\<close>

theorem pmm_server_host:
  assumes "url_parser U"
  shows "(scheme \<in> {''http'', ''https''} \<longrightarrow> plain_host h \<longrightarrow> plain_port p \<longrightarrow> rest = [] \<or> rest = ''/'' \<longrightarrow>
        pmmServerHostFromURL U (scheme @ ''://'' @ h @ p @ rest) = Ret (h @ p))
    \<and> (Contains raw ''://'' \<or> raw = [] \<or> HasSuffix raw ''/'' \<or> pmmServerHostFromURL U raw = Ret raw)
    \<and> pmmServerHostFromURL U [] = Err (Msg ''url is empty'')
    \<and> (pmmServerHostFromURL U raw = Ret []) = (raw = ''/'')"
proof (intro conjI impI)
  assume s: "scheme \<in> {''http'', ''https''}" and h: "plain_host h" "plain_port p" "rest = [] \<or> rest = ''/''"
  have "Contains (scheme @ ''://'' @ t) ''://''" for t using s by (auto simp: HasPrefix_def)
  moreover have "h @ p \<noteq> []" using h by (simp add: plain_host_def)
  ultimately show "pmmServerHostFromURL U (scheme @ ''://'' @ h @ p @ rest) = Ret (h @ p)"
    using url_parser.parse_plain [OF assms s h] by (simp add: pmmServerHostFromURL_def)
next
  show "Contains raw ''://'' \<or> raw = [] \<or> HasSuffix raw ''/'' \<or> pmmServerHostFromURL U raw = Ret raw"
    by (auto simp: pmmServerHostFromURL_def TrimSuffix_def)
  show "pmmServerHostFromURL U [] = Err (Msg ''url is empty'')" by (simp add: pmmServerHostFromURL_def)
  have "HasSuffix raw ''/'' \<Longrightarrow> length raw \<le> 1 \<Longrightarrow> raw = ''/''"
    by (cases raw) (auto simp: HasSuffix_def HasPrefix_def)
  then show "(pmmServerHostFromURL U raw = Ret []) = (raw = ''/'')"
    by (auto simp: pmmServerHostFromURL_def bindO_Ret TrimSuffix_def HasSuffix_def HasPrefix_def split: if_splits)
qed

theorem pmm_server_host_witness:
  "pmmServerHostFromURL authority_host ''https://pmm.example:8443/'' = Ret ''pmm.example:8443'' \<and> pmmServerHostFromURL authority_host ''/'' = Ret []"
proof -
  have "plain_host ''pmm.example''" "plain_port '':8443''"
    by (simp_all add: plain_host_def plain_port_def unreserved_def is_digit_def)
  with pmm_server_host [OF authority.url_parser_axioms, of "''https''" "''pmm.example''" "'':8443''" "''/''" "''/''"] show ?thesis by simp
qed

subsection \<open>The token mirror\<close>

text \<open>
  Mirroring the token changes one key of the users Secret and nothing else: afterwards the Secret
  holds the token given, or no token when none is given, with every other key, its metadata and every
  other Secret as before; while the Secret does not exist nothing is done.
\<close>

theorem pmm_token_mirrored:
  assumes "object_patches lookup get (\<lambda>s. meta_key (se_Meta s)) (\<lambda>s. om_DeletionTimestamp (se_Meta s) \<noteq> None) (cl_PatchSecret E)"
    and ctx: "\<And>n. ctx_GetSecret E n = get (ctx_Namespace E, n)"
    and s: "\<And>s. lookup w (ctx_Namespace E, n) = Some s \<Longrightarrow> meta_key (se_Meta s) = (ctx_Namespace E, n) \<and> om_DeletionTimestamp (se_Meta s) = None"
    and "token \<noteq> Some []"
  shows "\<exists>w'. exec (syncPMMServerToken E n token) w = (Ret (), w') \<and> lookup w' = (lookup w)((ctx_Namespace E, n) :=
      map_option (\<lambda>s. s\<lparr>se_Data := (se_Data s)(pmmServerTokenKey := token)\<rparr>) (lookup w (ctx_Namespace E, n)))"
proof -
  from assms(1) have reads: "object_reads lookup get" by (simp add: object_patches_def)
  let ?k = "(ctx_Namespace E, n)"
  show ?thesis
  proof (cases rule: object_reads.get_cases [OF reads, of w ?k, case_names found absent])
    case (absent e)
    then show ?thesis by (auto simp: syncPMMServerToken_def ctx fun_upd_idem)
  next
    case (found x)
    let ?new = "x\<lparr>se_Data := (se_Data x)(pmmServerTokenKey := token)\<rparr>"
    show ?thesis
    proof (cases "se_Data x pmmServerTokenKey = token")
      case True
      then have "?new = x" by (simp add: fun_upd_idem)
      then have "(lookup w)(?k := map_option (\<lambda>s. s\<lparr>se_Data := (se_Data s)(pmmServerTokenKey := token)\<rparr>) (lookup w ?k)) = lookup w"
        using found(1) by (simp add: fun_upd_idem)
      with found True show ?thesis by (auto simp: syncPMMServerToken_def ctx split: option.split)
    next
      case False
      then have "\<not> (case token of None \<Rightarrow> se_Data x pmmServerTokenKey = None | Some t \<Rightarrow> (case se_Data x pmmServerTokenKey of None \<Rightarrow> [] | Some c \<Rightarrow> c) = t)"
        using assms(4) by (cases token; cases "se_Data x pmmServerTokenKey") auto
      moreover have "meta_key (se_Meta ?new) = ?k" "om_DeletionTimestamp (se_Meta ?new) = None" using s [OF found(1)] by simp_all
      ultimately show ?thesis
        using object_patches.patch_found [OF assms(1), of w ?new x] found by (auto simp: syncPMMServerToken_def ctx Let_def)
    qed
  qed
qed

theorem pmm_token_mirrored_witness:
  "\<exists>w'. exec (syncPMMServerToken (ref_env sample_inst) ''s'' (Some ''glsa_1''))
       (empty_cluster\<lparr>wl_Secrets := [((''team-a'', ''s''), \<lparr>se_Meta = named_meta ''team-a'' ''s'', se_Data = [''root'' \<mapsto> ''pw'']\<rparr>)]\<rparr>) = (Ret (), w')
     \<and> map_of (wl_Secrets w') (''team-a'', ''s'') = Some \<lparr>se_Meta = named_meta ''team-a'' ''s'', se_Data = [''root'' \<mapsto> ''pw'', ''pmmservertoken'' \<mapsto> ''glsa_1'']\<rparr>"
  using pmm_token_mirrored [OF ref_secret_patches.object_patches_axioms, of sample_inst
      "empty_cluster\<lparr>wl_Secrets := [((''team-a'', ''s''), \<lparr>se_Meta = named_meta ''team-a'' ''s'', se_Data = [''root'' \<mapsto> ''pw'']\<rparr>)]\<rparr>" "''s''" "Some ''glsa_1''"]
  by (auto simp: named_meta_def meta_key_def sample_inst_def pmmServerTokenKey_def)

end
