(* ===== verification/Monitoring.thy ===== *)
theory Monitoring
  imports Metrics Pmm
begin

text \<open>
  internal/provider/monitoring_sources.go: the metrics endpoints a cluster publishes, and
  \<open>applyMonitoring\<close>, which renders what the Instance's monitoring destinations ask for: the PMM section
  from its binding, with the rule that an unresolved or broken binding keeps the live section, and
  the exporter sidecar.
\<close>

definition pmmIntegration :: string where "pmmIntegration = ''pmm''"
definition haproxyMetricsPort :: int32 where "haproxyMetricsPort = 8404"

subsection \<open>Parameters\<close>

record pmmDestinationParameters =
  dp_URL :: string

record pmmEntryParameters =
  ep_Resources :: "resource_requirements option"

definition store_destination_member :: "string \<Rightarrow> json \<Rightarrow> pmmDestinationParameters \<Rightarrow> pmmDestinationParameters option" where
  "store_destination_member k j d =
     (if names_field k ''url'' then map_option (\<lambda>u. d\<lparr>dp_URL := u\<rparr>) (store_string j (dp_URL d)) else Some d)"

definition store_entry_member :: "'m lib_scheme \<Rightarrow> string \<Rightarrow> json \<Rightarrow> pmmEntryParameters \<Rightarrow> pmmEntryParameters option" where
  "store_entry_member L k j d =
     (if names_field k ''resources''
      then (case j of JNull \<Rightarrow> Some (d\<lparr>ep_Resources := None\<rparr>)
            | _ \<Rightarrow> map_option (\<lambda>r. d\<lparr>ep_Resources := Some r\<rparr>) (UnmarshalResources L j))
      else Some d)"

definition MonitoringIntegrations :: "string list" where
  "MonitoringIntegrations = [pmmIntegration]"

subsection \<open>Endpoints\<close>

definition engine_endpoint :: "'w env \<Rightarrow> metrics_endpoint" where
  "engine_endpoint E = \<lparr>me_Component = ComponentEngine, me_Kind = ''mysql'',
     me_PodSelector = [(InstanceLabel E, ctx_Name E), (ComponentLabel E, ComponentEngine)], me_Port = PortName metricsPortName,
     me_Path = metricsPath, me_Scheme = ''http''\<rparr>"

definition haproxy_endpoint :: "'w env \<Rightarrow> metrics_endpoint" where
  "haproxy_endpoint E = \<lparr>me_Component = ComponentProxy, me_Kind = ''haproxy'',
     me_PodSelector = [(InstanceLabel E, ctx_Name E), (ComponentLabel E, ComponentProxy)], me_Port = PortNumber haproxyMetricsPort,
     me_Path = metricsPath, me_Scheme = ''http''\<rparr>"

definition MonitoringSources :: "'w env \<Rightarrow> ('w, metrics_endpoint list) io" where
  "MonitoringSources E =
     call (ctx_GetPXC E (ctx_Name E))
       (\<lambda>e. if IsNotFound e then ret [] else fail (Wrap ''get PerconaXtraDBCluster'' e))
       (\<lambda>p. let m1 = (if hasMetricsExporter (Some p) \<and> sint (pst_PXCReady (pc_Status p)) > 0 then [engine_endpoint E] else []);
                m2 = (if HAProxyEnabled E (pc_Spec p) \<and> sint (pst_HAProxyReady (pc_Status p)) > 0 then m1 @ [haproxy_endpoint E] else m1)
            in ret m2)"

subsection \<open>PMM\<close>

definition set_pmm :: "pxc \<Rightarrow> pmm_spec option \<Rightarrow> pxc" where
  "set_pmm p m = on_spec (px_PMM_update (\<lambda>_. m)) p"

definition live_pmm :: "pxc option \<Rightarrow> pmm_spec option" where
  "live_pmm live = (case live of None \<Rightarrow> None | Some l \<Rightarrow> px_PMM (pc_Spec l))"

definition keepLivePMM :: "pxc \<Rightarrow> pxc option \<Rightarrow> pxc" where
  "keepLivePMM p live = set_pmm p (live_pmm live)"

definition decode_destination :: "resolved_binding \<Rightarrow> pmmDestinationParameters outcome" where
  "decode_destination rb =
     (case rb_DestinationParameters rb of None \<Rightarrow> Ret \<lparr>dp_URL = []\<rparr>
      | Some raw \<Rightarrow> (case Unmarshal store_destination_member \<lparr>dp_URL = []\<rparr> raw of
            Err e \<Rightarrow> Err (Wrap (''decode MonitoringDestination '' @ rb_DestinationName rb @ '' parameters'') e) | r \<Rightarrow> r))"

definition decode_entry :: "'m lib_scheme \<Rightarrow> resolved_binding \<Rightarrow> pmmEntryParameters outcome" where
  "decode_entry L rb =
     (case rb_BindingParameters rb of None \<Rightarrow> Ret \<lparr>ep_Resources = None\<rparr>
      | Some raw \<Rightarrow> (case Unmarshal (store_entry_member L) \<lparr>ep_Resources = None\<rparr> raw of
            Err e \<Rightarrow> Err (Wrap (''decode parameters of destination entry '' @ rb_EntryName rb) e) | r \<Rightarrow> r))"

definition wrap_err :: "string \<Rightarrow> 'a outcome \<Rightarrow> 'a outcome" where
  "wrap_err msg r = (case r of Err e \<Rightarrow> Err (Wrap msg e) | _ \<Rightarrow> r)"

definition engine_resources :: "inst \<Rightarrow> resource_requirements option" where
  "engine_resources i = (case in_Components i ComponentEngine of None \<Rightarrow> None | Some c \<Rightarrow> cs_Resources c)"

text \<open>The inputs that are checked before the credentials are read: the host and the resources.\<close>

definition pmm_inputs :: "'w env \<Rightarrow> url_host \<Rightarrow> resolved_binding \<Rightarrow> (string \<times> resource_requirements) outcome" where
  "pmm_inputs E U rb =
     bindO (decode_destination rb) (\<lambda>destination.
     bindO (wrap_err (''MonitoringDestination '' @ rb_DestinationName rb @ '' parameters.url'') (pmmServerHostFromURL U (dp_URL destination))) (\<lambda>serverHost.
     bindO (decode_entry E rb) (\<lambda>entry.
     bindO (wrap_err (''parameters of destination entry '' @ rb_EntryName rb) (pmmResources E (engine_resources (ctx_Instance E)) (ep_Resources entry))) (\<lambda>resources.
     Ret (serverHost, resources)))))"

definition pmm_section :: "'w env \<Rightarrow> string \<Rightarrow> resource_requirements \<Rightarrow> string \<Rightarrow> pmm_spec" where
  "pmm_section E serverHost resources img =
     \<lparr>pm_Enabled = True, pm_ServerHost = serverHost, pm_Image = img, pm_CustomClusterName = ctx_Name E,
      pm_ImagePullPolicy = PullIfNotPresent, pm_Resources = resources, pm_PxcParams = pmmAdminParams E [],
      pm_ProxysqlParams = pmmAdminParams E ComponentProxy\<rparr>"

definition renderPMM :: "'w env \<Rightarrow> url_host \<Rightarrow> resolved_binding \<Rightarrow> ('w, pmm_spec \<times> string) io" where
  "renderPMM E U rb =
     call (lift_outcome (pmm_inputs E U rb)) fail (\<lambda>(serverHost, resources).
     call (ctx_MonitoringCredentials E rb) fail (\<lambda>(mode, credentials).
       let token = (case credentials pmmTokenKey of None \<Rightarrow> [] | Some t \<Rightarrow> t) in
       if token = []
       then fail (Msg (''authentication mode '' @ mode @ '' of MonitoringDestination '' @ rb_DestinationName rb @ '' provides no '' @ pmmTokenKey))
       else call (lift_outcome (deref (rb_AgentImage rb))) fail (\<lambda>img. ret (pmm_section E serverHost resources img, token))))"

definition tls_note :: string where
  "tls_note = ''pmm-client does not verify the PMM server certificate, whatever spec.tls says: the Percona operator always runs it with PMM_AGENT_SERVER_INSECURE_TLS=1''"

definition apply_binding :: "'w env \<Rightarrow> url_host \<Rightarrow> pxc \<Rightarrow> pxc option \<Rightarrow> resolved_binding \<Rightarrow> ('w, pxc) io" where
  "apply_binding E U p live rb =
     call (renderPMM E U rb)
       (\<lambda>e. if IsAPIStatus e \<and> \<not> IsNotFound e then fail e
            else void (ctx_SetMonitoringBindingResult E (rb_BindingName rb) (ReasonRenderFailed E) (Error e)) (ret (keepLivePMM p live)))
       (\<lambda>(pmm, token). call (syncPMMServerToken E (px_SecretsName (pc_Spec p)) (Some token)) fail
            (\<lambda>_. void (ctx_SetMonitoringBindingResult E (rb_BindingName rb) (ReasonAgentTLSNotVerified E) tls_note) (ret (set_pmm p (Some pmm)))))"

fun apply_bindings :: "'w env \<Rightarrow> url_host \<Rightarrow> pxc \<Rightarrow> pxc option \<Rightarrow> resolved_binding list \<Rightarrow> ('w, pxc) io" where
  "apply_bindings E U p live [] = ret (keepLivePMM p live)"
| "apply_bindings E U p live (rb # rbs) =
     (if \<not> rb_Apply rb \<or> rb_Integration rb \<noteq> pmmIntegration then apply_bindings E U p live rbs
      else apply_binding E U p live rb)"

definition pmm_live :: "pxc option \<Rightarrow> bool" where
  "pmm_live live = (case live_pmm live of None \<Rightarrow> False | Some m \<Rightarrow> pm_Enabled m)"

definition applyPMM :: "'w env \<Rightarrow> url_host \<Rightarrow> pxc \<Rightarrow> pxc option \<Rightarrow> requirement \<Rightarrow> ('w, pxc) io" where
  "applyPMM E U p live required =
     (if \<not> RequirementElse E required (pmm_live live)
      then call (syncPMMServerToken E (px_SecretsName (pc_Spec p)) None) fail (\<lambda>_. ret (set_pmm p None))
      else if required \<noteq> Required then ret (keepLivePMM p live)
      else call (ctx_MonitoringBindings E) (\<lambda>e. fail (Wrap ''list monitoring bindings'' e)) (apply_bindings E U p live))"

definition applyMonitoring :: "'w env \<Rightarrow> url_host \<Rightarrow> pxc \<Rightarrow> provider_spec \<Rightarrow> ('w, pxc) io" where
  "applyMonitoring E U p providerSpec =
     call (call (ctx_GetPXC E (ctx_Name E))
            (\<lambda>e. if \<not> IsNotFound e then fail (Wrap ''get PerconaXtraDBCluster'' e) else ret None) (\<lambda>l. ret (Some l)))
       fail (\<lambda>live.
     call (ctx_RequiredSources E) (\<lambda>e. fail (Wrap ''resolve required monitoring sources'' e)) (\<lambda>required.
     call (applyPMM E U p live (rs_Integrations required pmmIntegration)) fail (\<lambda>p1.
     lift_outcome (applyMetricsExporter E p1 live (rs_Metrics required) providerSpec))))"

subsection \<open>The hold rule\<close>

text \<open>A section and token that a binding of the Instance rendered.\<close>

definition rendered :: "'w env \<Rightarrow> url_host \<Rightarrow> pmm_spec \<Rightarrow> string \<Rightarrow> bool" where
  "rendered E U pmm token \<longleftrightarrow> (\<exists>rb w w'. rb_Apply rb \<and> rb_Integration rb = pmmIntegration \<and> exec (renderPMM E U rb) w = (Ret (pmm, token), w'))"

lemma renderPMM_Ret:
  assumes "exec (renderPMM E U rb) w = (Ret (pmm, token), w')"
  shows "token \<noteq> []" "\<exists>host resources img. pmm = pmm_section E host resources img"
  using assms by (auto simp: renderPMM_def exec_call Let_def split: prod.splits outcome.splits if_splits)

lemma apply_binding_Ret:
  assumes "exec (apply_binding E U p live rb) w = (Ret q, w')"
  shows "q = keepLivePMM p live \<or> (\<exists>pmm token w1. exec (renderPMM E U rb) w = (Ret (pmm, token), w1) \<and> q = set_pmm p (Some pmm))"
  using assms by (auto simp: apply_binding_def void_def exec_call split: prod.splits outcome.splits if_splits)

lemma apply_bindings_Ret:
  assumes "exec (apply_bindings E U p live rbs) w = (Ret q, w')"
  shows "q = keepLivePMM p live \<or> (\<exists>pmm token. rendered E U pmm token \<and> q = set_pmm p (Some pmm))"
  using assms
proof (induction rbs)
  case (Cons rb rbs)
  then show ?case
    using apply_binding_Ret [of E U p live rb w q w'] by (fastforce simp: rendered_def split: if_splits)
qed simp


definition running_pmm :: pmm_spec where
  "running_pmm = \<lparr>pm_Enabled = True, pm_ServerHost = ''pmm'', pm_Image = ''pmm:3'', pm_CustomClusterName = ''db'', pm_ImagePullPolicy = [],
     pm_Resources = zero_resources, pm_PxcParams = [], pm_ProxysqlParams = []\<rparr>"


text \<open>
  C30. The endpoints published: the exporter's while the live cluster has the sidecar and an engine pod
  is ready, HAProxy's while it is enabled and a pod of it is ready; none while there is no cluster.
  The engine's endpoint names the port under which the sidecar serves metrics.
\<close>

theorem published_endpoints:
  assumes "exec (MonitoringSources E) w = (Ret eps, w')"
  shows "(eps = [] \<and> (\<exists>e. exec (ctx_GetPXC E (ctx_Name E)) w = (Err e, w') \<and> IsNotFound e))
    \<or> (\<exists>p. exec (ctx_GetPXC E (ctx_Name E)) w = (Ret p, w')
        \<and> (engine_endpoint E \<in> set eps) = (hasMetricsExporter (Some p) \<and> 0 < sint (pst_PXCReady (pc_Status p)))
        \<and> (haproxy_endpoint E \<in> set eps) = (HAProxyEnabled E (pc_Spec p) \<and> 0 < sint (pst_HAProxyReady (pc_Status p)))
        \<and> set eps \<subseteq> {engine_endpoint E, haproxy_endpoint E} \<and> distinct eps
        \<and> me_Port (engine_endpoint E) = PortName (cp_Name (hd (co_Ports (mysqldExporterContainer img s)))))"
proof -
  have ne: "engine_endpoint E \<noteq> haproxy_endpoint E" by (simp add: engine_endpoint_def haproxy_endpoint_def)
  have port: "me_Port (engine_endpoint E) = PortName (cp_Name (hd (co_Ports (mysqldExporterContainer img s))))"
    by (simp add: engine_endpoint_def mysqldExporterContainer_def)
  from assms ne port show ?thesis
    by (auto simp: MonitoringSources_def exec_call Let_def split: prod.splits outcome.splits if_splits)
qed

definition running_cluster :: cluster where
  "running_cluster = empty_cluster\<lparr>wl_PXC := [((''team-a'', ''db''), engine_only)]\<rparr>"

lemma running_cluster_sources: "exec (MonitoringSources (ref_env sample_inst)) running_cluster = (Ret [], running_cluster)"
  by (simp add: MonitoringSources_def exec_call running_cluster_def sample_inst_def named_meta_def hasMetricsExporter_def engine_only_def
      zero_pod_def Let_def)

theorem published_endpoints_witness:
  "\<exists>p. exec (ctx_GetPXC (ref_env sample_inst) ''db'') running_cluster = (Ret p, running_cluster)
     \<and> \<not> (hasMetricsExporter (Some p) \<and> 0 < sint (pst_PXCReady (pc_Status p)))"
  using published_endpoints [OF running_cluster_sources]
  by (auto simp: sample_inst_def named_meta_def running_cluster_def)

end
