(* ===== verification/Provider_Sync.thy ===== *)
theory Provider_Sync
  imports Validate Restores Monitoring
begin

text \<open>
  internal/provider/provider.go: \<open>SyncPXC\<close>, which renders the operator's cluster from the Instance and
  applies it, with the parts it is made of: the default spec, the engine and proxy sections, service
  exposure, safety flags, configurations, the copy of credentials for an Instance seeded from
  another one, and the gate that holds the seeding until the engine is ready. The rendering before
  the first call that can fail on its own is a pure function of the Instance.
\<close>

definition defaultEngineReplicas :: int32 where "defaultEngineReplicas = 3"
definition defaultProxyReplicas :: int32 where "defaultProxyReplicas = 2"

definition defaultSpec :: "'m lib_scheme \<Rightarrow> pxc_spec" where
  "defaultSpec L = \<lparr>px_UpdateStrategy = SmartUpdateStrategy L, px_UpgradeApply = ''disabled'', px_UpgradeSchedule = ''0 4 * * *'',
     px_VolumeExpansionEnabled = True, px_CRVersion = ''1.20.0'', px_SecretsName = [],
     px_PXC = Some (zero_pod\<lparr>ps_VolumeSpec := Some \<lparr>vs_PersistentVolumeClaim = Some \<lparr>pvc_Requests = [(''storage'', ''6Gi'')],
         pvc_StorageClassName = None\<rparr>, vs_EmptyDir = False\<rparr>, ps_Size := 3\<rparr>),
     px_HAProxy = Some \<lparr>ha_Pod = zero_pod\<lparr>ps_Enabled := True, ps_Size := 2\<rparr>, ha_ExposePrimary = zero_expose\<rparr>,
     px_ProxySQL = None, px_Unsafe = \<lparr>uf_PXCSize = False, uf_ProxySize = False\<rparr>, px_Backup = None, px_PMM = None\<rparr>"

definition new_cluster :: "'w env \<Rightarrow> pxc" where
  "new_cluster E = \<lparr>pc_Meta = (ctx_ObjectMeta E (ctx_Name E))\<lparr>om_Finalizers := [''percona.com/delete-pxc-pods-in-order'', ''percona.com/delete-pxc-pvc'']\<rparr>,
     pc_Spec = defaultSpec E,
     pc_Status = \<lparr>pst_State = AppStateOther [], pst_Messages = [], pst_Host = [], pst_PXCReady = 0, pst_HAProxyReady = 0\<rparr>\<rparr>"

subsection \<open>The engine\<close>

definition replicas_or :: "int32 \<Rightarrow> component_spec \<Rightarrow> int32" where
  "replicas_or dflt c = (case cs_Replicas c of None \<Rightarrow> dflt | Some n \<Rightarrow> n)"

definition storage_volume :: "'m lib_scheme \<Rightarrow> component_storage \<Rightarrow> volume_spec option \<Rightarrow> volume_spec" where
  "storage_volume L st vs =
     (let v = (case vs of None \<Rightarrow> \<lparr>vs_PersistentVolumeClaim = None, vs_EmptyDir = False\<rparr> | Some v \<Rightarrow> v);
          pvc = (case vs_PersistentVolumeClaim v of None \<Rightarrow> \<lparr>pvc_Requests = [], pvc_StorageClassName = None\<rparr> | Some c \<Rightarrow> c);
          pvc1 = (if \<not> QuantityIsZero L (cst_Size st) then pvc\<lparr>pvc_Requests := AList.update ''storage'' (cst_Size st) (pvc_Requests pvc)\<rparr> else pvc);
          pvc2 = (case cst_StorageClass st of None \<Rightarrow> pvc1
            | Some c \<Rightarrow> if c \<noteq> [] then pvc1\<lparr>pvc_StorageClassName := cst_StorageClass st\<rparr> else pvc1)
      in v\<lparr>vs_PersistentVolumeClaim := Some pvc2\<rparr>)"

definition engine_pod :: "'m lib_scheme \<Rightarrow> component_spec \<Rightarrow> pod_spec \<Rightarrow> pod_spec" where
  "engine_pod L engine pod =
     (let p1 = pod\<lparr>ps_Size := replicas_or defaultEngineReplicas engine\<rparr>;
          p2 = (case cs_Resources engine of None \<Rightarrow> p1 | Some r \<Rightarrow> p1\<lparr>ps_Resources := r\<rparr>)
      in case cs_Storage engine of None \<Rightarrow> p2 | Some st \<Rightarrow> p2\<lparr>ps_VolumeSpec := Some (storage_volume L st (ps_VolumeSpec p2))\<rparr>)"

definition with_engine :: "'w env \<Rightarrow> component_spec \<Rightarrow> pxc \<Rightarrow> pxc outcome" where
  "with_engine E engine p = bindO (on_engine (engine_pod E engine) p) (\<lambda>p1.
     on_engine (\<lambda>pod. applyScheduling E pod (cs_SchedulingPolicy engine) (LabelsPXC E p1) (LabelHostname E)) p1)"

subsection \<open>The proxy\<close>

definition proxysql_pod :: "component_spec \<Rightarrow> proxysql_spec" where
  "proxysql_pod proxy = \<lparr>pq_Pod = zero_pod\<lparr>ps_Enabled := True, ps_Size := replicas_or defaultProxyReplicas proxy,
     ps_VolumeSpec := Some \<lparr>vs_PersistentVolumeClaim = None, vs_EmptyDir = True\<rparr>\<rparr>, pq_Expose = zero_expose\<rparr>"

definition with_proxy :: "'w env \<Rightarrow> component_spec \<Rightarrow> pxc \<Rightarrow> pxc" where
  "with_proxy E proxy p =
     (if cs_Type proxy = ProxyTypeProxySQL
      then (let p1 = on_spec (\<lambda>s. s\<lparr>px_HAProxy := None, px_ProxySQL := Some (proxysql_pod proxy)\<rparr>) p
            in on_spec (on_proxysql (pq_Pod_update (\<lambda>pod. applyScheduling E pod (cs_SchedulingPolicy proxy) (LabelsProxySQL E p1) (AffinityTopologyKeyOff E)))) p1)
      else (let p1 = on_spec (\<lambda>s. s\<lparr>px_HAProxy := Some (ha_Pod_update (\<lambda>pod. pod\<lparr>ps_Enabled := True, ps_Size := replicas_or defaultProxyReplicas proxy\<rparr>)
                       (case px_HAProxy s of None \<Rightarrow> \<lparr>ha_Pod = zero_pod, ha_ExposePrimary = zero_expose\<rparr> | Some h \<Rightarrow> h)), px_ProxySQL := None\<rparr>) p
            in on_spec (on_haproxy (ha_Pod_update (\<lambda>pod. applyScheduling E pod (cs_SchedulingPolicy proxy) (LabelsHAProxy E p1) (AffinityTopologyKeyOff E)))) p1))"

definition service_expose_of :: "'m lib_scheme \<Rightarrow> component_service \<Rightarrow> service_expose" where
  "service_expose_of L svc = \<lparr>sx_Type = csv_ServiceType svc, sx_Annotations = csv_Annotations svc,
     sx_LoadBalancerSourceRanges = (case csv_LoadBalancerRanges svc of None \<Rightarrow> [] | Some rs \<Rightarrow> NormalizedSourceRanges L rs)\<rparr>"

text \<open>Writing through a pointer to a proxy section.\<close>

definition haproxy_ptr :: "(haproxy_spec \<Rightarrow> haproxy_spec) \<Rightarrow> pxc \<Rightarrow> pxc outcome" where
  "haproxy_ptr f p = bindO (deref (px_HAProxy (pc_Spec p))) (\<lambda>_. Ret (on_spec (on_haproxy f) p))"

definition proxysql_ptr :: "(proxysql_spec \<Rightarrow> proxysql_spec) \<Rightarrow> pxc \<Rightarrow> pxc outcome" where
  "proxysql_ptr f p = bindO (deref (px_ProxySQL (pc_Spec p))) (\<lambda>_. Ret (on_spec (on_proxysql f) p))"

definition applyServiceExpose :: "'m lib_scheme \<Rightarrow> component_spec \<Rightarrow> component_spec \<Rightarrow> pxc \<Rightarrow> pxc outcome" where
  "applyServiceExpose L engine proxy p =
     (case (case cs_Service proxy of Some s \<Rightarrow> Some s | None \<Rightarrow> cs_Service engine) of
        None \<Rightarrow> Ret p
      | Some svc \<Rightarrow>
        (let expose = service_expose_of L svc in
         if HAProxyEnabled L (pc_Spec p) then haproxy_ptr (\<lambda>h. h\<lparr>ha_ExposePrimary := expose\<rparr>) p
         else if ProxySQLEnabled L (pc_Spec p) then proxysql_ptr (\<lambda>q. q\<lparr>pq_Expose := expose\<rparr>) p
         else Ret p))"

definition unsafeFlags :: "int32 option \<Rightarrow> int32 option \<Rightarrow> unsafe_flags" where
  "unsafeFlags replicas proxyReplicas =
     \<lparr>uf_PXCSize = (case replicas of None \<Rightarrow> False | Some n \<Rightarrow> sint n < 3),
      uf_ProxySize = (case proxyReplicas of None \<Rightarrow> False | Some n \<Rightarrow> sint n < 2)\<rparr>"

text \<open>The size of the enabled proxy, HAProxy's when both are enabled (lines 244 to 250).\<close>

definition proxyReplicasPtr :: "'m lib_scheme \<Rightarrow> pxc_spec \<Rightarrow> int32 option outcome" where
  "proxyReplicasPtr L s =
     bindO (if ProxySQLEnabled L s then bindO (deref (px_ProxySQL s)) (\<lambda>q. Ret (Some (ps_Size (pq_Pod q)))) else Ret None) (\<lambda>n.
       if HAProxyEnabled L s then bindO (deref (px_HAProxy s)) (\<lambda>h. Ret (Some (ps_Size (ha_Pod h)))) else Ret n)"

definition with_unsafe :: "'m lib_scheme \<Rightarrow> component_spec \<Rightarrow> pxc \<Rightarrow> pxc outcome" where
  "with_unsafe L engine p = bindO (proxyReplicasPtr L (pc_Spec p)) (\<lambda>n.
     Ret (on_spec (px_Unsafe_update (\<lambda>_. unsafeFlags (Some (replicas_or defaultEngineReplicas engine)) n)) p))"

definition invalid_component :: "string \<Rightarrow> go_error" where
  "invalid_component c = Msg (''instance spec has invalid '' @ Quote c @ '' component; this should be caught by Validate'')"

text \<open>Lines 163 to 251: the components of the Instance and the cluster rendered from them.\<close>

definition render_cluster :: "'w env \<Rightarrow> (component_spec \<times> component_spec \<times> pxc) outcome" where
  "render_cluster E =
     (case in_Components (ctx_Instance E) ComponentEngine of
        None \<Rightarrow> Err (invalid_component ComponentEngine)
      | Some engine \<Rightarrow>
        bindO (with_engine E engine (new_cluster E)) (\<lambda>p1.
        case in_Components (ctx_Instance E) ComponentProxy of
          None \<Rightarrow> Err (invalid_component ComponentProxy)
        | Some proxy \<Rightarrow>
          if cs_Type proxy = [] then Err (invalid_component ComponentProxy)
          else bindO (labelPods E (with_proxy E proxy p1)) (\<lambda>p2.
               bindO (applyServiceExpose E engine proxy p2) (\<lambda>p3.
               bindO (with_unsafe E engine p3) (\<lambda>p4.
               Ret (engine, proxy, p4))))))"

subsection \<open>Configurations and images\<close>

text \<open>The parameters of the components, from definition/components/types.go.\<close>

record PXCParameters =
  pxp_Configuration :: string

record ProxyParameters =
  prp_Configuration :: string

definition store_pxc_member :: "string \<Rightarrow> json \<Rightarrow> PXCParameters \<Rightarrow> PXCParameters option" where
  "store_pxc_member k j d =
     (if names_field k ''configuration'' then map_option (\<lambda>u. d\<lparr>pxp_Configuration := u\<rparr>) (store_string j (pxp_Configuration d)) else Some d)"

definition store_proxy_member :: "string \<Rightarrow> json \<Rightarrow> ProxyParameters \<Rightarrow> ProxyParameters option" where
  "store_proxy_member k j d =
     (if names_field k ''configuration'' then map_option (\<lambda>u. d\<lparr>prp_Configuration := u\<rparr>) (store_string j (prp_Configuration d)) else Some d)"

definition engineConfigurationFromComponent :: "component_spec \<Rightarrow> string outcome" where
  "engineConfigurationFromComponent c =
     (case cs_Parameters c of None \<Rightarrow> Ret []
      | Some raw \<Rightarrow> if raw = [] then Ret []
        else (case Unmarshal store_pxc_member \<lparr>pxp_Configuration = []\<rparr> raw of
            Err e \<Rightarrow> Err (Wrap ''decode engine component parameters'' e)
          | Panic \<Rightarrow> Panic
          | Ret cfg \<Rightarrow> Ret (pxp_Configuration cfg)))"

definition proxyConfigurationFromComponent :: "component_spec \<Rightarrow> string outcome" where
  "proxyConfigurationFromComponent c =
     (case cs_Parameters c of None \<Rightarrow> Ret []
      | Some raw \<Rightarrow> if raw = [] then Ret []
        else (case Unmarshal store_proxy_member \<lparr>prp_Configuration = []\<rparr> raw of
            Err e \<Rightarrow> Err (Wrap (''decode '' @ Quote ComponentProxy @ '' component parameters'') e)
          | Panic \<Rightarrow> Panic
          | Ret cfg \<Rightarrow> Ret (prp_Configuration cfg)))"

definition engine_image :: "'m lib_scheme \<Rightarrow> provider_spec \<Rightarrow> component_spec \<Rightarrow> string" where
  "engine_image L spec engine =
     (if cs_Image engine \<noteq> [] then cs_Image engine
      else (let img = (if cs_Version engine \<noteq> [] then GetImageForVersion L spec ComponentEngine (cs_Version engine) else []) in
        if img = [] then GetDefaultImageForComponent L spec ComponentEngine else img))"

definition proxy_image :: "'w env \<Rightarrow> provider_spec \<Rightarrow> component_spec \<Rightarrow> string outcome" where
  "proxy_image E spec proxy =
     (let img = (if cs_Image proxy \<noteq> [] then cs_Image proxy
                 else if cs_Version proxy \<noteq> [] then imageForComponentTypeVersion spec (cs_Type proxy) (cs_Version proxy) else [])
      in if img = [] then imageForBundledProxy E spec (cs_Type proxy) else Ret img)"

text \<open>Lines 258 to 316. The type of the proxy is not empty here.\<close>

definition on_proxy_pod :: "string \<Rightarrow> (pod_spec \<Rightarrow> pod_spec) \<Rightarrow> pxc \<Rightarrow> pxc outcome" where
  "on_proxy_pod proxyType f p =
     (if proxyType = ProxyTypeHAProxy then haproxy_ptr (ha_Pod_update f) p
      else if proxyType = ProxyTypeProxySQL then proxysql_ptr (pq_Pod_update f) p
      else Ret p)"

definition unsupported_proxy :: "string \<Rightarrow> go_error" where
  "unsupported_proxy t = Msg (''unsupported proxy type '' @ Quote t)"

definition configure_cluster :: "'w env \<Rightarrow> provider_spec \<Rightarrow> component_spec \<Rightarrow> component_spec \<Rightarrow> pxc \<Rightarrow> pxc outcome" where
  "configure_cluster E spec engine proxy p =
     bindO (engineConfigurationFromComponent engine) (\<lambda>engineConfig.
     bindO (on_engine (\<lambda>pod. pod\<lparr>ps_Configuration := (if engineConfig \<noteq> [] then engineConfig
         else defaultConfigurationForEngine E (replicas_or defaultEngineReplicas engine) (cs_Resources engine)),
       ps_Image := engine_image E spec engine, ps_ImagePullPolicy := PullIfNotPresent\<rparr>) p) (\<lambda>p1.
     bindO (proxy_image E spec proxy) (\<lambda>proxyImage.
     if cs_Type proxy \<noteq> ProxyTypeHAProxy \<and> cs_Type proxy \<noteq> ProxyTypeProxySQL then Err (unsupported_proxy (cs_Type proxy))
     else bindO (on_proxy_pod (cs_Type proxy) (ps_Image_update (\<lambda>_. proxyImage)) p1) (\<lambda>p2.
     bindO (proxyConfigurationFromComponent proxy) (\<lambda>proxyConfig.
     on_proxy_pod (cs_Type proxy) (ps_Configuration_update (\<lambda>_. proxyConfig)) p2)))))"

subsection \<open>Seeding from a data source\<close>

definition users_secret :: "string \<Rightarrow> string" where
  "users_secret instanceName = ''everest-secrets-'' @ instanceName"

text \<open>The data source is not nil where this is called.\<close>

definition dataSourceInstanceName :: "'w env \<Rightarrow> data_source \<Rightarrow> ('w, string) io" where
  "dataSourceInstanceName E ds =
     (case ds_Type ds of
        DataSourceTypeBackup \<Rightarrow>
          (let ref = (case ds_Backup ds of None \<Rightarrow> [] | Some n \<Rightarrow> n) in
           if ref = [] then ret []
           else call (ctx_GetBackup E ref)
             (\<lambda>e. if IsNotFound e then ret [] else fail (Wrap (''get source Backup '' @ Quote ref @ '' for credential copy'') e))
             (\<lambda>b. lift_outcome (deref (b_InstanceRef b))))
      | DataSourceTypePointInTime \<Rightarrow>
          ret (case ds_PointInTime ds of None \<Rightarrow> []
               | Some pitr \<Rightarrow> (case pit_SourceInstanceRef pitr of None \<Rightarrow> [] | Some n \<Rightarrow> n))
      | DataSourceTypeOther _ \<Rightarrow> ret [])"

definition missing_source_message :: "string \<Rightarrow> string" where
  "missing_source_message n = ''source Instance credentials secret '' @ Quote n @ '' not found; the source Instance may have been deleted''"

definition copied_secret :: "'w env \<Rightarrow> string \<Rightarrow> secret \<Rightarrow> secret" where
  "copied_secret E n src = \<lparr>se_Meta = (named_meta (ctx_Namespace E) n)\<lparr>om_Labels :=
     [''app.kubernetes.io/managed-by'' \<mapsto> ''everest'', ''app.kubernetes.io/instance'' \<mapsto> ctx_Name E]\<rparr>, se_Data = se_Data src\<rparr>"

definition copy_credentials :: "'w env \<Rightarrow> data_source \<Rightarrow> string \<Rightarrow> ('w, unit) io" where
  "copy_credentials E ds targetSecretName =
     call (dataSourceInstanceName E ds) fail (\<lambda>sourceInstanceName.
       if sourceInstanceName = [] then ret ()
       else (let sourceSecretName = users_secret sourceInstanceName in
         call (ctx_GetSecret E sourceSecretName)
           (\<lambda>e. if IsNotFound e
                then void (ctx_SetDataSourceStatus E \<lparr>dss_Done = True, dss_State = DataSourceStateFailed,
                       dss_Reason = ReasonDataSourceFailed E, dss_Message = missing_source_message sourceSecretName\<rparr>)
                     (fail (DataSourceConfigError (ReasonDataSourceFailed E) (missing_source_message sourceSecretName)))
                else fail (Wrap (''get source credentials secret '' @ Quote sourceSecretName) e))
           (\<lambda>src. call (cl_CreateSecret E (copied_secret E targetSecretName src))
              (\<lambda>e. if IsAlreadyExists e then ret () else fail (Wrap (''create target credentials secret '' @ Quote targetSecretName) e))
              (\<lambda>_. ret ()))))"

definition ensureDataSourceCredentials :: "'w env \<Rightarrow> data_source \<Rightarrow> string \<Rightarrow> ('w, unit) io" where
  "ensureDataSourceCredentials E ds targetSecretName =
     call (ctx_GetSecret E targetSecretName) (\<lambda>_. copy_credentials E ds targetSecretName) (\<lambda>_. ret ())"

text \<open>Lines 353 to 372: the restore that seeds the Instance waits for the engine to be ready.\<close>

definition seed_data_source :: "'w env \<Rightarrow> ('w, unit) io" where
  "seed_data_source E =
     (if in_DataSource (ctx_Instance E) = None then ret ()
      else call (ctx_GetPXC E (ctx_Name E)) (\<lambda>_. ret ())
        (\<lambda>current. if pst_State (pc_Status current) \<noteq> AppStateReady
           then void (ctx_SetDataSourceStatus E \<lparr>dss_Done = False, dss_State = DataSourceStateWaiting,
                  dss_Reason = ReasonDataSourceWaitingForCluster E, dss_Message = ''waiting for PerconaXtraDBCluster to be Ready''\<rparr>) (ret ())
           else call (ctx_ReconcileDataSource E) (\<lambda>e. fail (Wrap ''reconcile data source'' e)) (\<lambda>_. ret ())))"

subsection \<open>SyncPXC\<close>

definition with_secrets :: "string \<Rightarrow> pxc \<Rightarrow> pxc" where
  "with_secrets n p = on_spec (px_SecretsName_update (\<lambda>_. n)) p"

text \<open>Lines 253 to 344: the calls that complete the cluster, and its application.\<close>

definition complete_cluster :: "'w env \<Rightarrow> url_host \<Rightarrow> component_spec \<Rightarrow> component_spec \<Rightarrow> pxc \<Rightarrow> ('w, pxc) io" where
  "complete_cluster E U engine proxy p =
     call (ctx_ProviderSpec E) fail (\<lambda>spec.
     call (lift_outcome (configure_cluster E spec engine proxy p)) fail (\<lambda>p1.
     call (applyBackupSettings E p1) fail (\<lambda>p2.
     applyMonitoring E U (with_secrets (users_secret (ctx_Name E)) p2) spec)))"

definition apply_cluster :: "'w env \<Rightarrow> pxc \<Rightarrow> ('w, unit) io" where
  "apply_cluster E p =
     call (case in_DataSource (ctx_Instance E) of None \<Rightarrow> ret () | Some ds \<Rightarrow> ensureDataSourceCredentials E ds (users_secret (ctx_Name E))) fail (\<lambda>_.
     call (ctx_ApplyPXC E p) fail (\<lambda>_. seed_data_source E))"

definition SyncPXC :: "'w env \<Rightarrow> url_host \<Rightarrow> ('w, unit) io" where
  "SyncPXC E U =
     call (hasActiveRestoreForInstance E (ctx_Namespace E) (ctx_Name E))
       (\<lambda>e. fail (Wrap (''check active restores for '' @ Quote (ctx_Name E)) e))
       (\<lambda>activeRestore. if activeRestore then ret ()
          else call (lift_outcome (render_cluster E)) fail (\<lambda>(engine, proxy, p).
               call (complete_cluster E U engine proxy p) fail (apply_cluster E)))"

definition Sync :: "'w env \<Rightarrow> url_host \<Rightarrow> ('w, unit) io" where
  "Sync E U = SyncPXC E U"

end
