(* ===== verification/Provider_Status.thy ===== *)
theory Provider_Status
  imports Provider_Sync
begin

text \<open>
  internal/provider/provider.go: \<open>StatusPXC\<close>, the phase of an Instance from its cluster, its data
  source and its restores; \<open>buildConnectionDetails\<close>, what a client needs to connect; and
  \<open>CleanupPXC\<close>. A result of \<^verbatim>\<open>(controller.Status, error)\<close> is a pair, since the source returns both at once.
\<close>

definition connection_uri :: "string \<Rightarrow> string \<Rightarrow> string \<Rightarrow> string \<Rightarrow> string" where
  "connection_uri username password host port = url_String ''mysql'' username password (JoinHostPort host port) ''tls=false''"

definition connection_host :: "'w env \<Rightarrow> pxc \<Rightarrow> string" where
  "connection_host E p = (if pst_Host (pc_Status p) = [] then ctx_Name E @ ''-pxc.'' @ ctx_Namespace E @ ''.svc'' else pst_Host (pc_Status p))"

definition details_of :: "'w env \<Rightarrow> pxc \<Rightarrow> string \<Rightarrow> connection_details" where
  "details_of E p password = \<lparr>cx_Type = ''mysql'', cx_Provider = ''percona-xtradb-cluster'', cx_Host = connection_host E p, cx_Port = ''3306'',
     cx_Username = ''root'', cx_Password = password, cx_URI = connection_uri ''root'' password (connection_host E p) ''3306''\<rparr>"

definition buildConnectionDetails :: "'w env \<Rightarrow> pxc \<Rightarrow> ('w, connection_details) io" where
  "buildConnectionDetails E p =
     (let secretName = ''everest-secrets-'' @ ctx_Name E in
      call (ctx_GetSecret E secretName)
        (\<lambda>e. fail (Wrap (''failed to get credentials secret '' @ secretName) e))
        (\<lambda>secret. case se_Data secret ''root'' of
            None \<Rightarrow> fail (Msg (''credentials secret '' @ secretName @ '' missing '' @ Quote ''root'' @ '' key''))
          | Some password \<Rightarrow> ret (details_of E p password)))"

definition phase_of_engine :: "'w env \<Rightarrow> pxc \<Rightarrow> ('w, status) io" where
  "phase_of_engine E p =
     (case pst_State (pc_Status p) of
        AppStatePaused \<Rightarrow> ret (Provisioning ''Cluster is paused'')
      | AppStateReady \<Rightarrow> call (buildConnectionDetails E p)
          (\<lambda>e. ret (Failed (''Failed to build connection details: '' @ Error e))) (\<lambda>d. ret (ReadyWithConnectionDetails d))
      | AppStateError \<Rightarrow> ret (Failed (Join (pst_Messages (pc_Status p)) '';''))
      | AppStateOther _ \<Rightarrow> ret (Provisioning ''Cluster is being created''))"

text \<open>An active restore owns the phase; only then is the engine asked (lines 505 to 526).\<close>

definition phase_of_cluster :: "'w env \<Rightarrow> pxc \<Rightarrow> ('w, status \<times> go_error option) io" where
  "phase_of_cluster E p =
     call (hasActiveRestoreForInstance E (ctx_Namespace E) (ctx_Name E)) (\<lambda>e. ret (NoStatus, Some e))
       (\<lambda>activeRestore. if activeRestore then ret (Restoring ''Restore is running'', None)
          else call (phase_of_engine E p) fail (\<lambda>s. ret (s, None)))"

definition StatusPXC :: "'w env \<Rightarrow> ('w, status \<times> go_error option) io" where
  "StatusPXC E =
     call (ctx_GetPXC E (ctx_Name E))
       (\<lambda>e. if IsNotFound e then ret (Provisioning ''Waiting for PerconaXtraDBCluster'', None)
            else ret (Failed (''Failed to get PerconaXtraDBCluster: '' @ Error e), Some e))
       (\<lambda>p. call (ctx_GetDataSourceStatus E) fail (\<lambda>ds.
          case ds of
            None \<Rightarrow> phase_of_cluster E p
          | Some d \<Rightarrow> if \<not> dss_Done d then ret (Restoring (dss_Message d), None) else phase_of_cluster E p))"

definition CleanupPXC :: "'w env \<Rightarrow> ('w, unit) io" where
  "CleanupPXC E = ctx_DeletePXC E \<lparr>pc_Meta = ctx_ObjectMeta E (ctx_Name E),
     pc_Spec = \<lparr>px_UpdateStrategy = [], px_UpgradeApply = [], px_UpgradeSchedule = [], px_VolumeExpansionEnabled = False,
       px_CRVersion = [], px_SecretsName = [], px_PXC = None, px_HAProxy = None, px_ProxySQL = None,
       px_Unsafe = \<lparr>uf_PXCSize = False, uf_ProxySize = False\<rparr>, px_Backup = None, px_PMM = None\<rparr>,
     pc_Status = \<lparr>pst_State = AppStateOther [], pst_Messages = [], pst_Host = [], pst_PXCReady = 0, pst_HAProxyReady = 0\<rparr>\<rparr>"

definition Status :: "'w env \<Rightarrow> ('w, status \<times> go_error option) io" where
  "Status E = StatusPXC E"

definition Cleanup :: "'w env \<Rightarrow> ('w, unit) io" where
  "Cleanup E = CleanupPXC E"

subsection \<open>When an Instance is ready\<close>

lemma phase_of_engine_ready:
  assumes "exec (phase_of_engine E p) w = (Ret (ReadyWithConnectionDetails d), w')"
  shows "pst_State (pc_Status p) = AppStateReady" "\<exists>s password. exec (ctx_GetSecret E (''everest-secrets-'' @ ctx_Name E)) w = (Ret s, w')
     \<and> se_Data s ''root'' = Some password \<and> d = details_of E p password"
  using assms
  by (auto simp: phase_of_engine_def buildConnectionDetails_def Let_def exec_call split: app_state.splits prod.splits outcome.splits option.splits)

lemma phase_of_cluster_ready:
  assumes "exec (phase_of_cluster E p) w = (Ret (ReadyWithConnectionDetails d, err), w')"
  shows "err = None \<and> (\<exists>items w1. exec (cl_ListRestores E (ctx_Namespace E)) w = (Ret items, w1) \<and> \<not> (\<exists>r \<in> set items. in_progress (ctx_Name E) r)
     \<and> exec (phase_of_engine E p) w1 = (Ret (ReadyWithConnectionDetails d), w'))"
  using assms
  by (auto simp: phase_of_cluster_def hasActiveRestoreForInstance_def exec_call active_restore_iff split: prod.splits outcome.splits if_splits)

text \<open>
  C17. An Instance is reported ready only when its cluster exists and the operator says it is ready, its
  seeding (if any) is done, no restore for it is in progress, and the users Secret holds the root
  password; and the details published are those of this cluster and this password.
\<close>

theorem ready_means_ready:
  assumes "exec (StatusPXC E) w = (Ret (ReadyWithConnectionDetails d, err), w')"
  shows "err = None \<and> (\<exists>p ds items s password w1 w2 w3.
      exec (ctx_GetPXC E (ctx_Name E)) w = (Ret p, w1) \<and> pst_State (pc_Status p) = AppStateReady
    \<and> exec (ctx_GetDataSourceStatus E) w1 = (Ret ds, w2) \<and> (ds = None \<or> (\<exists>x. ds = Some x \<and> dss_Done x))
    \<and> exec (cl_ListRestores E (ctx_Namespace E)) w2 = (Ret items, w3) \<and> \<not> (\<exists>r \<in> set items. in_progress (ctx_Name E) r)
    \<and> exec (ctx_GetSecret E (''everest-secrets-'' @ ctx_Name E)) w3 = (Ret s, w') \<and> se_Data s ''root'' = Some password
    \<and> d = details_of E p password)"
proof -
  from assms obtain p ds w1 w2 where p: "exec (ctx_GetPXC E (ctx_Name E)) w = (Ret p, w1)"
    and ds: "exec (ctx_GetDataSourceStatus E) w1 = (Ret ds, w2)" "ds = None \<or> (\<exists>x. ds = Some x \<and> dss_Done x)"
    and c: "exec (phase_of_cluster E p) w2 = (Ret (ReadyWithConnectionDetails d, err), w')"
    by (auto simp: StatusPXC_def exec_call split: prod.splits outcome.splits option.splits if_splits)
  from phase_of_cluster_ready [OF c] obtain items w3 where "err = None" "exec (cl_ListRestores E (ctx_Namespace E)) w2 = (Ret items, w3)"
    "\<not> (\<exists>r \<in> set items. in_progress (ctx_Name E) r)" and e: "exec (phase_of_engine E p) w3 = (Ret (ReadyWithConnectionDetails d), w')" by blast
  with p ds phase_of_engine_ready [OF e] show ?thesis by blast
qed

definition ready_cluster :: cluster where
  "ready_cluster = running_cluster\<lparr>wl_Secrets := [((''team-a'', ''everest-secrets-db''), \<lparr>se_Meta = named_meta ''team-a'' ''everest-secrets-db'', se_Data = [''root'' \<mapsto> ''p@ss'']\<rparr>)]\<rparr>"

lemma ready_cluster_status:
  "exec (StatusPXC (ref_env sample_inst)) ready_cluster = (Ret (ReadyWithConnectionDetails (details_of (ref_env sample_inst) engine_only ''p@ss''), None), ready_cluster)"
  by (simp add: StatusPXC_def phase_of_cluster_def hasActiveRestoreForInstance_def phase_of_engine_def buildConnectionDetails_def exec_call Let_def
      ready_cluster_def running_cluster_def sample_inst_def named_meta_def empty_cluster_def engine_only_def)

theorem ready_means_ready_witness:
  "\<exists>s. exec (ctx_GetSecret (ref_env sample_inst) ''everest-secrets-db'') ready_cluster = (Ret s, ready_cluster) \<and> se_Data s ''root'' = Some ''p@ss''"
  using ready_means_ready [OF ready_cluster_status]
  by (auto simp: ready_cluster_def sample_inst_def named_meta_def)

text \<open>
  C31. The connection URI: the text between \<^verbatim>\<open>mysql://root:\<close> and the first at sign decodes to the password,
  whatever characters it has, and the encoded password holds none of the characters that delimit the
  parts of a URI; a host that contains a colon is put in brackets.
\<close>

theorem connection_uri_roundtrip:
  "\<exists>enc. cx_URI (details_of E p password) = ''mysql://root:'' @ enc @ ''@'' @ escape keep_host (JoinHostPort (cx_Host (details_of E p password)) ''3306'') @ ''/?tls=false''
     \<and> unescape enc = password \<and> set enc \<inter> set ''@/?:#'' = {}
     \<and> takeWhile (\<lambda>c. c \<noteq> CHR ''@'') (drop 13 (cx_URI (details_of E p password))) = enc"
proof -
  let ?enc = "escape keep_password password" and ?host = "escape keep_host (JoinHostPort (cx_Host (details_of E p password)) ''3306'')"
  have user: "escape keep_password ''root'' = ''root''" by (simp add: escape_def keep_password_def unreserved_def)
  have uri: "cx_URI (details_of E p password) = ''mysql://root:'' @ ?enc @ ''@'' @ ?host @ ''/?tls=false''"
    by (simp add: details_of_def connection_uri_def url_String_def user)
  have no: "set ?enc \<inter> set ''@/?:#'' = {}" using escape_password_delimiters by blast
  then have "CHR ''@'' \<notin> set ?enc" by auto
  then have "takeWhile (\<lambda>c. c \<noteq> CHR ''@'') (?enc @ ''@'' @ ?host @ ''/?tls=false'') = ?enc"
    by (subst takeWhile_append2) auto
  moreover have "drop 13 (cx_URI (details_of E p password)) = ?enc @ ''@'' @ ?host @ ''/?tls=false''" by (simp add: uri)
  moreover have "unescape ?enc = password"
    by (rule unescape_escape) (simp add: keep_password_def unreserved_def)
  ultimately show ?thesis using uri no by metis
qed

end
