(* ===== verification/Cluster_Shape.thy ===== *)
theory Cluster_Shape
  imports Provider_Sync
begin

text \<open>
  What the cluster that \<open>SyncPXC\<close> renders looks like: its shape for given components, that the rendering
  of a validated Instance cannot fail, and that the steps after it (configuration, backups, monitoring)
  keep the shape.
\<close>

subsection \<open>What the rendered cluster looks like\<close>

text \<open>\<^verbatim>\<open>HAProxyEnabled\<close> and \<^verbatim>\<open>ProxySQLEnabled\<close> of the operator's API.\<close>

locale proxy_flags =
  fixes haproxy proxysql :: "pxc_spec \<Rightarrow> bool"
  assumes haproxy_enabled: "haproxy s = (case px_HAProxy s of None \<Rightarrow> False | Some h \<Rightarrow> ps_Enabled (ha_Pod h))"
    and proxysql_enabled: "proxysql s = (case px_ProxySQL s of None \<Rightarrow> False | Some q \<Rightarrow> ps_Enabled (pq_Pod q))"

interpretation ref_proxy_flags: proxy_flags "HAProxyEnabled (ref_env i)" "ProxySQLEnabled (ref_env i)" for i
  by unfold_locales simp_all

definition engine_ok :: "'w env \<Rightarrow> component_spec \<Rightarrow> pod_spec \<Rightarrow> bool" where
  "engine_ok E engine pod \<longleftrightarrow> ps_Size pod = replicas_or defaultEngineReplicas engine
     \<and> ps_Resources pod = (case cs_Resources engine of None \<Rightarrow> zero_resources | Some r \<Rightarrow> r)
     \<and> ps_Labels pod = ctx_PodLabels E ComponentEngine
     \<and> ps_Affinity pod = Some (case Option.bind (cs_SchedulingPolicy engine) sp_Affinity of
         None \<Rightarrow> \<lparr>pa_TopologyKey = Some (LabelHostname E), pa_Advanced = None\<rparr> | Some a \<Rightarrow> \<lparr>pa_TopologyKey = None, pa_Advanced = Some a\<rparr>)"

definition proxy_ok :: "'w env \<Rightarrow> component_spec \<Rightarrow> pod_spec \<Rightarrow> bool" where
  "proxy_ok E proxy pod \<longleftrightarrow> ps_Enabled pod \<and> ps_Size pod = replicas_or defaultProxyReplicas proxy
     \<and> ps_Labels pod = ctx_PodLabels E ComponentProxy
     \<and> ps_Affinity pod = Some (case Option.bind (cs_SchedulingPolicy proxy) sp_Affinity of
         None \<Rightarrow> \<lparr>pa_TopologyKey = Some (AffinityTopologyKeyOff E), pa_Advanced = None\<rparr> | Some a \<Rightarrow> \<lparr>pa_TopologyKey = None, pa_Advanced = Some a\<rparr>)"

text \<open>
  The shape of a cluster for given components: the engine and exactly one kind of proxy with the
  sizes asked for, and the flags that allow sizes the operator calls unsafe set exactly for those.
\<close>

definition cluster_shape :: "'w env \<Rightarrow> component_spec \<Rightarrow> component_spec \<Rightarrow> pxc \<Rightarrow> bool" where
  "cluster_shape E engine proxy p \<longleftrightarrow> pc_Meta p = pc_Meta (new_cluster E)
     \<and> (\<exists>e. px_PXC (pc_Spec p) = Some e \<and> engine_ok E engine e)
     \<and> (if cs_Type proxy = ProxyTypeProxySQL
        then px_HAProxy (pc_Spec p) = None \<and> (\<exists>q. px_ProxySQL (pc_Spec p) = Some q \<and> proxy_ok E proxy (pq_Pod q))
        else px_ProxySQL (pc_Spec p) = None \<and> (\<exists>h. px_HAProxy (pc_Spec p) = Some h \<and> proxy_ok E proxy (ha_Pod h)))
     \<and> px_Unsafe (pc_Spec p) = \<lparr>uf_PXCSize = (sint (replicas_or defaultEngineReplicas engine) < 3),
          uf_ProxySize = (sint (replicas_or defaultProxyReplicas proxy) < 2)\<rparr>"

lemma engine_pod_fields [simp]:
  "ps_Size (engine_pod L engine pod) = replicas_or defaultEngineReplicas engine"
  "ps_Resources (engine_pod L engine pod) = (case cs_Resources engine of None \<Rightarrow> ps_Resources pod | Some r \<Rightarrow> r)"
  "ps_Labels (engine_pod L engine pod) = ps_Labels pod"
  by (auto simp: engine_pod_def Let_def split: option.split)

lemma with_engine_eq:
  "\<exists>e. with_engine E engine (new_cluster E) = Ret (on_spec (px_PXC_update (\<lambda>_. Some e)) (new_cluster E))
     \<and> engine_ok E engine (e\<lparr>ps_Labels := ctx_PodLabels E ComponentEngine\<rparr>)"
  by (auto simp: with_engine_def on_engine_def new_cluster_def defaultSpec_def on_spec_def engine_ok_def applyScheduling_affinity
      zero_pod_def applyScheduling_def Let_def split: option.split)

text \<open>The steps after the engine, on a cluster whose engine section is there.\<close>

lemma with_proxy_spec:
  "px_PXC (pc_Spec (with_proxy E proxy p)) = px_PXC (pc_Spec p)" "pc_Meta (with_proxy E proxy p) = pc_Meta p"
  by (auto simp: with_proxy_def on_proxysql_def on_haproxy_def Let_def)

lemma labelPods_eq:
  assumes "px_PXC (pc_Spec p) = Some e"
  shows "\<exists>q. labelPods E p = Ret q \<and> pc_Meta q = pc_Meta p \<and> px_PXC (pc_Spec q) = Some (e\<lparr>ps_Labels := ctx_PodLabels E ComponentEngine\<rparr>)
    \<and> px_HAProxy (pc_Spec q) = map_option (ha_Pod_update (ps_Labels_update (\<lambda>_. ctx_PodLabels E ComponentProxy))) (px_HAProxy (pc_Spec p))
    \<and> px_ProxySQL (pc_Spec q) = map_option (pq_Pod_update (ps_Labels_update (\<lambda>_. ctx_PodLabels E ComponentProxy))) (px_ProxySQL (pc_Spec p))"
  using assms by (auto simp: labelPods_def on_engine_def on_proxysql_def on_haproxy_def)

lemma applyServiceExpose_eq:
  assumes "proxy_flags (HAProxyEnabled L) (ProxySQLEnabled L)"
  shows "\<exists>q. applyServiceExpose L engine proxy p = Ret q \<and> pc_Meta q = pc_Meta p \<and> px_PXC (pc_Spec q) = px_PXC (pc_Spec p)
    \<and> map_option ha_Pod (px_HAProxy (pc_Spec q)) = map_option ha_Pod (px_HAProxy (pc_Spec p))
    \<and> map_option pq_Pod (px_ProxySQL (pc_Spec q)) = map_option pq_Pod (px_ProxySQL (pc_Spec p))"
  using proxy_flags.haproxy_enabled [OF assms, of "pc_Spec p"] proxy_flags.proxysql_enabled [OF assms, of "pc_Spec p"]
  by (cases "px_HAProxy (pc_Spec p)"; cases "px_ProxySQL (pc_Spec p)")
    (auto simp: applyServiceExpose_def haproxy_ptr_def proxysql_ptr_def on_haproxy_def on_proxysql_def Let_def split: option.split)

lemma with_unsafe_eq:
  assumes "proxy_flags (HAProxyEnabled L) (ProxySQLEnabled L)"
    and "(if cs_Type proxy = ProxyTypeProxySQL
        then px_HAProxy (pc_Spec p) = None \<and> (\<exists>q. px_ProxySQL (pc_Spec p) = Some q \<and> proxy_ok E proxy (pq_Pod q))
        else px_ProxySQL (pc_Spec p) = None \<and> (\<exists>h. px_HAProxy (pc_Spec p) = Some h \<and> proxy_ok E proxy (ha_Pod h)))"
  shows "with_unsafe L engine p = Ret (on_spec (px_Unsafe_update (\<lambda>_. \<lparr>uf_PXCSize = (sint (replicas_or defaultEngineReplicas engine) < 3),
          uf_ProxySize = (sint (replicas_or defaultProxyReplicas proxy) < 2)\<rparr>)) p)"
  using assms(2) proxy_flags.haproxy_enabled [OF assms(1), of "pc_Spec p"] proxy_flags.proxysql_enabled [OF assms(1), of "pc_Spec p"]
  by (auto simp: with_unsafe_def proxyReplicasPtr_def unsafeFlags_def proxy_ok_def split: if_splits)

definition proxies_ok :: "'w env \<Rightarrow> component_spec \<Rightarrow> pxc_spec \<Rightarrow> bool" where
  "proxies_ok E proxy s \<longleftrightarrow> (if cs_Type proxy = ProxyTypeProxySQL
        then px_HAProxy s = None \<and> (\<exists>q. px_ProxySQL s = Some q \<and> proxy_ok E proxy (pq_Pod q))
        else px_ProxySQL s = None \<and> (\<exists>h. px_HAProxy s = Some h \<and> proxy_ok E proxy (ha_Pod h)))"

lemma proxies_ok_pods:
  assumes "proxies_ok E proxy s" "map_option ha_Pod (px_HAProxy t) = map_option ha_Pod (px_HAProxy s)"
    "map_option pq_Pod (px_ProxySQL t) = map_option pq_Pod (px_ProxySQL s)"
  shows "proxies_ok E proxy t"
  using assms by (auto simp: proxies_ok_def split: if_splits)

lemma with_proxy_ok:
  assumes "labelPods E (with_proxy E proxy p) = Ret q" "px_PXC (pc_Spec p) = Some e"
  shows "proxies_ok E proxy (pc_Spec q)"
proof -
  have "px_PXC (pc_Spec (with_proxy E proxy p)) = Some e" using assms(2) by (simp add: with_proxy_spec)
  from labelPods_eq [OF this, of E] assms(1)
  have ha: "px_HAProxy (pc_Spec q) = map_option (ha_Pod_update (ps_Labels_update (\<lambda>_. ctx_PodLabels E ComponentProxy))) (px_HAProxy (pc_Spec (with_proxy E proxy p)))"
    and pq: "px_ProxySQL (pc_Spec q) = map_option (pq_Pod_update (ps_Labels_update (\<lambda>_. ctx_PodLabels E ComponentProxy))) (px_ProxySQL (pc_Spec (with_proxy E proxy p)))"
    by auto
  show ?thesis
    by (auto simp: proxies_ok_def ha pq with_proxy_def Let_def on_proxysql_def on_haproxy_def proxy_ok_def proxysql_pod_def
        applyScheduling_affinity applyScheduling_def split: option.split)
qed

lemma render_cluster_total:
  assumes "proxy_flags (HAProxyEnabled E) (ProxySQLEnabled E)"
    and "in_Components (ctx_Instance E) ComponentEngine = Some engine" "in_Components (ctx_Instance E) ComponentProxy = Some proxy" "cs_Type proxy \<noteq> []"
  shows "\<exists>p. render_cluster E = Ret (engine, proxy, p) \<and> cluster_shape E engine proxy p"
proof -
  obtain e where p1: "with_engine E engine (new_cluster E) = Ret (on_spec (px_PXC_update (\<lambda>_. Some e)) (new_cluster E))"
    and e: "engine_ok E engine (e\<lparr>ps_Labels := ctx_PodLabels E ComponentEngine\<rparr>)" using with_engine_eq by blast
  define p1' where "p1' = on_spec (px_PXC_update (\<lambda>_. Some e)) (new_cluster E)"
  have pe: "px_PXC (pc_Spec p1') = Some e" and pm: "pc_Meta p1' = pc_Meta (new_cluster E)" by (simp_all add: p1'_def)
  obtain p2 where p2: "labelPods E (with_proxy E proxy p1') = Ret p2" "pc_Meta p2 = pc_Meta (new_cluster E)"
    "px_PXC (pc_Spec p2) = Some (e\<lparr>ps_Labels := ctx_PodLabels E ComponentEngine\<rparr>)"
    using labelPods_eq [of "with_proxy E proxy p1'" e E] pe pm by (auto simp: with_proxy_spec)
  obtain p3 where p3: "applyServiceExpose E engine proxy p2 = Ret p3" "pc_Meta p3 = pc_Meta p2" "px_PXC (pc_Spec p3) = px_PXC (pc_Spec p2)"
    "map_option ha_Pod (px_HAProxy (pc_Spec p3)) = map_option ha_Pod (px_HAProxy (pc_Spec p2))"
    "map_option pq_Pod (px_ProxySQL (pc_Spec p3)) = map_option pq_Pod (px_ProxySQL (pc_Spec p2))"
    using applyServiceExpose_eq [OF assms(1)] by blast
  have ok: "proxies_ok E proxy (pc_Spec p3)"
    by (rule proxies_ok_pods [OF with_proxy_ok [OF p2(1) pe] p3(4,5)])
  note p4 = with_unsafe_eq [OF assms(1) ok [unfolded proxies_ok_def], of engine]
  show ?thesis
    using assms(2-4) p1 p2 p3 p4 e ok unfolding p1'_def [symmetric]
    by (auto simp: render_cluster_def cluster_shape_def proxies_ok_def)
qed

lemma render_cluster_Ret:
  assumes "proxy_flags (HAProxyEnabled E) (ProxySQLEnabled E)" "render_cluster E = Ret (engine, proxy, p)"
  shows "in_Components (ctx_Instance E) ComponentEngine = Some engine" "in_Components (ctx_Instance E) ComponentProxy = Some proxy"
    "cluster_shape E engine proxy p"
proof -
  from assms(2) have comps: "in_Components (ctx_Instance E) ComponentEngine = Some engine"
    "in_Components (ctx_Instance E) ComponentProxy = Some proxy" "cs_Type proxy \<noteq> []"
    by (auto simp: render_cluster_def bindO_Ret split: option.splits if_splits)
  then show "in_Components (ctx_Instance E) ComponentEngine = Some engine" "in_Components (ctx_Instance E) ComponentProxy = Some proxy"
    by simp_all
  from render_cluster_total [OF assms(1) comps] assms(2) show "cluster_shape E engine proxy p" by auto
qed

text \<open>
  C12. For an Instance that validation accepts the rendering of its cluster cannot fail: the errors that
  the source expects validation to have caught do not occur and no pointer is nil. The result is the
  cluster of the Instance's components, with the engine and exactly one kind of proxy in the sizes
  asked for, and the flags for unsafe sizes set exactly below three engine and two proxy pods. The
  type of the proxy is one that the later steps support.
\<close>

theorem validated_instance_renders:
  assumes "Validate (ctx_Instance E) = []" "proxy_flags (HAProxyEnabled E) (ProxySQLEnabled E)"
  shows "\<exists>engine proxy p. in_Components (ctx_Instance E) ComponentEngine = Some engine \<and> in_Components (ctx_Instance E) ComponentProxy = Some proxy
    \<and> render_cluster E = Ret (engine, proxy, p) \<and> cluster_shape E engine proxy p
    \<and> (cs_Type proxy = ProxyTypeHAProxy \<or> cs_Type proxy = ProxyTypeProxySQL)"
proof -
  have "validate_engine (ctx_Instance E) = []" "validate_proxy (ctx_Instance E) = []" using assms(1) by (simp_all add: Validate_def)
  then obtain engine proxy where "in_Components (ctx_Instance E) ComponentEngine = Some engine"
    "in_Components (ctx_Instance E) ComponentProxy = Some proxy" "cs_Type proxy = ProxyTypeHAProxy \<or> cs_Type proxy = ProxyTypeProxySQL"
    by (auto simp: validate_engine_def validate_proxy_def Let_def split: option.splits if_splits)
  moreover from this(3) have "cs_Type proxy \<noteq> []" by (auto simp: common_consts)
  ultimately show ?thesis using render_cluster_total [OF assms(2)] by blast
qed

lemma sample_inst_valid: "Validate (ctx_Instance (ref_env sample_inst)) = []"
proof -
  have c: "in_Components sample_inst = [''engine'' \<mapsto> sample_component ''pxc'', ''proxy'' \<mapsto> sample_component ''haproxy'']"
    "in_Backup sample_inst = Some sample_backup_spec" by (simp_all add: sample_inst_def)
  have "pitr_ok (ib_Storages sample_backup_spec)"
    by (simp add: pitr_ok_def sample_backup_spec_def sample_storage_def pitr_on_def pitr_params_ok_def pitr_parameters_def pitr_raw_def
        decodeAndValidatePITRConfig_def decode_pitr_empty default_pitr_eq below_one_def defaultPITRTimeBetweenUploads_def defaultPITRTimeoutSeconds_def)
  then have "validatePITR (Some sample_backup_spec) = []" by (simp add: validatePITR_Nil)
  then show ?thesis
    by (simp add: Validate_def validate_engine_def validate_proxy_def Let_def c common_consts sample_component_def replicas_error_def)
qed

theorem validated_instance_renders_witness:
  "\<exists>engine proxy p. render_cluster (ref_env sample_inst) = Ret (engine, proxy, p) \<and> cluster_shape (ref_env sample_inst) engine proxy p"
  using validated_instance_renders [OF sample_inst_valid ref_proxy_flags.proxy_flags_axioms] by blast

subsection \<open>What is applied\<close>

lemma shape_engine:
  "cluster_shape E engine proxy p \<Longrightarrow> px_PXC (pc_Spec p) = Some e \<Longrightarrow> engine_ok E engine f \<Longrightarrow>
     cluster_shape E engine proxy (on_spec (px_PXC_update (\<lambda>_. Some f)) p)"
  by (auto simp: cluster_shape_def)

lemma on_engine_shape:
  assumes "cluster_shape E engine proxy p" "on_engine f p = Ret q" "\<And>e. engine_ok E engine e \<Longrightarrow> engine_ok E engine (f e)"
  shows "cluster_shape E engine proxy q"
  using assms by (auto simp: on_engine_Ret cluster_shape_def)

lemma on_proxy_pod_shape:
  assumes "cluster_shape E engine proxy p" "on_proxy_pod t f p = Ret q" "\<And>e. proxy_ok E proxy e \<Longrightarrow> proxy_ok E proxy (f e)"
  shows "cluster_shape E engine proxy q"
  using assms
  by (auto simp: on_proxy_pod_def haproxy_ptr_def proxysql_ptr_def on_haproxy_def on_proxysql_def cluster_shape_def bindO_Ret deref_def
      split: if_splits option.splits)

text \<open>The steps of a configuration that succeeds.\<close>

definition configured_pod :: "'w env \<Rightarrow> provider_spec \<Rightarrow> component_spec \<Rightarrow> string \<Rightarrow> pod_spec \<Rightarrow> pod_spec" where
  "configured_pod E spec engine cfg pod = pod\<lparr>ps_Configuration := (if cfg \<noteq> [] then cfg
         else defaultConfigurationForEngine E (replicas_or defaultEngineReplicas engine) (cs_Resources engine)),
       ps_Image := engine_image E spec engine, ps_ImagePullPolicy := PullIfNotPresent\<rparr>"

lemma configure_cluster_steps:
  assumes "configure_cluster E spec engine proxy p = Ret q"
  obtains cfg p1 img p2 pcfg where "engineConfigurationFromComponent engine = Ret cfg" "on_engine (configured_pod E spec engine cfg) p = Ret p1"
    "proxy_image E spec proxy = Ret img" "cs_Type proxy = ProxyTypeHAProxy \<or> cs_Type proxy = ProxyTypeProxySQL"
    "on_proxy_pod (cs_Type proxy) (ps_Image_update (\<lambda>_. img)) p1 = Ret p2" "proxyConfigurationFromComponent proxy = Ret pcfg"
    "on_proxy_pod (cs_Type proxy) (ps_Configuration_update (\<lambda>_. pcfg)) p2 = Ret q"
proof -
  define g where "g = on_proxy_pod (cs_Type proxy)"
  have "\<exists>cfg p1 img p2 pcfg. engineConfigurationFromComponent engine = Ret cfg \<and> on_engine (configured_pod E spec engine cfg) p = Ret p1
     \<and> proxy_image E spec proxy = Ret img \<and> (cs_Type proxy = ProxyTypeHAProxy \<or> cs_Type proxy = ProxyTypeProxySQL)
     \<and> g (ps_Image_update (\<lambda>_. img)) p1 = Ret p2 \<and> proxyConfigurationFromComponent proxy = Ret pcfg
     \<and> g (ps_Configuration_update (\<lambda>_. pcfg)) p2 = Ret q"
    using assms unfolding configure_cluster_def configured_pod_def [symmetric] g_def [symmetric]
    by (clarsimp simp: bindO_Ret split: if_splits) blast
  with that show thesis unfolding g_def by blast
qed

lemma configure_cluster_shape:
  assumes shape: "cluster_shape E engine proxy p" and run: "configure_cluster E spec engine proxy p = Ret q"
  shows "cluster_shape E engine proxy q"
  using run
proof (rule configure_cluster_steps)
  fix cfg p1 img p2 pcfg
  assume p1: "on_engine (configured_pod E spec engine cfg) p = Ret p1"
    and p2: "on_proxy_pod (cs_Type proxy) (ps_Image_update (\<lambda>_. img)) p1 = Ret p2"
    and q: "on_proxy_pod (cs_Type proxy) (ps_Configuration_update (\<lambda>_. pcfg)) p2 = Ret q"
  from on_engine_shape [OF shape p1] have "cluster_shape E engine proxy p1" by (simp add: engine_ok_def configured_pod_def)
  from on_proxy_pod_shape [OF this p2] have "cluster_shape E engine proxy p2" by (simp add: proxy_ok_def)
  from on_proxy_pod_shape [OF this q] show ?thesis by (simp add: proxy_ok_def)
qed

lemma applyBackupSettings_Ret:
  assumes "exec (applyBackupSettings E p) w = (Ret q, w')"
  shows "\<exists>b. q = set_backup p b"
proof (cases "enabled_backup (ctx_Instance E)")
  case None
  then show ?thesis using assms by (auto simp: applyBackupSettings_def)
next
  case (Some bk)
  from applyBackupSettings_enabledE [OF assms Some] show ?thesis by metis
qed

lemma set_backup_shape: "cluster_shape E engine proxy p \<Longrightarrow> cluster_shape E engine proxy (set_backup p b)"
  by (simp add: cluster_shape_def set_backup_def)

lemma with_secrets_shape: "cluster_shape E engine proxy p \<Longrightarrow> cluster_shape E engine proxy (with_secrets n p)"
  by (simp add: cluster_shape_def with_secrets_def)

lemma set_pmm_shape: "cluster_shape E engine proxy p \<Longrightarrow> cluster_shape E engine proxy (set_pmm p m)"
  by (simp add: cluster_shape_def set_pmm_def)

lemma applyPMM_Ret: "exec (applyPMM E U p live required) w = (Ret q, w') \<Longrightarrow> \<exists>m. q = set_pmm p m"
  by (auto simp: applyPMM_def keepLivePMM_def exec_call split: if_splits prod.splits outcome.splits dest!: apply_bindings_Ret)

text \<open>Monitoring changes the PMM section and the engine's sidecars only.\<close>

lemma applyMonitoring_Ret:
  assumes "exec (applyMonitoring E U p spec) w = (Ret q, w')"
  obtains m live r where "applyMetricsExporter E (set_pmm p m) live r spec = Ret q"
  using assms by (auto simp: applyMonitoring_def exec_call split: prod.splits outcome.splits if_splits dest!: applyPMM_Ret)

lemma applyMetricsExporter_shape:
  assumes "cluster_shape E engine proxy p" "applyMetricsExporter L p live r spec = Ret q"
  shows "cluster_shape E engine proxy q"
  using assms
  by (auto simp: applyMetricsExporter_def Let_def engine_ok_def split: if_splits elim!: on_engine_shape)

end
