(* ===== verification/Seeding.thy ===== *)
theory Seeding
  imports Cluster_Shape
begin

text \<open>
  Instances seeded from a backup or another Instance: the calls a sync makes, the gate that holds the
  seeding restore until the cluster is ready, and the copy of the users Secret that precedes the
  application of the cluster.
\<close>

subsection \<open>The calls of a sync\<close>

lemma keeps_void [intro]: "keeps P m \<Longrightarrow> keeps P k \<Longrightarrow> keeps P (void m k)"
  by (auto simp: void_def)

lemma keeps_if [intro]: "keeps P a \<Longrightarrow> keeps P b \<Longrightarrow> keeps P (if c then a else b)"
  by simp

text \<open>
  Every call a sync may make before the seeding restore is issued: what they keep, the sync keeps. The
  call that issues the restore is not among them.
\<close>

locale sync_calls =
  fixes E :: "'w env" and P :: "'w \<Rightarrow> bool"
  assumes lists: "keeps P (cl_ListRestores E ns)"
    and catalogue: "keeps P (ctx_ProviderSpec E)" "keeps P (ctx_BackupClassForInstance E)"
    and storages: "keeps P (ctx_BackupStorage E n)" "keeps P (ctx_BackupStorageCredentials E bs)"
    and gets: "keeps P (ctx_GetPXC E n)" "keeps P (ctx_GetSecret E n)" "keeps P (ctx_GetBackup E n)"
    and monitoring: "keeps P (ctx_RequiredSources E)" "keeps P (ctx_MonitoringBindings E)" "keeps P (ctx_MonitoringCredentials E rb)"
      "keeps P (ctx_SetMonitoringBindingResult E n r m)"
    and writes: "keeps P (cl_CreateSecret E s)" "keeps P (cl_PatchSecret E s t)" "keeps P (ctx_ApplyPXC E p)" "keeps P (ctx_SetDataSourceStatus E d)"
begin

lemmas calls [intro] = lists catalogue storages gets monitoring writes

lemma apply_storages_keeps: "keeps P (apply_storages E sts acc)"
  by (induction sts arbitrary: acc)
    (auto intro!: keeps_call calls split: option.split storage_type.split)

lemma applyBackupSettings_keeps: "keeps P (applyBackupSettings E p)"
  by (auto simp: applyBackupSettings_def intro!: keeps_call calls apply_storages_keeps split: option.split)

lemma syncPMMServerToken_keeps: "keeps P (syncPMMServerToken E n token)"
  by (auto simp: syncPMMServerToken_def Let_def intro!: keeps_call calls)

lemma renderPMM_keeps: "keeps P (renderPMM E U rb)"
  by (auto simp: renderPMM_def Let_def intro!: keeps_call calls)

lemma apply_bindings_keeps: "keeps P (apply_bindings E U p live rbs)"
  by (induction rbs)
    (auto simp: apply_binding_def intro!: keeps_call keeps_void calls renderPMM_keeps syncPMMServerToken_keeps)

lemma applyMonitoring_keeps: "keeps P (applyMonitoring E U p spec)"
  by (auto simp: applyMonitoring_def applyPMM_def intro!: keeps_call calls syncPMMServerToken_keeps apply_bindings_keeps)

lemma ensureDataSourceCredentials_keeps: "keeps P (ensureDataSourceCredentials E ds n)"
  by (auto simp: ensureDataSourceCredentials_def copy_credentials_def dataSourceInstanceName_def Let_def
      intro!: keeps_call keeps_void calls split: data_source_type.split)

lemma complete_cluster_keeps: "keeps P (complete_cluster E U engine proxy p)"
  by (auto simp: complete_cluster_def intro!: keeps_call calls applyBackupSettings_keeps applyMonitoring_keeps)

text \<open>The gate: while a cluster that is read is never ready, the restore is not issued.\<close>

lemma seed_data_source_waits:
  assumes "\<And>w p w'. P w \<Longrightarrow> exec (ctx_GetPXC E (ctx_Name E)) w = (Ret p, w') \<Longrightarrow> pst_State (pc_Status p) \<noteq> AppStateReady"
  shows "keeps P (seed_data_source E)"
  unfolding keeps_def
proof (intro allI impI)
  fix w assume w: "P w"
  obtain r w1 where g: "exec (ctx_GetPXC E (ctx_Name E)) w = (r, w1)" by fastforce
  with w gets(1) have w1: "P w1" by (metis keepsD snd_conv)
  have "keeps P (void (ctx_SetDataSourceStatus E d) (ret ()))" for d by (auto intro: calls)
  with w w1 g assms [OF w] show "P (snd (exec (seed_data_source E) w))"
    by (cases r) (auto simp: seed_data_source_def keeps_def)
qed

lemma SyncPXC_keeps:
  assumes "keeps P (seed_data_source E)"
  shows "keeps P (SyncPXC E U)"
  using assms
  by (auto simp: SyncPXC_def apply_cluster_def hasActiveRestoreForInstance_def
      intro!: keeps_call calls complete_cluster_keeps ensureDataSourceCredentials_keeps split: option.split)

end

text \<open>
  C15. The restore that seeds an Instance is not issued before the cluster is ready: whatever holds of
  the world and is kept by the other calls of a sync still holds afterwards, as long as it implies that
  the cluster, when it can be read, is not ready.
\<close>

theorem seeding_waits_for_ready:
  assumes "sync_calls E P"
    and "\<And>w p w'. P w \<Longrightarrow> exec (ctx_GetPXC E (ctx_Name E)) w = (Ret p, w') \<Longrightarrow> pst_State (pc_Status p) \<noteq> AppStateReady"
    and "P w" "exec (SyncPXC E U) w = (r, w')"
  shows "P w'"
proof -
  from assms(1,2) have "keeps P (seed_data_source E)" by (rule sync_calls.seed_data_source_waits)
  with assms(1) have "keeps P (SyncPXC E U)" by (rule sync_calls.SyncPXC_keeps)
  with assms(3,4) show ?thesis by (metis keepsD snd_conv)
qed

definition unready :: "inst \<Rightarrow> restore store \<Rightarrow> cluster \<Rightarrow> bool" where
  "unready i rs w \<longleftrightarrow> wl_Restores w = rs \<and> (\<forall>p. map_of (wl_PXC w) (meta_key (in_Meta i)) = Some p \<longrightarrow> pst_State (pc_Status p) \<noteq> AppStateReady)"

text \<open>The reference cluster, with any way to issue the restore.\<close>

interpretation ref_sync: sync_calls "(ref_env i)\<lparr>ctx_ReconcileDataSource := R\<rparr>" "unready i rs" for i R rs
  by unfold_locales
    (auto simp: keeps_def unready_def store_list_def store_create_def store_write_def update_conv' Let_def zero_status_def split: option.splits)

definition seeded_inst :: inst where
  "seeded_inst = sample_inst\<lparr>in_DataSource := Some \<lparr>ds_Type = DataSourceTypePointInTime, ds_Backup = None,
     ds_PointInTime = None\<rparr>\<rparr>"

definition seed_restore :: restore where
  "seed_restore = \<lparr>re_Meta = named_meta ''team-a'' ''seed'', re_InstanceRef = ''db'',
     re_DataSource = \<lparr>ds_Type = DataSourceTypePointInTime, ds_Backup = None, ds_PointInTime = None\<rparr>, re_State = RestoreStatePending\<rparr>"

definition issue_restore :: "(cluster, unit) io" where
  "issue_restore = State (\<lambda>w. (Ret (), w\<lparr>wl_Restores := put (''team-a'', ''seed'') seed_restore\<rparr>))"

theorem seeding_waits_for_ready_witness:
  "wl_Restores (snd (exec (SyncPXC ((ref_env seeded_inst)\<lparr>ctx_ReconcileDataSource := issue_restore\<rparr>) authority_host) empty_cluster)) = []"
proof -
  let ?E = "(ref_env seeded_inst)\<lparr>ctx_ReconcileDataSource := issue_restore\<rparr>"
  have "unready seeded_inst [] (snd (exec (SyncPXC ?E authority_host) empty_cluster))"
  proof (rule seeding_waits_for_ready [OF ref_sync.sync_calls_axioms])
    show "pst_State (pc_Status p) \<noteq> AppStateReady"
      if "unready seeded_inst [] w" "exec (ctx_GetPXC ?E (ctx_Name ?E)) w = (Ret p, w')" for w p w'
      using that by (auto simp: unready_def meta_key_def split: option.splits)
    show "unready seeded_inst [] empty_cluster" by (simp add: unready_def empty_cluster_def)
    show "exec (SyncPXC ?E authority_host) empty_cluster
      = (fst (exec (SyncPXC ?E authority_host) empty_cluster), snd (exec (SyncPXC ?E authority_host) empty_cluster))" by simp
  qed
  then show ?thesis by (simp add: unready_def)
qed

subsection \<open>The credentials of a seeded Instance\<close>

text \<open>How the provider reaches the users Secrets: reads are in the Instance's namespace, and creating stamps metadata only.\<close>

locale secret_store = object_creates lookup get "\<lambda>s. meta_key (se_Meta s)" stored "cl_CreateSecret E"
  for E :: "'w env" and lookup :: "'w \<Rightarrow> string \<times> string \<Rightarrow> secret option" and get stored +
  assumes ctx_get: "ctx_GetSecret E n = get (ctx_Namespace E, n)"
    and stored_data: "se_Data (stored s) = se_Data s"
    and backup_reads: "reads_only (ctx_GetBackup E n)"
    and status_keeps: "exec (ctx_SetDataSourceStatus E d) w = (r, w') \<Longrightarrow> lookup w' = lookup w"
begin

lemma source_name_reads: "exec (dataSourceInstanceName E ds) w = (r, w') \<Longrightarrow> w' = w"
proof -
  have "reads_only (dataSourceInstanceName E ds)"
    by (auto simp: dataSourceInstanceName_def Let_def intro!: backup_reads reads_only_call split: data_source_type.split)
  then show "exec (dataSourceInstanceName E ds) w = (r, w') \<Longrightarrow> w' = w" by (metis reads_onlyD snd_conv)
qed

lemma status_fails: "exec (void (ctx_SetDataSourceStatus E d) (fail e)) w = (r, w') \<Longrightarrow> lookup w' = lookup w \<and> (r = Err e \<or> r = Panic)"
  by (cases "exec (ctx_SetDataSourceStatus E d) w"; cases "fst (exec (ctx_SetDataSourceStatus E d) w)")
    (auto simp: void_def dest: status_keeps)

lemma create_copy:
  assumes "exec (call (cl_CreateSecret E x) (\<lambda>e. if IsAlreadyExists e then ret () else fail (f e)) (\<lambda>_. ret ())) w = (r, w')"
  shows "r = Ret ()" "lookup w' = (case lookup w (meta_key (se_Meta x)) of None \<Rightarrow> (lookup w)(meta_key (se_Meta x) \<mapsto> stored x) | Some _ \<Rightarrow> lookup w)"
  using assms create_fresh [of w x] create_taken [of w x]
  by (cases "lookup w (meta_key (se_Meta x))"; fastforce)+

lemma meta_key_copied: "meta_key (se_Meta (copied_secret E n src)) = (ctx_Namespace E, n)"
  by (simp add: copied_secret_def meta_key_def named_meta_def)

lemma copied_data: "se_Data (copied_secret E n src) = se_Data src"
  by (simp add: copied_secret_def)

lemma copy_credentials_cases:
  assumes "exec (copy_credentials E ds t) w = (r, w')" "lookup w (ctx_Namespace E, t) = None"
  shows "(\<exists>source src. exec (dataSourceInstanceName E ds) w = (Ret source, w) \<and> source \<noteq> [] \<and> r = Ret ()
        \<and> lookup w (ctx_Namespace E, users_secret source) = Some src
        \<and> lookup w' = (lookup w)((ctx_Namespace E, t) \<mapsto> stored (copied_secret E t src)))
     \<or> lookup w' = lookup w \<and> (r = Ret () \<longrightarrow> exec (dataSourceInstanceName E ds) w = (Ret [], w))"
proof -
  obtain r0 w0 where n: "exec (dataSourceInstanceName E ds) w = (r0, w0)" by fastforce
  with source_name_reads have w0: "w0 = w" by blast
  show ?thesis
  proof (cases "\<exists>source. r0 = Ret source \<and> source \<noteq> []")
    case False
    then show ?thesis using assms(1) n w0 by (cases r0) (auto simp: copy_credentials_def)
  next
    case True
    then obtain source where s: "r0 = Ret source" "source \<noteq> []" by blast
    note name = n [unfolded s w0]
    show ?thesis
    proof (cases "lookup w (ctx_Namespace E, users_secret source)")
      case None
      then obtain e where "exec (get (ctx_Namespace E, users_secret source)) w = (Err e, w)" "IsNotFound e" using get_absent by blast
      with assms(1) name s(2) have "exec (void (ctx_SetDataSourceStatus E \<lparr>dss_Done = True, dss_State = DataSourceStateFailed,
                       dss_Reason = ReasonDataSourceFailed E, dss_Message = missing_source_message (users_secret source)\<rparr>)
                     (fail (DataSourceConfigError (ReasonDataSourceFailed E) (missing_source_message (users_secret source))))) w = (r, w')"
        by (simp add: copy_credentials_def ctx_get Let_def)
      from status_fails [OF this] show ?thesis by auto
    next
      case (Some src)
      with assms(1) name s(2) have "exec (call (cl_CreateSecret E (copied_secret E t src))
              (\<lambda>e. if IsAlreadyExists e then ret () else fail (Wrap (''create target credentials secret '' @ Quote t) e)) (\<lambda>_. ret ())) w = (r, w')"
        by (simp add: copy_credentials_def ctx_get get_found Let_def)
      from create_copy [OF this] name s(2) Some assms(2) show ?thesis by (auto simp: meta_key_copied)
    qed
  qed
qed

lemma ensure_cases:
  assumes "exec (ensureDataSourceCredentials E ds t) w = (r, w')"
  obtains (present) "lookup w (ctx_Namespace E, t) \<noteq> None" "r = Ret ()" "w' = w"
  | (missing) "lookup w (ctx_Namespace E, t) = None" "exec (copy_credentials E ds t) w = (r, w')"
  using assms get_found [of w "(ctx_Namespace E, t)"] get_absent [of w "(ctx_Namespace E, t)"]
  by (cases "lookup w (ctx_Namespace E, t)") (auto simp: ensureDataSourceCredentials_def ctx_get)

lemma stored_copy: "se_Data (stored (copied_secret E t src)) = se_Data src"
  by (simp add: stored_data copied_data)

end

text \<open>
  C16. Before the cluster of a seeded Instance is applied its users Secret is there: the credentials step
  changes no Secret that exists, and when it succeeds the Instance's Secret exists, with the data of the
  source Instance's Secret if it was created by this step; the only exception is a source that names no
  Instance, for which nothing is done.
\<close>

theorem credentials_copied_once:
  assumes "secret_store E lookup get stored" "exec (ensureDataSourceCredentials E ds t) w = (r, w')"
  shows "(\<forall>k s. lookup w k = Some s \<longrightarrow> lookup w' k = Some s)
    \<and> (r = Ret () \<longrightarrow> lookup w (ctx_Namespace E, t) \<noteq> None \<and> lookup w' = lookup w
       \<or> (\<exists>source src new. exec (dataSourceInstanceName E ds) w = (Ret source, w) \<and> lookup w (ctx_Namespace E, users_secret source) = Some src
            \<and> lookup w' = (lookup w)((ctx_Namespace E, t) \<mapsto> new) \<and> se_Data new = se_Data src)
       \<or> lookup w' = lookup w \<and> exec (dataSourceInstanceName E ds) w = (Ret [], w))"
proof (cases rule: secret_store.ensure_cases [OF assms, case_names present missing])
  case present
  then show ?thesis by simp
next
  case missing
  have data: "se_Data (stored (copied_secret E t src)) = se_Data src" for src by (rule secret_store.stored_copy [OF assms(1)])
  from secret_store.copy_credentials_cases [OF assms(1) missing(2,1)]
  have "(\<exists>source src. exec (dataSourceInstanceName E ds) w = (Ret source, w) \<and> lookup w (ctx_Namespace E, users_secret source) = Some src
        \<and> lookup w' = (lookup w)((ctx_Namespace E, t) \<mapsto> stored (copied_secret E t src)))
     \<or> lookup w' = lookup w \<and> (r = Ret () \<longrightarrow> exec (dataSourceInstanceName E ds) w = (Ret [], w))" by blast
  moreover from this missing(1) have "\<forall>k s. lookup w k = Some s \<longrightarrow> lookup w' k = Some s" by auto
  ultimately show ?thesis using data by blast
qed

interpretation ref_users: secret_store "ref_env i" "\<lambda>w. map_of (wl_Secrets w)" "case_prod (store_get wl_Secrets)" "se_Meta_update created_meta" for i
  by unfold_locales (auto simp: reads_only_def)

definition source_secret :: secret where
  "source_secret = \<lparr>se_Meta = named_meta ''team-a'' ''everest-secrets-old'', se_Data = [''root'' \<mapsto> ''pw'']\<rparr>"

definition from_old :: data_source where
  "from_old = \<lparr>ds_Type = DataSourceTypePointInTime, ds_Backup = None,
     ds_PointInTime = Some \<lparr>pit_RecoveryTarget = [], pit_Date = None, pit_SourceInstanceRef = Some ''old'', pit_SourceStorageRef = []\<rparr>\<rparr>"

theorem credentials_copied_once_witness:
  "\<exists>w' s. exec (ensureDataSourceCredentials (ref_env sample_inst) from_old ''everest-secrets-db'')
       (empty_cluster\<lparr>wl_Secrets := [((''team-a'', ''everest-secrets-old''), source_secret)]\<rparr>) = (Ret (), w')
     \<and> map_of (wl_Secrets w') (''team-a'', ''everest-secrets-db'') = Some s \<and> se_Data s = [''root'' \<mapsto> ''pw'']"
proof -
  let ?w = "empty_cluster\<lparr>wl_Secrets := [((''team-a'', ''everest-secrets-old''), source_secret)]\<rparr>"
  have name: "exec (dataSourceInstanceName (ref_env sample_inst) from_old) ?w = (Ret ''old'', ?w)"
    by (simp add: dataSourceInstanceName_def from_old_def)
  have ns: "ctx_Namespace (ref_env sample_inst) = ''team-a''" by (simp add: sample_inst_def named_meta_def)
  obtain w' where run: "exec (ensureDataSourceCredentials (ref_env sample_inst) from_old ''everest-secrets-db'') ?w = (Ret (), w')"
    using name by (auto simp: ensureDataSourceCredentials_def copy_credentials_def exec_call ns [simplified] users_secret_def not_found_def
        store_create_def copied_secret_def meta_key_def named_meta_def Let_def)
  from credentials_copied_once [OF ref_users.secret_store_axioms this] name
  show ?thesis using run by (auto simp: ns [simplified] users_secret_def source_secret_def)
qed

end
