(* ===== verification/Sha1.thy ===== *)
theory Sha1
  imports Prelude
begin

text \<open>
  \<^verbatim>\<open>crypto/sha1\<close> and \<^verbatim>\<open>encoding/hex\<close> of Go's standard library, as far as backup_mirror.go uses them:
  the SHA-1 digest (FIPS 180-4) of a byte string on 32-bit words and its hexadecimal text.
\<close>

unbundle bit_operations_syntax

definition rotl32 :: "nat \<Rightarrow> int32 \<Rightarrow> int32" where
  "rotl32 n w = (push_bit n w OR drop_bit (32 - n) w)"

text \<open>A byte is an integer below 256; the bytes of a number come most significant first.\<close>

fun be_bytes :: "nat \<Rightarrow> int \<Rightarrow> int list" where
  "be_bytes 0 v = []"
| "be_bytes (Suc n) v = be_bytes n (v div 256) @ [v mod 256]"

definition sha1_pad :: "string \<Rightarrow> int list" where
  "sha1_pad s = map of_char s @ [128] @ replicate ((119 - length s mod 64) mod 64) 0 @ be_bytes 8 (8 * int (length s))"

fun be_words :: "int list \<Rightarrow> int32 list" where
  "be_words (a # b # c # d # r) = of_int (((a * 256 + b) * 256 + c) * 256 + d) # be_words r"
| "be_words _ = []"

text \<open>The message schedule, newest word first.\<close>

fun sha1_schedule :: "nat \<Rightarrow> int32 list \<Rightarrow> int32 list" where
  "sha1_schedule 0 ws = ws"
| "sha1_schedule (Suc n) ws = sha1_schedule n (rotl32 1 (ws ! 2 XOR ws ! 7 XOR ws ! 13 XOR ws ! 15) # ws)"

type_synonym sha1_state = "int32 \<times> int32 \<times> int32 \<times> int32 \<times> int32"

definition sha1_f :: "nat \<Rightarrow> int32 \<Rightarrow> int32 \<Rightarrow> int32 \<Rightarrow> int32 \<times> int32" where
  "sha1_f t b c d =
     (if t < 20 then ((b AND c) OR (NOT b AND d), 0x5A827999)
      else if t < 40 then (b XOR c XOR d, 0x6ED9EBA1)
      else if t < 60 then ((b AND c) OR (b AND d) OR (c AND d), 0x8F1BBCDC)
      else (b XOR c XOR d, 0xCA62C1D6))"

fun sha1_rounds :: "nat \<Rightarrow> int32 list \<Rightarrow> sha1_state \<Rightarrow> sha1_state" where
  "sha1_rounds t [] st = st"
| "sha1_rounds t (w # ws) (a, b, c, d, e) =
     (case sha1_f t b c d of (f, k) \<Rightarrow> sha1_rounds (t + 1) ws (rotl32 5 a + f + e + k + w, a, rotl32 30 b, c, d))"

definition sha1_block :: "sha1_state \<Rightarrow> int32 list \<Rightarrow> sha1_state" where
  "sha1_block h ws =
     (case h of (a, b, c, d, e) \<Rightarrow>
        case sha1_rounds 0 (rev (sha1_schedule 64 (rev ws))) h of (a', b', c', d', e') \<Rightarrow> (a + a', b + b', c + c', d + d', e + e'))"

function sha1_blocks :: "sha1_state \<Rightarrow> int32 list \<Rightarrow> sha1_state" where
  "sha1_blocks h ws = (if length ws < 16 then h else sha1_blocks (sha1_block h (take 16 ws)) (drop 16 ws))"
  by pat_completeness auto
termination
  by (relation "measure (\<lambda>(h, ws). length ws)") auto

declare sha1_blocks.simps [simp del]

definition sha1_Sum :: "string \<Rightarrow> int list" where
  "sha1_Sum s =
     (case sha1_blocks (0x67452301, 0xEFCDAB89, 0x98BADCFE, 0x10325476, 0xC3D2E1F0) (be_words (sha1_pad s)) of
        (a, b, c, d, e) \<Rightarrow> concat (map (\<lambda>w. be_bytes 4 (uint w)) [a, b, c, d, e]))"

definition EncodeToString :: "int list \<Rightarrow> string" where
  "EncodeToString bs = concat (map (\<lambda>b. [hex_digit (nat (b div 16)), hex_digit (nat (b mod 16))]) bs)"

subsection \<open>Shape of the digest\<close>

lemma length_be_bytes [simp]: "length (be_bytes n v) = n"
  by (induction n arbitrary: v) auto

lemma be_bytes_bound: "b \<in> set (be_bytes n v) \<Longrightarrow> 0 \<le> b \<and> b < 256"
  by (induction n arbitrary: v) auto

lemma length_sha1_Sum: "length (sha1_Sum s) = 20"
  by (simp add: sha1_Sum_def split: prod.split)

lemma sha1_Sum_bound: "b \<in> set (sha1_Sum s) \<Longrightarrow> 0 \<le> b \<and> b < 256"
  by (auto simp: sha1_Sum_def dest: be_bytes_bound split: prod.splits)

lemma length_EncodeToString: "length (EncodeToString bs) = 2 * length bs"
  by (induction bs) (auto simp: EncodeToString_def)

text \<open>The padded message fills whole blocks.\<close>

lemma sha1_pad_blocks: "length (sha1_pad s) mod 64 = 0"
proof -
  define q x where "q = length s div 64" and "x = length s mod 64"
  have l: "length s = 64 * q + x" and x: "x < 64" by (simp_all add: q_def x_def)
  have "(119 - x) mod 64 = (if x \<le> 55 then 55 - x else 119 - x)"
    using x by (auto simp: mod_if)
  then have "length (sha1_pad s) = 64 * (if x \<le> 55 then q + 1 else q + 2)"
    using l x by (simp add: sha1_pad_def)
  then show ?thesis by (simp only: mod_mult_self1_is_0)
qed

end
