(* ===== verification/Backup_Mirror.thy ===== *)
theory Backup_Mirror
  imports Backup_Status Sha1 Images
begin

text \<open>
  The mirroring of scheduled operator backups, from internal/provider/backup_mirror.go: for a backup
  the operator started from a schedule, \<open>Mirror\<close> returns the \<^verbatim>\<open>Backup\<close> object the runtime should create,
  with the name of the schedule recovered from the operator's labels.
\<close>

definition backupTypeCron :: string where "backupTypeCron = ''cron''"

subsection \<open>Schedule names\<close>

definition scheduledBackupPrefix :: "string \<Rightarrow> string \<Rightarrow> string" where
  "scheduledBackupPrefix namespace clusterName =
     (if namespace = [] \<or> clusterName = [] then []
      else take 5 (EncodeToString (sha1_Sum (namespace @ ''-'' @ clusterName))))"

definition scheduleNameFromAncestor :: "string \<Rightarrow> string \<Rightarrow> string \<Rightarrow> string" where
  "scheduleNameFromAncestor namespace clusterName ancestor =
     (if ancestor = [] then []
      else (let prefix = scheduledBackupPrefix namespace clusterName @ ''-'' in
        if HasPrefix ancestor prefix then TrimPrefix ancestor prefix else ancestor))"

definition ancestor_name :: "'m lib_scheme \<Rightarrow> op_backup \<Rightarrow> string" where
  "ancestor_name L b = scheduleNameFromAncestor (om_Namespace (ob_Meta b)) (ob_PXCCluster b)
     (map_str (om_Labels (ob_Meta b)) (LabelBackupAncestor L))"

definition scheduledBackupName :: "'m lib_scheme \<Rightarrow> op_backup \<Rightarrow> string \<times> bool" where
  "scheduledBackupName L b =
     (if ob_SchedulerName b \<noteq> [] then (ob_SchedulerName b, True)
      else if map_str (om_Labels (ob_Meta b)) (LabelBackupType L) \<noteq> backupTypeCron then ([], False)
      else (ancestor_name L b, True))"

subsection \<open>Mirror\<close>

text \<open>The text of \<^verbatim>\<open>%T\<close>.\<close>

definition go_type :: "client_object \<Rightarrow> string" where
  "go_type obj = (case obj of OpBackupObj _ \<Rightarrow> ''*v1.PerconaXtraDBClusterBackup'' | RestoreObj _ \<Rightarrow> ''*v1alpha1.Restore'' | OtherObj t \<Rightarrow> t)"

definition owned_by_backup :: "'m lib_scheme \<Rightarrow> op_backup \<Rightarrow> bool" where
  "owned_by_backup L b \<longleftrightarrow>
     list_ex (\<lambda>owner. or_Controller owner = Some True \<and> or_APIVersion owner = BackupAPIVersion L \<and> or_Kind owner = ''Backup'')
       (om_OwnerReferences (ob_Meta b))"

definition mirrored :: "'m lib_scheme \<Rightarrow> op_backup \<Rightarrow> string \<Rightarrow> string \<Rightarrow> string \<Rightarrow> backup" where
  "mirrored L b classRef storageName scheduleName =
     \<lparr>b_Meta = (named_meta (om_Namespace (ob_Meta b)) (om_Name (ob_Meta b)))\<lparr>om_OwnerReferences :=
        [\<lparr>or_APIVersion = PXCAPIVersion L, or_Kind = ''PerconaXtraDBClusterBackup'', or_Name = om_Name (ob_Meta b),
          or_UID = om_UID (ob_Meta b), or_Controller = None\<rparr>]\<rparr>,
      b_OriginType = BackupOriginTypeInstance L, b_InstanceRef = Some (ob_PXCCluster b), b_ClassRef = classRef,
      b_StorageRef = storageName, b_ScheduleName = scheduleName, b_DeletionPolicy = [], b_State = BackupStateOther [],
      b_CompletedAt = None\<rparr>"

definition mirror_storage :: "op_backup \<Rightarrow> string" where
  "mirror_storage b = (if obs_StorageName (ob_Status b) = [] then ob_StorageName b else obs_StorageName (ob_Status b))"

definition Mirror :: "'w env \<Rightarrow> client_object \<Rightarrow> ('w, backup option) io" where
  "Mirror E obj =
     (case obj of
        OpBackupObj b \<Rightarrow>
          if \<not> IsZero_ptr (om_DeletionTimestamp (ob_Meta b)) then ret None
          else (let (scheduleName, isScheduled) = scheduledBackupName E b in
            if \<not> isScheduled then ret None
            else if owned_by_backup E b then ret None
            else call (cl_GetInstance E (om_Namespace (ob_Meta b)) (ob_PXCCluster b))
              (\<lambda>e. if IsNotFound e then ret None else fail (Wrap (''get instance '' @ Quote (ob_PXCCluster b)) e))
              (\<lambda>instnc.
                let scheduleName' = (if scheduleName = [] then ancestor_name E b else scheduleName) in
                case in_Backup instnc of
                  None \<Rightarrow> ret None
                | Some bk \<Rightarrow>
                  if in_ProviderRef instnc \<noteq> ''percona-xtradb-cluster'' \<or> ib_ClassRef bk = [] then ret None
                  else if mirror_storage b = [] then ret None
                  else ret (Some (mirrored E b (ib_ClassRef bk) (mirror_storage b) scheduleName'))))
      | _ \<Rightarrow> fail (Msg (''unexpected operator backup type '' @ go_type obj)))"

text \<open>\<^verbatim>\<open>OperatorBackupType\<close> names the kind of objects the runtime hands to \<open>Mirror\<close>.\<close>

definition OperatorBackupType :: string where
  "OperatorBackupType = ''*v1.PerconaXtraDBClusterBackup''"

subsection \<open>Names\<close>

lemma prefix_nonempty:
  "ns \<noteq> [] \<Longrightarrow> cl \<noteq> [] \<Longrightarrow> length (scheduledBackupPrefix ns cl) = 5"
  by (simp add: scheduledBackupPrefix_def length_EncodeToString length_sha1_Sum)

lemma set_EncodeToString:
  "(\<And>b. b \<in> set bs \<Longrightarrow> 0 \<le> b \<and> b < 256) \<Longrightarrow> set (EncodeToString bs) \<subseteq> hex_digit ` {0..<16}"
proof (induction bs)
  case (Cons b bs)
  then have "0 \<le> b" "b < 256" by auto
  then have "nat (b div 16) < 16" "nat (b mod 16) < 16" by (simp_all add: nat_less_iff)
  with Cons show ?case by (auto simp: EncodeToString_def)
qed (simp add: EncodeToString_def)

lemma set_prefix: "set (scheduledBackupPrefix ns cl) \<subseteq> hex_digit ` {0..<16}"
  using set_EncodeToString [of "sha1_Sum (ns @ ''-'' @ cl)"] sha1_Sum_bound
  by (auto simp: scheduledBackupPrefix_def dest!: in_set_takeD)

text \<open>
  The schedule name survives the operator's naming: what the operator prepends to the name (five
  hexadecimal digits of the SHA-1 of namespace and cluster, and a dash) is taken off again, and an
  ancestor without that prefix is used as it is.
\<close>

theorem schedule_name_roundtrip:
  "scheduleNameFromAncestor ns cl (scheduledBackupPrefix ns cl @ ''-'' @ name) = name
   \<and> (HasPrefix anc (scheduledBackupPrefix ns cl @ ''-'') \<or> scheduleNameFromAncestor ns cl anc = anc)
   \<and> set (scheduledBackupPrefix ns cl) \<subseteq> hex_digit ` {0..<16}
   \<and> length (scheduledBackupPrefix ns cl) = (if ns = [] \<or> cl = [] then 0 else 5)"
proof (intro conjI)
  show "scheduleNameFromAncestor ns cl (scheduledBackupPrefix ns cl @ ''-'' @ name) = name"
    using TrimPrefix_append [of "scheduledBackupPrefix ns cl @ ''-''" name]
      HasPrefix_append [of "scheduledBackupPrefix ns cl @ ''-''" name]
    by (simp add: scheduleNameFromAncestor_def)
  show "HasPrefix anc (scheduledBackupPrefix ns cl @ ''-'') \<or> scheduleNameFromAncestor ns cl anc = anc"
    by (auto simp: scheduleNameFromAncestor_def Let_def)
  show "set (scheduledBackupPrefix ns cl) \<subseteq> hex_digit ` {0..<16}" by (rule set_prefix)
  show "length (scheduledBackupPrefix ns cl) = (if ns = [] \<or> cl = [] then 0 else 5)"
    using prefix_nonempty [of ns cl] by (auto simp: scheduledBackupPrefix_def)
qed

text \<open>The second computation of the name in \<open>Mirror\<close> never finds one that the first did not.\<close>

lemma recomputed_name: "scheduledBackupName L b = ([], True) \<Longrightarrow> ancestor_name L b = []"
  by (auto simp: scheduledBackupName_def split: if_splits)

subsection \<open>What is mirrored\<close>

lemma Mirror_SomeE:
  assumes "exec (Mirror E obj) w = (Ret (Some m), w')"
  obtains b i bk where "obj = OpBackupObj b" "IsZero_ptr (om_DeletionTimestamp (ob_Meta b))" "snd (scheduledBackupName E b)"
    "\<not> owned_by_backup E b" "exec (cl_GetInstance E (om_Namespace (ob_Meta b)) (ob_PXCCluster b)) w = (Ret i, w')"
    "in_ProviderRef i = ''percona-xtradb-cluster''" "in_Backup i = Some bk" "ib_ClassRef bk \<noteq> []" "mirror_storage b \<noteq> []"
    "m = mirrored E b (ib_ClassRef bk) (mirror_storage b) (fst (scheduledBackupName E b))"
proof -
  from assms obtain b where obj: "obj = OpBackupObj b" by (auto simp: Mirror_def split: client_object.splits)
  obtain sn sched where n: "scheduledBackupName E b = (sn, sched)" by force
  with assms obj have sched: sched "IsZero_ptr (om_DeletionTimestamp (ob_Meta b))" "\<not> owned_by_backup E b"
    by (auto simp: Mirror_def split: if_splits)
  then have sn: "(if sn = [] then ancestor_name E b else sn) = sn" using recomputed_name n by auto
  show thesis
    using assms obj n sched sn that [of b]
    by (auto simp: Mirror_def Let_def exec_call split: prod.splits outcome.splits option.splits if_splits)
qed

text \<open>
  C33. A Backup is created only for a live operator backup that comes from a schedule, is not
  controlled by a Backup already and belongs to an Instance of this provider with a backup class. It
  has the name and namespace of the operator backup, is owned (not controlled) by it, refers to the
  same Instance, class and storage, and carries the name of the schedule.
\<close>

theorem mirrored_backup:
  assumes "exec (Mirror E obj) w = (Ret (Some m), w')"
  shows "\<exists>b i bk. obj = OpBackupObj b \<and> IsZero_ptr (om_DeletionTimestamp (ob_Meta b)) \<and> \<not> owned_by_backup E b
    \<and> (ob_SchedulerName b \<noteq> [] \<or> map_str (om_Labels (ob_Meta b)) (LabelBackupType E) = backupTypeCron)
    \<and> exec (cl_GetInstance E (om_Namespace (ob_Meta b)) (ob_PXCCluster b)) w = (Ret i, w')
    \<and> in_ProviderRef i = ''percona-xtradb-cluster'' \<and> in_Backup i = Some bk
    \<and> om_Name (b_Meta m) = om_Name (ob_Meta b) \<and> om_Namespace (b_Meta m) = om_Namespace (ob_Meta b)
    \<and> map or_UID (om_OwnerReferences (b_Meta m)) = [om_UID (ob_Meta b)]
    \<and> map or_Controller (om_OwnerReferences (b_Meta m)) = [None]
    \<and> b_InstanceRef m = Some (ob_PXCCluster b) \<and> b_ClassRef m = ib_ClassRef bk \<and> b_ClassRef m \<noteq> []
    \<and> b_StorageRef m \<noteq> [] \<and> b_StorageRef m \<in> {obs_StorageName (ob_Status b), ob_StorageName b}
    \<and> b_ScheduleName m = fst (scheduledBackupName E b)"
  using assms
proof (rule Mirror_SomeE)
  fix b i bk
  assume *: "obj = OpBackupObj b" "IsZero_ptr (om_DeletionTimestamp (ob_Meta b))" "snd (scheduledBackupName E b)"
    "\<not> owned_by_backup E b" "exec (cl_GetInstance E (om_Namespace (ob_Meta b)) (ob_PXCCluster b)) w = (Ret i, w')"
    "in_ProviderRef i = ''percona-xtradb-cluster''" "in_Backup i = Some bk" "ib_ClassRef bk \<noteq> []" "mirror_storage b \<noteq> []"
    "m = mirrored E b (ib_ClassRef bk) (mirror_storage b) (fst (scheduledBackupName E b))"
  then show ?thesis
    by (intro exI [of _ b] exI [of _ i] exI [of _ bk])
      (auto simp: mirrored_def named_meta_def mirror_storage_def scheduledBackupName_def split: if_splits)
qed

definition nightly :: op_backup where
  "nightly = (sample_op_backup ''cron-1'' 10 False)\<lparr>ob_SchedulerName := ''nightly''\<rparr>"

definition cron_only :: op_backup where
  "cron_only = (sample_op_backup ''cron-2'' 10 False)\<lparr>ob_Meta := (named_meta ''team-a'' ''cron-2'')\<lparr>om_Labels := [''percona.com/backup-type'' \<mapsto> ''cron'']\<rparr>\<rparr>"

definition db_cluster :: cluster where
  "db_cluster = empty_cluster\<lparr>wl_Instances := [((''team-a'', ''db''), sample_inst)]\<rparr>"

lemma mirror_nightly:
  "exec (Mirror (ref_env sample_inst) (OpBackupObj nightly)) db_cluster =
     (Ret (Some (mirrored (ref_env sample_inst) nightly ''pxc'' ''s3'' ''nightly'')), db_cluster)"
  by (simp add: Mirror_def nightly_def db_cluster_def sample_defs scheduledBackupName_def owned_by_backup_def
      IsZero_ptr_def Let_def exec_call mirror_storage_def)

theorem mirrored_backup_witness:
  "\<exists>m. exec (Mirror (ref_env sample_inst) (OpBackupObj nightly)) db_cluster = (Ret (Some m), db_cluster) \<and>
     b_ScheduleName m = ''nightly'' \<and> om_Name (b_Meta m) = ''cron-1'' \<and> b_StorageRef m \<noteq> []"
  using mirrored_backup [OF mirror_nightly] mirror_nightly
  by (auto simp: nightly_def scheduledBackupName_def sample_op_backup_def named_meta_def)

text \<open>
  The name of the schedule can be missing: a backup that the operator labels as scheduled
  without naming its ancestor is mirrored to a Backup with an empty schedule name, because the
  second computation of the name repeats the first. Such a Backup looks like an on-demand one.
\<close>

theorem mirror_without_schedule_name:
  "(\<exists>b w m. exec (Mirror (ref_env sample_inst) (OpBackupObj b)) w = (Ret (Some m), w) \<and> b_ScheduleName m = [])
   \<and> (scheduledBackupName L b = ([], True)) =
     (ob_SchedulerName b = [] \<and> map_str (om_Labels (ob_Meta b)) (LabelBackupType L) = backupTypeCron \<and> ancestor_name L b = [])"
proof
  have "exec (Mirror (ref_env sample_inst) (OpBackupObj cron_only)) db_cluster =
     (Ret (Some (mirrored (ref_env sample_inst) cron_only ''pxc'' ''s3'' [])), db_cluster)"
    by (simp add: Mirror_def cron_only_def db_cluster_def sample_defs scheduledBackupName_def owned_by_backup_def
      IsZero_ptr_def Let_def exec_call mirror_storage_def map_str_def backupTypeCron_def ancestor_name_def scheduleNameFromAncestor_def)
  then show "\<exists>b w m. exec (Mirror (ref_env sample_inst) (OpBackupObj b)) w = (Ret (Some m), w) \<and> b_ScheduleName m = []"
    by (intro exI conjI) (assumption, simp add: mirrored_def)
qed (auto simp: scheduledBackupName_def)

end
