(* ===== verification/Rbac.thy ===== *)
theory Rbac
  imports Provider_Status Seeding Backup_Mirror
begin

text \<open>
  The permissions of internal/provider/rbac.go, from which the ClusterRole is generated, and the requests the
  provider makes of the Kubernetes API. The provider is run against an environment that records what
  each call asks for; the theorem is that every request of every handler is granted.
\<close>

subsection \<open>The rules\<close>

record rbac_rule =
  ru_Groups :: "string list"
  ru_Resources :: "string list"
  ru_Verbs :: "string list"

definition rbac_rules :: "rbac_rule list" where
  "rbac_rules =
  [\<lparr>ru_Groups = [''core.openeverest.io''], ru_Resources = [''instances''], ru_Verbs = [''get'', ''list'', ''watch'', ''update'', ''patch'']\<rparr>,
   \<lparr>ru_Groups = [''core.openeverest.io''], ru_Resources = [''instances/status''], ru_Verbs = [''get'', ''update'', ''patch'']\<rparr>,
   \<lparr>ru_Groups = [''core.openeverest.io''], ru_Resources = [''instances/finalizers''], ru_Verbs = [''update'']\<rparr>,
   \<lparr>ru_Groups = [''core.openeverest.io''], ru_Resources = [''providers''], ru_Verbs = [''get'', ''list'', ''watch'']\<rparr>,
   \<lparr>ru_Groups = [''coordination.k8s.io''], ru_Resources = [''leases''], ru_Verbs = [''get'', ''list'', ''watch'', ''create'', ''update'', ''patch'', ''delete'']\<rparr>,
   \<lparr>ru_Groups = [[]], ru_Resources = [''events''], ru_Verbs = [''create'', ''patch'']\<rparr>,
   \<lparr>ru_Groups = [''events.k8s.io''], ru_Resources = [''events''], ru_Verbs = [''create'', ''patch'']\<rparr>,
   \<lparr>ru_Groups = [[]], ru_Resources = [''secrets''], ru_Verbs = [''get'', ''list'', ''watch'', ''create'', ''update'', ''patch'', ''delete'']\<rparr>,
   \<lparr>ru_Groups = [[]], ru_Resources = [''pods''], ru_Verbs = [''get'', ''list'', ''watch'']\<rparr>,
   \<lparr>ru_Groups = [''pxc.percona.com''], ru_Resources = [''perconaxtradbclusters''], ru_Verbs = [''get'', ''list'', ''watch'', ''create'', ''update'', ''patch'', ''delete'']\<rparr>,
   \<lparr>ru_Groups = [''pxc.percona.com''], ru_Resources = [''perconaxtradbclusters/status''], ru_Verbs = [''get'']\<rparr>,
   \<lparr>ru_Groups = [''pxc.percona.com''], ru_Resources = [''perconaxtradbclusters/finalizers''], ru_Verbs = [''update'']\<rparr>,
   \<lparr>ru_Groups = [''pxc.percona.com''], ru_Resources = [''perconaxtradbclusterbackups''], ru_Verbs = [''get'', ''list'', ''watch'', ''create'', ''update'', ''patch'', ''delete'']\<rparr>,
   \<lparr>ru_Groups = [''pxc.percona.com''], ru_Resources = [''perconaxtradbclusterbackups/status''], ru_Verbs = [''get'']\<rparr>,
   \<lparr>ru_Groups = [''pxc.percona.com''], ru_Resources = [''perconaxtradbclusterbackups/finalizers''], ru_Verbs = [''update'']\<rparr>,
   \<lparr>ru_Groups = [''pxc.percona.com''], ru_Resources = [''perconaxtradbclusterrestores''], ru_Verbs = [''get'', ''list'', ''watch'', ''create'', ''update'', ''patch'', ''delete'']\<rparr>,
   \<lparr>ru_Groups = [''pxc.percona.com''], ru_Resources = [''perconaxtradbclusterrestores/status''], ru_Verbs = [''get'']\<rparr>,
   \<lparr>ru_Groups = [''pxc.percona.com''], ru_Resources = [''perconaxtradbclusterrestores/finalizers''], ru_Verbs = [''update'']\<rparr>,
   \<lparr>ru_Groups = [''backup.openeverest.io''], ru_Resources = [''backupclasses''], ru_Verbs = [''get'', ''list'', ''watch'']\<rparr>,
   \<lparr>ru_Groups = [''backup.openeverest.io''], ru_Resources = [''backupstorages''], ru_Verbs = [''get'', ''list'', ''watch'']\<rparr>,
   \<lparr>ru_Groups = [''backup.openeverest.io''], ru_Resources = [''backups''], ru_Verbs = [''get'', ''list'', ''watch'', ''create'', ''update'', ''patch'', ''delete'']\<rparr>,
   \<lparr>ru_Groups = [''backup.openeverest.io''], ru_Resources = [''backups/status''], ru_Verbs = [''get'', ''update'', ''patch'']\<rparr>,
   \<lparr>ru_Groups = [''backup.openeverest.io''], ru_Resources = [''backups/finalizers''], ru_Verbs = [''update'']\<rparr>,
   \<lparr>ru_Groups = [''backup.openeverest.io''], ru_Resources = [''restores''], ru_Verbs = [''get'', ''list'', ''watch'', ''create'', ''update'', ''patch'', ''delete'']\<rparr>,
   \<lparr>ru_Groups = [''backup.openeverest.io''], ru_Resources = [''restores/status''], ru_Verbs = [''get'', ''update'', ''patch'']\<rparr>,
   \<lparr>ru_Groups = [''backup.openeverest.io''], ru_Resources = [''restores/finalizers''], ru_Verbs = [''update'']\<rparr>,
   \<lparr>ru_Groups = [''monitoring.openeverest.io''], ru_Resources = [''monitoringclasses'', ''monitoringdestinations'', ''monitoringbindings''], ru_Verbs = [''get'', ''list'', ''watch'']\<rparr>,
   \<lparr>ru_Groups = [''monitoring.openeverest.io''], ru_Resources = [''monitoringbindings/status''], ru_Verbs = [''patch'']\<rparr>,
   \<lparr>ru_Groups = [[]], ru_Resources = [''namespaces''], ru_Verbs = [''get'']\<rparr>]"

text \<open>A request: API group, resource and verb.\<close>

type_synonym request = "string \<times> string \<times> string"

definition granted :: "request \<Rightarrow> bool" where
  "granted q \<longleftrightarrow> (case q of (g, res, verb) \<Rightarrow>
     \<exists>rule \<in> set rbac_rules. g \<in> set (ru_Groups rule) \<and> res \<in> set (ru_Resources rule) \<and> verb \<in> set (ru_Verbs rule))"

subsection \<open>The requests of a call\<close>

text \<open>
  The client of the manager reads through a cache, which lists and watches what is read. \<^verbatim>\<open>Context.Apply\<close>
  creates the object or writes to it. The runtime's own helpers ask in their own right and are not
  recorded.
\<close>

definition lists :: "string \<Rightarrow> string \<Rightarrow> request list" where
  "lists g res = [(g, res, ''list''), (g, res, ''watch'')]"

definition reads :: "string \<Rightarrow> string \<Rightarrow> request list" where
  "reads g res = (g, res, ''get'') # lists g res"

definition applies :: "string \<Rightarrow> string \<Rightarrow> request list" where
  "applies g res = [(g, res, ''create''), (g, res, ''update''), (g, res, ''patch'')]"

definition audit :: "request list \<Rightarrow> ('w, 'a) io \<Rightarrow> ('w \<times> request list, 'a) io" where
  "audit qs m = State (\<lambda>(w, log). let (r, w') = exec m w in (r, w', log @ qs))"

definition audited :: "'w env \<Rightarrow> ('w \<times> request list) env" where
  "audited E = lib.extend (lib.truncate E) (env.fields
     (ctx_Name E)
     (ctx_Namespace E)
     (ctx_Instance E)
     (ctx_ObjectMeta E)
     (ctx_PodLabels E)
     (audit ([]) (ctx_ProviderSpec E))
     (audit ([]) (ctx_BackupClassForInstance E))
     (\<lambda>a. audit ([]) (ctx_BackupStorage E a))
     (\<lambda>a. audit ([]) (ctx_BackupStorageCredentials E a))
     (\<lambda>a. audit (reads ''pxc.percona.com'' ''perconaxtradbclusters'') (ctx_GetPXC E a))
     (\<lambda>a. audit (reads [] ''secrets'') (ctx_GetSecret E a))
     (\<lambda>a. audit (reads ''backup.openeverest.io'' ''backups'') (ctx_GetBackup E a))
     (\<lambda>a. audit (applies ''pxc.percona.com'' ''perconaxtradbclusters'') (ctx_ApplyPXC E a))
     (\<lambda>a. audit ([(''pxc.percona.com'', ''perconaxtradbclusters'', ''delete'')]) (ctx_DeletePXC E a))
     (\<lambda>a. audit ([]) (ctx_SetDataSourceStatus E a))
     (audit ([]) (ctx_GetDataSourceStatus E))
     (audit ([]) (ctx_ReconcileDataSource E))
     (audit ([]) (ctx_RequiredSources E))
     (audit ([]) (ctx_MonitoringBindings E))
     (\<lambda>a. audit ([]) (ctx_MonitoringCredentials E a))
     (\<lambda>a b c. audit ([]) (ctx_SetMonitoringBindingResult E a b c))
     (\<lambda>a b. audit (reads ''pxc.percona.com'' ''perconaxtradbclusterbackups'') (cl_GetOpBackup E a b))
     (\<lambda>a b. audit (reads ''pxc.percona.com'' ''perconaxtradbclusterrestores'') (cl_GetOpRestore E a b))
     (\<lambda>a b. audit (reads ''pxc.percona.com'' ''perconaxtradbclusters'') (cl_GetPXC E a b))
     (\<lambda>a b. audit (reads ''backup.openeverest.io'' ''backups'') (cl_GetBackup E a b))
     (\<lambda>a b. audit (reads ''core.openeverest.io'' ''instances'') (cl_GetInstance E a b))
     (\<lambda>a. audit (lists ''backup.openeverest.io'' ''restores'') (cl_ListRestores E a))
     (\<lambda>a b. audit (lists ''backup.openeverest.io'' ''backups'') (cl_ListBackupsOfInstance E a b))
     (\<lambda>a. audit (lists ''pxc.percona.com'' ''perconaxtradbclusterbackups'') (cl_ListOpBackups E a))
     (\<lambda>a. audit ([(''pxc.percona.com'', ''perconaxtradbclusterbackups'', ''create'')]) (cl_CreateOpBackup E a))
     (\<lambda>a. audit ([(''pxc.percona.com'', ''perconaxtradbclusterrestores'', ''create'')]) (cl_CreateOpRestore E a))
     (\<lambda>a. audit ([([], ''secrets'', ''create'')]) (cl_CreateSecret E a))
     (\<lambda>a b. audit ([(''backup.openeverest.io'', ''backups'', ''patch'')]) (cl_PatchBackup E a b))
     (\<lambda>a b. audit ([(''backup.openeverest.io'', ''restores'', ''patch'')]) (cl_PatchRestore E a b))
     (\<lambda>a b. audit ([(''pxc.percona.com'', ''perconaxtradbclusterbackups'', ''patch'')]) (cl_PatchOpBackup E a b))
     (\<lambda>a b. audit ([(''pxc.percona.com'', ''perconaxtradbclusterrestores'', ''patch'')]) (cl_PatchOpRestore E a b))
     (\<lambda>a b. audit ([([], ''secrets'', ''patch'')]) (cl_PatchSecret E a b))
     (\<lambda>a. audit ([(''pxc.percona.com'', ''perconaxtradbclusterbackups'', ''update'')]) (cl_UpdateOpBackup E a))
     (\<lambda>a. audit ([(''pxc.percona.com'', ''perconaxtradbclusterbackups'', ''delete'')]) (cl_DeleteOpBackup E a))
     (\<lambda>a. audit ([(''pxc.percona.com'', ''perconaxtradbclusterrestores'', ''delete'')]) (cl_DeleteOpRestore E a))
     (SetBackupControllerReference E)
     (SetRestoreControllerReference E))"

lemma audited_fields [simp]:
  "QuantityCmp (audited E) = QuantityCmp E"
  "QuantityIsZero (audited E) = QuantityIsZero E"
  "GetDefaultImage (audited E) = GetDefaultImage E"
  "GetDefaultImageForComponent (audited E) = GetDefaultImageForComponent E"
  "GetImageForVersion (audited E) = GetImageForVersion E"
  "EffectiveVersionBundleName (audited E) = EffectiveVersionBundleName E"
  "ResolveVersionBundle (audited E) = ResolveVersionBundle E"
  "TopologySpreadConstraints (audited E) = TopologySpreadConstraints E"
  "LabelsPXC (audited E) = LabelsPXC E"
  "LabelsHAProxy (audited E) = LabelsHAProxy E"
  "LabelsProxySQL (audited E) = LabelsProxySQL E"
  "HAProxyEnabled (audited E) = HAProxyEnabled E"
  "ProxySQLEnabled (audited E) = ProxySQLEnabled E"
  "NormalizedSourceRanges (audited E) = NormalizedSourceRanges E"
  "ShouldRetainBackupData (audited E) = ShouldRetainBackupData E"
  "ValidateInstanceBackupAgainstClass (audited E) = ValidateInstanceBackupAgainstClass E"
  "IsLimitsExceeded (audited E) = IsLimitsExceeded E"
  "RequirementElse (audited E) = RequirementElse E"
  "UnmarshalResources (audited E) = UnmarshalResources E"
  "OpBackupStateText (audited E) = OpBackupStateText E"
  "OpRestoreStateText (audited E) = OpRestoreStateText E"
  "AddFinalizer (audited E) = AddFinalizer E"
  "RemoveFinalizer (audited E) = RemoveFinalizer E"
  "ContainsFinalizer (audited E) = ContainsFinalizer E"
  "InstanceLabel (audited E) = InstanceLabel E"
  "ComponentLabel (audited E) = ComponentLabel E"
  "LabelBackupType (audited E) = LabelBackupType E"
  "LabelBackupAncestor (audited E) = LabelBackupAncestor E"
  "PITRReadyCondition (audited E) = PITRReadyCondition E"
  "AffinityTopologyKeyOff (audited E) = AffinityTopologyKeyOff E"
  "LabelHostname (audited E) = LabelHostname E"
  "PXCGroup (audited E) = PXCGroup E"
  "PXCAPIVersion (audited E) = PXCAPIVersion E"
  "BackupAPIVersion (audited E) = BackupAPIVersion E"
  "BackupOriginTypeInstance (audited E) = BackupOriginTypeInstance E"
  "SmartUpdateStrategy (audited E) = SmartUpdateStrategy E"
  "LimitsExceededReason (audited E) = LimitsExceededReason E"
  "ReasonDataSourceFailed (audited E) = ReasonDataSourceFailed E"
  "ReasonDataSourceWaitingForCluster (audited E) = ReasonDataSourceWaitingForCluster E"
  "ReasonRenderFailed (audited E) = ReasonRenderFailed E"
  "ReasonAgentTLSNotVerified (audited E) = ReasonAgentTLSNotVerified E"
  "ctx_Name (audited E) = ctx_Name E"
  "ctx_Namespace (audited E) = ctx_Namespace E"
  "ctx_Instance (audited E) = ctx_Instance E"
  "ctx_ObjectMeta (audited E) = ctx_ObjectMeta E"
  "ctx_PodLabels (audited E) = ctx_PodLabels E"
  "ctx_ProviderSpec (audited E) = (audit ([]) (ctx_ProviderSpec E))"
  "ctx_BackupClassForInstance (audited E) = (audit ([]) (ctx_BackupClassForInstance E))"
  "ctx_BackupStorage (audited E) = (\<lambda>a. audit ([]) (ctx_BackupStorage E a))"
  "ctx_BackupStorageCredentials (audited E) = (\<lambda>a. audit ([]) (ctx_BackupStorageCredentials E a))"
  "ctx_GetPXC (audited E) = (\<lambda>a. audit (reads ''pxc.percona.com'' ''perconaxtradbclusters'') (ctx_GetPXC E a))"
  "ctx_GetSecret (audited E) = (\<lambda>a. audit (reads [] ''secrets'') (ctx_GetSecret E a))"
  "ctx_GetBackup (audited E) = (\<lambda>a. audit (reads ''backup.openeverest.io'' ''backups'') (ctx_GetBackup E a))"
  "ctx_ApplyPXC (audited E) = (\<lambda>a. audit (applies ''pxc.percona.com'' ''perconaxtradbclusters'') (ctx_ApplyPXC E a))"
  "ctx_DeletePXC (audited E) = (\<lambda>a. audit ([(''pxc.percona.com'', ''perconaxtradbclusters'', ''delete'')]) (ctx_DeletePXC E a))"
  "ctx_SetDataSourceStatus (audited E) = (\<lambda>a. audit ([]) (ctx_SetDataSourceStatus E a))"
  "ctx_GetDataSourceStatus (audited E) = (audit ([]) (ctx_GetDataSourceStatus E))"
  "ctx_ReconcileDataSource (audited E) = (audit ([]) (ctx_ReconcileDataSource E))"
  "ctx_RequiredSources (audited E) = (audit ([]) (ctx_RequiredSources E))"
  "ctx_MonitoringBindings (audited E) = (audit ([]) (ctx_MonitoringBindings E))"
  "ctx_MonitoringCredentials (audited E) = (\<lambda>a. audit ([]) (ctx_MonitoringCredentials E a))"
  "ctx_SetMonitoringBindingResult (audited E) = (\<lambda>a b c. audit ([]) (ctx_SetMonitoringBindingResult E a b c))"
  "cl_GetOpBackup (audited E) = (\<lambda>a b. audit (reads ''pxc.percona.com'' ''perconaxtradbclusterbackups'') (cl_GetOpBackup E a b))"
  "cl_GetOpRestore (audited E) = (\<lambda>a b. audit (reads ''pxc.percona.com'' ''perconaxtradbclusterrestores'') (cl_GetOpRestore E a b))"
  "cl_GetPXC (audited E) = (\<lambda>a b. audit (reads ''pxc.percona.com'' ''perconaxtradbclusters'') (cl_GetPXC E a b))"
  "cl_GetBackup (audited E) = (\<lambda>a b. audit (reads ''backup.openeverest.io'' ''backups'') (cl_GetBackup E a b))"
  "cl_GetInstance (audited E) = (\<lambda>a b. audit (reads ''core.openeverest.io'' ''instances'') (cl_GetInstance E a b))"
  "cl_ListRestores (audited E) = (\<lambda>a. audit (lists ''backup.openeverest.io'' ''restores'') (cl_ListRestores E a))"
  "cl_ListBackupsOfInstance (audited E) = (\<lambda>a b. audit (lists ''backup.openeverest.io'' ''backups'') (cl_ListBackupsOfInstance E a b))"
  "cl_ListOpBackups (audited E) = (\<lambda>a. audit (lists ''pxc.percona.com'' ''perconaxtradbclusterbackups'') (cl_ListOpBackups E a))"
  "cl_CreateOpBackup (audited E) = (\<lambda>a. audit ([(''pxc.percona.com'', ''perconaxtradbclusterbackups'', ''create'')]) (cl_CreateOpBackup E a))"
  "cl_CreateOpRestore (audited E) = (\<lambda>a. audit ([(''pxc.percona.com'', ''perconaxtradbclusterrestores'', ''create'')]) (cl_CreateOpRestore E a))"
  "cl_CreateSecret (audited E) = (\<lambda>a. audit ([([], ''secrets'', ''create'')]) (cl_CreateSecret E a))"
  "cl_PatchBackup (audited E) = (\<lambda>a b. audit ([(''backup.openeverest.io'', ''backups'', ''patch'')]) (cl_PatchBackup E a b))"
  "cl_PatchRestore (audited E) = (\<lambda>a b. audit ([(''backup.openeverest.io'', ''restores'', ''patch'')]) (cl_PatchRestore E a b))"
  "cl_PatchOpBackup (audited E) = (\<lambda>a b. audit ([(''pxc.percona.com'', ''perconaxtradbclusterbackups'', ''patch'')]) (cl_PatchOpBackup E a b))"
  "cl_PatchOpRestore (audited E) = (\<lambda>a b. audit ([(''pxc.percona.com'', ''perconaxtradbclusterrestores'', ''patch'')]) (cl_PatchOpRestore E a b))"
  "cl_PatchSecret (audited E) = (\<lambda>a b. audit ([([], ''secrets'', ''patch'')]) (cl_PatchSecret E a b))"
  "cl_UpdateOpBackup (audited E) = (\<lambda>a. audit ([(''pxc.percona.com'', ''perconaxtradbclusterbackups'', ''update'')]) (cl_UpdateOpBackup E a))"
  "cl_DeleteOpBackup (audited E) = (\<lambda>a. audit ([(''pxc.percona.com'', ''perconaxtradbclusterbackups'', ''delete'')]) (cl_DeleteOpBackup E a))"
  "cl_DeleteOpRestore (audited E) = (\<lambda>a. audit ([(''pxc.percona.com'', ''perconaxtradbclusterrestores'', ''delete'')]) (cl_DeleteOpRestore E a))"
  "SetBackupControllerReference (audited E) = SetBackupControllerReference E"
  "SetRestoreControllerReference (audited E) = SetRestoreControllerReference E"
  by (simp_all add: audited_def lib.defs env.defs)

subsection \<open>All calls\<close>

locale api_calls = sync_calls +
  assumes runtime: "keeps P (ctx_GetDataSourceStatus E)" "keeps P (ctx_ReconcileDataSource E)" "keeps P (ctx_DeletePXC E p)"
    and reads: "keeps P (cl_GetOpBackup E ns n)" "keeps P (cl_GetOpRestore E ns n)" "keeps P (cl_GetPXC E ns n)" "keeps P (cl_GetBackup E ns n)"
      "keeps P (cl_GetInstance E ns n)" "keeps P (cl_ListBackupsOfInstance E ns n)" "keeps P (cl_ListOpBackups E ns)"
    and creates: "keeps P (cl_CreateOpBackup E x)" "keeps P (cl_CreateOpRestore E y)"
    and patches: "keeps P (cl_PatchBackup E b c)" "keeps P (cl_PatchRestore E rs rt)" "keeps P (cl_PatchOpBackup E x x')" "keeps P (cl_PatchOpRestore E y y')"
      "keeps P (cl_UpdateOpBackup E x)"
    and deletes: "keeps P (cl_DeleteOpBackup E x)" "keeps P (cl_DeleteOpRestore E y)"
begin

lemmas all_calls = calls runtime reads creates patches deletes

lemma Sync_keeps: "keeps P (Sync E U)"
proof -
  have "keeps P (seed_data_source E)" by (auto simp: seed_data_source_def intro!: keeps_call keeps_void all_calls)
  then show ?thesis unfolding Sync_def by (rule SyncPXC_keeps)
qed

lemma Status_keeps: "keeps P (Status E)"
  by (auto simp: Status_def StatusPXC_def phase_of_cluster_def phase_of_engine_def buildConnectionDetails_def hasActiveRestoreForInstance_def Let_def
      intro!: keeps_call all_calls split: option.split app_state.split)

lemma Cleanup_keeps: "keeps P (Cleanup E)"
  by (auto simp: Cleanup_def CleanupPXC_def intro: all_calls)

lemma MonitoringSources_keeps: "keeps P (MonitoringSources E)"
  by (auto simp: MonitoringSources_def Let_def intro!: keeps_call all_calls)

lemma BackupStorageStatuses_keeps: "keeps P (BackupStorageStatuses E srt)"
  by (auto simp: BackupStorageStatuses_def intro!: keeps_call all_calls split: option.split)

lemma SyncBackup_keeps: "keeps P (SyncBackup E b)"
  by (auto simp: SyncBackup_def label_backup_def start_backup_def adopt_backup_def with_instance_def Let_def
      intro!: keeps_call all_calls split: sum.split)

lemma CleanupBackup_keeps: "keeps P (CleanupBackup E b)"
  by (auto simp: CleanupBackup_def Let_def intro!: keeps_call all_calls)

lemma restore_source_keeps: "keeps P (resolveRestoreSource E r opRef)"
  by (auto simp: resolveRestoreSource_def resolveBackupSource_def resolvePointInTimeSource_def selectPITRBaseBackup_def Let_def
      intro!: keeps_call all_calls split: option.split sum.split data_source_type.split)

lemma SyncRestore_keeps: "keeps P (SyncRestore E r)"
  by (auto simp: SyncRestore_def label_restore_def start_restore_def Let_def
      intro!: keeps_call all_calls restore_source_keeps split: sum.split)

lemma CleanupRestore_keeps: "keeps P (CleanupRestore E r)"
  by (auto simp: CleanupRestore_def Let_def intro!: keeps_call all_calls)

lemma Mirror_keeps: "keeps P (Mirror E obj)"
  by (auto simp: Mirror_def Let_def intro!: keeps_call all_calls split: client_object.split prod.split option.split)

end

subsection \<open>Every request is granted\<close>

definition all_granted :: "'w \<times> request list \<Rightarrow> bool" where
  "all_granted s \<longleftrightarrow> (\<forall>q \<in> set (snd s). granted q)"

lemma audit_granted: "(\<forall>q \<in> set qs. granted q) \<Longrightarrow> keeps all_granted (audit qs m)"
  by (auto simp: keeps_def audit_def all_granted_def split: prod.split)

text \<open>The requests that the provider makes, looked up in the rules.\<close>

lemma granted_requests:
  "granted (''pxc.percona.com'', ''perconaxtradbclusters'', ''get'')"
  "granted (''pxc.percona.com'', ''perconaxtradbclusters'', ''list'')"
  "granted (''pxc.percona.com'', ''perconaxtradbclusters'', ''watch'')"
  "granted ([], ''secrets'', ''get'')"
  "granted ([], ''secrets'', ''list'')"
  "granted ([], ''secrets'', ''watch'')"
  "granted (''backup.openeverest.io'', ''backups'', ''get'')"
  "granted (''backup.openeverest.io'', ''backups'', ''list'')"
  "granted (''backup.openeverest.io'', ''backups'', ''watch'')"
  "granted (''pxc.percona.com'', ''perconaxtradbclusters'', ''create'')"
  "granted (''pxc.percona.com'', ''perconaxtradbclusters'', ''update'')"
  "granted (''pxc.percona.com'', ''perconaxtradbclusters'', ''patch'')"
  "granted (''pxc.percona.com'', ''perconaxtradbclusters'', ''delete'')"
  "granted (''pxc.percona.com'', ''perconaxtradbclusterbackups'', ''get'')"
  "granted (''pxc.percona.com'', ''perconaxtradbclusterbackups'', ''list'')"
  "granted (''pxc.percona.com'', ''perconaxtradbclusterbackups'', ''watch'')"
  "granted (''pxc.percona.com'', ''perconaxtradbclusterrestores'', ''get'')"
  "granted (''pxc.percona.com'', ''perconaxtradbclusterrestores'', ''list'')"
  "granted (''pxc.percona.com'', ''perconaxtradbclusterrestores'', ''watch'')"
  "granted (''core.openeverest.io'', ''instances'', ''get'')"
  "granted (''core.openeverest.io'', ''instances'', ''list'')"
  "granted (''core.openeverest.io'', ''instances'', ''watch'')"
  "granted (''backup.openeverest.io'', ''restores'', ''list'')"
  "granted (''backup.openeverest.io'', ''restores'', ''watch'')"
  "granted (''pxc.percona.com'', ''perconaxtradbclusterbackups'', ''create'')"
  "granted (''pxc.percona.com'', ''perconaxtradbclusterrestores'', ''create'')"
  "granted ([], ''secrets'', ''create'')"
  "granted (''backup.openeverest.io'', ''backups'', ''patch'')"
  "granted (''backup.openeverest.io'', ''restores'', ''patch'')"
  "granted (''pxc.percona.com'', ''perconaxtradbclusterbackups'', ''patch'')"
  "granted (''pxc.percona.com'', ''perconaxtradbclusterrestores'', ''patch'')"
  "granted ([], ''secrets'', ''patch'')"
  "granted (''pxc.percona.com'', ''perconaxtradbclusterbackups'', ''update'')"
  "granted (''pxc.percona.com'', ''perconaxtradbclusterbackups'', ''delete'')"
  "granted (''pxc.percona.com'', ''perconaxtradbclusterrestores'', ''delete'')"
  by code_simp+

lemma granted_lists:
  "(\<forall>q \<in> set (lists g res). granted q) \<longleftrightarrow> granted (g, res, ''list'') \<and> granted (g, res, ''watch'')"
  "(\<forall>q \<in> set (reads g res). granted q) \<longleftrightarrow> granted (g, res, ''get'') \<and> granted (g, res, ''list'') \<and> granted (g, res, ''watch'')"
  "(\<forall>q \<in> set (applies g res). granted q) \<longleftrightarrow> granted (g, res, ''create'') \<and> granted (g, res, ''update'') \<and> granted (g, res, ''patch'')"
  by (simp_all add: lists_def reads_def applies_def)

interpretation audit: api_calls "audited E" all_granted for E
  by (unfold_locales; unfold audited_fields; intro audit_granted; simp add: granted_lists granted_requests)

lemma granted_run: "keeps all_granted m \<Longrightarrow> all_granted (snd (exec m (w, [])))"
  by (erule keepsD) (simp add: all_granted_def)


end
