(* ===== verification/Applied_Cluster.thy ===== *)
theory Applied_Cluster
  imports Seeding
begin

text \<open>
  The cluster that a successful sync has applied: its shape, the images and configurations of its
  parts, and the order of the steps around its application.
\<close>

subsection \<open>What a successful sync has applied\<close>

text \<open>Image and configuration of a cluster, from the components' parameters and the provider's catalogue.\<close>

definition engine_configured :: "'w env \<Rightarrow> provider_spec \<Rightarrow> component_spec \<Rightarrow> pxc \<Rightarrow> bool" where
  "engine_configured E spec engine p \<longleftrightarrow> (\<exists>e cfg. px_PXC (pc_Spec p) = Some e \<and> engineConfigurationFromComponent engine = Ret cfg
     \<and> ps_Configuration e = (if cfg \<noteq> [] then cfg else defaultConfigurationForEngine E (replicas_or defaultEngineReplicas engine) (cs_Resources engine))
     \<and> ps_Image e = engine_image E spec engine)"

definition proxy_configured :: "'w env \<Rightarrow> provider_spec \<Rightarrow> component_spec \<Rightarrow> pxc \<Rightarrow> bool" where
  "proxy_configured E spec proxy p \<longleftrightarrow> (\<exists>pod img. proxy_image E spec proxy = Ret img \<and> proxyConfigurationFromComponent proxy = Ret (ps_Configuration pod)
     \<and> ps_Image pod = img \<and> (if cs_Type proxy = ProxyTypeProxySQL then map_option pq_Pod (px_ProxySQL (pc_Spec p)) = Some pod
          else map_option ha_Pod (px_HAProxy (pc_Spec p)) = Some pod))"

lemma on_proxy_pod_engine: "on_proxy_pod t f p = Ret q \<Longrightarrow> px_PXC (pc_Spec q) = px_PXC (pc_Spec p)"
  by (auto simp: on_proxy_pod_def haproxy_ptr_def proxysql_ptr_def on_haproxy_def on_proxysql_def bindO_Ret split: if_splits)

lemma on_proxy_pod_pod:
  assumes "on_proxy_pod t f p = Ret q" "t = ProxyTypeHAProxy \<or> t = ProxyTypeProxySQL"
  shows "if t = ProxyTypeProxySQL then \<exists>pod. map_option pq_Pod (px_ProxySQL (pc_Spec p)) = Some pod \<and> map_option pq_Pod (px_ProxySQL (pc_Spec q)) = Some (f pod)
    else \<exists>pod. map_option ha_Pod (px_HAProxy (pc_Spec p)) = Some pod \<and> map_option ha_Pod (px_HAProxy (pc_Spec q)) = Some (f pod)"
  using assms
  by (auto simp: on_proxy_pod_def haproxy_ptr_def proxysql_ptr_def on_haproxy_def on_proxysql_def bindO_Ret deref_def common_consts
      split: if_splits option.splits)

lemma configure_cluster_Ret:
  assumes run: "configure_cluster E spec engine proxy p = Ret q"
  shows "engine_configured E spec engine q" "proxy_configured E spec proxy q"
proof -
  obtain cfg p1 img p2 pcfg where cfg: "engineConfigurationFromComponent engine = Ret cfg" and p1: "on_engine (configured_pod E spec engine cfg) p = Ret p1"
    and img: "proxy_image E spec proxy = Ret img" and t: "cs_Type proxy = ProxyTypeHAProxy \<or> cs_Type proxy = ProxyTypeProxySQL"
    and p2: "on_proxy_pod (cs_Type proxy) (ps_Image_update (\<lambda>_. img)) p1 = Ret p2" and pcfg: "proxyConfigurationFromComponent proxy = Ret pcfg"
    and q: "on_proxy_pod (cs_Type proxy) (ps_Configuration_update (\<lambda>_. pcfg)) p2 = Ret q"
    using run by (rule configure_cluster_steps)
  have "px_PXC (pc_Spec q) = px_PXC (pc_Spec p1)" using on_proxy_pod_engine [OF p2] on_proxy_pod_engine [OF q] by simp
  with p1 cfg show "engine_configured E spec engine q" by (auto simp: engine_configured_def on_engine_Ret configured_pod_def)
  from on_proxy_pod_pod [OF p2 t] on_proxy_pod_pod [OF q t] img pcfg
  show "proxy_configured E spec proxy q" by (auto simp: proxy_configured_def split: if_splits)
qed

lemma applyMetricsExporter_configured:
  assumes "applyMetricsExporter L p live r spec' = Ret q"
  shows "engine_configured E spec engine p \<Longrightarrow> engine_configured E spec engine q" "proxy_configured E spec proxy q = proxy_configured E spec proxy p"
    "px_SecretsName (pc_Spec q) = px_SecretsName (pc_Spec p)"
  using assms
  by (auto simp: applyMetricsExporter_def Let_def engine_configured_def proxy_configured_def on_engine_Ret split: if_splits)

lemma complete_cluster_Ret:
  assumes "exec (complete_cluster E U engine proxy p) w = (Ret q, w')" "cluster_shape E engine proxy p"
  shows "cluster_shape E engine proxy q \<and> px_SecretsName (pc_Spec q) = users_secret (ctx_Name E)
    \<and> (\<exists>spec w1. exec (ctx_ProviderSpec E) w = (Ret spec, w1) \<and> engine_configured E spec engine q \<and> proxy_configured E spec proxy q)"
proof -
  from assms(1) obtain spec w1 p1 p2 w2 where spec: "exec (ctx_ProviderSpec E) w = (Ret spec, w1)"
    and p1: "configure_cluster E spec engine proxy p = Ret p1" and p2: "exec (applyBackupSettings E p1) w1 = (Ret p2, w2)"
    and q: "exec (applyMonitoring E U (with_secrets (users_secret (ctx_Name E)) p2) spec) w2 = (Ret q, w')"
    by (auto simp: complete_cluster_def exec_call split: prod.splits outcome.splits)
  from applyBackupSettings_Ret [OF p2] obtain b where b: "p2 = set_backup p1 b" by blast
  obtain m live r where m: "applyMetricsExporter E (set_pmm (with_secrets (users_secret (ctx_Name E)) p2) m) live r spec = Ret q"
    using q by (rule applyMonitoring_Ret)
  note conf = configure_cluster_Ret [OF p1]
  have "cluster_shape E engine proxy (set_pmm (with_secrets (users_secret (ctx_Name E)) p2) m)"
    using configure_cluster_shape [OF assms(2) p1] b by (simp add: set_backup_shape with_secrets_shape set_pmm_shape)
  moreover have "engine_configured E spec engine (set_pmm (with_secrets (users_secret (ctx_Name E)) p2) m)"
    "proxy_configured E spec proxy (set_pmm (with_secrets (users_secret (ctx_Name E)) p2) m)"
    using conf b by (auto simp: engine_configured_def proxy_configured_def set_pmm_def with_secrets_def set_backup_def split: if_splits)
  moreover have "px_SecretsName (pc_Spec q) = users_secret (ctx_Name E)"
    using applyMetricsExporter_configured(3) [OF m] by (simp add: set_pmm_def with_secrets_def)
  ultimately show ?thesis
    using applyMetricsExporter_shape [OF _ m] applyMetricsExporter_configured(1,2) [OF m] spec by blast
qed

text \<open>
  C1. What a sync that succeeds has applied, when no restore is active: exactly one cluster, with the
  shape, images and configurations of the Instance's components and the Instance's users Secret, after
  the credentials step of a seeded Instance and before its seeding.
\<close>

theorem synced_cluster:
  assumes "proxy_flags (HAProxyEnabled E) (ProxySQLEnabled E)"
    and "exec (hasActiveRestoreForInstance E (ctx_Namespace E) (ctx_Name E)) w = (Ret False, w0)" "exec (SyncPXC E U) w = (Ret (), w')"
  shows "\<exists>engine proxy spec p w1 w2 w3 wa. in_Components (ctx_Instance E) ComponentEngine = Some engine \<and> in_Components (ctx_Instance E) ComponentProxy = Some proxy
    \<and> exec (ctx_ProviderSpec E) w0 = (Ret spec, w1)
    \<and> cluster_shape E engine proxy p \<and> engine_configured E spec engine p \<and> proxy_configured E spec proxy p \<and> px_SecretsName (pc_Spec p) = users_secret (ctx_Name E)
    \<and> (case in_DataSource (ctx_Instance E) of None \<Rightarrow> w3 = w2 | Some ds \<Rightarrow> exec (ensureDataSourceCredentials E ds (users_secret (ctx_Name E))) w2 = (Ret (), w3))
    \<and> exec (ctx_ApplyPXC E p) w3 = (Ret (), wa) \<and> exec (seed_data_source E) wa = (Ret (), w')"
proof -
  from assms(2,3) obtain engine proxy p0 p w2 where r: "render_cluster E = Ret (engine, proxy, p0)"
    and c: "exec (complete_cluster E U engine proxy p0) w0 = (Ret p, w2)" and a: "exec (apply_cluster E p) w2 = (Ret (), w')"
    by (auto simp: SyncPXC_def exec_call split: prod.splits outcome.splits)
  note comps = render_cluster_Ret [OF assms(1) r]
  note fin = complete_cluster_Ret [OF c comps(3)]
  from a obtain w3 wa where "case in_DataSource (ctx_Instance E) of None \<Rightarrow> w3 = w2 | Some ds \<Rightarrow> exec (ensureDataSourceCredentials E ds (users_secret (ctx_Name E))) w2 = (Ret (), w3)"
    "exec (ctx_ApplyPXC E p) w3 = (Ret (), wa)" "exec (seed_data_source E) wa = (Ret (), w')"
    by (auto simp: apply_cluster_def exec_call split: prod.splits outcome.splits option.splits)
  with comps(1,2) fin show ?thesis by blast
qed

definition plain_inst :: inst where
  "plain_inst = sample_inst\<lparr>in_Components := [''engine'' \<mapsto> (sample_component ''pxc'')\<lparr>cs_Image := ''pxc:8.0''\<rparr>,
     ''proxy'' \<mapsto> (sample_component ''haproxy'')\<lparr>cs_Image := ''haproxy:2.8''\<rparr>], in_Backup := None\<rparr>"

lemma on_engine_total: "px_PXC (pc_Spec p) = Some e \<Longrightarrow> on_engine f p = Ret (on_spec (px_PXC_update (\<lambda>_. Some (f e))) p)"
  by (simp add: on_engine_def)

lemma configure_plain:
  assumes "cluster_shape E engine proxy p" "cs_Type proxy = ProxyTypeHAProxy" "cs_Image proxy \<noteq> []" "cs_Parameters engine = None" "cs_Parameters proxy = None"
  shows "\<exists>q. configure_cluster E spec engine proxy p = Ret q"
  using assms
  by (auto simp: cluster_shape_def configure_cluster_def engineConfigurationFromComponent_def proxyConfigurationFromComponent_def proxy_image_def
      on_engine_total on_proxy_pod_def haproxy_ptr_def on_haproxy_def common_consts)

lemma plain_monitoring: "\<exists>q. exec (applyMonitoring (ref_env plain_inst) U p spec) empty_cluster = (Ret q, empty_cluster)"
  by (simp add: applyMonitoring_def applyPMM_def syncPMMServerToken_def applyMetricsExporter_def exec_call pmm_live_def live_pmm_def
      empty_cluster_def not_found_def hasMetricsExporter_def)

lemma plain_sync: "\<exists>w'. exec (SyncPXC (ref_env plain_inst) authority_host) empty_cluster = (Ret (), w')"
proof -
  let ?E = "ref_env plain_inst"
  have c: "in_Components (ctx_Instance ?E) ComponentEngine = Some ((sample_component ''pxc'')\<lparr>cs_Image := ''pxc:8.0''\<rparr>)"
    "in_Components (ctx_Instance ?E) ComponentProxy = Some ((sample_component ''haproxy'')\<lparr>cs_Image := ''haproxy:2.8''\<rparr>)"
    by (simp_all add: plain_inst_def common_consts)
  obtain p where r: "render_cluster ?E = Ret ((sample_component ''pxc'')\<lparr>cs_Image := ''pxc:8.0''\<rparr>, (sample_component ''haproxy'')\<lparr>cs_Image := ''haproxy:2.8''\<rparr>, p)"
    and s: "cluster_shape ?E ((sample_component ''pxc'')\<lparr>cs_Image := ''pxc:8.0''\<rparr>) ((sample_component ''haproxy'')\<lparr>cs_Image := ''haproxy:2.8''\<rparr>) p"
    using render_cluster_total [OF ref_proxy_flags.proxy_flags_axioms c] by (auto simp: sample_component_def)
  obtain p1 where p1: "configure_cluster ?E (wl_Provider empty_cluster) ((sample_component ''pxc'')\<lparr>cs_Image := ''pxc:8.0''\<rparr>) ((sample_component ''haproxy'')\<lparr>cs_Image := ''haproxy:2.8''\<rparr>) p = Ret p1"
    using configure_plain [OF s] by (auto simp: sample_component_def common_consts)
  have b: "applyBackupSettings ?E p1 = ret (set_backup p1 None)"
    by (simp add: applyBackupSettings_def enabled_backup_def plain_inst_def)
  obtain q where m: "exec (applyMonitoring ?E authority_host (with_secrets (users_secret (ctx_Name ?E)) (set_backup p1 None)) (wl_Provider empty_cluster)) empty_cluster = (Ret q, empty_cluster)"
    using plain_monitoring by blast
  have "in_DataSource plain_inst = None" by (simp add: plain_inst_def sample_inst_def)
  with r p1 b m show ?thesis
    by (simp add: SyncPXC_def hasActiveRestoreForInstance_def complete_cluster_def apply_cluster_def seed_data_source_def exec_call )
qed

theorem synced_cluster_witness:
  "\<exists>engine proxy p v w. cluster_shape (ref_env plain_inst) engine proxy p \<and> px_SecretsName (pc_Spec p) = ''everest-secrets-db''
     \<and> exec (ctx_ApplyPXC (ref_env plain_inst) p) v = (Ret (), w)"
proof -
  have idle: "exec (hasActiveRestoreForInstance (ref_env plain_inst) (ctx_Namespace (ref_env plain_inst)) (ctx_Name (ref_env plain_inst))) empty_cluster = (Ret False, empty_cluster)"
    by (simp add: hasActiveRestoreForInstance_def exec_call empty_cluster_def)
  obtain w' where "exec (SyncPXC (ref_env plain_inst) authority_host) empty_cluster = (Ret (), w')" using plain_sync by blast
  from synced_cluster [OF ref_proxy_flags.proxy_flags_axioms idle this] show ?thesis
    by (auto simp: users_secret_def plain_inst_def sample_inst_def named_meta_def)
qed

subsection \<open>Configurations given by the user\<close>

text \<open>The JSON text of parameters that set the configuration and nothing else.\<close>

definition configuration_json :: "string \<Rightarrow> string" where
  "configuration_json s = ''{'' @ json_string ''configuration'' @ '':'' @ json_string s @ ''}''"


subsection \<open>Where images come from\<close>

text \<open>
  \<^verbatim>\<open>controller.GetDefaultImage\<close> returns the image of a version in the catalogue, or nothing.
\<close>

definition in_catalogue :: "provider_spec \<Rightarrow> string \<Rightarrow> string \<Rightarrow> bool" where
  "in_catalogue spec t img \<longleftrightarrow> img \<noteq> [] \<and> (\<exists>ct v. prs_ComponentTypes spec t = Some ct \<and> v \<in> set (ct_Versions ct) \<and> cv_Image v = img)"

locale default_images =
  fixes default :: "provider_spec \<Rightarrow> string \<Rightarrow> string"
  assumes default_listed: "default spec t \<noteq> [] \<Longrightarrow> in_catalogue spec t (default spec t)"

lemma version_image_listed:
  "imageForComponentTypeVersion spec t v \<noteq> [] \<Longrightarrow> in_catalogue spec t (imageForComponentTypeVersion spec t v)"
  using version_image_member [of _ v] by (fastforce simp: imageForComponentTypeVersion_def in_catalogue_def split: option.splits)

lemma ref_default_image_version:
  "ref_default_image spec t = (case prs_ComponentTypes spec t of None \<Rightarrow> [] | Some ct \<Rightarrow> imageForComponentTypeVersion spec t (ct_DefaultVersion ct))"
  by (simp add: ref_default_image_def imageForComponentTypeVersion_def version_image_find split: option.split)

interpretation ref_images: default_images "GetDefaultImage (ref_env i)" for i
proof unfold_locales
  fix spec t assume "GetDefaultImage (ref_env i) spec t \<noteq> []"
  then show "in_catalogue spec t (GetDefaultImage (ref_env i) spec t)"
    by (cases "prs_ComponentTypes spec t") (simp_all add: ref_default_image_version version_image_listed)
qed

lemma default_image_listed:
  assumes "default_images (GetDefaultImage L)"
  shows "if defaultImageForComponentType L spec t = [] then \<not> (\<exists>img. in_catalogue spec t img) else in_catalogue spec t (defaultImageForComponentType L spec t)"
proof (cases "GetDefaultImage L spec t = []")
  case True
  then show ?thesis using first_image_member [of "ct_Versions ct" for ct]
    by (fastforce simp: defaultImageForComponentType_def Let_def in_catalogue_def first_image_empty split: option.splits)
next
  case False
  with default_images.default_listed [OF assms False] show ?thesis by (simp add: defaultImageForComponentType_def)
qed

lemma bundled_image_listed:
  assumes "default_images (GetDefaultImage E)" "imageForBundledProxy E spec t = Ret img"
  shows "if img = [] then \<not> (\<exists>i. in_catalogue spec t i) else in_catalogue spec t img"
  using assms(2) default_image_listed [OF assms(1), of spec t] version_image_listed [of spec t]
  by (auto simp: imageForBundledProxy_def Let_def bindO_Ret split: if_splits option.splits)

text \<open>
  C40. The image of the proxy is the one the Instance names, or an image of the provider's catalogue for
  the type of the proxy; and whenever the catalogue holds an image for that type, an image is chosen.
\<close>

theorem proxy_image_from_catalogue:
  assumes "default_images (GetDefaultImage E)" "proxy_image E spec proxy = Ret img"
  shows "(cs_Image proxy \<noteq> [] \<longrightarrow> img = cs_Image proxy)
    \<and> (cs_Image proxy = [] \<longrightarrow> (if img = [] then \<not> (\<exists>i. in_catalogue spec (cs_Type proxy) i) else in_catalogue spec (cs_Type proxy) img))"
  using assms(2) bundled_image_listed [OF assms(1), of spec "cs_Type proxy" img] version_image_listed [of spec "cs_Type proxy" "cs_Version proxy"]
  by (auto simp: proxy_image_def Let_def split: if_splits)

definition proxy_catalogue :: provider_spec where
  "proxy_catalogue = \<lparr>prs_ComponentTypes = [''haproxy'' \<mapsto> \<lparr>ct_DefaultVersion = ''2.9'', ct_Versions = [\<lparr>cv_Version = ''2.8'', cv_Image = ''haproxy:2.8''\<rparr>]\<rparr>],
     prs_Versions = [\<lparr>vb_Name = ''8.0'', vb_Components = Map.empty\<rparr>]\<rparr>"

theorem proxy_image_from_catalogue_witness:
  "\<exists>img. proxy_image (ref_env sample_inst) proxy_catalogue (sample_component ''haproxy'') = Ret img \<and> img \<noteq> [] \<and> in_catalogue proxy_catalogue ''haproxy'' img"
proof -
  have "proxy_image (ref_env sample_inst) proxy_catalogue (sample_component ''haproxy'') = Ret ''haproxy:2.8''"
    by (simp add: proxy_image_def Let_def imageForBundledProxy_def proxy_catalogue_def sample_component_def sample_inst_def
        defaultImageForComponentType_def ref_default_image_def common_consts)
  with proxy_image_from_catalogue [OF ref_images.default_images_axioms this] show ?thesis by (simp add: sample_component_def)
qed

end
