(* ===== verification/Relational.thy ===== *)
theory Relational
  imports Prelude
begin

text \<open>
  Two worlds compared: reads that answer the same in both and change neither. These are the leaves of
  the arguments about what a handler can notice.
\<close>

definition same_read :: "('w, 'a) io \<Rightarrow> 'w \<Rightarrow> 'w \<Rightarrow> bool" where
  "same_read m v w \<longleftrightarrow> (\<exists>r. exec m v = (r, v) \<and> exec m w = (r, w))"

lemma same_readI: "exec m v = (r, v) \<Longrightarrow> exec m w = (r, w) \<Longrightarrow> same_read m v w"
  unfolding same_read_def by blast

lemma same_readD: "same_read m v w \<Longrightarrow> exec m v = (r, v') \<Longrightarrow> v' = v \<and> exec m w = (r, w)"
  by (auto simp: same_read_def)

lemma same_read_const [simp]: "same_read (ret a) v w" "same_read (fail e) v w" "same_read (lift_outcome x) v w"
  by (simp_all add: same_read_def)

lemma same_read_call [intro]:
  assumes "same_read m v w" "\<And>e. same_read (h e) v w" "\<And>a. same_read (k a) v w"
  shows "same_read (call m h k) v w"
proof -
  from assms(1) obtain r where "exec m v = (r, v)" "exec m w = (r, w)" by (auto simp: same_read_def)
  with assms(2,3) show ?thesis by (cases r) (auto simp: same_read_def)
qed

end
