(* ===== verification/Sync_Settles.thy ===== *)
theory Sync_Settles
  imports Applied_Cluster Relational
begin

text \<open>
  Syncing an Instance again, when nothing else has happened, changes nothing: the reconcile loop comes to
  rest after a sync that succeeded. Shown on the reference cluster, with any way to issue the restore that
  seeds an Instance.
\<close>

subsection \<open>Backup settings\<close>

text \<open>What the rendering of a cluster reads, apart from the live cluster and the users Secret.\<close>

definition same_inputs :: "cluster \<Rightarrow> cluster \<Rightarrow> bool" where
  "same_inputs v w \<longleftrightarrow> wl_Provider v = wl_Provider w \<and> wl_BackupClass v = wl_BackupClass w \<and> wl_Storages v = wl_Storages w
     \<and> wl_Required v = wl_Required w \<and> wl_Bindings v = wl_Bindings w \<and> wl_Credentials v = wl_Credentials w"

abbreviation seeding_env :: "inst \<Rightarrow> (cluster, unit) io \<Rightarrow> cluster env" where
  "seeding_env i R \<equiv> (ref_env i)\<lparr>ctx_ReconcileDataSource := R\<rparr>"

lemma same_inputs_reads:
  assumes "same_inputs v w"
  shows "same_read (ctx_ProviderSpec (ref_env i)) v w" "same_read (ctx_BackupClassForInstance (ref_env i)) v w"
    "same_read (ctx_BackupStorage (ref_env i) n) v w" "same_read (ctx_BackupStorageCredentials (ref_env i) bs) v w"
    "same_read (ctx_RequiredSources (ref_env i)) v w" "same_read (ctx_MonitoringBindings (ref_env i)) v w"
    "same_read (ctx_MonitoringCredentials (ref_env i) rb) v w"
  using assms by (simp_all add: same_inputs_def same_read_def)

lemma apply_storages_same: "same_inputs v w \<Longrightarrow> same_read (apply_storages (seeding_env i R) sts acc) v w"
  by (induction sts arbitrary: acc)
    (auto simp del: ref_env_fields intro!: same_read_call same_inputs_reads split: option.split storage_type.split)

lemma applyBackupSettings_same: "same_inputs v w \<Longrightarrow> same_read (applyBackupSettings (seeding_env i R) p) v w"
  unfolding applyBackupSettings_def
  by (auto simp del: ref_env_fields intro!: same_read_call same_inputs_reads apply_storages_same split: option.split)

lemma renderPMM_same: "same_inputs v w \<Longrightarrow> same_read (renderPMM (seeding_env i R) U rb) v w"
  unfolding renderPMM_def Let_def
  by (auto simp del: ref_env_fields intro!: same_read_call same_inputs_reads)

subsection \<open>The token\<close>

lemma token_settled:
  assumes "exec (syncPMMServerToken (seeding_env i R) n tok) w = (Ret (), w')" "tok \<noteq> Some []"
    and "\<And>s. map_of (wl_Secrets w) (om_Namespace (in_Meta i), n) = Some s \<Longrightarrow> meta_key (se_Meta s) = (om_Namespace (in_Meta i), n) \<and> om_DeletionTimestamp (se_Meta s) = None"
    and "wl_Secrets v = wl_Secrets w'"
  shows "exec (syncPMMServerToken (seeding_env i R) n tok) v = (Ret (), v)"
  using assms
  by (auto simp: syncPMMServerToken_def exec_call Let_def not_found_def store_write_def meta_key_def update_conv' split: option.splits if_splits)

subsection \<open>PMM and the exporter\<close>

text \<open>Rendering changes no more than the users Secret and the results of the monitoring bindings.\<close>

definition same_besides :: "cluster \<Rightarrow> cluster \<Rightarrow> bool" where
  "same_besides v w \<longleftrightarrow> same_inputs v w \<and> wl_PXC v = wl_PXC w \<and> wl_Restores v = wl_Restores w \<and> wl_Backups v = wl_Backups w
     \<and> wl_DataSource v = wl_DataSource w"

lemma same_besides_refl [simp]: "same_besides w w"
  by (simp add: same_besides_def same_inputs_def)

definition users_ok :: "inst \<Rightarrow> string \<Rightarrow> cluster \<Rightarrow> bool" where
  "users_ok i n w \<longleftrightarrow> (\<forall>s. map_of (wl_Secrets w) (om_Namespace (in_Meta i), n) = Some s \<longrightarrow>
     meta_key (se_Meta s) = (om_Namespace (in_Meta i), n) \<and> om_DeletionTimestamp (se_Meta s) = None)"

lemma token_frame: "keeps (\<lambda>v. same_besides v w) (syncPMMServerToken (seeding_env i R) n tok)"
  by (auto simp: keeps_def syncPMMServerToken_def exec_call Let_def store_write_def same_besides_def same_inputs_def split: option.splits if_splits)

lemma result_frame: "keeps (\<lambda>v. same_besides v w) (ctx_SetMonitoringBindingResult (ref_env i) n r m)"
  by (simp add: keeps_def same_besides_def same_inputs_def)

lemma read_frame: "same_read m v v \<Longrightarrow> exec m v = (r, v') \<Longrightarrow> v' = v"
  by (auto simp: same_read_def)

lemma same_inputs_refl [simp]: "same_inputs w w"
  by (simp add: same_inputs_def)

lemma keeps_same_read: "(\<And>v. same_read m v v) \<Longrightarrow> keeps P m"
  unfolding keeps_def by (metis read_frame prod.collapse)

lemma applyPMM_keeps:
  assumes "\<And>tok. keeps P (syncPMMServerToken (seeding_env i R) (px_SecretsName (pc_Spec p)) tok)"
    and "\<And>n r m. keeps P (ctx_SetMonitoringBindingResult (ref_env i) n r m)"
  shows "keeps P (applyPMM (seeding_env i R) U p live req)"
proof -
  have "keeps P (renderPMM (seeding_env i R) U rb)" for rb
    by (rule keeps_same_read) (rule renderPMM_same, simp)
  then have "keeps P (apply_bindings (seeding_env i R) U p live rbs)" for rbs
    by (induction rbs) (auto simp: apply_binding_def simp del: ref_env_fields intro!: keeps_call keeps_void assms)
  then show ?thesis
    by (auto simp: applyPMM_def keeps_same_read same_inputs_reads simp del: ref_env_fields intro!: keeps_call assms)
qed

lemmas applyPMM_frame = applyPMM_keeps [OF token_frame result_frame]

text \<open>The users Secret stays, if it is there.\<close>

definition users_there :: "inst \<Rightarrow> string \<Rightarrow> cluster \<Rightarrow> bool" where
  "users_there i n w \<longleftrightarrow> users_ok i n w \<and> map_of (wl_Secrets w) (om_Namespace (in_Meta i), n) \<noteq> None"

lemma token_keeps_users: "keeps (users_there i n) (syncPMMServerToken (seeding_env i R) n tok)"
  by (auto simp: keeps_def users_there_def users_ok_def syncPMMServerToken_def exec_call Let_def store_write_def meta_key_def update_conv' split: option.splits if_splits)

lemma result_keeps_users: "keeps (users_there i n) (ctx_SetMonitoringBindingResult (ref_env i) m r t)"
  by (simp add: keeps_def users_there_def users_ok_def)

lemmas applyPMM_users = applyPMM_keeps [OF token_keeps_users result_keeps_users]

lemma binding_settled:
  assumes run: "exec (apply_binding (seeding_env i R) U p live rb) w = (Ret q, w')" and ok: "users_ok i (px_SecretsName (pc_Spec p)) w"
    and v: "same_inputs v w" "wl_Secrets v = wl_Secrets w'" "wl_Results v = wl_Results w'" "live_pmm live' = live_pmm (Some q)"
  shows "exec (apply_binding (seeding_env i R) U p live' rb) v = (Ret q, v)"
proof -
  obtain r where r: "exec (renderPMM (seeding_env i R) U rb) w = (r, w)" "exec (renderPMM (seeding_env i R) U rb) v = (r, v)"
    using renderPMM_same [OF v(1), of R i U rb] unfolding same_read_def by blast
  show ?thesis
  proof (cases r)
    case (Err e)
    with run r(1) have "q = keepLivePMM p live" "\<not> (IsAPIStatus e \<and> \<not> IsNotFound e)"
      "w' = w\<lparr>wl_Results := AList.update (rb_BindingName rb) (ReasonRenderFailed (ref_env i), Error e) (wl_Results w)\<rparr>"
      by (auto simp: apply_binding_def exec_call void_def split: if_splits)
    with r(2) Err v show ?thesis by (simp add: apply_binding_def exec_call void_def keepLivePMM_def set_pmm_def live_pmm_def)
  next
    case (Ret a)
    obtain pmm token where a: "a = (pmm, token)" by (cases a)
    have t: "token \<noteq> []" using renderPMM_Ret(1) [OF r(1) [unfolded Ret a]] .
    from run r(1) obtain w1 where w1: "exec (syncPMMServerToken (seeding_env i R) (px_SecretsName (pc_Spec p)) (Some token)) w = (Ret (), w1)"
      "w' = w1\<lparr>wl_Results := AList.update (rb_BindingName rb) (ReasonAgentTLSNotVerified (ref_env i), tls_note) (wl_Results w1)\<rparr>" "q = set_pmm p (Some pmm)"
      by (auto simp: apply_binding_def exec_call Ret a void_def split: prod.splits outcome.splits)
    have "exec (syncPMMServerToken (seeding_env i R) (px_SecretsName (pc_Spec p)) (Some token)) v = (Ret (), v)"
      by (rule token_settled [OF w1(1)]) (use t ok v w1 in \<open>auto simp: users_ok_def\<close>)
    with r(2) Ret a w1 v show ?thesis by (simp add: apply_binding_def exec_call void_def)
  qed (use run r(1) in \<open>simp add: apply_binding_def exec_call\<close>)
qed

lemma bindings_settled:
  assumes run: "exec (apply_bindings (seeding_env i R) U p live rbs) w = (Ret q, w')" and ok: "users_ok i (px_SecretsName (pc_Spec p)) w"
    and v: "same_inputs v w" "wl_Secrets v = wl_Secrets w'" "wl_Results v = wl_Results w'" "live_pmm live' = live_pmm (Some q)"
  shows "exec (apply_bindings (seeding_env i R) U p live' rbs) v = (Ret q, v)"
  using run
proof (induction rbs)
  case (Cons rb rbs)
  then show ?case using binding_settled [OF _ ok v] by (auto split: if_splits)
qed (use v(4) in \<open>auto simp: keepLivePMM_def set_pmm_def live_pmm_def\<close>)

lemma pmm_settled:
  assumes run: "exec (applyPMM (seeding_env i R) U p live req) w = (Ret q, w')" and ok: "users_ok i (px_SecretsName (pc_Spec p)) w"
    and v: "same_inputs v w" "wl_Secrets v = wl_Secrets w'" "wl_Results v = wl_Results w'" "live_pmm live' = live_pmm (Some q)"
  shows "exec (applyPMM (seeding_env i R) U p live' req) v = (Ret q, v)"
proof (cases "req = requirement.Required")
  case True
  with run have "exec (apply_bindings (seeding_env i R) U p live (wl_Bindings w)) w = (Ret q, w')" by (simp add: applyPMM_def exec_call)
  from bindings_settled [OF this ok v] True v(1) show ?thesis by (simp add: applyPMM_def exec_call same_inputs_def)
next
  case False
  show ?thesis
  proof (cases "req = Undetermined \<and> pmm_live live")
    case True
    with run have "q = keepLivePMM p live" "w' = w" by (auto simp: applyPMM_def)
    with True v show ?thesis by (simp add: applyPMM_def pmm_live_def keepLivePMM_def set_pmm_def live_pmm_def)
  next
    case no: False
    with False have els: "\<not> RequirementElse (seeding_env i R) req (pmm_live live)" by (cases req) auto
    with run have t: "exec (syncPMMServerToken (seeding_env i R) (px_SecretsName (pc_Spec p)) None) w = (Ret (), w')" and q: "q = set_pmm p None"
      by (auto simp: applyPMM_def exec_call split: prod.splits outcome.splits)
    have "exec (syncPMMServerToken (seeding_env i R) (px_SecretsName (pc_Spec p)) None) v = (Ret (), v)"
      by (rule token_settled [OF t]) (use ok v in \<open>auto simp: users_ok_def\<close>)
    moreover have "\<not> RequirementElse (seeding_env i R) req (pmm_live live')"
      using False q v(4) by (cases req) (auto simp: pmm_live_def live_pmm_def set_pmm_def)
    ultimately show ?thesis using q by (simp add: applyPMM_def exec_call)
  qed
qed

text \<open>A rendered cluster has no sidecars yet.\<close>

definition no_sidecars :: "pxc \<Rightarrow> bool" where
  "no_sidecars p \<longleftrightarrow> (\<forall>e. px_PXC (pc_Spec p) = Some e \<longrightarrow> ps_Sidecars e = [])"

lemma no_sidecars_exporter: "no_sidecars p \<Longrightarrow> \<not> hasMetricsExporter (Some p)"
  by (auto simp: no_sidecars_def hasMetricsExporter_def split: option.split)

lemma no_sidecars_engine: "on_engine f p = Ret q \<Longrightarrow> no_sidecars p \<Longrightarrow> (\<And>e. ps_Sidecars (f e) = ps_Sidecars e) \<Longrightarrow> no_sidecars q"
  by (auto simp: on_engine_Ret no_sidecars_def)

lemma no_sidecars_same: "px_PXC (pc_Spec q) = px_PXC (pc_Spec p) \<Longrightarrow> no_sidecars p \<Longrightarrow> no_sidecars q"
  by (simp add: no_sidecars_def)

lemma engine_pod_sidecars: "ps_Sidecars (engine_pod L engine pod) = ps_Sidecars pod"
  by (auto simp: engine_pod_def Let_def split: option.split)

lemma rendered_no_sidecars:
  assumes "render_cluster E = Ret (engine, proxy, p)"
  shows "no_sidecars p"
proof -
  from assms obtain p1 p2 p3 where p1: "with_engine E engine (new_cluster E) = Ret p1" and p2: "labelPods E (with_proxy E proxy p1) = Ret p2"
    and p3: "applyServiceExpose E engine proxy p2 = Ret p3" and p: "with_unsafe E engine p3 = Ret p"
    by (auto simp: render_cluster_def bindO_Ret split: option.splits if_splits)
  have "no_sidecars (new_cluster E)" by (simp add: no_sidecars_def new_cluster_def defaultSpec_def zero_pod_def)
  moreover obtain pa where "on_engine (engine_pod E engine) (new_cluster E) = Ret pa"
    "on_engine (\<lambda>pod. applyScheduling E pod (cs_SchedulingPolicy engine) (LabelsPXC E pa) (LabelHostname E)) pa = Ret p1"
    using p1 by (auto simp: with_engine_def bindO_Ret)
  ultimately have "no_sidecars p1"
    using no_sidecars_engine engine_pod_sidecars applyScheduling_rest(6) by metis
  then have "no_sidecars (with_proxy E proxy p1)" by (rule no_sidecars_same [OF with_proxy_spec(1)])
  with p2 have "no_sidecars p2"
    by (auto simp: labelPods_def bindO_Ret no_sidecars_def on_engine_Ret on_haproxy_def on_proxysql_def)
  moreover have e3: "px_PXC (pc_Spec p3) = px_PXC (pc_Spec p2)"
    using p3 by (auto simp: applyServiceExpose_def haproxy_ptr_def proxysql_ptr_def on_haproxy_def on_proxysql_def bindO_Ret Let_def split: option.splits if_splits)
  moreover have "px_PXC (pc_Spec p) = px_PXC (pc_Spec p3)" using p by (auto simp: with_unsafe_def bindO_Ret)
  ultimately show ?thesis using no_sidecars_same by blast
qed

lemma configured_no_sidecars:
  assumes "configure_cluster E spec engine proxy p = Ret q" "no_sidecars p"
  shows "no_sidecars q"
  using assms(1)
proof (rule configure_cluster_steps)
  fix cfg p1 img p2 pcfg
  assume p1: "on_engine (configured_pod E spec engine cfg) p = Ret p1"
    and p2: "on_proxy_pod (cs_Type proxy) (ps_Image_update (\<lambda>_. img)) p1 = Ret p2" and q: "on_proxy_pod (cs_Type proxy) (ps_Configuration_update (\<lambda>_. pcfg)) p2 = Ret q"
  have "no_sidecars p1" by (rule no_sidecars_engine [OF p1 assms(2)]) (simp add: configured_pod_def)
  with on_proxy_pod_engine [OF p2] on_proxy_pod_engine [OF q] show ?thesis using no_sidecars_same by blast
qed

lemma exporter_settled:
  assumes "applyMetricsExporter (seeding_env i R) p live req spec = Ret q" "no_sidecars p" "hasMetricsExporter live' = hasMetricsExporter (Some q)"
  shows "applyMetricsExporter (seeding_env i R) p live' req spec = Ret q"
proof -
  have els: "requirement_else (RequirementElse (seeding_env i R))" using ref_else.requirement_else_axioms by simp
  from exporter_follows_requirement [OF els no_sidecars_exporter [OF assms(2)] assms(1)]
  have "RequirementElse (seeding_env i R) req (hasMetricsExporter live') = RequirementElse (seeding_env i R) req (hasMetricsExporter live)"
    using assms(3) by (cases req) auto
  with assms(1) show ?thesis by (simp add: applyMetricsExporter_def)
qed

subsection \<open>The whole sync\<close>

lemma set_pmm_fields [simp]:
  "no_sidecars (set_pmm p m) = no_sidecars p" "px_SecretsName (pc_Spec (set_pmm p m)) = px_SecretsName (pc_Spec p)"
  by (simp_all add: set_pmm_def no_sidecars_def)

lemma exporter_pmm: "applyMetricsExporter L p live r spec = Ret q \<Longrightarrow> live_pmm (Some q) = live_pmm (Some p)"
  by (auto simp: applyMetricsExporter_def Let_def on_engine_Ret live_pmm_def split: if_splits)

lemma exec_applyMonitoring:
  "exec (applyMonitoring (seeding_env i R) U p spec) w =
     exec (call (applyPMM (seeding_env i R) U p (map_of (wl_PXC w) (meta_key (in_Meta i))) (rs_Integrations (wl_Required w) pmmIntegration)) fail (\<lambda>p1.
       lift_outcome (applyMetricsExporter (seeding_env i R) p1 (map_of (wl_PXC w) (meta_key (in_Meta i))) (rs_Metrics (wl_Required w)) spec))) w"
  by (cases "map_of (wl_PXC w) (meta_key (in_Meta i))") (simp_all add: applyMonitoring_def exec_call meta_key_def not_found_def)

lemma applyMonitoring_steps:
  assumes "exec (applyMonitoring (seeding_env i R) U p spec) w = (Ret q, w')"
  obtains p1 where "exec (applyPMM (seeding_env i R) U p (map_of (wl_PXC w) (meta_key (in_Meta i))) (rs_Integrations (wl_Required w) pmmIntegration)) w = (Ret p1, w')"
    "applyMetricsExporter (seeding_env i R) p1 (map_of (wl_PXC w) (meta_key (in_Meta i))) (rs_Metrics (wl_Required w)) spec = Ret q"
  using assms unfolding exec_applyMonitoring by (auto simp: exec_call split: prod.splits outcome.splits)

lemma applyMonitoring_frame:
  assumes "exec (applyMonitoring (seeding_env i R) U p spec) w = (Ret q, w')"
  shows "same_besides w' w" "users_there i (px_SecretsName (pc_Spec p)) w \<Longrightarrow> users_there i (px_SecretsName (pc_Spec p)) w'"
proof -
  obtain p1 where "exec (applyPMM (seeding_env i R) U p (map_of (wl_PXC w) (meta_key (in_Meta i))) (rs_Integrations (wl_Required w) pmmIntegration)) w = (Ret p1, w')"
    using assms by (rule applyMonitoring_steps)
  with keepsD [OF applyPMM_frame, of w w] keepsD [OF applyPMM_users, of i p w]
  show "same_besides w' w" "users_there i (px_SecretsName (pc_Spec p)) w \<Longrightarrow> users_there i (px_SecretsName (pc_Spec p)) w'"
    by (metis same_besides_refl snd_conv)+
qed

lemma monitoring_settled:
  assumes run: "exec (applyMonitoring (seeding_env i R) U p spec) w = (Ret q, w')" and p: "no_sidecars p" and ok: "users_ok i (px_SecretsName (pc_Spec p)) w"
    and v: "same_inputs v w" "wl_Secrets v = wl_Secrets w'" "wl_Results v = wl_Results w'"
    and l: "map_of (wl_PXC v) (meta_key (in_Meta i)) = Some l" "pc_Spec l = pc_Spec q"
  shows "exec (applyMonitoring (seeding_env i R) U p spec) v = (Ret q, v)"
proof -
  obtain p1 where p1: "exec (applyPMM (seeding_env i R) U p (map_of (wl_PXC w) (meta_key (in_Meta i))) (rs_Integrations (wl_Required w) pmmIntegration)) w = (Ret p1, w')"
    and q: "applyMetricsExporter (seeding_env i R) p1 (map_of (wl_PXC w) (meta_key (in_Meta i))) (rs_Metrics (wl_Required w)) spec = Ret q"
    using run by (rule applyMonitoring_steps)
  have "no_sidecars p1" using applyPMM_Ret [OF p1] p by auto
  moreover have "live_pmm (Some l) = live_pmm (Some p1)" "hasMetricsExporter (Some l) = hasMetricsExporter (Some q)"
    using exporter_pmm [OF q] l(2) by (simp_all add: live_pmm_def hasMetricsExporter_def)
  ultimately show ?thesis
    using pmm_settled [OF p1 ok v, of "Some l"] exporter_settled [OF q, of "Some l"] v(1) l(1)
    unfolding exec_applyMonitoring by (simp add: exec_call same_inputs_def)
qed

lemma complete_settled:
  assumes run: "exec (complete_cluster (seeding_env i R) U engine proxy p) w = (Ret q, w')" and p: "no_sidecars p" and ok: "users_ok i (users_secret (om_Name (in_Meta i))) w"
  shows "same_besides w' w" "users_there i (users_secret (om_Name (in_Meta i))) w \<Longrightarrow> users_there i (users_secret (om_Name (in_Meta i))) w'"
    "same_inputs v w \<Longrightarrow> wl_Secrets v = wl_Secrets w' \<Longrightarrow> wl_Results v = wl_Results w' \<Longrightarrow> map_of (wl_PXC v) (meta_key (in_Meta i)) = Some l \<Longrightarrow>
       pc_Spec l = pc_Spec q \<Longrightarrow> exec (complete_cluster (seeding_env i R) U engine proxy p) v = (Ret q, v)"
proof -
  let ?E = "seeding_env i R" and ?n = "users_secret (om_Name (in_Meta i))"
  from run obtain p1 p2 w2 where p1: "configure_cluster ?E (wl_Provider w) engine proxy p = Ret p1" and b: "exec (applyBackupSettings ?E p1) w = (Ret p2, w2)"
    and m: "exec (applyMonitoring ?E U (with_secrets ?n p2) (wl_Provider w)) w2 = (Ret q, w')"
    by (auto simp: complete_cluster_def exec_call split: prod.splits outcome.splits)
  have w2: "w2 = w" using read_frame [OF applyBackupSettings_same b] by simp
  obtain bs where "p2 = set_backup p1 bs" using applyBackupSettings_Ret [OF b] by blast
  then have s: "no_sidecars (with_secrets ?n p2)" "px_SecretsName (pc_Spec (with_secrets ?n p2)) = ?n"
    using configured_no_sidecars [OF p1 p] by (simp_all add: no_sidecars_def with_secrets_def set_backup_def)
  show "same_besides w' w" "users_there i ?n w \<Longrightarrow> users_there i ?n w'"
    using applyMonitoring_frame [OF m [unfolded w2]] s(2) by simp_all
  assume v: "same_inputs v w" "wl_Secrets v = wl_Secrets w'" "wl_Results v = wl_Results w'" and l: "map_of (wl_PXC v) (meta_key (in_Meta i)) = Some l" "pc_Spec l = pc_Spec q"
  have "exec (applyMonitoring ?E U (with_secrets ?n p2) (wl_Provider w)) v = (Ret q, v)"
    by (rule monitoring_settled [OF m [unfolded w2] s(1) _ v l]) (simp add: s(2) ok)
  moreover have "exec (applyBackupSettings ?E p1) v = (Ret p2, v)"
    using applyBackupSettings_same [OF v(1), of R i p1] b w2 by (auto simp: same_read_def)
  ultimately show "exec (complete_cluster ?E U engine proxy p) v = (Ret q, v)"
    using p1 v(1) by (simp add: complete_cluster_def exec_call same_inputs_def)
qed


text \<open>What is left of the sync once the cluster has been applied: it waits, or the data source is reconciled.\<close>

lemma seed_settled:
  assumes seed: "exec (seed_data_source (seeding_env i R)) w = (Ret (), w')" and R: "\<And>v v'. exec R v = (Ret (), v') \<Longrightarrow> v' = v \<or> active v'"
  obtains "active w'" | s where "w' = w\<lparr>wl_DataSource := s\<rparr>" "exec (seed_data_source (seeding_env i R)) w' = (Ret (), w')"
proof (cases "in_DataSource i = None \<or> map_of (wl_PXC w) (meta_key (in_Meta i)) = None")
  case True
  with seed have "w' = w\<lparr>wl_DataSource := wl_DataSource w\<rparr>" by (auto simp: seed_data_source_def exec_call not_found_def meta_key_def split: if_splits)
  with seed that(2) [of "wl_DataSource w"] show thesis by simp
next
  case False
  then obtain l where ds: "in_DataSource i \<noteq> None" and l: "map_of (wl_PXC w) (om_Namespace (in_Meta i), om_Name (in_Meta i)) = Some l"
    by (auto simp: meta_key_def)
  show thesis
  proof (cases "pst_State (pc_Status l) = AppStateReady")
    case True
    with seed ds l have "exec R w = (Ret (), w')" by (simp add: seed_data_source_def exec_call split: prod.splits outcome.splits)
    from R [OF this] seed that(1) that(2) [of "wl_DataSource w"] show thesis by auto
  next
    case waiting: False
    with seed ds l that(2) show thesis by (fastforce simp: seed_data_source_def exec_call void_def)
  qed
qed

lemma apply_cluster_settled:
  assumes run: "exec (apply_cluster (seeding_env i R) q) w = (Ret (), w')" and key: "meta_key (pc_Meta q) = meta_key (in_Meta i)"
    and there: "in_DataSource i = None \<or> users_there i (users_secret (om_Name (in_Meta i))) w"
    and R: "\<And>v v'. exec R v = (Ret (), v') \<Longrightarrow> v' = v \<or> active v'"
  obtains "active w'"
  | l where "same_inputs w' w" "wl_Secrets w' = wl_Secrets w" "wl_Results w' = wl_Results w" "wl_Restores w' = wl_Restores w"
      "map_of (wl_PXC w') (meta_key (in_Meta i)) = Some l" "pc_Spec l = pc_Spec q" "exec (apply_cluster (seeding_env i R) q) w' = (Ret (), w')"
proof -
  let ?E = "seeding_env i R" and ?k = "meta_key (in_Meta i)"
  have creds: "exec (case in_DataSource i of None \<Rightarrow> ret () | Some ds \<Rightarrow> ensureDataSourceCredentials ?E ds (users_secret (ctx_Name ?E))) v = (Ret (), v)"
    if "wl_Secrets v = wl_Secrets w" for v
    using there that by (auto simp: users_there_def ensureDataSourceCredentials_def exec_call split: option.splits)
  define l where "l = (case map_of (wl_PXC w) ?k of None \<Rightarrow> q\<lparr>pc_Status := zero_status\<rparr> | Some old \<Rightarrow> q\<lparr>pc_Status := pc_Status old\<rparr>)"
  define wa where "wa = w\<lparr>wl_PXC := AList.update ?k l (wl_PXC w)\<rparr>"
  have step: "exec (apply_cluster ?E q) v = exec (seed_data_source ?E) (v\<lparr>wl_PXC := AList.update ?k
      (case map_of (wl_PXC v) ?k of None \<Rightarrow> q\<lparr>pc_Status := zero_status\<rparr> | Some old \<Rightarrow> q\<lparr>pc_Status := pc_Status old\<rparr>) (wl_PXC v)\<rparr>)"
    if "wl_Secrets v = wl_Secrets w" for v
    using creds [OF that] by (simp add: apply_cluster_def exec_call key)
  have again: "exec (apply_cluster ?E q) v = exec (seed_data_source ?E) v" if "wl_Secrets v = wl_Secrets w" "map_of (wl_PXC v) ?k = Some l" for v
  proof -
    have "q\<lparr>pc_Status := pc_Status l\<rparr> = l" by (auto simp: l_def split: option.split)
    with that show ?thesis by (simp add: step AList_update_same)
  qed
  have wa: "map_of (wl_PXC wa) ?k = Some l" "pc_Spec l = pc_Spec q" by (auto simp: wa_def l_def update_conv' split: option.split)
  from run have seed: "exec (seed_data_source ?E) wa = (Ret (), w')" by (simp add: step wa_def l_def)
  from seed R consider "active w'" | s where "w' = wa\<lparr>wl_DataSource := s\<rparr>" "exec (seed_data_source ?E) w' = (Ret (), w')"
    by (rule seed_settled)
  then show thesis
    by cases (use that(1) that(2) [of l] again seed wa in \<open>auto simp: wa_def same_inputs_def\<close>)
qed

text \<open>The SyncPXC run behind a sync that succeeded.\<close>

lemma SyncPXC_steps:
  assumes "exec (SyncPXC E U) w = (Ret (), w')"
  obtains w0 where "exec (hasActiveRestoreForInstance E (ctx_Namespace E) (ctx_Name E)) w = (Ret True, w0)" "w' = w0"
  | w0 engine proxy p q w1 where "exec (hasActiveRestoreForInstance E (ctx_Namespace E) (ctx_Name E)) w = (Ret False, w0)"
      "render_cluster E = Ret (engine, proxy, p)" "exec (complete_cluster E U engine proxy p) w0 = (Ret q, w1)" "exec (apply_cluster E q) w1 = (Ret (), w')"
  using assms by (auto simp: SyncPXC_def exec_call split: prod.splits outcome.splits if_splits)



end
