(* ===== verification/Lifecycle.thy ===== *)
theory Lifecycle
  imports Backups
begin

text \<open>
  The life of on-demand backups under every interleaving of the user, the runtime that calls \<open>SyncBackup\<close>
  and \<open>CleanupBackup\<close>, and the operator: a step relation over the reference cluster, an invariant of its
  reachable states, and a machine for a single backup that it refines.
\<close>

definition bks :: "cluster \<Rightarrow> string \<times> string \<Rightarrow> backup option" where
  "bks w = map_of (wl_Backups w)"

definition ops :: "cluster \<Rightarrow> string \<times> string \<Rightarrow> op_backup option" where
  "ops w = map_of (wl_OpBackups w)"

abbreviation being_deleted :: "object_meta \<Rightarrow> bool" where
  "being_deleted m \<equiv> om_DeletionTimestamp m \<noteq> None"

definition put_bk :: "string \<times> string \<Rightarrow> backup \<Rightarrow> cluster \<Rightarrow> cluster" where
  "put_bk k b = wl_Backups_update (AList.update k b)"

definition put_op :: "string \<times> string \<Rightarrow> op_backup \<Rightarrow> cluster \<Rightarrow> cluster" where
  "put_op k x = wl_OpBackups_update (AList.update k x)"

definition drop_bk :: "string \<times> string \<Rightarrow> cluster \<Rightarrow> cluster" where
  "drop_bk k = wl_Backups_update (AList.delete k)"

definition drop_op :: "string \<times> string \<Rightarrow> cluster \<Rightarrow> cluster" where
  "drop_op k = wl_OpBackups_update (AList.delete k)"

lemma bks_simps [simp]:
  "bks (put_bk k b w) = (bks w)(k \<mapsto> b)" "bks (drop_bk k w) = (bks w)(k := None)" "bks (put_op k x w) = bks w" "bks (drop_op k w) = bks w"
  by (simp_all add: bks_def put_bk_def drop_bk_def put_op_def drop_op_def update_conv' delete_conv')

lemma ops_simps [simp]:
  "ops (put_op k x w) = (ops w)(k \<mapsto> x)" "ops (drop_op k w) = (ops w)(k := None)" "ops (put_bk k b w) = ops w" "ops (drop_bk k w) = ops w"
  by (simp_all add: ops_def put_bk_def drop_bk_def put_op_def drop_op_def update_conv' delete_conv')

text \<open>
  One step of anyone. A user creates, edits and deletes \<^verbatim>\<open>Backup\<close> objects (their deletion policy is not
  edited once they are being deleted); the runtime calls \<open>SyncBackup\<close> for those that live and
  \<open>CleanupBackup\<close> for those that are being deleted, and lets them go when that reports completion; the
  operator updates the status of its backups and removes those that are being deleted, together with
  their data if the finalizer for that is on.
\<close>

inductive backup_step :: "inst \<Rightarrow> cluster \<Rightarrow> cluster \<Rightarrow> bool" for i where
  user_creates: "bks w k = None \<Longrightarrow> meta_key (b_Meta b) = k \<Longrightarrow> \<not> being_deleted (b_Meta b) \<Longrightarrow> managedByRuntime b \<Longrightarrow>
     backup_step i w (put_bk k b w)"
| user_sets_policy: "bks w k = Some b \<Longrightarrow> \<not> being_deleted (b_Meta b) \<Longrightarrow> backup_step i w (put_bk k (b\<lparr>b_DeletionPolicy := policy\<rparr>) w)"
| user_deletes: "bks w k = Some b \<Longrightarrow> backup_step i w (put_bk k (b_Meta_update deleted_meta b) w)"
| runtime_syncs: "bks w k = Some b \<Longrightarrow> \<not> being_deleted (b_Meta b) \<Longrightarrow> exec (SyncBackup (ref_env i) b) w = (r, w') \<Longrightarrow> backup_step i w w'"
| runtime_cleans: "bks w k = Some b \<Longrightarrow> being_deleted (b_Meta b) \<Longrightarrow> exec (CleanupBackup (ref_env i) b) w = (r, w') \<Longrightarrow> backup_step i w w'"
| runtime_lets_go: "bks w k = Some b \<Longrightarrow> being_deleted (b_Meta b) \<Longrightarrow> exec (CleanupBackup (ref_env i) b) w = (Ret True, w') \<Longrightarrow>
     backup_step i w (drop_bk k w')"
| operator_reports: "ops w k = Some x \<Longrightarrow> backup_step i w (put_op k (x\<lparr>ob_Status := s\<rparr>) w)"
| operator_removes: "ops w k = Some x \<Longrightarrow> being_deleted (ob_Meta x) \<Longrightarrow> backup_step i w (drop_op k w)"

inductive backup_reachable :: "inst \<Rightarrow> cluster \<Rightarrow> bool" for i where
  start: "wl_Backups w = [] \<Longrightarrow> wl_OpBackups w = [] \<Longrightarrow> backup_reachable i w"
| step: "backup_reachable i w \<Longrightarrow> backup_step i w w' \<Longrightarrow> backup_reachable i w'"

subsection \<open>What the handlers do to the stores\<close>

lemma store_write_bk: "\<not> being_deleted (b_Meta b) \<Longrightarrow>
    exec (store_write wl_Backups wl_Backups_update b_Meta b) w =
      (case bks w (meta_key (b_Meta b)) of None \<Rightarrow> (Err (not_found (om_Name (b_Meta b))), w) | Some _ \<Rightarrow> (Ret b, put_bk (meta_key (b_Meta b)) b w))"
  by (simp add: store_write_def Let_def meta_key_def bks_def put_bk_def split: option.split)

lemma store_write_op: "\<not> (being_deleted (ob_Meta x) \<and> om_Finalizers (ob_Meta x) = []) \<Longrightarrow>
    exec (store_write wl_OpBackups wl_OpBackups_update ob_Meta x) w =
      (case ops w (meta_key (ob_Meta x)) of None \<Rightarrow> (Err (not_found (om_Name (ob_Meta x))), w) | Some _ \<Rightarrow> (Ret x, put_op (meta_key (ob_Meta x)) x w))"
  by (auto simp: store_write_def Let_def meta_key_def ops_def put_op_def split: option.split)

lemma store_write_op_gone: "being_deleted (ob_Meta x) \<Longrightarrow> om_Finalizers (ob_Meta x) = [] \<Longrightarrow>
    exec (store_write wl_OpBackups wl_OpBackups_update ob_Meta x) w =
      (case ops w (meta_key (ob_Meta x)) of None \<Rightarrow> (Err (not_found (om_Name (ob_Meta x))), w) | Some _ \<Rightarrow> (Ret x, drop_op (meta_key (ob_Meta x)) w))"
  by (simp add: store_write_def Let_def meta_key_def ops_def drop_op_def split: option.split)

lemma label_backup_effect:
  assumes "exec (label_backup (ref_env i) b) w = (r, w')" "bks w (meta_key (b_Meta b)) = Some b" "\<not> being_deleted (b_Meta b)"
  shows "\<exists>c. same_backup b c \<and> meta_key (b_Meta c) = meta_key (b_Meta b) \<and> \<not> being_deleted (b_Meta c)
    \<and> bks w' = (bks w)(meta_key (b_Meta b) \<mapsto> c) \<and> ops w' = ops w \<and> (\<forall>d. r = Ret d \<longrightarrow> d = c)"
proof (cases "b_InstanceRef b")
  case None
  then show ?thesis using assms
    by (intro exI [of _ b]) (auto simp: label_backup_def with_instance_def same_backup_def fun_upd_idem)
next
  case (Some n)
  let ?c = "b\<lparr>b_Meta := (b_Meta b)\<lparr>om_Labels := (om_Labels (b_Meta b))(instanceNameLabelKey \<mapsto> n)\<rparr>\<rparr>"
  show ?thesis
  proof (cases "map_str (om_Labels (b_Meta b)) instanceNameLabelKey = n")
    case True
    then show ?thesis using assms Some
      by (intro exI [of _ b]) (auto simp: label_backup_def with_instance_def same_backup_def fun_upd_idem)
  next
    case False
    moreover have "meta_key (b_Meta ?c) = meta_key (b_Meta b)" by (simp add: meta_key_def)
    ultimately show ?thesis using assms Some store_write_bk [of ?c w]
      by (intro exI [of _ ?c]) (auto simp: label_backup_def with_instance_def same_backup_def exec_call)
  qed
qed

lemma store_create_op:
  "exec (cl_CreateOpBackup (ref_env i) x) w = (case ops w (meta_key (ob_Meta x)) of
     None \<Rightarrow> (Ret (ob_Meta_update created_meta x), put_op (meta_key (ob_Meta x)) (ob_Meta_update created_meta x) w)
   | Some _ \<Rightarrow> (Err (already_exists (om_Name (ob_Meta x))), w))"
  by (simp add: store_create_def ops_def put_op_def meta_key_def split: option.split)

lemma get_op: "exec (cl_GetOpBackup (ref_env i) ns n) w = (case ops w (ns, n) of Some x \<Rightarrow> Ret x | None \<Rightarrow> Err (not_found n), w)"
  by (simp add: ops_def)

lemma new_op_backup_key:
  assumes "ensureBackupControllerReference (ref_env i) c (new_op_backup (ref_env i) c n) = Ret x"
  shows "meta_key (ob_Meta x) = meta_key (b_Meta c)" "\<not> being_deleted (ob_Meta x)"
proof -
  have o: "owner_only (new_op_backup (ref_env i) c n) x" by (rule ref_backup_api.ensured_owner [OF assms])
  show "meta_key (ob_Meta x) = meta_key (b_Meta c)"
    using owner_onlyD [OF o] by (simp add: meta_key_def new_op_backup_def named_meta_def)
  show "\<not> being_deleted (ob_Meta x)"
    by (subst o [unfolded owner_only_def]) (simp add: new_op_backup_def named_meta_def)
qed

lemma start_backup_effect:
  assumes "exec (start_backup (ref_env i) c) w = (r, w')" "ops w (meta_key (b_Meta c)) = None"
  shows "bks w' = bks w \<and> (ops w' = ops w \<and> (\<forall>y. r \<noteq> Ret (Inr y))
     \<or> (\<exists>x. ops w' = (ops w)(meta_key (b_Meta c) \<mapsto> x) \<and> r = Ret (Inr x) \<and> meta_key (ob_Meta x) = meta_key (b_Meta c) \<and> \<not> being_deleted (ob_Meta x)))"
proof (cases "\<exists>n p x. managedByRuntime c \<and> b_InstanceRef c = Some n \<and> exec (cl_GetPXC (ref_env i) (om_Namespace (b_Meta c)) n) w = (Ret p, w)
    \<and> pxc_storages p (b_StorageRef c) \<noteq> None \<and> ensureBackupControllerReference (ref_env i) c (new_op_backup (ref_env i) c n) = Ret x")
  case True
  then obtain n p x where n: "managedByRuntime c" "b_InstanceRef c = Some n" "exec (cl_GetPXC (ref_env i) (om_Namespace (b_Meta c)) n) w = (Ret p, w)"
    "pxc_storages p (b_StorageRef c) \<noteq> None" and x: "ensureBackupControllerReference (ref_env i) c (new_op_backup (ref_env i) c n) = Ret x" by blast
  have "exec (cl_CreateOpBackup (ref_env i) x) w = (Ret (ob_Meta_update created_meta x), put_op (meta_key (b_Meta c)) (ob_Meta_update created_meta x) w)"
    using store_create_op [of i x w] assms(2) new_op_backup_key [OF x] by simp
  then have "(r, w') = (Ret (Inr (ob_Meta_update created_meta x)), put_op (meta_key (b_Meta c)) (ob_Meta_update created_meta x) w)"
    using assms(1) n x by (auto simp: start_backup_def with_instance_def Let_def)
  then show ?thesis using new_op_backup_key [OF x] by (auto simp: created_meta_def meta_key_def)
next
  case False
  then show ?thesis using assms(1)
    by (cases "b_InstanceRef c") (auto simp: start_backup_def with_instance_def Let_def exec_call split: option.splits if_splits prod.splits outcome.splits)
qed

lemma adopt_backup_effect:
  assumes "exec (adopt_backup (ref_env i) c x) w = (r, w')" "ops w (meta_key (ob_Meta x)) = Some x" "\<not> being_deleted (ob_Meta x)"
  shows "bks w' = bks w \<and> (\<exists>y. ops w' = (ops w)(meta_key (ob_Meta x) \<mapsto> y) \<and> meta_key (ob_Meta y) = meta_key (ob_Meta x) \<and> \<not> being_deleted (ob_Meta y))"
proof (cases "\<exists>y. managedByRuntime c \<and> b_InstanceRef c \<noteq> None \<and> ensureBackupControllerReference (ref_env i) c (protect_data (ref_env i) c x) = Ret y")
  case True
  then obtain y where y: "managedByRuntime c" "b_InstanceRef c \<noteq> None" "ensureBackupControllerReference (ref_env i) c (protect_data (ref_env i) c x) = Ret y" by blast
  have o: "owner_only (protect_data (ref_env i) c x) y" by (rule ref_backup_api.ensured_owner [OF y(3)])
  have k: "meta_key (ob_Meta y) = meta_key (ob_Meta x)"
    using owner_onlyD [OF o] by (simp add: meta_key_def protect_data_def)
  have d: "\<not> being_deleted (ob_Meta y)"
    by (subst o [unfolded owner_only_def]) (use assms(3) in \<open>simp add: protect_data_def\<close>)
  have "\<exists>msg. immutableBackupSpecChangeMessage x c = Ret msg"
    using y(2) by (auto simp: immutableBackupSpecChangeMessage_def)
  then have "exec (adopt_backup (ref_env i) c x) w = (Ret y, put_op (meta_key (ob_Meta x)) y w)"
    using y store_write_op [of y w] assms(2) k d by (auto simp: adopt_backup_def)
  with assms(1) k d show ?thesis by auto
next
  case False
  then have "w' = w" using assms(1)
    by (auto simp: adopt_backup_def exec_call immutableBackupSpecChangeMessage_def split: option.splits if_splits prod.splits outcome.splits)
  moreover have "ops w = (ops w)(meta_key (ob_Meta x) \<mapsto> x)" using assms(2) by (simp add: fun_upd_idem)
  ultimately show ?thesis using assms(3) by auto
qed

text \<open>\<open>SyncBackup\<close> after the label, by what the operator knows.\<close>

lemma SyncBackup_labelled:
  assumes "exec (label_backup (ref_env i) b) w = (Ret c, w1)"
  shows "exec (SyncBackup (ref_env i) b) w = (case ops w1 (meta_key (b_Meta c)) of
      Some x \<Rightarrow> exec (call (adopt_backup (ref_env i) c x) fail (\<lambda>y. ret (backup_status_of (ref_env i) c y))) w1
    | None \<Rightarrow> (case exec (start_backup (ref_env i) c) w1 of
        (Ret (Inr x), w2) \<Rightarrow> exec (call (adopt_backup (ref_env i) c x) fail (\<lambda>y. ret (backup_status_of (ref_env i) c y))) w2
      | (Ret (Inl ex), w2) \<Rightarrow> (Ret ex, w2) | (Err e, w2) \<Rightarrow> (Err e, w2) | (Panic, w2) \<Rightarrow> (Panic, w2)))"
  unfolding SyncBackup_def exec_call_Ret [OF assms]
  by (cases "ops w1 (meta_key (b_Meta c))")
    (auto simp: exec_call get_op [unfolded meta_key_def] meta_key_def not_found_def simp del: ref_env_fields split: prod.split outcome.split sum.split)

lemma adopt_call_effect:
  assumes "exec (call (adopt_backup (ref_env i) c x) fail (\<lambda>y. ret (backup_status_of (ref_env i) c y))) w = (r, w')"
    and "ops w k = Some x" "meta_key (ob_Meta x) = k" "\<not> being_deleted (ob_Meta x)"
  shows "\<exists>y. ops w' = (ops w)(k \<mapsto> y) \<and> meta_key (ob_Meta y) = k \<and> \<not> being_deleted (ob_Meta y) \<and> bks w' = bks w"
proof -
  obtain r1 where "exec (adopt_backup (ref_env i) c x) w = (r1, w')"
    using assms(1) by (auto simp: exec_call split: prod.splits outcome.splits)
  from adopt_backup_effect [OF this] assms(2-4) show ?thesis by auto
qed

lemma labelled_effect:
  assumes run: "exec (SyncBackup (ref_env i) b) w = (r, w')" and l: "exec (label_backup (ref_env i) b) w = (Ret c, w1)"
    and k: "meta_key (b_Meta c) = k" and x: "\<And>x. ops w1 k = Some x \<Longrightarrow> meta_key (ob_Meta x) = k \<and> \<not> being_deleted (ob_Meta x)"
  shows "bks w' = bks w1 \<and> (ops w' = ops w1 \<or> (\<exists>y. ops w' = (ops w1)(k \<mapsto> y) \<and> meta_key (ob_Meta y) = k \<and> \<not> being_deleted (ob_Meta y)))"
proof (cases "ops w1 k")
  case (Some z)
  with run SyncBackup_labelled [OF l] k
  have "exec (call (adopt_backup (ref_env i) c z) fail (\<lambda>y. ret (backup_status_of (ref_env i) c y))) w1 = (r, w')" by simp
  from adopt_call_effect [OF this Some] x [OF Some] show ?thesis by blast
next
  case None
  obtain r2 w2 where s: "exec (start_backup (ref_env i) c) w1 = (r2, w2)" by fastforce
  from start_backup_effect [OF s] k None consider "bks w2 = bks w1" "ops w2 = ops w1" "\<forall>y. r2 \<noteq> Ret (Inr y)"
    | z where "bks w2 = bks w1" "ops w2 = (ops w1)(k \<mapsto> z)" "r2 = Ret (Inr z)" "meta_key (ob_Meta z) = k" "\<not> being_deleted (ob_Meta z)" by auto
  then show ?thesis
  proof cases
    case 1
    with run SyncBackup_labelled [OF l] k None s show ?thesis by (auto split: outcome.splits sum.splits)
  next
    case (2 z)
    with run SyncBackup_labelled [OF l] k None s
    have "exec (call (adopt_backup (ref_env i) c z) fail (\<lambda>y. ret (backup_status_of (ref_env i) c y))) w2 = (r, w')" by simp
    from adopt_call_effect [OF this, of k] 2 show ?thesis by auto
  qed
qed

lemma SyncBackup_effect:
  assumes run: "exec (SyncBackup (ref_env i) b) w = (r, w')"
    and b: "bks w k = Some b" "meta_key (b_Meta b) = k" "\<not> being_deleted (b_Meta b)"
    and x: "\<And>x. ops w k = Some x \<Longrightarrow> meta_key (ob_Meta x) = k \<and> \<not> being_deleted (ob_Meta x)"
  shows "\<exists>c. same_backup b c \<and> meta_key (b_Meta c) = k \<and> \<not> being_deleted (b_Meta c) \<and> bks w' = (bks w)(k \<mapsto> c)
    \<and> (ops w' = ops w \<or> (\<exists>y. ops w' = (ops w)(k \<mapsto> y) \<and> meta_key (ob_Meta y) = k \<and> \<not> being_deleted (ob_Meta y)))"
proof -
  obtain r1 w1 where l: "exec (label_backup (ref_env i) b) w = (r1, w1)" by fastforce
  from label_backup_effect [OF l] b obtain c where c: "same_backup b c" "meta_key (b_Meta c) = k" "\<not> being_deleted (b_Meta c)"
    "bks w1 = (bks w)(k \<mapsto> c)" "ops w1 = ops w" "\<forall>d. r1 = Ret d \<longrightarrow> d = c" by auto
  show ?thesis
  proof (cases "r1 = Ret c")
    case True
    from labelled_effect [OF run l [unfolded True] c(2)] x c(5)
    have "bks w' = bks w1 \<and> (ops w' = ops w \<or> (\<exists>y. ops w' = (ops w)(k \<mapsto> y) \<and> meta_key (ob_Meta y) = k \<and> \<not> being_deleted (ob_Meta y)))" by simp
    with c(1-4) show ?thesis by auto
  next
    case False
    then have "w' = w1" using run l c(6) by (cases r1) (auto simp: SyncBackup_def)
    with c(1-5) show ?thesis by auto
  qed
qed

abbreviation erases :: "op_backup \<Rightarrow> bool" where
  "erases x \<equiv> pxcBackupDeleteDataFinalizer \<in> set (om_Finalizers (ob_Meta x))"

abbreviation retained :: "backup \<Rightarrow> bool" where
  "retained b \<equiv> b_DeletionPolicy b = ''Retain''"

lemma CleanupBackup_absent:
  assumes "exec (CleanupBackup (ref_env i) b) w = (r, w')" "meta_key (b_Meta b) = k" "ops w k = None"
  shows "r = Ret True \<and> w' = w"
  using assms by (auto simp: CleanupBackup_def Let_def exec_call ops_def meta_key_def not_found_def)

text \<open>One cleanup of an operator backup: the finalizer comes off, or the deletion is asked for, or nothing is done.\<close>

lemma CleanupBackup_present:
  assumes "exec (CleanupBackup (ref_env i) b) w = (r, w')" "meta_key (b_Meta b) = k" "ops w k = Some x" "meta_key (ob_Meta x) = k"
  shows "r = Ret False \<and> bks w' = bks w \<and> (w' = w
     \<or> (ops w' = (ops w)(k := None) \<and> (erases x \<longrightarrow> retained b \<and> being_deleted (ob_Meta x)))
     \<or> (\<exists>y. ops w' = (ops w)(k \<mapsto> y) \<and> meta_key (ob_Meta y) = k
          \<and> (retained b \<and> erases x \<and> \<not> erases y \<and> being_deleted (ob_Meta y) = being_deleted (ob_Meta x)
             \<or> being_deleted (ob_Meta y) \<and> erases y = erases x \<and> (retained b \<longrightarrow> \<not> erases x))))"
proof -
  have get: "exec (cl_GetOpBackup (ref_env i) (om_Namespace (b_Meta b)) (om_Name (b_Meta b))) w = (Ret x, w)"
    using assms(2,3) by (auto simp: get_op meta_key_def simp del: ref_env_fields)
  let ?y = "x\<lparr>ob_Meta := (ob_Meta x)\<lparr>om_Finalizers := ref_remove_finalizer (om_Finalizers (ob_Meta x)) pxcBackupDeleteDataFinalizer\<rparr>\<rparr>"
  have y: "meta_key (ob_Meta ?y) = k" "\<not> erases ?y" "being_deleted (ob_Meta ?y) = being_deleted (ob_Meta x)"
    using assms(4) by (simp_all add: meta_key_def ref_finalizers.set_remove)
  show ?thesis
  proof (cases "retained b \<and> erases x")
    case True
    then have "exec (CleanupBackup (ref_env i) b) w = exec (call (store_write wl_OpBackups wl_OpBackups_update ob_Meta ?y)
        (\<lambda>e. fail (Wrap (''remove backup finalizer on '' @ Quote (om_Name (b_Meta b))) e)) (\<lambda>_. ret False)) w"
      using get by (simp add: CleanupBackup_def Let_def ref_finalizers.contains_iff)
    with assms(1,3) True y store_write_op [of ?y w] store_write_op_gone [of ?y w] show ?thesis
      by (cases "being_deleted (ob_Meta ?y) \<and> om_Finalizers (ob_Meta ?y) = []") auto
  next
    case False
    show ?thesis
    proof (cases "IsZero_ptr (om_DeletionTimestamp (ob_Meta x))")
      case True
      have "exec (CleanupBackup (ref_env i) b) w = (Ret False,
          if om_Finalizers (ob_Meta x) = [] then drop_op k w else put_op k (ob_Meta_update deleted_meta x) w)"
        using get False True assms(3,4)
        by (auto simp: CleanupBackup_def Let_def ref_finalizers.contains_iff store_delete_def drop_op_def put_op_def ops_def meta_key_def)
      moreover have "being_deleted (deleted_meta (ob_Meta x))" "om_Finalizers (deleted_meta (ob_Meta x)) = om_Finalizers (ob_Meta x)"
        "meta_key (deleted_meta (ob_Meta x)) = k" using assms(4) by (auto simp: deleted_meta_def meta_key_def)
      ultimately show ?thesis using assms(1) False by auto
    next
      assume "\<not> IsZero_ptr (om_DeletionTimestamp (ob_Meta x))"
      with get False assms(1) show ?thesis by (auto simp: CleanupBackup_def Let_def ref_finalizers.contains_iff)
    qed
  qed
qed

subsection \<open>The invariant\<close>

text \<open>
  Objects are stored under their own key; an operator backup belongs to a \<^verbatim>\<open>Backup\<close>; and when it is being
  deleted so is that \<^verbatim>\<open>Backup\<close>, and its data is erased only if the \<^verbatim>\<open>Backup\<close> is not retained.
\<close>

definition op_ok :: "string \<times> string \<Rightarrow> backup option \<Rightarrow> op_backup \<Rightarrow> bool" where
  "op_ok k bo x \<longleftrightarrow> meta_key (ob_Meta x) = k \<and> (\<exists>b. bo = Some b
     \<and> (being_deleted (ob_Meta x) \<longrightarrow> being_deleted (b_Meta b) \<and> (erases x \<longrightarrow> \<not> retained b)))"

definition life_inv :: "cluster \<Rightarrow> bool" where
  "life_inv w \<longleftrightarrow> (\<forall>k b. bks w k = Some b \<longrightarrow> meta_key (b_Meta b) = k) \<and> (\<forall>k x. ops w k = Some x \<longrightarrow> op_ok k (bks w k) x)"

lemma life_invD:
  assumes "life_inv w"
  shows "bks w k = Some b \<Longrightarrow> meta_key (b_Meta b) = k" "ops w k = Some x \<Longrightarrow> op_ok k (bks w k) x"
  using assms unfolding life_inv_def by blast+

definition at_key :: "cluster \<Rightarrow> string \<times> string \<Rightarrow> backup option \<times> op_backup option" where
  "at_key w k = (bks w k, ops w k)"

text \<open>What a step does to the objects of one key.\<close>

inductive key_step :: "string \<times> string \<Rightarrow> backup option \<times> op_backup option \<Rightarrow> backup option \<times> op_backup option \<Rightarrow> bool" for k where
  created: "meta_key (b_Meta b) = k \<Longrightarrow> \<not> being_deleted (b_Meta b) \<Longrightarrow> key_step k (None, None) (Some b, None)"
| edited: "meta_key (b_Meta c) = k \<Longrightarrow> \<not> being_deleted (b_Meta b) \<Longrightarrow> \<not> being_deleted (b_Meta c) \<Longrightarrow>
    (\<And>y. yo = Some y \<Longrightarrow> meta_key (ob_Meta y) = k \<and> \<not> being_deleted (ob_Meta y)) \<Longrightarrow> key_step k (Some b, xo) (Some c, yo)"
| deleted: "meta_key (b_Meta c) = k \<Longrightarrow> being_deleted (b_Meta c) \<Longrightarrow> retained c = retained b \<Longrightarrow> key_step k (Some b, xo) (Some c, xo)"
| finalizer_off: "being_deleted (b_Meta b) \<Longrightarrow> retained b \<Longrightarrow> erases x \<Longrightarrow> \<not> erases y \<Longrightarrow> meta_key (ob_Meta y) = k \<Longrightarrow>
    being_deleted (ob_Meta y) = being_deleted (ob_Meta x) \<Longrightarrow> key_step k (Some b, Some x) (Some b, Some y)"
| deletion: "being_deleted (b_Meta b) \<Longrightarrow> being_deleted (ob_Meta y) \<Longrightarrow> erases y = erases x \<Longrightarrow> (retained b \<Longrightarrow> \<not> erases x) \<Longrightarrow>
    meta_key (ob_Meta y) = k \<Longrightarrow> key_step k (Some b, Some x) (Some b, Some y)"
| removed: "being_deleted (b_Meta b) \<Longrightarrow> key_step k (Some b, Some x) (Some b, None)"
| let_go: "being_deleted (b_Meta b) \<Longrightarrow> key_step k (Some b, None) (None, None)"
| status: "ob_Meta y = ob_Meta x \<Longrightarrow> key_step k (Some b, Some x) (Some b, Some y)"

lemma key_step_inv:
  assumes "key_step k p q" "\<And>b. fst p = Some b \<Longrightarrow> meta_key (b_Meta b) = k" "\<And>x. snd p = Some x \<Longrightarrow> op_ok k (fst p) x"
  shows "(\<forall>b. fst q = Some b \<longrightarrow> meta_key (b_Meta b) = k) \<and> (\<forall>x. snd q = Some x \<longrightarrow> op_ok k (fst q) x)"
  using assms by (induction rule: key_step.induct) (auto simp: op_ok_def)

definition one_key :: "cluster \<Rightarrow> cluster \<Rightarrow> bool" where
  "one_key w w' \<longleftrightarrow> (\<exists>k. (at_key w' k = at_key w k \<or> key_step k (at_key w k) (at_key w' k)) \<and> (\<forall>j. j \<noteq> k \<longrightarrow> at_key w' j = at_key w j))"

lemma one_keyI:
  "bks w' = (bks w)(k := bo) \<Longrightarrow> ops w' = (ops w)(k := xo) \<Longrightarrow> key_step k (bks w k, ops w k) (bo, xo) \<Longrightarrow> one_key w w'"
  by (auto simp: one_key_def at_key_def intro!: exI [of _ k])

lemma one_key_same: "bks w' = bks w \<Longrightarrow> ops w' = ops w \<Longrightarrow> one_key w w'"
  by (auto simp: one_key_def at_key_def)

lemma one_key_inv: "one_key w w' \<Longrightarrow> life_inv w \<Longrightarrow> life_inv w'"
proof -
  assume "one_key w w'" and inv: "life_inv w"
  then obtain k where k: "at_key w' k = at_key w k \<or> key_step k (at_key w k) (at_key w' k)" and j: "\<forall>j. j \<noteq> k \<longrightarrow> at_key w' j = at_key w j"
    by (auto simp: one_key_def)
  have "(\<forall>b. bks w' k = Some b \<longrightarrow> meta_key (b_Meta b) = k) \<and> (\<forall>x. ops w' k = Some x \<longrightarrow> op_ok k (bks w' k) x)"
    using k key_step_inv [of k "at_key w k" "at_key w' k"] life_invD [OF inv, of k] by (auto simp: at_key_def)
  with j life_invD [OF inv] show "life_inv w'" unfolding life_inv_def at_key_def by (metis prod.inject)
qed

lemma synced_one_key:
  assumes inv: "life_inv w" and b: "bks w k = Some b" "\<not> being_deleted (b_Meta b)" and run: "exec (SyncBackup (ref_env i) b) w = (r, w')"
  shows "one_key w w'"
proof -
  have x: "meta_key (ob_Meta x) = k \<and> \<not> being_deleted (ob_Meta x)" if "ops w k = Some x" for x
    using b life_invD(2) [OF inv that] by (auto simp: op_ok_def)
  from SyncBackup_effect [OF run b(1) _ b(2) x] life_invD(1) [OF inv b(1)]
  obtain c yo where "meta_key (b_Meta c) = k" "\<not> being_deleted (b_Meta c)" "bks w' = (bks w)(k \<mapsto> c)" "ops w' = (ops w)(k := yo)"
    "\<And>y. yo = Some y \<Longrightarrow> meta_key (ob_Meta y) = k \<and> \<not> being_deleted (ob_Meta y)" using x by (metis fun_upd_triv option.inject)
  with b show ?thesis by (intro one_keyI [of _ _ k "Some c" yo]) (auto intro: key_step.edited)
qed

lemma cleaned_one_key:
  assumes inv: "life_inv w" and b: "bks w k = Some b" "being_deleted (b_Meta b)" and run: "exec (CleanupBackup (ref_env i) b) w = (r, w')"
  shows "one_key w w'"
proof (cases "ops w k")
  case None
  with CleanupBackup_absent [OF run life_invD(1) [OF inv b(1)]] show ?thesis by (simp add: one_key_same)
next
  case (Some x)
  then have x: "meta_key (ob_Meta x) = k" using life_invD(2) [OF inv Some] by (simp add: op_ok_def)
  note eff = CleanupBackup_present [OF run life_invD(1) [OF inv b(1)] Some x]
  then have b': "bks w' = (bks w)(k := Some b)" using b(1) by (simp add: fun_upd_idem)
  from eff consider "w' = w" | "ops w' = (ops w)(k := None)"
    | y where "ops w' = (ops w)(k \<mapsto> y)" "meta_key (ob_Meta y) = k" "retained b" "erases x" "\<not> erases y" "being_deleted (ob_Meta y) = being_deleted (ob_Meta x)"
    | y where "ops w' = (ops w)(k \<mapsto> y)" "meta_key (ob_Meta y) = k" "being_deleted (ob_Meta y)" "erases y = erases x" "retained b \<longrightarrow> \<not> erases x" by blast
  then show ?thesis
  proof cases
    case 2
    then show ?thesis using Some b by (intro one_keyI [OF b']) (auto intro: key_step.removed)
  next
    case (3 y)
    show ?thesis by (rule one_keyI [OF b' 3(1)], unfold Some b(1), rule key_step.finalizer_off) (use b(2) 3 in auto)
  next
    case (4 y)
    show ?thesis by (rule one_keyI [OF b' 4(1)], unfold Some b(1), rule key_step.deletion) (use b(2) 4 in auto)
  qed (simp add: one_key_same)
qed

lemma backup_step_one_key:
  assumes "backup_step i w w'" "life_inv w"
  shows "one_key w w'"
  using assms
proof (induction rule: backup_step.induct)
  case (user_creates w k b)
  moreover from this have "ops w k = None" using life_invD(2) [of w k] by (cases "ops w k") (auto simp: op_ok_def)
  ultimately show ?case by (intro one_keyI [of _ _ k "Some b" None]) (auto intro: key_step.created)
next
  case (user_sets_policy w k b policy)
  then show ?case using life_invD [of w k]
    by (intro one_keyI [of _ _ k "Some (b\<lparr>b_DeletionPolicy := policy\<rparr>)" "ops w k"]) (auto intro!: key_step.edited simp: op_ok_def)
next
  case (user_deletes w k b)
  then show ?case using life_invD(1) [of w k b]
    by (intro one_keyI [of _ _ k "Some (b_Meta_update deleted_meta b)" "ops w k"]) (auto intro!: key_step.deleted simp: deleted_meta_def meta_key_def)
next
  case (runtime_syncs w k b r w')
  then show ?case by (intro synced_one_key)
next
  case (runtime_cleans w k b r w')
  then show ?case by (intro cleaned_one_key)
next
  case (runtime_lets_go w k b w')
  note key = life_invD(1) [OF runtime_lets_go(4,1)]
  have none: "ops w k = None"
    using CleanupBackup_present [OF runtime_lets_go(3) key] life_invD(2) [OF runtime_lets_go(4), of k] by (cases "ops w k") (auto simp: op_ok_def)
  from CleanupBackup_absent [OF runtime_lets_go(3) key none] runtime_lets_go(1,2) none show ?case
    by (intro one_keyI [of _ _ k None None]) (auto intro: key_step.let_go)
next
  case (operator_reports w k x s)
  with life_invD(2) [of w k x] show ?case
    by (intro one_keyI [of _ _ k "bks w k" "Some (x\<lparr>ob_Status := s\<rparr>)"]) (auto simp: op_ok_def intro!: key_step.status)
next
  case (operator_removes w k x)
  with life_invD(2) [of w k x] show ?case
    by (intro one_keyI [of _ _ k "bks w k" None]) (auto simp: op_ok_def intro!: key_step.removed)
qed

lemma reachable_life_inv: "backup_reachable i w \<Longrightarrow> life_inv w"
proof (induction rule: backup_reachable.induct)
  case (start w)
  then show ?case by (simp add: life_inv_def bks_def ops_def)
next
  case (step w w')
  then show ?case by (blast intro: one_key_inv backup_step_one_key)
qed

subsection \<open>Refinement of the life of one backup\<close>

text \<open>
  The life of a single backup, as a user thinks of it: it is there until it is deleted, then its operator
  backup goes, either with the data (\<open>Erasing\<close>) or without, and then the object itself. A retained backup
  never gets to \<open>Erasing\<close>.
\<close>

datatype life = Gone | Active | Ending bool | Releasing | Erasing | Ended

inductive life_step :: "life \<Rightarrow> life \<Rightarrow> bool" where
  "life_step Gone Active"
| "life_step Active (Ending keep)"
| "life_step Active Ended"
| "life_step (Ending keep) Releasing"
| "life_step (Ending False) Erasing"
| "life_step (Ending keep) Ended"
| "life_step Releasing Ended"
| "life_step Erasing Ended"
| "life_step Ended Gone"

inductive_cases to_erasing: "life_step l Erasing"

fun life_at :: "backup option \<times> op_backup option \<Rightarrow> life" where
  "life_at (None, xo) = Gone"
| "life_at (Some b, xo) = (if \<not> being_deleted (b_Meta b) then Active
     else case xo of None \<Rightarrow> Ended
       | Some x \<Rightarrow> if \<not> being_deleted (ob_Meta x) then Ending (retained b) else if erases x then Erasing else Releasing)"

lemma key_step_life:
  assumes "key_step k p q" "\<And>x. snd p = Some x \<Longrightarrow> op_ok k (fst p) x"
  shows "life_at q = life_at p \<or> life_step (life_at p) (life_at q)"
  using assms
proof (induction rule: key_step.induct)
  case (deleted c b xo)
  then show ?case by (cases xo) (auto simp: op_ok_def life_step.simps)
qed (simp_all add: op_ok_def life_step.simps, auto)

lemma erasing_only_unretained: "life_step l Erasing \<Longrightarrow> l = Ending False"
  by (elim to_erasing)

lemma reachable_step_life:
  assumes "backup_reachable i w" "backup_step i w w'"
  shows "life_at (at_key w' k) = life_at (at_key w k) \<or> life_step (life_at (at_key w k)) (life_at (at_key w' k))"
proof -
  have inv: "life_inv w" by (rule reachable_life_inv [OF assms(1)])
  from backup_step_one_key [OF assms(2) inv] obtain j where j: "at_key w' j = at_key w j \<or> key_step j (at_key w j) (at_key w' j)"
    "\<forall>i. i \<noteq> j \<longrightarrow> at_key w' i = at_key w i" by (auto simp: one_key_def)
  show ?thesis
  proof (cases "k = j \<and> key_step j (at_key w j) (at_key w' j)")
    case True
    with key_step_life [of k "at_key w k" "at_key w' k"] life_invD(2) [OF inv] show ?thesis by (auto simp: at_key_def)
  next
    case False
    with j have "at_key w' k = at_key w k" by metis
    then show ?thesis by simp
  qed
qed



subsection \<open>A run\<close>

text \<open>An on-demand backup that is not retained, from its creation to the deletion of its data.\<close>

definition stored_cluster :: cluster where
  "stored_cluster = empty_cluster\<lparr>wl_PXC := [((''team-a'', ''db''), \<lparr>pc_Meta = named_meta ''team-a'' ''db'',
     pc_Spec = \<lparr>px_UpdateStrategy = [], px_UpgradeApply = [], px_UpgradeSchedule = [], px_VolumeExpansionEnabled = True, px_CRVersion = [],
       px_SecretsName = [], px_PXC = None, px_HAProxy = None, px_ProxySQL = None, px_Unsafe = \<lparr>uf_PXCSize = False, uf_ProxySize = False\<rparr>,
       px_Backup = Some \<lparr>bs_Image = [], bs_Storages = [''s3'' \<mapsto> \<lparr>os_Type = ''s3'', os_Bucket = ''b/u1'', os_CredentialsSecret = ''c'',
         os_Region = [], os_EndpointURL = [], os_VerifyTLS = None, os_ContainerEnv = None\<rparr>], bs_Schedule = [],
         bs_PITR = \<lparr>pis_Enabled = False, pis_StorageName = [], pis_TimeBetweenUploads = 0, pis_TimeoutSeconds = 0\<rparr>\<rparr>, px_PMM = None\<rparr>,
     pc_Status = zero_status\<rparr>)]\<rparr>"

definition run_created :: cluster where
  "run_created = put_bk (''team-a'', ''b1'') (sample_backup ''b1'' BackupStatePending 0) stored_cluster"

lemma run_synced:
  "\<exists>r w c x. exec (SyncBackup (ref_env sample_inst) (sample_backup ''b1'' BackupStatePending 0)) run_created = (Ret r, w)
     \<and> bks w (''team-a'', ''b1'') = Some c \<and> \<not> being_deleted (b_Meta c) \<and> \<not> retained c
     \<and> ops w (''team-a'', ''b1'') = Some x \<and> meta_key (ob_Meta x) = (''team-a'', ''b1'') \<and> \<not> being_deleted (ob_Meta x) \<and> erases x"
  by (simp add: SyncBackup_def label_backup_def with_instance_def exec_call run_created_def put_bk_def bks_def ops_def stored_cluster_def sample_defs map_str_def
      store_write_def store_create_def Let_def start_backup_def adopt_backup_def managedByRuntime_def immutableBackupSpecChangeMessage_def
      ensureBackupControllerReference_def ref_controller_ref_def protect_data_def backup_status_of_def zero_op_backup_status_def
      new_op_backup_def pxc_storages_def created_meta_def meta_key_def ref_add_finalizer_def not_found_def zero_status_def)

lemma cleanup_asks_deletion:
  assumes "meta_key (b_Meta b) = k" "ops w k = Some x" "meta_key (ob_Meta x) = k" "\<not> being_deleted (ob_Meta x)" "erases x" "\<not> retained b"
  shows "exec (CleanupBackup (ref_env i) b) w = (Ret False, put_op k (ob_Meta_update deleted_meta x) w)"
  using assms
  by (cases "om_Finalizers (ob_Meta x)")
    (auto simp: CleanupBackup_def Let_def exec_call ref_finalizers.contains_iff store_delete_def put_op_def ops_def meta_key_def IsZero_ptr_def)

lemma run_reaches_deletion:
  "\<exists>w x b. backup_reachable sample_inst w \<and> ops w (''team-a'', ''b1'') = Some x \<and> being_deleted (ob_Meta x) \<and> erases x
     \<and> bks w (''team-a'', ''b1'') = Some b \<and> being_deleted (b_Meta b)"
proof -
  let ?k = "(''team-a'', ''b1'')" and ?b = "sample_backup ''b1'' BackupStatePending 0"
  have "backup_reachable sample_inst stored_cluster" by (rule backup_reachable.start) (simp_all add: stored_cluster_def empty_cluster_def)
  then have r1: "backup_reachable sample_inst run_created"
    unfolding run_created_def
    by (rule backup_reachable.step, intro backup_step.user_creates)
      (simp_all add: bks_def stored_cluster_def empty_cluster_def sample_backup_def named_meta_def meta_key_def managedByRuntime_def)
  obtain r w c x where run: "exec (SyncBackup (ref_env sample_inst) ?b) run_created = (Ret r, w)" and c: "bks w ?k = Some c" "\<not> being_deleted (b_Meta c)" "\<not> retained c"
    and x: "ops w ?k = Some x" "meta_key (ob_Meta x) = ?k" "\<not> being_deleted (ob_Meta x)" "erases x" using run_synced by blast
  have "bks run_created ?k = Some ?b" "\<not> being_deleted (b_Meta ?b)" by (simp_all add: run_created_def sample_backup_def named_meta_def)
  from backup_reachable.step [OF r1 backup_step.runtime_syncs [OF this run]] have r2: "backup_reachable sample_inst w" .
  let ?d = "b_Meta_update deleted_meta c" and ?w = "put_bk ?k (b_Meta_update deleted_meta c) w"
  have r3: "backup_reachable sample_inst ?w" by (rule backup_reachable.step [OF r2 backup_step.user_deletes [OF c(1)]])
  have d: "bks ?w ?k = Some ?d" "being_deleted (b_Meta ?d)" by (simp_all add: deleted_meta_def)
  have "exec (CleanupBackup (ref_env sample_inst) ?d) ?w = (Ret False, put_op ?k (ob_Meta_update deleted_meta x) ?w)"
    by (rule cleanup_asks_deletion) (use x c life_invD(1) [OF reachable_life_inv [OF r2] c(1)] in \<open>auto simp: deleted_meta_def meta_key_def\<close>)
  from backup_reachable.step [OF r3 backup_step.runtime_cleans [OF d this]] x d(2) show ?thesis
    by (intro exI [of _ "put_op ?k (ob_Meta_update deleted_meta x) ?w"] exI [of _ "ob_Meta_update deleted_meta x"] exI [of _ ?d])
      (simp add: deleted_meta_def)
qed



end
