(* ===== verification/Restore_Life.thy ===== *)
theory Restore_Life
  imports Lifecycle Provider_Status
begin

text \<open>
  Restores under every interleaving of the user, the runtime that calls \<open>SyncRestore\<close> and \<open>CleanupRestore\<close> and
  records the state they report, and the operator: a step relation over the reference cluster and an
  invariant of its reachable states, from which it follows that an Instance is left alone while the
  operator restores it, and that the source of a restore is fixed once it has started.
\<close>

definition rsts :: "cluster \<Rightarrow> string \<times> string \<Rightarrow> restore option" where
  "rsts w = map_of (wl_Restores w)"

definition orss :: "cluster \<Rightarrow> string \<times> string \<Rightarrow> op_restore option" where
  "orss w = map_of (wl_OpRestores w)"

definition put_rst :: "string \<times> string \<Rightarrow> restore \<Rightarrow> cluster \<Rightarrow> cluster" where
  "put_rst k r = wl_Restores_update (AList.update k r)"

definition put_ors :: "string \<times> string \<Rightarrow> op_restore \<Rightarrow> cluster \<Rightarrow> cluster" where
  "put_ors k x = wl_OpRestores_update (AList.update k x)"

definition drop_rst :: "string \<times> string \<Rightarrow> cluster \<Rightarrow> cluster" where
  "drop_rst k = wl_Restores_update (AList.delete k)"

definition drop_ors :: "string \<times> string \<Rightarrow> cluster \<Rightarrow> cluster" where
  "drop_ors k = wl_OpRestores_update (AList.delete k)"

lemma rsts_simps [simp]:
  "rsts (put_rst k r w) = (rsts w)(k \<mapsto> r)" "rsts (drop_rst k w) = (rsts w)(k := None)" "rsts (put_ors k x w) = rsts w" "rsts (drop_ors k w) = rsts w"
  by (simp_all add: rsts_def put_rst_def drop_rst_def put_ors_def drop_ors_def update_conv' delete_conv')

lemma orss_simps [simp]:
  "orss (put_ors k x w) = (orss w)(k \<mapsto> x)" "orss (drop_ors k w) = (orss w)(k := None)" "orss (put_rst k r w) = orss w" "orss (drop_rst k w) = orss w"
  by (simp_all add: orss_def put_rst_def drop_rst_def put_ors_def drop_ors_def update_conv' delete_conv')

text \<open>The states from which the operator does not move on.\<close>

definition finished :: "op_restore_state \<Rightarrow> bool" where
  "finished s \<longleftrightarrow> s = RestoreSucceeded \<or> s = RestoreFailed"

text \<open>
  One step of anyone. A user creates and deletes \<^verbatim>\<open>Restore\<close> objects; the runtime calls \<open>SyncRestore\<close> for those
  that live and records the state it returns, and calls \<open>CleanupRestore\<close> for those that are being deleted
  and lets them go when it reports completion; the operator moves its restores on until they are finished,
  and removes those that are being deleted; and everything else may change at any time.
\<close>

inductive restore_step :: "inst \<Rightarrow> cluster \<Rightarrow> cluster \<Rightarrow> bool" for i where
  user_creates: "rsts w k = None \<Longrightarrow> meta_key (re_Meta r) = k \<Longrightarrow> \<not> being_deleted (re_Meta r) \<Longrightarrow> re_State r = RestoreStatePending \<Longrightarrow>
     restore_step i w (put_rst k r w)"
| user_deletes: "rsts w k = Some r \<Longrightarrow> restore_step i w (put_rst k (re_Meta_update deleted_meta r) w)"
| runtime_syncs: "rsts w k = Some r \<Longrightarrow> \<not> being_deleted (re_Meta r) \<Longrightarrow> exec (SyncRestore (ref_env i) r) w = (Ret ex, w') \<Longrightarrow> rsts w' k = Some r' \<Longrightarrow>
     restore_step i w (put_rst k (r'\<lparr>re_State := rx_State ex\<rparr>) w')"
| runtime_fails: "rsts w k = Some r \<Longrightarrow> \<not> being_deleted (re_Meta r) \<Longrightarrow> exec (SyncRestore (ref_env i) r) w = (Err e, w') \<Longrightarrow> restore_step i w w'"
| runtime_cleans: "rsts w k = Some r \<Longrightarrow> being_deleted (re_Meta r) \<Longrightarrow> exec (CleanupRestore (ref_env i) r) w = (c, w') \<Longrightarrow> restore_step i w w'"
| runtime_lets_go: "rsts w k = Some r \<Longrightarrow> being_deleted (re_Meta r) \<Longrightarrow> exec (CleanupRestore (ref_env i) r) w = (Ret True, w') \<Longrightarrow>
     restore_step i w (drop_rst k w')"
| operator_moves: "orss w k = Some x \<Longrightarrow> \<not> finished (ore_State x) \<Longrightarrow>
     restore_step i w (put_ors k (x\<lparr>ore_State := s, ore_Comments := c, ore_CompletedAt := t\<rparr>) w)"
| operator_removes: "orss w k = Some x \<Longrightarrow> being_deleted (ore_Meta x) \<Longrightarrow> restore_step i w (drop_ors k w)"
| others: "wl_Restores w' = wl_Restores w \<Longrightarrow> wl_OpRestores w' = wl_OpRestores w \<Longrightarrow> restore_step i w w'"

inductive restore_reachable :: "inst \<Rightarrow> cluster \<Rightarrow> bool" for i where
  start: "wl_Restores w = [] \<Longrightarrow> wl_OpRestores w = [] \<Longrightarrow> restore_reachable i w"
| step: "restore_reachable i w \<Longrightarrow> restore_step i w w' \<Longrightarrow> restore_reachable i w'"

subsection \<open>What the handlers do to the stores\<close>

text \<open>What a restore is for and from, which the operator acts on.\<close>

definition task :: "op_restore \<Rightarrow> string \<times> string \<times> op_pitr option" where
  "task x = (ore_PXCCluster x, ore_BackupName x, ore_PITR x)"

lemma owner_only_task:
  assumes "restore_owner_only x y"
  shows "task y = task x" "ore_State y = ore_State x" "meta_key (ore_Meta y) = meta_key (ore_Meta x)" "being_deleted (ore_Meta y) = being_deleted (ore_Meta x)"
  by (subst assms [unfolded restore_owner_only_def], simp add: task_def meta_key_def)+

lemma write_rst: "\<not> being_deleted (re_Meta r) \<Longrightarrow>
    exec (store_write wl_Restores wl_Restores_update re_Meta r) w =
      (case rsts w (meta_key (re_Meta r)) of None \<Rightarrow> (Err (not_found (om_Name (re_Meta r))), w) | Some _ \<Rightarrow> (Ret r, put_rst (meta_key (re_Meta r)) r w))"
  by (simp add: store_write_def Let_def meta_key_def rsts_def put_rst_def split: option.split)

lemma write_ors: "\<not> being_deleted (ore_Meta x) \<Longrightarrow>
    exec (store_write wl_OpRestores wl_OpRestores_update ore_Meta x) w =
      (case orss w (meta_key (ore_Meta x)) of None \<Rightarrow> (Err (not_found (om_Name (ore_Meta x))), w) | Some _ \<Rightarrow> (Ret x, put_ors (meta_key (ore_Meta x)) x w))"
  by (simp add: store_write_def Let_def meta_key_def orss_def put_ors_def split: option.split)

lemma create_ors:
  "exec (cl_CreateOpRestore (ref_env i) x) w = (case orss w (meta_key (ore_Meta x)) of
     None \<Rightarrow> (Ret (ore_Meta_update created_meta x), put_ors (meta_key (ore_Meta x)) (ore_Meta_update created_meta x) w)
   | Some _ \<Rightarrow> (Err (already_exists (om_Name (ore_Meta x))), w))"
  by (simp add: store_create_def orss_def put_ors_def meta_key_def split: option.split)

lemma get_ors: "exec (cl_GetOpRestore (ref_env i) ns n) w = (case orss w (ns, n) of Some x \<Rightarrow> Ret x | None \<Rightarrow> Err (not_found n), w)"
  by (simp add: orss_def)

lemma reads_onlyI:
  assumes "\<And>P. keeps P m"
  shows "reads_only m"
  unfolding reads_only_def using assms [of "\<lambda>v. v = w" for w] by (simp add: keeps_def)

lemma resolve_reads: "reads_only (resolveRestoreSource (ref_env i) r opRef)"
  by (rule reads_onlyI) (rule ref_restore_reads.resolve_keeps [THEN ensures_keeps])

lemma label_restore_effect:
  assumes "exec (label_restore (ref_env i) r) w = (c, w')" "rsts w (meta_key (re_Meta r)) = Some r" "\<not> being_deleted (re_Meta r)"
  shows "\<exists>s. c = Ret s \<and> same_restore r s \<and> re_State s = re_State r \<and> \<not> being_deleted (re_Meta s)
    \<and> rsts w' = (rsts w)(meta_key (re_Meta r) \<mapsto> s) \<and> orss w' = orss w"
proof (cases "map_str (om_Labels (re_Meta r)) instanceNameLabelKey = re_InstanceRef r")
  case True
  with assms show ?thesis by (auto simp: label_restore_def same_restore_def fun_upd_idem)
next
  case False
  let ?s = "r\<lparr>re_Meta := (re_Meta r)\<lparr>om_Labels := (om_Labels (re_Meta r))(instanceNameLabelKey \<mapsto> re_InstanceRef r)\<rparr>\<rparr>"
  have "meta_key (re_Meta ?s) = meta_key (re_Meta r)" by (simp add: meta_key_def)
  with False assms write_rst [of ?s w] show ?thesis
    by (auto simp: label_restore_def same_restore_def exec_call)
qed

text \<open>The last part of \<open>SyncRestore\<close>: the owner of an operator restore is set, and its state reported.\<close>

definition adopt_restore :: "'w env \<Rightarrow> restore \<Rightarrow> op_restore \<Rightarrow> ('w, restore_exec) io" where
  "adopt_restore E r x = call (lift_outcome (setRestoreControllerReference E r x)) fail (\<lambda>y.
     call (cl_PatchOpRestore E x y) (\<lambda>e. fail (Wrap (''patch PerconaXtraDBClusterRestore '' @ Quote (om_Name (re_Meta r))) e))
       (\<lambda>z. ret (restore_status_of E r z)))"

lemma adopt_restore_effect:
  assumes "exec (adopt_restore (ref_env i) s x) w = (c, w')" "orss w k = Some x" "meta_key (ore_Meta x) = k" "\<not> being_deleted (ore_Meta x)"
  shows "w' = w \<and> (\<forall>ex. c \<noteq> Ret ex) \<or> (\<exists>y. restore_owner_only x y \<and> w' = put_ors k y w \<and> c = Ret (restore_status_of (ref_env i) s y))"
proof (cases "setRestoreControllerReference (ref_env i) s x")
  case (Ret y)
  then have o: "restore_owner_only x y" by (rule ref_restore_api.set_restore_owner)
  have "exec (adopt_restore (ref_env i) s x) w = (Ret (restore_status_of (ref_env i) s y), put_ors k y w)"
    using Ret write_ors [of y w] owner_only_task [OF o] assms(2-4) by (simp add: adopt_restore_def exec_call)
  with assms(1) o show ?thesis by auto
qed (use assms(1) in \<open>auto simp: adopt_restore_def\<close>)

lemma SyncRestore_resolved:
  assumes "exec (label_restore (ref_env i) r) w = (Ret s, w1)" "exec (resolveRestoreSource (ref_env i) s (restore_ref (ref_env i) s)) w1 = (Ret (Inr (n, pitr)), w1)"
  shows "exec (SyncRestore (ref_env i) r) w = (case orss w1 (meta_key (re_Meta s)) of
      Some x \<Rightarrow> exec (adopt_restore (ref_env i) s x) w1
    | None \<Rightarrow> exec (call (start_restore (ref_env i) s n pitr) fail (adopt_restore (ref_env i) s)) w1)"
  unfolding SyncRestore_def exec_call_Ret [OF assms(1)] Let_def exec_call_Ret [OF assms(2)]
  by (cases "orss w1 (meta_key (re_Meta s))")
    (auto simp: exec_call get_ors [unfolded meta_key_def] meta_key_def not_found_def adopt_restore_def [abs_def] simp del: ref_env_fields)

lemma start_restore_effect:
  assumes "exec (start_restore (ref_env i) s n pitr) w = (c, w')" "orss w (meta_key (re_Meta s)) = None"
  shows "w' = w \<and> (\<forall>x. c \<noteq> Ret x) \<or> (\<exists>x. c = Ret x \<and> w' = put_ors (meta_key (re_Meta s)) x w \<and> meta_key (ore_Meta x) = meta_key (re_Meta s)
     \<and> \<not> being_deleted (ore_Meta x) \<and> task x = (re_InstanceRef s, n, pitr) \<and> ore_State x = RestoreOther [])"
proof (cases "setRestoreControllerReference (ref_env i) s (new_op_restore s n pitr)")
  case (Ret x)
  then have o: "restore_owner_only (new_op_restore s n pitr) x" by (rule ref_restore_api.set_restore_owner)
  have new: "meta_key (ore_Meta x) = meta_key (re_Meta s)" "\<not> being_deleted (ore_Meta x)" "task x = (re_InstanceRef s, n, pitr)" "ore_State x = RestoreOther []"
    using owner_only_task [OF o] by (simp_all add: new_op_restore_def named_meta_def task_def meta_key_def)
  then have "exec (start_restore (ref_env i) s n pitr) w = (Ret (ore_Meta_update created_meta x), put_ors (meta_key (re_Meta s)) (ore_Meta_update created_meta x) w)"
    using Ret create_ors [of i x w] assms(2) by (simp add: start_restore_def Let_def exec_call)
  with assms(1) new show ?thesis by (auto simp: created_meta_def meta_key_def task_def)
qed (use assms(1) in \<open>auto simp: start_restore_def Let_def\<close>)

text \<open>What a call of \<open>SyncRestore\<close> does to the restore of one key.\<close>

definition op_synced :: "restore \<Rightarrow> op_restore option \<Rightarrow> op_restore \<Rightarrow> bool" where
  "op_synced r xo y \<longleftrightarrow> meta_key (ore_Meta y) = meta_key (re_Meta r) \<and> \<not> being_deleted (ore_Meta y)
     \<and> (case xo of Some x \<Rightarrow> task y = task x \<and> ore_State y = ore_State x | None \<Rightarrow> ore_PXCCluster y = re_InstanceRef r \<and> ore_State y = RestoreOther [])"

text \<open>... and whether the state it reports is the operator's.\<close>

definition succeeds_with :: "restore_exec outcome \<Rightarrow> op_restore option \<Rightarrow> bool" where
  "succeeds_with c yo \<longleftrightarrow> (\<forall>ex. c = Ret ex \<and> rx_State ex = RestoreStateSucceeded \<longrightarrow> (\<exists>y. yo = Some y \<and> ore_State y = RestoreSucceeded))"

lemma adopted_effect:
  assumes "exec (adopt_restore (ref_env i) s z) w = (c, w')" "orss w k = Some z" "meta_key (re_Meta s) = k" "op_synced s xo z"
  shows "rsts w' = rsts w \<and> (\<exists>y. orss w' = (orss w)(k \<mapsto> y) \<and> op_synced s xo y) \<and> succeeds_with c (orss w' k)"
proof -
  from assms(3,4) have z: "meta_key (ore_Meta z) = k" "\<not> being_deleted (ore_Meta z)" by (simp_all add: op_synced_def)
  from adopt_restore_effect [OF assms(1,2) z] consider "w' = w" "\<forall>ex. c \<noteq> Ret ex"
    | y where "restore_owner_only z y" "w' = put_ors k y w" "c = Ret (restore_status_of (ref_env i) s y)" by auto
  then show ?thesis
  proof cases
    case 1
    have "orss w = (orss w)(k \<mapsto> z)" using assms(2) by (simp add: fun_upd_idem)
    with 1 assms(4) show ?thesis by (auto simp: succeeds_with_def)
  next
    case (2 y)
    have "op_synced s xo y" using owner_only_task [OF 2(1)] assms(4) by (auto simp: op_synced_def task_def split: option.splits)
    with 2 show ?thesis by (auto simp: succeeds_with_def restore_status_of_states)
  qed
qed

lemma resolved_effect:
  assumes "exec (SyncRestore (ref_env i) r) w = (c, w')" "exec (label_restore (ref_env i) r) w = (Ret s, w1)"
    and "exec (resolveRestoreSource (ref_env i) s (restore_ref (ref_env i) s)) w1 = (Ret (Inr (n, pitr)), w1)"
    and key: "meta_key (re_Meta s) = k" and x: "\<And>x. orss w1 k = Some x \<Longrightarrow> meta_key (ore_Meta x) = k \<and> \<not> being_deleted (ore_Meta x)"
  shows "rsts w' = rsts w1 \<and> (orss w' = orss w1 \<or> (\<exists>y. orss w' = (orss w1)(k \<mapsto> y) \<and> op_synced s (orss w1 k) y)) \<and> succeeds_with c (orss w' k)"
proof (cases "orss w1 k")
  case (Some z)
  then have "exec (adopt_restore (ref_env i) s z) w1 = (c, w')" "op_synced s (orss w1 k) z"
    using SyncRestore_resolved [OF assms(2,3)] assms(1) key x [OF Some] by (simp_all add: op_synced_def)
  from adopted_effect [OF this(1) Some key this(2)] show ?thesis by blast
next
  case None
  note go = SyncRestore_resolved [OF assms(2,3)] assms(1) key None
  obtain c2 w2 where st: "exec (start_restore (ref_env i) s n pitr) w1 = (c2, w2)" by fastforce
  from start_restore_effect [OF st] None key
  consider "w2 = w1" "\<forall>z. c2 \<noteq> Ret z" | z where "c2 = Ret z" "w2 = put_ors k z w1" "op_synced s (orss w1 k) z" by (auto simp: op_synced_def task_def)
  then show ?thesis
  proof cases
    case 1
    with go st have "w' = w1" "\<forall>ex. c \<noteq> Ret ex" by (auto simp: exec_call split: outcome.splits)
    then show ?thesis by (auto simp: succeeds_with_def)
  next
    case (2 z)
    with go st have "exec (adopt_restore (ref_env i) s z) w2 = (c, w')" by simp
    from adopted_effect [OF this _ key 2(3)] 2(2) show ?thesis by auto
  qed
qed

lemma SyncRestore_effect:
  assumes run: "exec (SyncRestore (ref_env i) r) w = (c, w')"
    and r: "rsts w k = Some r" "meta_key (re_Meta r) = k" "\<not> being_deleted (re_Meta r)"
    and x: "\<And>x. orss w k = Some x \<Longrightarrow> meta_key (ore_Meta x) = k \<and> \<not> being_deleted (ore_Meta x)"
  shows "\<exists>s. same_restore r s \<and> re_State s = re_State r \<and> \<not> being_deleted (re_Meta s) \<and> rsts w' = (rsts w)(k \<mapsto> s)
    \<and> (orss w' = orss w \<or> (\<exists>y. orss w' = (orss w)(k \<mapsto> y) \<and> op_synced s (orss w k) y)) \<and> succeeds_with c (orss w' k)"
proof -
  obtain s w1 where l: "exec (label_restore (ref_env i) r) w = (Ret s, w1)" and s: "same_restore r s" "re_State s = re_State r" "\<not> being_deleted (re_Meta s)"
    and w1: "rsts w1 = (rsts w)(k \<mapsto> s)" "orss w1 = orss w"
    using label_restore_effect [of i r w] r by (metis surj_pair)
  then have key: "meta_key (re_Meta s) = k" using r(2) by (simp add: same_restore_def meta_key_def)
  obtain src where src: "exec (resolveRestoreSource (ref_env i) s (restore_ref (ref_env i) s)) w1 = (src, w1)"
    using resolve_reads [THEN reads_onlyD] by (metis surj_pair snd_conv)
  have "rsts w' = rsts w1 \<and> (orss w' = orss w1 \<or> (\<exists>y. orss w' = (orss w1)(k \<mapsto> y) \<and> op_synced s (orss w1 k) y)) \<and> succeeds_with c (orss w' k)"
  proof (cases "\<exists>n pitr. src = Ret (Inr (n, pitr))")
    case False
    then have "w' = w1" "\<And>ex. c = Ret ex \<Longrightarrow> src = Ret (Inl ex)"
      using run src unfolding SyncRestore_def exec_call_Ret [OF l] Let_def by (auto simp: exec_call split: outcome.splits sum.splits)
    moreover have "rx_State ex \<noteq> RestoreStateSucceeded" if "src = Ret (Inl ex)" for ex
      using resolve_verdict [OF src [unfolded that]] by (auto simp: source_verdict_def restore_status_def)
    ultimately show ?thesis by (auto simp: succeeds_with_def)
  next
    case True
    then obtain n pitr where "src = Ret (Inr (n, pitr))" by blast
    from resolved_effect [OF run l src [unfolded this] key] x w1(2) show ?thesis by simp
  qed
  with s w1 show ?thesis by metis
qed

lemma CleanupRestore_effect:
  assumes "exec (CleanupRestore (ref_env i) r) w = (c, w')" "meta_key (re_Meta r) = k"
    and "\<And>x. orss w k = Some x \<Longrightarrow> meta_key (ore_Meta x) = k"
  shows "orss w k = None \<and> w' = w \<or> (\<exists>x. orss w k = Some x \<and> c \<noteq> Ret True \<and> (w' = w \<or> w' = drop_ors k w \<or> w' = put_ors k (ore_Meta_update deleted_meta x) w))"
proof (cases "orss w k")
  case None
  with assms(1,2) show ?thesis by (auto simp: CleanupRestore_def Let_def exec_call orss_def meta_key_def split: if_splits)
next
  case (Some x)
  with assms(1,2) assms(3) [OF Some] show ?thesis
    by (cases "om_Finalizers (ore_Meta x) = []")
      (auto simp: CleanupRestore_def Let_def exec_call orss_def meta_key_def store_delete_def put_ors_def drop_ors_def split: if_splits)
qed

subsection \<open>The invariant\<close>

text \<open>
  Objects are stored under their own key; an operator restore belongs to a \<^verbatim>\<open>Restore\<close> for the same Instance
  and is deleted only after it; and a \<^verbatim>\<open>Restore\<close> that is said to have succeeded has an operator restore
  that did, unless it is being deleted.
\<close>

definition pair_ok :: "string \<times> string \<Rightarrow> restore option \<Rightarrow> op_restore option \<Rightarrow> bool" where
  "pair_ok k ro xo \<longleftrightarrow>
     (\<forall>r. ro = Some r \<longrightarrow> meta_key (re_Meta r) = k \<and> (re_State r = RestoreStateSucceeded \<longrightarrow>
        (case xo of None \<Rightarrow> being_deleted (re_Meta r) | Some x \<Rightarrow> ore_State x = RestoreSucceeded)))
   \<and> (\<forall>x. xo = Some x \<longrightarrow> meta_key (ore_Meta x) = k \<and> (\<exists>r. ro = Some r \<and> ore_PXCCluster x = re_InstanceRef r
        \<and> (being_deleted (ore_Meta x) \<longrightarrow> being_deleted (re_Meta r))))"

definition restore_inv :: "cluster \<Rightarrow> bool" where
  "restore_inv w \<longleftrightarrow> (\<forall>k. pair_ok k (rsts w k) (orss w k))"

lemma restore_invD: "restore_inv w \<Longrightarrow> pair_ok k (rsts w k) (orss w k)"
  unfolding restore_inv_def by (rule spec)

lemma pair_okD:
  assumes "pair_ok k ro xo"
  shows "ro = Some r \<Longrightarrow> meta_key (re_Meta r) = k" "xo = Some x \<Longrightarrow> meta_key (ore_Meta x) = k"
    "xo = Some x \<Longrightarrow> ro = Some r \<Longrightarrow> \<not> being_deleted (re_Meta r) \<Longrightarrow> \<not> being_deleted (ore_Meta x)" "xo = Some x \<Longrightarrow> ro \<noteq> None"
  using assms by (auto simp: pair_ok_def)

text \<open>What stays of an operator restore as long as it is there.\<close>

definition keeps_task :: "op_restore option \<Rightarrow> op_restore option \<Rightarrow> bool" where
  "keeps_task xo yo \<longleftrightarrow> (\<forall>x y. xo = Some x \<longrightarrow> yo = Some y \<longrightarrow> task y = task x \<and> (finished (ore_State x) \<longrightarrow> ore_State y = ore_State x))"

lemma keeps_task_simps [simp]: "keeps_task xo xo" "keeps_task None yo" "keeps_task xo None"
  by (auto simp: keeps_task_def)

text \<open>Every step concerns the objects of one key.\<close>

definition at_one_key :: "cluster \<Rightarrow> cluster \<Rightarrow> bool" where
  "at_one_key w w' \<longleftrightarrow> (\<exists>k ro xo. rsts w' = (rsts w)(k := ro) \<and> orss w' = (orss w)(k := xo) \<and> pair_ok k ro xo \<and> keeps_task (orss w k) xo)"

lemma at_one_keyI:
  "rsts w' = (rsts w)(k := ro) \<Longrightarrow> orss w' = (orss w)(k := xo) \<Longrightarrow> pair_ok k ro xo \<Longrightarrow> keeps_task (orss w k) xo \<Longrightarrow> at_one_key w w'"
  unfolding at_one_key_def by blast

lemma at_one_key_same:
  assumes "restore_inv w" "rsts w' = rsts w" "orss w' = orss w"
  shows "at_one_key w w'"
  using assms(2,3) restore_invD [OF assms(1)]
  by (intro at_one_keyI [where k = "([], [])" and ro = "rsts w ([], [])" and xo = "orss w ([], [])"]) simp_all

lemma at_one_key_inv: "at_one_key w w' \<Longrightarrow> restore_inv w \<Longrightarrow> restore_inv w'"
  by (auto simp: at_one_key_def restore_inv_def)

lemma synced_at_one_key:
  assumes inv: "restore_inv w" and r: "rsts w k = Some r" "\<not> being_deleted (re_Meta r)" and run: "exec (SyncRestore (ref_env i) r) w = (c, w')"
    and st: "st = re_State r \<or> (\<exists>ex. c = Ret ex \<and> st = rx_State ex)"
  obtains s where "rsts w' k = Some s" "re_State s = re_State r" "at_one_key w (put_rst k (s\<lparr>re_State := st\<rparr>) w')"
proof -
  note ok = restore_invD [OF inv, of k]
  have x: "meta_key (ore_Meta x) = k \<and> \<not> being_deleted (ore_Meta x)" if "orss w k = Some x" for x
    using pair_okD [OF ok] that r by blast
  from SyncRestore_effect [OF run r(1) pair_okD(1) [OF ok r(1)] r(2) x]
  obtain s where s: "same_restore r s" "re_State s = re_State r" "\<not> being_deleted (re_Meta s)" "rsts w' = (rsts w)(k \<mapsto> s)"
    and o: "orss w' = orss w \<or> (\<exists>y. orss w' = (orss w)(k \<mapsto> y) \<and> op_synced s (orss w k) y)" and c: "succeeds_with c (orss w' k)" by blast
  have key: "meta_key (re_Meta s) = k" using s(1) pair_okD(1) [OF ok r(1)] by (simp add: same_restore_def meta_key_def)
  have o': "orss w' = (orss w)(k := orss w' k)" "keeps_task (orss w k) (orss w' k)"
    using o by (auto simp: keeps_task_def op_synced_def)
  have "pair_ok k (Some (s\<lparr>re_State := st\<rparr>)) (orss w' k)"
    using o c st ok r s key by (auto simp: pair_ok_def op_synced_def succeeds_with_def same_restore_def task_def split: option.splits)
  then have "at_one_key w (put_rst k (s\<lparr>re_State := st\<rparr>) w')"
    using o' s(4) by (intro at_one_keyI [where k = k and ro = "Some (s\<lparr>re_State := st\<rparr>)" and xo = "orss w' k"]) simp_all
  with s that show thesis by simp
qed

lemma cleaned_at_one_key:
  assumes inv: "restore_inv w" and r: "rsts w k = Some r" "being_deleted (re_Meta r)" and run: "exec (CleanupRestore (ref_env i) r) w = (c, w')"
  shows "at_one_key w w'"
proof -
  note ok = restore_invD [OF inv, of k]
  from CleanupRestore_effect [OF run pair_okD(1) [OF ok r(1)] pair_okD(2) [OF ok]]
  consider "w' = w" | "w' = drop_ors k w" | x where "orss w k = Some x" "w' = put_ors k (ore_Meta_update deleted_meta x) w" by blast
  then show ?thesis
  proof cases
    case 2
    then show ?thesis using ok r by (intro at_one_keyI [of _ _ k "rsts w k" None]) (auto simp: pair_ok_def)
  next
    case (3 x)
    then show ?thesis using ok r
      by (intro at_one_keyI [of _ _ k "rsts w k" "Some (ore_Meta_update deleted_meta x)"])
        (auto simp: pair_ok_def keeps_task_def task_def deleted_meta_def meta_key_def)
  qed (use inv in \<open>simp add: at_one_key_same\<close>)
qed

lemma restore_step_at_one_key:
  assumes "restore_step i w w'" "restore_inv w"
  shows "at_one_key w w'"
  using assms
proof (induction rule: restore_step.induct)
  case (user_creates w k r)
  then show ?case using restore_invD [of w k]
    by (intro at_one_keyI [of _ _ k "Some r" "orss w k"]) (auto simp: pair_ok_def)
next
  case (user_deletes w k r)
  then show ?case using restore_invD [of w k]
    by (intro at_one_keyI [of _ _ k "Some (re_Meta_update deleted_meta r)" "orss w k"])
      (auto simp: pair_ok_def deleted_meta_def meta_key_def split: option.splits)
next
  case (runtime_syncs w k r ex w' r')
  obtain s where "rsts w' k = Some s" "at_one_key w (put_rst k (s\<lparr>re_State := rx_State ex\<rparr>) w')"
    using runtime_syncs by (auto intro: synced_at_one_key [where st = "rx_State ex" and c = "Ret ex"])
  with runtime_syncs(4) show ?case by simp
next
  case (runtime_fails w k r e w')
  obtain s where s: "rsts w' k = Some s" "re_State s = re_State r" and one: "at_one_key w (put_rst k (s\<lparr>re_State := re_State r\<rparr>) w')"
    using runtime_fails by (auto intro: synced_at_one_key [where st = "re_State r" and c = "Err e"])
  have "s\<lparr>re_State := re_State r\<rparr> = s" using s(2) by (cases s) simp
  with one s(1) show ?case by (simp add: at_one_key_def fun_upd_idem)
next
  case (runtime_cleans w k r c w')
  then show ?case by (intro cleaned_at_one_key)
next
  case (runtime_lets_go w k r w')
  note ok = restore_invD [OF runtime_lets_go(4), of k]
  from CleanupRestore_effect [OF runtime_lets_go(3) pair_okD(1) [OF ok runtime_lets_go(1)] pair_okD(2) [OF ok]]
  have "orss w k = None" "w' = w" by auto
  then show ?case by (intro at_one_keyI [of _ _ k None None]) (auto simp: pair_ok_def)
next
  case (operator_moves w k x t c s)
  then show ?case using restore_invD [of w k]
    by (intro at_one_keyI [of _ _ k "rsts w k" "Some (x\<lparr>ore_State := s, ore_Comments := c, ore_CompletedAt := t\<rparr>)"])
      (auto simp: pair_ok_def keeps_task_def task_def finished_def)
next
  case (operator_removes w k x)
  then show ?case using restore_invD [of w k]
    by (intro at_one_keyI [of _ _ k "rsts w k" None]) (auto simp: pair_ok_def)
next
  case (others w' w)
  then show ?case by (intro at_one_key_same) (simp_all add: rsts_def orss_def)
qed

lemma reachable_restore_inv: "restore_reachable i w \<Longrightarrow> restore_inv w"
proof (induction rule: restore_reachable.induct)
  case (start w)
  then show ?case by (simp add: restore_inv_def pair_ok_def rsts_def orss_def)
next
  case (step w w')
  then show ?case by (blast intro: at_one_key_inv restore_step_at_one_key)
qed


subsection \<open>Restores and the Instance\<close>

lemma listed_restore:
  assumes "rsts w k = Some r" "in_progress (om_Name (in_Meta i)) r" "fst k = om_Namespace (in_Meta i)"
  shows "exec (hasActiveRestoreForInstance (ref_env i) (om_Namespace (in_Meta i)) (om_Name (in_Meta i))) w = (Ret True, w)"
proof -
  have "(k, r) \<in> set (wl_Restores w)" using assms(1) by (auto simp: rsts_def dest: map_of_SomeD)
  with assms(2,3) show ?thesis
    by (cases k) (auto simp: hasActiveRestoreForInstance_def exec_call active_restore_iff)
qed

lemma held_instance:
  assumes "rsts w k = Some r" "in_progress (om_Name (in_Meta i)) r" "fst k = om_Namespace (in_Meta i)"
  shows "exec (Sync (ref_env i) U) w = (Ret (), w)"
    "map_of (wl_PXC w) (meta_key (in_Meta i)) = Some p \<Longrightarrow> \<exists>msg. exec (Status (ref_env i)) w = (Ret (Restoring msg, None), w)"
  using listed_restore [OF assms]
  by (auto simp: Sync_def SyncPXC_def Status_def StatusPXC_def phase_of_cluster_def meta_key_def exec_call split: option.splits)


lemma missing_source_pending:
  assumes "ds_Type (re_DataSource s) = DataSourceTypeBackup" "ds_Backup (re_DataSource s) = Some n" "n \<noteq> []"
    and "map_of (wl_Backups w) (om_Namespace (re_Meta s), n) = None"
  shows "exec (resolveRestoreSource (ref_env i) s opRef) w = (Ret (Inl (restore_status RestoreStatePending ''Waiting for source Backup'' opRef)), w)"
  using assms by (simp add: resolveRestoreSource_def resolveBackupSource_def exec_call Let_def not_found_def)

text \<open>
  C11. A restore from a \<^verbatim>\<open>Backup\<close> that is deleted while the restore runs never ends: every sync of the \<^verbatim>\<open>Restore\<close>
  reports that it is waiting for its source, whatever the operator's restore has come to, and with that
  state recorded the Instance is not synced.
\<close>

theorem deleted_source_holds_instance:
  assumes "restore_reachable j w" "map_of (wl_Restores w) k = Some r" "om_DeletionTimestamp (re_Meta r) = None"
    and "ds_Type (re_DataSource r) = DataSourceTypeBackup" "ds_Backup (re_DataSource r) = Some n" "n \<noteq> []" "map_of (wl_Backups w) (fst k, n) = None"
    and "re_InstanceRef r = om_Name (in_Meta i)" "fst k = om_Namespace (in_Meta i)"
  shows "\<exists>ex s w'. exec (SyncRestore (ref_env j) r) w = (Ret ex, w') \<and> rx_State ex = RestoreStatePending \<and> wl_OpRestores w' = wl_OpRestores w
    \<and> map_of (wl_Restores w') k = Some s
    \<and> (let v = put_rst k (s\<lparr>re_State := rx_State ex\<rparr>) w' in restore_step j w v \<and> exec (Sync (ref_env i) U) v = (Ret (), v))"
proof -
  have key: "meta_key (re_Meta r) = k"
    using pair_okD(1) [OF restore_invD [OF reachable_restore_inv [OF assms(1)]]] assms(2) by (simp add: rsts_def)
  obtain s w1 where l: "exec (label_restore (ref_env j) r) w = (Ret s, w1)" and s: "same_restore r s" "\<not> being_deleted (re_Meta s)" "rsts w1 = (rsts w)(k \<mapsto> s)"
    using label_restore_effect [of j r w] assms(2,3) key unfolding rsts_def by (metis surj_pair)
  have o: "wl_OpRestores w1 = wl_OpRestores w" "wl_Backups w1 = wl_Backups w"
    using l by (auto simp: label_restore_def exec_call store_write_def Let_def split: if_splits option.splits)
  have "exec (resolveRestoreSource (ref_env j) s (restore_ref (ref_env j) s)) w1
      = (Ret (Inl (restore_status RestoreStatePending ''Waiting for source Backup'' (restore_ref (ref_env j) s))), w1)"
    by (rule missing_source_pending) (use assms(4-7) s(1) key o in \<open>auto simp: same_restore_def meta_key_def\<close>)
  then have run: "exec (SyncRestore (ref_env j) r) w = (Ret (restore_status RestoreStatePending ''Waiting for source Backup'' (restore_ref (ref_env j) s)), w1)"
    unfolding SyncRestore_def exec_call_Ret [OF l] Let_def by (simp add: exec_call)
  let ?v = "put_rst k (s\<lparr>re_State := RestoreStatePending\<rparr>) w1"
  have "restore_step j w ?v"
    using restore_step.runtime_syncs [OF _ _ run, of k s] assms(2,3) s(3) by (simp add: rsts_def restore_status_def)
  moreover have "exec (Sync (ref_env i) U) ?v = (Ret (), ?v)"
    by (rule held_instance(1) [of _ k "s\<lparr>re_State := RestoreStatePending\<rparr>"]) (use s assms(8,9) in \<open>auto simp: in_progress_def IsZero_ptr_def same_restore_def\<close>)
  ultimately show ?thesis using run o s(3) unfolding Let_def by (auto simp: restore_status_def rsts_def intro!: exI [of _ s])
qed

subsection \<open>A run\<close>

text \<open>A restore of a backup, up to the moment when the operator restores the cluster.\<close>

definition named_restore :: restore where
  "named_restore = restore_to \<lparr>ds_Type = DataSourceTypeBackup, ds_Backup = Some ''b1'', ds_PointInTime = None\<rparr>"

definition backed_up :: cluster where
  "backed_up = running_cluster\<lparr>wl_Backups := [((''team-a'', ''b1''), sample_backup ''b1'' BackupStateSucceeded 10)]\<rparr>"

definition restore_asked :: cluster where
  "restore_asked = put_rst (''team-a'', ''r1'') named_restore backed_up"

lemma restore_started:
  "\<exists>ex w s x. exec (SyncRestore (ref_env sample_inst) named_restore) restore_asked = (Ret ex, w) \<and> rsts w (''team-a'', ''r1'') = Some s
     \<and> orss w (''team-a'', ''r1'') = Some x \<and> ore_State x = RestoreOther [] \<and> ore_PXCCluster x = ''db'' \<and> wl_PXC w = wl_PXC running_cluster
     \<and> rx_State ex = RestoreStatePending \<and> s = named_restore\<lparr>re_Meta := (re_Meta named_restore)\<lparr>om_Labels := [''instanceName'' \<mapsto> ''db'']\<rparr>\<rparr>"
  by (simp add: SyncRestore_def label_restore_def exec_call restore_asked_def backed_up_def put_rst_def named_restore_def restore_to_def running_cluster_def
      named_meta_def map_str_def instanceNameLabelKey_def store_write_def store_create_def Let_def resolveRestoreSource_def resolveBackupSource_def
      sample_backup_def empty_cluster_def start_restore_def setRestoreControllerReference_def ref_controller_ref_def new_op_restore_def meta_key_def
      created_meta_def not_found_def restore_status_of_def rsts_def orss_def)

lemma restoring_run:
  obtains w x r where "restore_reachable sample_inst w" "map_of (wl_OpRestores w) (''team-a'', ''r1'') = Some x" "ore_State x = RestoreRestore" "ore_PXCCluster x = ''db''"
    "map_of (wl_Restores w) (''team-a'', ''r1'') = Some r" "om_DeletionTimestamp (re_Meta r) = None" "re_State r = RestoreStatePending"
    "re_DataSource r = re_DataSource named_restore" "re_InstanceRef r = ''db''"
proof -
  let ?k = "(''team-a'', ''r1'')"
  have "restore_reachable sample_inst backed_up" by (rule restore_reachable.start) (simp_all add: backed_up_def running_cluster_def empty_cluster_def)
  then have r1: "restore_reachable sample_inst restore_asked"
    unfolding restore_asked_def
    by (rule restore_reachable.step, intro restore_step.user_creates)
      (simp_all add: rsts_def backed_up_def running_cluster_def empty_cluster_def named_restore_def restore_to_def named_meta_def meta_key_def)
  obtain ex w s x where run: "exec (SyncRestore (ref_env sample_inst) named_restore) restore_asked = (Ret ex, w)" "rsts w ?k = Some s"
    and x: "orss w ?k = Some x" "ore_State x = RestoreOther []" "ore_PXCCluster x = ''db''" and ex: "rx_State ex = RestoreStatePending"
    and s: "s = named_restore\<lparr>re_Meta := (re_Meta named_restore)\<lparr>om_Labels := [''instanceName'' \<mapsto> ''db'']\<rparr>\<rparr>"
    using restore_started by blast
  let ?v = "put_rst ?k (s\<lparr>re_State := rx_State ex\<rparr>) w" and ?x = "x\<lparr>ore_State := RestoreRestore, ore_Comments := [], ore_CompletedAt := None\<rparr>"
  have "rsts restore_asked ?k = Some named_restore" "\<not> being_deleted (re_Meta named_restore)"
    by (simp_all add: restore_asked_def named_restore_def restore_to_def named_meta_def)
  from restore_reachable.step [OF r1 restore_step.runtime_syncs [OF this run]] have r2: "restore_reachable sample_inst ?v" .
  from x have v: "orss ?v ?k = Some x" "\<not> finished (ore_State x)" by (simp_all add: finished_def)
  from restore_reachable.step [OF r2 restore_step.operator_moves [OF v]] have r3: "restore_reachable sample_inst (put_ors ?k ?x ?v)" .
  have o: "map_of (wl_OpRestores (put_ors ?k ?x ?v)) ?k = Some ?x" "map_of (wl_Restores (put_ors ?k ?x ?v)) ?k = Some (s\<lparr>re_State := rx_State ex\<rparr>)"
    unfolding orss_def [symmetric] rsts_def [symmetric] by simp_all
  show thesis
    by (rule that [OF r3 o(1) _ _ o(2)]) (simp_all add: x ex s named_restore_def restore_to_def named_meta_def)
qed



theorem deleted_source_holds_instance_witness:
  "\<exists>w x r ex w'. map_of (wl_OpRestores w) (''team-a'', ''r1'') = Some x \<and> ore_State x = RestoreSucceeded
     \<and> exec (SyncRestore (ref_env sample_inst) r) w = (Ret ex, w') \<and> rx_State ex = RestoreStatePending"
proof -
  let ?k = "(''team-a'', ''r1'')"
  obtain w x r where w: "restore_reachable sample_inst w" "map_of (wl_OpRestores w) ?k = Some x" "ore_State x = RestoreRestore"
    "map_of (wl_Restores w) ?k = Some r" "om_DeletionTimestamp (re_Meta r) = None" "re_DataSource r = re_DataSource named_restore" "re_InstanceRef r = ''db''"
    by (rule restoring_run)
  let ?y = "x\<lparr>ore_State := RestoreSucceeded, ore_Comments := [], ore_CompletedAt := Some 20\<rparr>" and ?v = "w\<lparr>wl_Backups := []\<rparr>"
  have "restore_reachable sample_inst ?v" by (rule restore_reachable.step [OF w(1) restore_step.others]) simp_all
  moreover have "orss ?v ?k = Some x" using w(2) by (simp add: orss_def)
  ultimately have "restore_reachable sample_inst (put_ors ?k ?y ?v)"
    by (intro restore_reachable.step [OF _ restore_step.operator_moves]) (simp_all add: w(3) finished_def)
  from deleted_source_holds_instance [OF this, of ?k r "''b1''" sample_inst authority_host] w
  show ?thesis
    by (intro exI [of _ "put_ors ?k ?y ?v"] exI [of _ ?y] exI [of _ r])
      (auto simp: put_ors_def update_conv' named_restore_def restore_to_def sample_inst_def named_meta_def)
qed

end
