(* ===== verification/Task_Settles.thy ===== *)
theory Task_Settles
  imports Restore_Life
begin

text \<open>
  Syncing a Backup or a Restore again, when nothing else has happened, changes nothing and reports the same:
  the reconcile loops of these objects come to rest too. Shown on the reference cluster.
\<close>

subsection \<open>Writing again what is there\<close>

lemma put_op_same: "ops w k = Some x \<Longrightarrow> put_op k x w = w"
  by (simp add: put_op_def ops_def AList_update_same)

lemma put_ors_same: "orss w k = Some x \<Longrightarrow> put_ors k x w = w"
  by (simp add: put_ors_def orss_def AList_update_same)

lemma put_ors_backups [simp]: "wl_Backups (put_ors k x w) = wl_Backups w" "wl_OpBackups (put_ors k x w) = wl_OpBackups w"
  by (simp_all add: put_ors_def)

lemma controller_ref_again:
  assumes "ref_controller_ref k owner m = Ret m'"
  shows "ref_controller_ref k owner m' = Ret m'"
proof -
  have ok: "\<not> (\<exists>r \<in> set (om_OwnerReferences m). or_Controller r = Some True \<and> or_UID r \<noteq> om_UID owner)"
    using assms unfolding ref_controller_ref_def by (metis outcome.distinct(1))
  define o' where "o' = \<lparr>or_APIVersion = ''backup.openeverest.io/v1alpha1'', or_Kind = k, or_Name = om_Name owner, or_UID = om_UID owner, or_Controller = Some True\<rparr>"
  have m': "m' = m\<lparr>om_OwnerReferences := filter (\<lambda>r. or_UID r \<noteq> om_UID owner) (om_OwnerReferences m) @ [o']\<rparr>" and u: "or_UID o' = om_UID owner"
    using assms unfolding ref_controller_ref_def if_not_P [OF ok] o'_def by simp_all
  have "\<not> (\<exists>r \<in> set (om_OwnerReferences m'). or_Controller r = Some True \<and> or_UID r \<noteq> om_UID owner)" using ok m' u by auto
  moreover have "filter (\<lambda>r. or_UID r \<noteq> om_UID owner) (om_OwnerReferences m') = filter (\<lambda>r. or_UID r \<noteq> om_UID owner) (om_OwnerReferences m)"
    by (simp add: m' u)
  ultimately show ?thesis unfolding ref_controller_ref_def if_not_P o'_def [symmetric] by (simp add: m')
qed

lemma add_finalizer_again: "ref_add_finalizer (ref_add_finalizer fs f) f = ref_add_finalizer fs f"
  by (simp add: ref_add_finalizer_def)

lemma remove_finalizer_again: "ref_remove_finalizer (ref_remove_finalizer fs f) f = ref_remove_finalizer fs f"
  by (simp add: ref_remove_finalizer_def)

lemma ref_controller_ref_meta:
  "ref_controller_ref k owner m = Ret m' \<Longrightarrow> \<exists>os. m' = m\<lparr>om_OwnerReferences := os\<rparr>"
  by (auto simp: ref_controller_ref_def split: if_splits)

lemma protected_again:
  assumes "ensureBackupControllerReference (ref_env i) b (protect_data (ref_env i) b x) = Ret y"
  shows "ensureBackupControllerReference (ref_env i) b (protect_data (ref_env i) b y) = Ret y"
    "meta_key (ob_Meta y) = meta_key (ob_Meta x)" "om_DeletionTimestamp (ob_Meta y) = om_DeletionTimestamp (ob_Meta x)"
proof -
  from assms obtain m where m: "ref_controller_ref ''Backup'' (b_Meta b) (ob_Meta (protect_data (ref_env i) b x)) = Ret m"
    and y: "y = (protect_data (ref_env i) b x)\<lparr>ob_Meta := m\<rparr>"
    by (auto simp: ensureBackupControllerReference_def bindO_Ret split: outcome.splits)
  obtain os where os: "m = (ob_Meta (protect_data (ref_env i) b x))\<lparr>om_OwnerReferences := os\<rparr>" using ref_controller_ref_meta [OF m] by blast
  have "protect_data (ref_env i) b y = y"
    by (simp add: y os protect_data_def add_finalizer_again remove_finalizer_again)
  with controller_ref_again [OF m] y show "ensureBackupControllerReference (ref_env i) b (protect_data (ref_env i) b y) = Ret y"
    by (simp add: ensureBackupControllerReference_def)
  show "meta_key (ob_Meta y) = meta_key (ob_Meta x)" "om_DeletionTimestamp (ob_Meta y) = om_DeletionTimestamp (ob_Meta x)"
    by (simp_all add: y os protect_data_def meta_key_def)
qed

subsection \<open>Backups\<close>

lemma label_backup_again:
  assumes run: "exec (label_backup (ref_env i) b) w = (Ret c, w1)" and "bks w (meta_key (b_Meta b)) = Some b" "\<not> being_deleted (b_Meta b)"
  shows "exec (label_backup (ref_env i) c) v = (Ret c, v)"
proof -
  obtain n where n: "b_InstanceRef b = Some n" using run by (cases "b_InstanceRef b") (auto simp: label_backup_def with_instance_def)
  let ?c = "b\<lparr>b_Meta := (b_Meta b)\<lparr>om_Labels := (om_Labels (b_Meta b))(instanceNameLabelKey \<mapsto> n)\<rparr>\<rparr>"
  have "meta_key (b_Meta ?c) = meta_key (b_Meta b)" by (simp add: meta_key_def)
  with assms n store_write_bk [of ?c w] have "map_str (om_Labels (b_Meta b)) instanceNameLabelKey \<noteq> n \<longrightarrow> c = ?c" "map_str (om_Labels (b_Meta b)) instanceNameLabelKey = n \<longrightarrow> c = b"
    by (auto simp: label_backup_def with_instance_def exec_call)
  then have "b_InstanceRef c = Some n" "map_str (om_Labels (b_Meta c)) instanceNameLabelKey = n"
    using n by (cases "map_str (om_Labels (b_Meta b)) instanceNameLabelKey = n"; simp add: map_str_def)+
  then show ?thesis by (simp add: label_backup_def with_instance_def)
qed

lemma adopt_backup_again:
  assumes run: "exec (adopt_backup (ref_env i) c x) w = (Ret y, w')" and x: "ops w k = Some x" "meta_key (ob_Meta x) = k" "\<not> being_deleted (ob_Meta x)"
  shows "ops w' k = Some y \<and> exec (adopt_backup (ref_env i) c y) w' = (Ret y, w')"
proof (cases "managedByRuntime c")
  case True
  from run True obtain msg z where msg: "immutableBackupSpecChangeMessage x c = Ret msg"
    and z: "ensureBackupControllerReference (ref_env i) c (protect_data (ref_env i) c x) = Ret z"
    and p: "exec (cl_PatchOpBackup (ref_env i) x z) w = (Ret y, w')"
    by (auto simp: adopt_backup_def exec_call simp del: ref_env_fields split: outcome.splits prod.splits)
  note again = protected_again [OF z]
  have z': "meta_key (ob_Meta z) = k" "\<not> being_deleted (ob_Meta z)" using again(2,3) x by simp_all
  with p x store_write_op [of z w] have y: "y = z" "w' = put_op k z w" by auto
  have "\<exists>msg'. immutableBackupSpecChangeMessage z c = Ret msg'"
    using msg by (cases "b_InstanceRef c") (simp_all add: immutableBackupSpecChangeMessage_def)
  then obtain msg' where "immutableBackupSpecChangeMessage z c = Ret msg'" by blast
  with True again(1) z' y store_write_op [of z w'] show ?thesis
    by (simp add: adopt_backup_def exec_call put_op_same)
qed (use run x in \<open>auto simp: adopt_backup_def\<close>)

lemma start_backup_pending: "exec (start_backup (ref_env i) c) w = (Ret (Inl ex), w') \<Longrightarrow> w' = w"
  by (cases "b_InstanceRef c")
    (auto simp: start_backup_def with_instance_def Let_def exec_call store_create_def split: if_splits option.splits outcome.splits)



subsection \<open>Restores\<close>

lemma set_restore_owner_again:
  assumes "setRestoreControllerReference (ref_env i) r x = Ret y"
  shows "setRestoreControllerReference (ref_env i) r y = Ret y"
proof -
  from assms obtain m where "ref_controller_ref ''Restore'' (re_Meta r) (ore_Meta x) = Ret m" "y = x\<lparr>ore_Meta := m\<rparr>"
    by (auto simp: setRestoreControllerReference_def bindO_Ret split: outcome.splits)
  with controller_ref_again show ?thesis by (simp add: setRestoreControllerReference_def)
qed

lemma adopt_restore_again:
  assumes run: "exec (adopt_restore (ref_env i) s x) w = (Ret ex, w')" and x: "orss w k = Some x" "meta_key (ore_Meta x) = k" "\<not> being_deleted (ore_Meta x)"
  shows "\<exists>y. orss w' k = Some y \<and> wl_Backups w' = wl_Backups w \<and> wl_OpBackups w' = wl_OpBackups w \<and> rsts w' = rsts w
    \<and> exec (adopt_restore (ref_env i) s y) w' = (Ret ex, w')"
proof -
  obtain y where y: "setRestoreControllerReference (ref_env i) s x = Ret y"
    using run by (cases "setRestoreControllerReference (ref_env i) s x") (auto simp: adopt_restore_def)
  note o = owner_only_task [OF ref_restore_api.set_restore_owner [OF y]]
  have ex: "ex = restore_status_of (ref_env i) s y" "w' = put_ors k y w"
    using run y write_ors [of y w] o x by (auto simp: adopt_restore_def exec_call)
  then have "orss w' k = Some y" "wl_Backups w' = wl_Backups w" "wl_OpBackups w' = wl_OpBackups w" by simp_all
  with ex set_restore_owner_again [OF y] write_ors [of y w'] o x show ?thesis
    by (auto simp: adopt_restore_def exec_call put_ors_same)
qed

lemma label_restore_again:
  assumes "exec (label_restore (ref_env i) r) w = (Ret s, w1)" "rsts w (meta_key (re_Meta r)) = Some r" "\<not> being_deleted (re_Meta r)"
  shows "exec (label_restore (ref_env i) s) v = (Ret s, v)"
proof -
  let ?s = "r\<lparr>re_Meta := (re_Meta r)\<lparr>om_Labels := (om_Labels (re_Meta r))(instanceNameLabelKey \<mapsto> re_InstanceRef r)\<rparr>\<rparr>"
  have "meta_key (re_Meta ?s) = meta_key (re_Meta r)" by (simp add: meta_key_def)
  with assms write_rst [of ?s w] have "s = (if map_str (om_Labels (re_Meta r)) instanceNameLabelKey \<noteq> re_InstanceRef r then ?s else r)"
    by (auto simp: label_restore_def exec_call)
  then show ?thesis by (simp add: label_restore_def map_str_def)
qed

text \<open>The source of a restore depends on the Backups and on the operator's backups only.\<close>

lemma resolve_frame:
  assumes "wl_Backups v = wl_Backups w" "wl_OpBackups v = wl_OpBackups w"
  shows "fst (exec (resolveRestoreSource (ref_env i) s o') v) = fst (exec (resolveRestoreSource (ref_env i) s o') w)"
  using assms
  by (auto simp: resolveRestoreSource_def resolveBackupSource_def resolvePointInTimeSource_def selectPITRBaseBackup_def exec_call Let_def
      split: data_source_type.split option.split sum.split)



end
