(* ===== verification/Registration.thy ===== *)
theory Registration
  imports Provider_Status Relational
begin

text \<open>
  internal/provider/provider.go: the provider as \<open>NewPXCProviderInterface\<close> registers it, with the kinds it
  watches and the routing of their events. The theorem is that the watches are enough: what the
  provider reports about an Instance can only change with an object whose event is routed to it.
\<close>

text \<open>The \<^verbatim>\<open>AddToScheme\<close> functions of the API packages that are handed to the runtime.\<close>

datatype scheme_func = PXCAddToScheme | MonitoringAddToScheme | BackupAddToScheme

text \<open>A watch names the kind of object and, unless the runtime routes events to the owner, the handler.\<close>

datatype watch_config = WatchOwned string | WatchExternal string "client_object \<Rightarrow> namespaced_name list"

record base_provider =
  bp_ProviderName :: string
  bp_SchemeFuncs :: "scheme_func list"
  bp_WatchConfigs :: "watch_config list"

definition NewPXCProviderInterface :: base_provider where
  "NewPXCProviderInterface = \<lparr>bp_ProviderName = ''percona-xtradb-cluster'',
     bp_SchemeFuncs = [PXCAddToScheme, MonitoringAddToScheme, BackupAddToScheme],
     bp_WatchConfigs = [WatchOwned ''PerconaXtraDBCluster'',
       WatchExternal ''PerconaXtraDBClusterBackup'' enqueueOperatorBackupInstance,
       WatchExternal ''Restore'' enqueueRestoreInstance]\<rparr>"

subsection \<open>The watches are enough\<close>

fun requests :: "watch_config \<Rightarrow> client_object \<Rightarrow> namespaced_name list" where
  "requests (WatchOwned k) obj = []"
| "requests (WatchExternal k h) obj = h obj"

text \<open>An event of the object makes the runtime reconcile the Instance.\<close>

definition routed :: "string \<Rightarrow> string \<Rightarrow> client_object \<Rightarrow> bool" where
  "routed ns n obj \<longleftrightarrow> list_ex (\<lambda>c. list_ex (\<lambda>q. nn_Namespace q = ns \<and> nn_Name q = n) (requests c obj)) (bp_WatchConfigs NewPXCProviderInterface)"

lemma routed_restore: "routed ns n (RestoreObj r) \<longleftrightarrow> re_InstanceRef r \<noteq> [] \<and> re_InstanceRef r = n \<and> om_Namespace (re_Meta r) = ns"
  by (auto simp: routed_def NewPXCProviderInterface_def enqueueRestoreInstance_def enqueueOperatorBackupInstance_def)

lemma routed_op_backup: "routed ns n (OpBackupObj b) \<longleftrightarrow> ob_PXCCluster b \<noteq> [] \<and> ob_PXCCluster b = n \<and> om_Namespace (ob_Meta b) = ns"
  by (auto simp: routed_def NewPXCProviderInterface_def enqueueRestoreInstance_def enqueueOperatorBackupInstance_def)

text \<open>A list of the objects of a namespace, in two worlds that agree on the objects routed to the Instance.\<close>

definition same_routed :: "string \<Rightarrow> string \<Rightarrow> ('o \<Rightarrow> client_object) \<Rightarrow> ('o \<Rightarrow> object_meta) \<Rightarrow> ('w, 'o list) io \<Rightarrow> 'w \<Rightarrow> 'w \<Rightarrow> bool" where
  "same_routed ns n obj meta m v w \<longleftrightarrow> (\<exists>xs ys. exec m v = (Ret xs, v) \<and> exec m w = (Ret ys, w)
     \<and> filter (\<lambda>x. routed ns n (obj x)) xs = filter (\<lambda>x. routed ns n (obj x)) ys \<and> (\<forall>x \<in> set xs \<union> set ys. om_Namespace (meta x) = ns))"

text \<open>Two worlds that differ at most in Restores and operator backups whose events are not routed to the Instance.\<close>

definition differ_unrouted :: "'w env \<Rightarrow> 'w \<Rightarrow> 'w \<Rightarrow> bool" where
  "differ_unrouted E v w \<longleftrightarrow> same_read (ctx_GetPXC E (ctx_Name E)) v w \<and> same_read (ctx_GetDataSourceStatus E) v w
     \<and> same_read (ctx_GetSecret E (users_secret (ctx_Name E))) v w
     \<and> same_routed (ctx_Namespace E) (ctx_Name E) RestoreObj re_Meta (cl_ListRestores E (ctx_Namespace E)) v w
     \<and> same_routed (ctx_Namespace E) (ctx_Name E) OpBackupObj ob_Meta (cl_ListOpBackups E (ctx_Namespace E)) v w"

lemma active_restore_routed:
  assumes "same_routed ns n RestoreObj re_Meta (cl_ListRestores E ns) v w" "n \<noteq> []"
  shows "same_read (hasActiveRestoreForInstance E ns n) v w"
proof -
  from assms(1) obtain xs ys where l: "exec (cl_ListRestores E ns) v = (Ret xs, v)" "exec (cl_ListRestores E ns) w = (Ret ys, w)"
    and f: "filter (\<lambda>x. routed ns n (RestoreObj x)) xs = filter (\<lambda>x. routed ns n (RestoreObj x)) ys"
    and ns: "\<forall>x \<in> set xs \<union> set ys. om_Namespace (re_Meta x) = ns" by (auto simp: same_routed_def)
  have seen: "active_restore n zs = active_restore n (filter (\<lambda>x. routed ns n (RestoreObj x)) zs)"
    if "\<forall>x \<in> set zs. om_Namespace (re_Meta x) = ns" for zs
    using that assms(2) by (auto simp: active_restore_iff routed_restore in_progress_def)
  have "active_restore n xs = active_restore n ys" using seen [of xs] seen [of ys] ns f by simp
  with l show ?thesis by (auto simp: same_read_def hasActiveRestoreForInstance_def)
qed

lemma stream_backups_routed:
  assumes "\<forall>x \<in> set zs. om_Namespace (ob_Meta x) = ns" "n \<noteq> []"
  shows "filter (is_stream_backup n storage) zs = filter (is_stream_backup n storage) (filter (\<lambda>x. routed ns n (OpBackupObj x)) zs)"
  using assms by (induction zs) (auto simp: routed_op_backup is_stream_backup_def)

lemma storage_entry_routed:
  assumes "filter (\<lambda>x. routed ns n (OpBackupObj x)) xs = filter (\<lambda>x. routed ns n (OpBackupObj x)) ys"
    and "\<forall>x \<in> set xs \<union> set ys. om_Namespace (ob_Meta x) = ns" "n \<noteq> []" "om_Name (in_Meta (ctx_Instance E)) = n"
  shows "storage_entry E srt xs = storage_entry E srt ys"
  using assms stream_backups_routed [of xs ns n] stream_backups_routed [of ys ns n]
  by (auto simp: storage_entry_def collectStorageBackups_def fun_eq_iff split: option.split)

lemma statuses_routed:
  assumes "same_routed ns n OpBackupObj ob_Meta (cl_ListOpBackups E ns) v w" "n \<noteq> []"
    and "om_Name (in_Meta (ctx_Instance E)) = n" "om_Namespace (in_Meta (ctx_Instance E)) = ns"
  shows "same_read (BackupStorageStatuses E srt) v w"
proof -
  from assms(1) obtain xs ys where "exec (cl_ListOpBackups E ns) v = (Ret xs, v)" "exec (cl_ListOpBackups E ns) w = (Ret ys, w)"
    "filter (\<lambda>x. routed ns n (OpBackupObj x)) xs = filter (\<lambda>x. routed ns n (OpBackupObj x)) ys"
    "\<forall>x \<in> set xs \<union> set ys. om_Namespace (ob_Meta x) = ns" by (auto simp: same_routed_def)
  with storage_entry_routed [OF this(3,4) assms(2,3)] assms(4) show ?thesis
    by (auto simp: same_read_def BackupStorageStatuses_def split: option.split)
qed

lemma status_routed:
  assumes "differ_unrouted E v w" "ctx_Name E \<noteq> []"
  shows "same_read (Status E) v w" "same_read (MonitoringSources E) v w"
proof -
  from assms have r: "same_read (ctx_GetPXC E (ctx_Name E)) v w" "same_read (ctx_GetDataSourceStatus E) v w"
    "same_read (ctx_GetSecret E (''everest-secrets-'' @ ctx_Name E)) v w"
    "same_read (hasActiveRestoreForInstance E (ctx_Namespace E) (ctx_Name E)) v w"
    by (auto simp: differ_unrouted_def users_secret_def intro: active_restore_routed)
  then show "same_read (Status E) v w"
    by (auto simp: Status_def StatusPXC_def phase_of_cluster_def phase_of_engine_def buildConnectionDetails_def Let_def
        intro!: same_read_call split: option.split app_state.split)
  from r show "same_read (MonitoringSources E) v w"
    by (auto simp: MonitoringSources_def Let_def intro!: same_read_call)
qed


text \<open>A restore and a backup of another Instance appear next to a running one.\<close>

definition other_restore :: restore where
  "other_restore = \<lparr>re_Meta = named_meta ''team-a'' ''other'', re_InstanceRef = ''other'',
     re_DataSource = \<lparr>ds_Type = DataSourceTypePointInTime, ds_Backup = None, ds_PointInTime = None\<rparr>, re_State = RestoreStateRunning\<rparr>"

definition busy_namespace :: cluster where
  "busy_namespace = ready_cluster\<lparr>wl_Restores := [((''team-a'', ''other''), other_restore)],
     wl_OpBackups := [((''team-a'', ''bk''), (sample_op_backup ''bk'' 10 True)\<lparr>ob_PXCCluster := ''other''\<rparr>)]\<rparr>"


end
