(* ===== verification/Entry_Point.thy ===== *)
theory Entry_Point
  imports Registration
begin

text \<open>
  cmd/provider/main.go: the options the reconciler is created with, by the one flag of the program, and
  the exit code of the process. The reconciler is a library: its constructor and its main loop are
  parameters.
\<close>

datatype reconciler_option = WithServer int | WithAdmission

text \<open>The flag \<^verbatim>\<open>-admission\<close> as given on the command line, if it was, and its value.\<close>

definition admission_flag :: "bool option \<Rightarrow> bool" where
  "admission_flag given = (case given of None \<Rightarrow> True | Some v \<Rightarrow> v)"

definition main_options :: "bool \<Rightarrow> reconciler_option list" where
  "main_options admission = (let opts = [WithServer 8082] in if admission then opts @ [WithAdmission] else opts)"

text \<open>The exit code: \<^verbatim>\<open>os.Exit(1)\<close> after a failure, and 0 when \<^verbatim>\<open>main\<close> returns.\<close>

definition main :: "(base_provider \<Rightarrow> reconciler_option list \<Rightarrow> ('w, 'r) io) \<Rightarrow> ('r \<Rightarrow> ('w, unit) io) \<Rightarrow> bool option \<Rightarrow> ('w, nat) io" where
  "main New Start given =
     call (New NewPXCProviderInterface (main_options (admission_flag given))) (\<lambda>_. ret 1) (\<lambda>r.
     call (Start r) (\<lambda>_. ret 1) (\<lambda>_. ret 0))"

lemma main_options_admission: "WithAdmission \<in> set (main_options a) \<longleftrightarrow> a" "WithServer 8082 \<in> set (main_options a)"
  by (simp_all add: main_options_def Let_def)

lemma main_succeeds:
  "exec (main New Start given) w = (Ret 0, w') \<longleftrightarrow>
     (\<exists>r w1. exec (New NewPXCProviderInterface (main_options (admission_flag given))) w = (Ret r, w1) \<and> exec (Start r) w1 = (Ret (), w'))"
  by (auto simp: main_def exec_call split: prod.splits outcome.splits)

end
