(* ===== verification/Panic_Freedom.thy ===== *)
theory Panic_Freedom
  imports Applied_Cluster Provider_Status Backup_Mirror
begin

text \<open>
  Type safety of the handlers: which objects are well formed, that the handlers never dereference nil when
  the API returns well-formed ones, and that they keep the world well formed.
\<close>

subsection \<open>Operations that do not go wrong\<close>

text \<open>In a world that satisfies \<open>P\<close> the operation does not panic, and the world satisfies \<open>P\<close> afterwards.\<close>

definition safe :: "('w \<Rightarrow> bool) \<Rightarrow> ('w, 'a) io \<Rightarrow> bool" where
  "safe P m \<longleftrightarrow> (\<forall>w. P w \<longrightarrow> P (snd (exec m w)) \<and> fst (exec m w) \<noteq> Panic)"

lemma safeI: "keeps P m \<Longrightarrow> (\<And>w. P w \<Longrightarrow> fst (exec m w) \<noteq> Panic) \<Longrightarrow> safe P m"
  by (simp add: safe_def keeps_def)

lemma safe_keeps: "safe P m \<Longrightarrow> keeps P m"
  by (simp add: safe_def keeps_def)

lemma safe_ret [intro, simp]: "safe P (ret a)"
  by (simp add: safe_def)

lemma safe_fail [intro, simp]: "safe P (fail e)"
  by (simp add: safe_def)

lemma safe_lift [simp]: "safe P (lift_outcome r) \<longleftrightarrow> r \<noteq> Panic \<or> (\<forall>w. \<not> P w)"
  by (auto simp: safe_def)

text \<open>A call whose result is known to satisfy \<open>R\<close>, and the same when nothing is known of it.\<close>

lemma safe_call_ensures:
  assumes m: "safe P m" "ensures P m R" and h: "\<And>e. safe P (h e)" and k: "\<And>a. R a \<Longrightarrow> safe P (k a)"
  shows "safe P (call m h k)"
  unfolding safe_def
proof (intro allI impI)
  fix w assume "P w"
  obtain r w' where r: "exec m w = (r, w')" by (cases "exec m w")
  have "P w'" "r \<noteq> Panic" "\<And>a. r = Ret a \<Longrightarrow> R a"
    using m(1) ensuresD [OF m(2) r \<open>P w\<close>] r \<open>P w\<close> by (auto simp: safe_def dest: spec [of _ w])
  with r h k show "P (snd (exec (call m h k) w)) \<and> fst (exec (call m h k) w) \<noteq> Panic"
    by (cases r) (auto simp: safe_def)
qed

lemma safe_call: "safe P m \<Longrightarrow> (\<And>e. safe P (h e)) \<Longrightarrow> (\<And>a. safe P (k a)) \<Longrightarrow> safe P (call m h k)"
  by (rule safe_call_ensures [OF _ keeps_ensures [OF safe_keeps]])

lemma safe_call_value:
  assumes "safe P m" "\<And>e. safe P (h e)" "\<And>a w w'. exec m w = (Ret a, w') \<Longrightarrow> safe P (k a)"
  shows "safe P (call m h k)"
proof (rule safe_call_ensures [OF assms(1)])
  show "ensures P m (\<lambda>a. \<exists>w w'. exec m w = (Ret a, w'))"
    by (rule ensures_value [OF safe_keeps [OF assms(1)]]) blast
qed (use assms(2,3) in blast)+

lemma safe_call_lift:
  "r \<noteq> Panic \<Longrightarrow> (\<And>e. r = Err e \<Longrightarrow> safe P (h e)) \<Longrightarrow> (\<And>a. r = Ret a \<Longrightarrow> safe P (k a)) \<Longrightarrow> safe P (call (lift_outcome r) h k)"
  by (cases r) (auto simp: safe_def exec_call)

lemma safe_void [intro]: "safe P m \<Longrightarrow> safe P k \<Longrightarrow> safe P (void m k)"
  by (simp add: void_def safe_call)

lemma bindO_Panic: "bindO m f = Panic \<longleftrightarrow> m = Panic \<or> (\<exists>a. m = Ret a \<and> f a = Panic)"
  by (cases m) auto

subsection \<open>Well-formed objects\<close>

text \<open>A \<^verbatim>\<open>Backup\<close> whose origin names an Instance, and a binding for PMM whose class names the agent's image.\<close>

definition backup_ok :: "backup \<Rightarrow> bool" where
  "backup_ok b \<longleftrightarrow> b_InstanceRef b \<noteq> None"

definition binding_ok :: "resolved_binding \<Rightarrow> bool" where
  "binding_ok rb \<longleftrightarrow> (rb_Apply rb \<and> rb_Integration rb = pmmIntegration \<longrightarrow> rb_AgentImage rb \<noteq> None)"

text \<open>An Instance whose enabled schedules with a count retention say how many backups to keep.\<close>

definition schedule_ok :: "instance_schedule \<Rightarrow> bool" where
  "schedule_ok s \<longleftrightarrow> (is_Enabled s \<longrightarrow> (case is_Retention s of None \<Rightarrow> True | Some r \<Rightarrow> sr_Type r = RetentionTypeCount \<longrightarrow> sr_Count r \<noteq> None))"

definition inst_ok :: "inst \<Rightarrow> bool" where
  "inst_ok i \<longleftrightarrow> (case enabled_backup i of None \<Rightarrow> True | Some bk \<Rightarrow> list_all (\<lambda>st. list_all schedule_ok (ist_Schedules st)) (ib_Storages bk))"

lemma build_schedules_ok: "list_all schedule_ok ss \<Longrightarrow> build_schedules n ss acc \<noteq> Panic"
  by (induction ss arbitrary: acc)
    (auto simp: schedule_ok_def buildPXCRetention_def bindO_Panic split: option.splits outcome.splits)

lemma storage_step_ok: "list_all schedule_ok (ist_Schedules st) \<Longrightarrow> storage_step u st s3 acc \<noteq> Panic"
  by (auto simp: storage_step_def Let_def bindO_Panic pitr_step_outcome(2) build_schedules_ok)

lemma lower_requests_ok: "lower_requests L en ns rs \<noteq> Panic"
  by (induction ns arbitrary: rs) (auto simp: Let_def split: option.split)

lemma configuration_ok: "engineConfigurationFromComponent c \<noteq> Panic" "proxyConfigurationFromComponent c \<noteq> Panic"
  by (auto simp: engineConfigurationFromComponent_def proxyConfigurationFromComponent_def Unmarshal_not_Panic split: option.split outcome.splits)

lemma pmm_inputs_ok: "(\<And>u. U u \<noteq> Panic) \<Longrightarrow> pmm_inputs E U rb \<noteq> Panic"
  by (auto simp: pmm_inputs_def bindO_Panic wrap_err_def decode_destination_def decode_entry_def Unmarshal_not_Panic pmmServerHostFromURL_def
      pmmResources_def lower_requests_ok Let_def split: option.splits outcome.splits if_splits)

subsection \<open>Rendering\<close>

lemma render_cluster_ok:
  assumes "proxy_flags (HAProxyEnabled E) (ProxySQLEnabled E)"
  shows "render_cluster E \<noteq> Panic"
proof (cases "\<exists>engine proxy. in_Components (ctx_Instance E) ComponentEngine = Some engine \<and> in_Components (ctx_Instance E) ComponentProxy = Some proxy \<and> cs_Type proxy \<noteq> []")
  case True
  with render_cluster_total [OF assms] show ?thesis by force
next
  case False
  moreover have "with_engine E engine (new_cluster E) \<noteq> Panic" for engine using with_engine_eq [of E engine] by force
  ultimately show ?thesis by (auto simp: render_cluster_def bindO_Panic split: option.splits)
qed

lemma on_proxy_pod_ok: "cluster_shape E engine proxy p \<Longrightarrow> on_proxy_pod (cs_Type proxy) f p \<noteq> Panic"
  by (auto simp: on_proxy_pod_def haproxy_ptr_def proxysql_ptr_def cluster_shape_def common_consts split: if_splits)

lemma configure_cluster_ok:
  assumes shape: "cluster_shape E engine proxy p" and bundles: "\<And>sp n. ResolveVersionBundle E sp n \<noteq> Panic"
  shows "configure_cluster E spec engine proxy p \<noteq> Panic"
proof -
  have "proxy_image E spec proxy \<noteq> Panic"
    using bundles by (auto simp: proxy_image_def imageForBundledProxy_def Let_def bindO_Panic split: option.split)
  moreover have "cluster_shape E engine proxy p1" if "on_engine (configured_pod E spec engine cfg) p = Ret p1" for cfg p1
    using on_engine_shape [OF shape that] by (simp add: engine_ok_def configured_pod_def)
  moreover have "cluster_shape E engine proxy p2"
    if "cluster_shape E engine proxy p1" "on_proxy_pod (cs_Type proxy) (ps_Image_update (\<lambda>_. img)) p1 = Ret p2" for img p1 p2
    using on_proxy_pod_shape [OF that] by (simp add: proxy_ok_def)
  moreover have "on_engine f p \<noteq> Panic" for f using shape by (auto simp: on_engine_def cluster_shape_def)
  ultimately show ?thesis
    unfolding configure_cluster_def configured_pod_def [symmetric]
    by (simp add: bindO_Panic configuration_ok) (metis on_proxy_pod_ok)
qed

subsection \<open>What the API and the runtime promise\<close>

text \<open>
  The calls do not panic and keep the typing \<open>P\<close> of the world; the Backups and the bindings they return are
  well formed. A Backup is written only when it is well formed.
\<close>

locale typed_calls =
  fixes E :: "'w env" and P :: "'w \<Rightarrow> bool"
  assumes reads: "safe P (cl_GetOpBackup E ns n)" "safe P (cl_GetOpRestore E ns n)" "safe P (cl_GetPXC E ns n)" "safe P (cl_GetBackup E ns n)"
      "safe P (cl_GetInstance E ns n)" "safe P (cl_ListBackupsOfInstance E ns n)" "safe P (cl_ListOpBackups E ns)" "safe P (cl_ListRestores E ns)"
      "safe P (ctx_GetPXC E n)" "safe P (ctx_GetSecret E n)" "safe P (ctx_GetBackup E n)"
    and runtime: "safe P (ctx_ProviderSpec E)" "safe P (ctx_BackupClassForInstance E)" "safe P (ctx_BackupStorage E n)"
      "safe P (ctx_BackupStorageCredentials E bs)" "safe P (ctx_RequiredSources E)" "safe P (ctx_MonitoringBindings E)"
      "safe P (ctx_MonitoringCredentials E rb)" "safe P (ctx_SetMonitoringBindingResult E n r m)" "safe P (ctx_GetDataSourceStatus E)"
      "safe P (ctx_SetDataSourceStatus E d)" "safe P (ctx_ReconcileDataSource E)"
    and writes: "safe P (cl_CreateOpBackup E x)" "safe P (cl_CreateOpRestore E y)" "safe P (cl_CreateSecret E s)"
      "safe P (cl_PatchRestore E rs rt)" "safe P (cl_PatchOpBackup E x x')" "safe P (cl_PatchOpRestore E y y')" "safe P (cl_PatchSecret E s t)"
      "safe P (cl_UpdateOpBackup E x)" "safe P (ctx_ApplyPXC E p)"
    and deletes: "safe P (cl_DeleteOpBackup E x)" "safe P (cl_DeleteOpRestore E y)" "safe P (ctx_DeletePXC E p)"
    and patched: "backup_ok c \<Longrightarrow> safe P (cl_PatchBackup E b c)" "backup_ok c \<Longrightarrow> ensures P (cl_PatchBackup E b c) backup_ok"
    and typed: "ensures P (ctx_GetBackup E n) backup_ok" "ensures P (ctx_MonitoringBindings E) (list_all binding_ok)"
    and pure: "ResolveVersionBundle E spec n \<noteq> Panic" "ValidateInstanceBackupAgainstClass E i cl \<noteq> Panic"
      "SetBackupControllerReference E b x \<noteq> Panic" "SetRestoreControllerReference E rs y \<noteq> Panic"
    and flags: "proxy_flags (HAProxyEnabled E) (ProxySQLEnabled E)"
begin

lemmas safe_calls = reads runtime writes deletes

lemma owner_ok: "ensureBackupControllerReference E b x \<noteq> Panic" "setRestoreControllerReference E r y \<noteq> Panic"
  using pure(3,4) by (auto simp: ensureBackupControllerReference_def setRestoreControllerReference_def split: outcome.split)

text \<open>Backups and restores.\<close>

lemma label_backup_safe:
  assumes "backup_ok b"
  shows "safe P (label_backup E b)" "ensures P (label_backup E b) backup_ok"
proof -
  obtain n where n: "b_InstanceRef b = Some n" using assms by (auto simp: backup_ok_def)
  define c where "c = b\<lparr>b_Meta := (b_Meta b)\<lparr>om_Labels := (om_Labels (b_Meta b))(instanceNameLabelKey \<mapsto> n)\<rparr>\<rparr>"
  have c: "safe P (cl_PatchBackup E b c)" "ensures P (cl_PatchBackup E b c) backup_ok"
    by (rule patched; simp add: c_def backup_ok_def n)+
  show "safe P (label_backup E b)"
    unfolding label_backup_def with_instance_def n by (rule safe_call_lift) (use c(1) in \<open>auto simp: c_def intro!: safe_call\<close>)
  show "ensures P (label_backup E b) backup_ok"
    unfolding label_backup_def with_instance_def n
    by (rule ensures_call_lift) (use c(2) assms in \<open>auto simp: c_def intro: ensures_call\<close>)
qed

lemma SyncBackup_safe:
  assumes "backup_ok b"
  shows "safe P (SyncBackup E b)"
  unfolding SyncBackup_def
proof (rule safe_call_ensures [OF label_backup_safe [OF assms]])
  fix c assume "backup_ok c"
  then obtain n where n: "b_InstanceRef c = Some n" by (auto simp: backup_ok_def)
  have "safe P (start_backup E c)"
    by (auto simp: start_backup_def with_instance_def n Let_def owner_ok intro!: safe_call safe_calls)
  moreover have "safe P (adopt_backup E c x)" for x
    by (auto simp: adopt_backup_def immutableBackupSpecChangeMessage_def n owner_ok intro!: safe_call safe_calls)
  ultimately show "safe P (call (call (cl_GetOpBackup E (om_Namespace (b_Meta c)) (om_Name (b_Meta c)))
              (\<lambda>e. if IsNotFound e then start_backup E c
                   else fail (Wrap (''get PerconaXtraDBClusterBackup '' @ Quote (om_Name (b_Meta c))) e))
              (\<lambda>x. ret (Inr x)))
         fail
         (\<lambda>r. case r of
             Inl ex \<Rightarrow> ret ex
           | Inr x \<Rightarrow> call (adopt_backup E c x) fail (\<lambda>y. ret (backup_status_of E c y))))"
    by (auto intro!: safe_call safe_calls split: sum.split)
qed simp

lemma CleanupBackup_safe: "safe P (CleanupBackup E b)"
  by (auto simp: CleanupBackup_def Let_def intro!: safe_call safe_calls)

lemma restore_source_safe: "safe P (resolveRestoreSource E r opRef)"
  by (auto simp: resolveRestoreSource_def resolveBackupSource_def resolvePointInTimeSource_def selectPITRBaseBackup_def Let_def
      intro!: safe_call safe_calls split: option.split sum.split data_source_type.split)

lemma SyncRestore_safe: "safe P (SyncRestore E r)"
  by (auto simp: SyncRestore_def label_restore_def start_restore_def Let_def owner_ok
      intro!: safe_call safe_calls restore_source_safe split: sum.split)

lemma CleanupRestore_safe: "safe P (CleanupRestore E r)"
  by (auto simp: CleanupRestore_def Let_def intro!: safe_call safe_calls)

lemma Mirror_safe: "safe P (Mirror E obj)"
  by (auto simp: Mirror_def Let_def intro!: safe_call safe_calls split: client_object.split prod.split option.split)

lemma Mirror_ok: "ensures P (Mirror E obj) (\<lambda>r. \<forall>b. r = Some b \<longrightarrow> backup_ok b)"
proof (rule ensures_value [OF safe_keeps [OF Mirror_safe]])
  fix w w' r assume "exec (Mirror E obj) w = (Ret r, w')"
  then show "\<forall>b. r = Some b \<longrightarrow> backup_ok b"
    by (auto simp: Mirror_def Let_def exec_call mirrored_def backup_ok_def split: client_object.splits prod.splits option.splits outcome.splits if_splits)
qed

text \<open>The state of an Instance.\<close>

lemma Status_safe: "safe P (Status E)"
  by (auto simp: Status_def StatusPXC_def phase_of_cluster_def phase_of_engine_def buildConnectionDetails_def hasActiveRestoreForInstance_def Let_def
      intro!: safe_call safe_calls split: option.split app_state.split)

lemma Cleanup_safe: "safe P (Cleanup E)"
  by (simp add: Cleanup_def CleanupPXC_def safe_calls)

lemma MonitoringSources_safe: "safe P (MonitoringSources E)"
  by (auto simp: MonitoringSources_def Let_def intro!: safe_call safe_calls)

lemma BackupStorageStatuses_safe: "safe P (BackupStorageStatuses E srt)"
  by (auto simp: BackupStorageStatuses_def intro!: safe_call safe_calls split: option.split)

text \<open>The sync of an Instance: backup settings, monitoring, credentials and the seeding.\<close>

lemma apply_storages_safe:
  "list_all (\<lambda>st. list_all schedule_ok (ist_Schedules st)) sts \<Longrightarrow> safe P (apply_storages E sts acc)"
  by (induction sts arbitrary: acc)
    (auto simp: storage_step_ok intro!: safe_call safe_calls split: option.split storage_type.split)

lemma applyBackupSettings_safe:
  assumes "inst_ok (ctx_Instance E)"
  shows "safe P (applyBackupSettings E p)"
proof (cases "enabled_backup (ctx_Instance E)")
  case (Some bk)
  have "select_backup_image E spec \<noteq> Panic" for spec
    using pure(1) by (auto simp: select_backup_image_def Let_def bindO_Panic)
  with Some assms pure(2) show ?thesis
    by (auto simp: applyBackupSettings_def inst_ok_def intro!: safe_call safe_calls apply_storages_safe)
qed (simp add: applyBackupSettings_def)

lemma syncPMMServerToken_safe: "safe P (syncPMMServerToken E n tok)"
  by (auto simp: syncPMMServerToken_def Let_def intro!: safe_call safe_calls)

lemma apply_bindings_safe:
  assumes "\<And>u. U u \<noteq> Panic"
  shows "list_all binding_ok rbs \<Longrightarrow> safe P (apply_bindings E U p live rbs)"
proof (induction rbs)
  case (Cons rb rbs)
  have "safe P (renderPMM E U rb)" if "rb_AgentImage rb \<noteq> None"
    using that by (auto simp: renderPMM_def Let_def pmm_inputs_ok assms intro!: safe_call safe_calls)
  with Cons show ?case
    by (auto simp: apply_binding_def binding_ok_def intro!: safe_call safe_void safe_calls syncPMMServerToken_safe)
qed simp

lemma applyPMM_safe: "(\<And>u. U u \<noteq> Panic) \<Longrightarrow> safe P (applyPMM E U p live required)"
  by (auto simp: applyPMM_def intro!: safe_call safe_calls syncPMMServerToken_safe safe_call_ensures [OF runtime(6) typed(2)] apply_bindings_safe)

lemma applyMonitoring_safe:
  assumes "\<And>u. U u \<noteq> Panic" "px_PXC (pc_Spec p) \<noteq> None"
  shows "safe P (applyMonitoring E U p spec)"
proof -
  have "applyMetricsExporter E q live r spec \<noteq> Panic" if "exec (applyPMM E U p live' req) w = (Ret q, w')" for q live live' req w w' r
    using assms(2) applyPMM_Ret [OF that] by (auto simp: applyMetricsExporter_def Let_def on_engine_def set_pmm_def)
  then have "safe P (call (applyPMM E U p live req) fail (\<lambda>q. lift_outcome (applyMetricsExporter E q live r spec)))" for live req r
    by (intro safe_call_value applyPMM_safe assms(1)) auto
  moreover have "safe P (call (ctx_GetPXC E (ctx_Name E)) (\<lambda>e. if \<not> IsNotFound e then fail (Wrap ''get PerconaXtraDBCluster'' e) else ret None) (\<lambda>l. ret (Some l)))"
    by (auto intro!: safe_call safe_calls)
  ultimately show ?thesis unfolding applyMonitoring_def by (rule safe_call [OF _ safe_fail safe_call [OF runtime(5) safe_fail], rotated])
qed

lemma complete_cluster_safe:
  assumes "inst_ok (ctx_Instance E)" "\<And>u. U u \<noteq> Panic" "cluster_shape E engine proxy p"
  shows "safe P (complete_cluster E U engine proxy p)"
proof -
  have "safe P (applyMonitoring E U (with_secrets (users_secret (ctx_Name E)) p2) spec)"
    if p1: "configure_cluster E spec engine proxy p = Ret p1" and p2: "exec (applyBackupSettings E p1) w = (Ret p2, w')" for spec p1 p2 w w'
    using configure_cluster_shape [OF assms(3) p1] applyBackupSettings_Ret [OF p2]
    by (intro applyMonitoring_safe assms(2)) (auto simp: cluster_shape_def set_backup_def with_secrets_def)
  then have "safe P (call (lift_outcome (configure_cluster E spec engine proxy p)) fail (\<lambda>p1. call (applyBackupSettings E p1) fail
      (\<lambda>p2. applyMonitoring E U (with_secrets (users_secret (ctx_Name E)) p2) spec)))" for spec
    by (intro safe_call_lift safe_call_value configure_cluster_ok [OF assms(3) pure(1)] applyBackupSettings_safe [OF assms(1)] safe_fail)
  then show ?thesis unfolding complete_cluster_def by (rule safe_call [OF runtime(1) safe_fail])
qed

lemma credentials_safe: "safe P (ensureDataSourceCredentials E ds n)"
proof -
  have "safe P (dataSourceInstanceName E ds)"
    by (auto simp: dataSourceInstanceName_def Let_def backup_ok_def intro!: safe_call_ensures [OF reads(11) typed(1)] split: data_source_type.split)
  then show ?thesis
    by (auto simp: ensureDataSourceCredentials_def copy_credentials_def Let_def intro!: safe_call safe_void safe_calls)
qed

lemma Sync_safe:
  assumes "inst_ok (ctx_Instance E)" "\<And>u. U u \<noteq> Panic"
  shows "safe P (Sync E U)"
proof -
  have "safe P (call (complete_cluster E U engine proxy p) fail (apply_cluster E))" if "render_cluster E = Ret (engine, proxy, p)" for engine proxy p
    using complete_cluster_safe [OF assms render_cluster_Ret(3) [OF flags that]]
    by (auto simp: apply_cluster_def seed_data_source_def intro!: safe_call safe_void safe_calls credentials_safe split: option.split)
  then have "safe P (call (lift_outcome (render_cluster E)) fail (\<lambda>(engine, proxy, p). call (complete_cluster E U engine proxy p) fail (apply_cluster E)))"
    by (intro safe_call_lift render_cluster_ok flags) auto
  then show ?thesis
    by (auto simp: Sync_def SyncPXC_def hasActiveRestoreForInstance_def intro!: safe_call safe_calls)
qed

end

subsection \<open>The reference cluster\<close>

text \<open>The stored Backups and the bindings are well formed.\<close>

definition typed_world :: "cluster \<Rightarrow> bool" where
  "typed_world w \<longleftrightarrow> list_all backup_ok (map snd (wl_Backups w)) \<and> list_all binding_ok (wl_Bindings w)"

lemma list_all_update: "list_all Q (map snd xs) \<Longrightarrow> Q v \<Longrightarrow> list_all Q (map snd (AList.update k v xs))"
  by (induction xs) auto

lemma list_all_delete: "list_all Q (map snd xs) \<Longrightarrow> list_all Q (map snd (AList.delete k xs))"
  by (induction xs) auto

lemma list_all_lookup: "list_all Q (map snd xs) \<Longrightarrow> map_of xs k = Some v \<Longrightarrow> Q v"
  by (force simp: list_all_iff dest!: map_of_SomeD)

lemmas typed_world_stores = list_all_update list_all_delete

lemma ref_owner_ok: "ref_controller_ref k o' m \<noteq> Panic"
  by (simp add: ref_controller_ref_def)

interpretation ref_typed: typed_calls "ref_env i" typed_world for i
  by unfold_locales
    (auto simp: safe_def ensures_def typed_world_def store_create_def store_write_def store_delete_def Let_def ref_owner_ok bindO_Panic
      intro: typed_world_stores dest: list_all_lookup split: option.split)

text \<open>
  C9. Type safety of the handlers. When the API hands out well-formed Backups and bindings, no handler
  dereferences nil, whatever the world holds otherwise, and the world stays well formed: a Backup is
  written back well formed, and one that \<open>Mirror\<close> returns for the runtime to create is well formed too. The
  conditions are needed: a Backup that names no Instance makes \<open>SyncBackup\<close> panic.
\<close>

theorem handlers_do_not_panic:
  assumes "typed_calls E P" "inst_ok (ctx_Instance E)" "backup_ok b" "\<And>u. U u \<noteq> Panic"
  shows "safe P (Sync E U) \<and> safe P (Status E) \<and> safe P (Cleanup E) \<and> safe P (MonitoringSources E) \<and> safe P (BackupStorageStatuses E srt)
    \<and> safe P (SyncBackup E b) \<and> safe P (CleanupBackup E b) \<and> safe P (SyncRestore E r) \<and> safe P (CleanupRestore E r)
    \<and> safe P (Mirror E obj) \<and> ensures P (Mirror E obj) (\<lambda>m. \<forall>c. m = Some c \<longrightarrow> backup_ok c)
    \<and> (\<forall>c w. \<not> backup_ok c \<longrightarrow> exec (SyncBackup E c) w = (Panic, w))"
proof -
  have "exec (SyncBackup E c) w = (Panic, w)" if "\<not> backup_ok c" for c w
    using that by (simp add: backup_ok_def SyncBackup_def label_backup_def with_instance_def)
  then show ?thesis
    using assms(2-4)
    by (intro conjI allI impI typed_calls.Sync_safe [OF assms(1)] typed_calls.Status_safe [OF assms(1)] typed_calls.Cleanup_safe [OF assms(1)]
      typed_calls.MonitoringSources_safe [OF assms(1)] typed_calls.BackupStorageStatuses_safe [OF assms(1)] typed_calls.SyncBackup_safe [OF assms(1)]
      typed_calls.CleanupBackup_safe [OF assms(1)] typed_calls.SyncRestore_safe [OF assms(1)] typed_calls.CleanupRestore_safe [OF assms(1)]
      typed_calls.Mirror_safe [OF assms(1)] typed_calls.Mirror_ok [OF assms(1)]) simp_all
qed

theorem handlers_do_not_panic_witness:
  "typed_world empty_cluster \<and> fst (exec (Sync (ref_env sample_inst) authority_host) empty_cluster) \<noteq> Panic
   \<and> fst (exec (SyncBackup (ref_env sample_inst) (sample_backup ''b1'' BackupStateSucceeded 10)) empty_cluster) \<noteq> Panic"
proof -
  have "inst_ok (ctx_Instance (ref_env sample_inst))" "backup_ok (sample_backup ''b1'' BackupStateSucceeded 10)" "authority_host u \<noteq> Panic" for u
    by (simp_all add: inst_ok_def schedule_ok_def backup_ok_def enabled_backup_def sample_inst_def sample_backup_spec_def sample_storage_def sample_backup_def authority_host_def)
  from handlers_do_not_panic [where U = authority_host, OF ref_typed.typed_calls_axioms this]
  have "safe typed_world (Sync (ref_env sample_inst) authority_host)" "safe typed_world (SyncBackup (ref_env sample_inst) (sample_backup ''b1'' BackupStateSucceeded 10))"
    by blast+
  moreover have "typed_world empty_cluster" by (simp add: typed_world_def empty_cluster_def)
  ultimately show ?thesis by (simp add: safe_def)
qed

end
