(* ===== verification/Confinement.thy ===== *)
theory Confinement
  imports Applied_Cluster Provider_Status Backup_Mirror
begin

text \<open>
  The handlers work in one namespace: a handler called for an object of a namespace reads and writes
  objects of this namespace only. The argument assumes of the world only what the calls in this
  namespace keep; any property of the other namespaces is then kept by the handlers.
\<close>

lemma keeps_call_ensures:
  assumes "ensures P m R" "\<And>e. keeps P (h e)" "\<And>a. R a \<Longrightarrow> keeps P (k a)"
  shows "keeps P (call m h k)"
  by (rule ensures_keeps [OF ensures_call [OF assms(1), where Q = "\<lambda>_. True"]]) (use assms(2,3) keeps_ensures in blast)+

lemma keeps_call_lift: "(\<And>e. keeps P (h e)) \<Longrightarrow> (\<And>a. r = Ret a \<Longrightarrow> keeps P (k a)) \<Longrightarrow> keeps P (call (lift_outcome r) h k)"
  by (cases r) (auto simp: keeps_def exec_call)

lemma keeps_call_value:
  assumes "keeps P m" "\<And>e. keeps P (h e)" "\<And>a w w'. exec m w = (Ret a, w') \<Longrightarrow> keeps P (k a)"
  shows "keeps P (call m h k)"
proof (rule keeps_call_ensures)
  show "ensures P m (\<lambda>a. \<exists>w w'. exec m w = (Ret a, w'))" by (rule ensures_value [OF assms(1)]) blast
qed (use assms(2,3) in blast)+

subsection \<open>Calls in one namespace\<close>

text \<open>
  What is read in a namespace lies in it; \<open>P\<close> is kept by the calls for objects of the namespace. The
  calls of \<^verbatim>\<open>Context\<close> are bound to the namespace of its Instance. Setting an owner does not move an object,
  nor does the server when it stores one.
\<close>

locale namespace_calls =
  fixes E :: "'w env" and P :: "'w \<Rightarrow> bool"
  assumes here: "om_Namespace (in_Meta (ctx_Instance E)) = ctx_Namespace E" "om_Namespace (ctx_ObjectMeta E n) = ctx_Namespace E"
    and runtime: "keeps P (ctx_ProviderSpec E)" "keeps P (ctx_BackupClassForInstance E)" "keeps P (ctx_BackupStorage E n)"
      "keeps P (ctx_BackupStorageCredentials E bs)" "keeps P (ctx_RequiredSources E)" "keeps P (ctx_MonitoringBindings E)"
      "keeps P (ctx_MonitoringCredentials E rb)" "keeps P (ctx_SetMonitoringBindingResult E n r m)" "keeps P (ctx_GetDataSourceStatus E)"
      "keeps P (ctx_SetDataSourceStatus E d)" "keeps P (ctx_ReconcileDataSource E)" "keeps P (ctx_GetPXC E n)" "keeps P (ctx_GetBackup E n)"
    and reads: "keeps P (cl_GetPXC E (ctx_Namespace E) n)" "keeps P (cl_GetBackup E (ctx_Namespace E) n)" "keeps P (cl_GetInstance E (ctx_Namespace E) n)" "keeps P (cl_ListBackupsOfInstance E (ctx_Namespace E) n)"
      "keeps P (cl_ListOpBackups E (ctx_Namespace E))" "keeps P (cl_ListRestores E (ctx_Namespace E))"
    and found: "ensures P (cl_GetOpBackup E (ctx_Namespace E) n) (\<lambda>x. om_Namespace (ob_Meta x) = ctx_Namespace E)" "ensures P (cl_GetOpRestore E (ctx_Namespace E) n) (\<lambda>x. om_Namespace (ore_Meta x) = ctx_Namespace E)"
      "ensures P (ctx_GetSecret E n) (\<lambda>s. om_Namespace (se_Meta s) = ctx_Namespace E)"
    and created: "om_Namespace (ob_Meta x) = ctx_Namespace E \<Longrightarrow> ensures P (cl_CreateOpBackup E x) (\<lambda>y. om_Namespace (ob_Meta y) = ctx_Namespace E)"
      "om_Namespace (ore_Meta y) = ctx_Namespace E \<Longrightarrow> ensures P (cl_CreateOpRestore E y) (\<lambda>z. om_Namespace (ore_Meta z) = ctx_Namespace E)"
      "om_Namespace (se_Meta s) = ctx_Namespace E \<Longrightarrow> keeps P (cl_CreateSecret E s)"
    and patched: "om_Namespace (b_Meta c) = ctx_Namespace E \<Longrightarrow> ensures P (cl_PatchBackup E b c) (\<lambda>d. om_Namespace (b_Meta d) = ctx_Namespace E)"
      "om_Namespace (re_Meta rt) = ctx_Namespace E \<Longrightarrow> ensures P (cl_PatchRestore E rs rt) (\<lambda>d. om_Namespace (re_Meta d) = ctx_Namespace E)"
      "om_Namespace (ob_Meta x') = ctx_Namespace E \<Longrightarrow> keeps P (cl_PatchOpBackup E x x')" "om_Namespace (ore_Meta y') = ctx_Namespace E \<Longrightarrow> keeps P (cl_PatchOpRestore E y y')"
      "om_Namespace (se_Meta t) = ctx_Namespace E \<Longrightarrow> keeps P (cl_PatchSecret E s t)" "om_Namespace (ob_Meta x) = ctx_Namespace E \<Longrightarrow> keeps P (cl_UpdateOpBackup E x)"
      "om_Namespace (pc_Meta p) = ctx_Namespace E \<Longrightarrow> keeps P (ctx_ApplyPXC E p)"
    and deleted: "om_Namespace (ob_Meta x) = ctx_Namespace E \<Longrightarrow> keeps P (cl_DeleteOpBackup E x)" "om_Namespace (ore_Meta y) = ctx_Namespace E \<Longrightarrow> keeps P (cl_DeleteOpRestore E y)"
      "om_Namespace (pc_Meta p) = ctx_Namespace E \<Longrightarrow> keeps P (ctx_DeletePXC E p)"
    and owned: "SetBackupControllerReference E b x = Ret x' \<Longrightarrow> om_Namespace (ob_Meta x') = om_Namespace (ob_Meta x)"
      "SetRestoreControllerReference E rs y = Ret y' \<Longrightarrow> om_Namespace (ore_Meta y') = om_Namespace (ore_Meta y)"
    and flags: "proxy_flags (HAProxyEnabled E) (ProxySQLEnabled E)"
begin

lemmas calls = runtime reads found [THEN ensures_keeps]

lemmas then_steps = keeps_call_lift runtime [THEN keeps_call] reads [THEN keeps_call] found [THEN keeps_call_ensures]

lemma owner_ns:
  "ensureBackupControllerReference E b x = Ret y \<Longrightarrow> om_Namespace (ob_Meta y) = om_Namespace (ob_Meta x)"
  "setRestoreControllerReference E r z = Ret z' \<Longrightarrow> om_Namespace (ore_Meta z') = om_Namespace (ore_Meta z)"
  by (auto simp: ensureBackupControllerReference_def setRestoreControllerReference_def dest: owned split: outcome.splits)

lemma CleanupBackup_here: "om_Namespace (b_Meta b) = ctx_Namespace E \<Longrightarrow> keeps P (CleanupBackup E b)"
  by (auto simp: CleanupBackup_def Let_def intro!: then_steps patched(6) [THEN keeps_call] deleted(1) [THEN keeps_call])

lemma CleanupRestore_here: "om_Namespace (re_Meta r) = ctx_Namespace E \<Longrightarrow> keeps P (CleanupRestore E r)"
  by (auto simp: CleanupRestore_def Let_def intro!: then_steps deleted(2) [THEN keeps_call])

lemma MonitoringSources_here: "keeps P (MonitoringSources E)"
  by (auto simp: MonitoringSources_def Let_def intro!: then_steps)

lemma BackupStorageStatuses_here: "keeps P (BackupStorageStatuses E srt)"
  by (auto simp: BackupStorageStatuses_def here intro!: then_steps split: option.split)

lemma Cleanup_here: "keeps P (Cleanup E)"
  by (auto simp: Cleanup_def CleanupPXC_def here intro!: deleted(3))

lemma active_here: "keeps P (hasActiveRestoreForInstance E (ctx_Namespace E) n)"
  by (auto simp: hasActiveRestoreForInstance_def intro!: then_steps)

lemma Status_here: "keeps P (Status E)"
  by (auto simp: Status_def StatusPXC_def phase_of_cluster_def phase_of_engine_def buildConnectionDetails_def Let_def here
      intro!: then_steps keeps_call active_here calls split: option.split app_state.split)

lemma Mirror_here: "(case obj of OpBackupObj x \<Rightarrow> om_Namespace (ob_Meta x) = ctx_Namespace E | _ \<Rightarrow> True) \<Longrightarrow> keeps P (Mirror E obj)"
  by (auto simp: Mirror_def Let_def intro!: then_steps split: client_object.splits prod.split option.split)

text \<open>Backups and restores.\<close>

abbreviation in_ns :: "object_meta \<Rightarrow> bool" where
  "in_ns m \<equiv> om_Namespace m = ctx_Namespace E"

lemma label_backup_here:
  assumes "in_ns (b_Meta b)"
  shows "ensures P (label_backup E b) (\<lambda>c. in_ns (b_Meta c))"
proof -
  have patch: "ensures P (cl_PatchBackup E b (b\<lparr>b_Meta := (b_Meta b)\<lparr>om_Labels := l\<rparr>\<rparr>)) (\<lambda>c. in_ns (b_Meta c))" for l
    by (rule patched(1)) (simp add: assms)
  show ?thesis
    unfolding label_backup_def with_instance_def by (intro ensures_call_lift ensures_fail ensures_if) (auto simp: assms intro: ensures_call [OF patch])
qed

lemma start_backup_here:
  assumes "in_ns (b_Meta b)"
  shows "ensures P (start_backup E b) (\<lambda>r. \<forall>x. r = Inr x \<longrightarrow> in_ns (ob_Meta x))"
proof -
  have new: "in_ns (ob_Meta y)" if "ensureBackupControllerReference E b (new_op_backup E b n) = Ret y" for n y
    using owner_ns(1) [OF that] assms by (simp add: new_op_backup_def named_meta_def)
  show ?thesis
    unfolding start_backup_def with_instance_def Let_def assms
    by (intro ensures_if ensures_call_lift ensures_fail ensures_call_keeps [OF reads(1)] ensures_call [OF created(1)] ensures_call [OF found(1)])
      (auto intro: new)
qed

lemma adopt_backup_here: "in_ns (ob_Meta x) \<Longrightarrow> keeps P (adopt_backup E b x)"
  by (auto simp: adopt_backup_def protect_data_def dest!: owner_ns(1) intro!: then_steps patched(3) [THEN keeps_call])

lemma SyncBackup_here:
  assumes "in_ns (b_Meta b)"
  shows "keeps P (SyncBackup E b)"
  unfolding SyncBackup_def
proof (rule keeps_call_ensures [OF label_backup_here [OF assms]], goal_cases)
  case (2 c)
  let ?Q = "\<lambda>r. \<forall>x. r = Inr x \<longrightarrow> in_ns (ob_Meta x)"
  from start_backup_here [OF 2] show ?case
    unfolding 2 by (intro keeps_call_ensures [OF ensures_call [OF found(1), where Q = ?Q]])
      (auto intro!: adopt_backup_here [THEN keeps_call] split: sum.split)
qed simp

lemma restore_source_here: "in_ns (re_Meta r) \<Longrightarrow> keeps P (resolveRestoreSource E r opRef)"
  by (auto simp: resolveRestoreSource_def resolveBackupSource_def resolvePointInTimeSource_def selectPITRBaseBackup_def Let_def
      intro!: keeps_call calls split: option.split sum.split data_source_type.split)

lemma label_restore_here:
  assumes "in_ns (re_Meta r)"
  shows "ensures P (label_restore E r) (\<lambda>s. in_ns (re_Meta s))"
proof -
  have patch: "ensures P (cl_PatchRestore E r (r\<lparr>re_Meta := (re_Meta r)\<lparr>om_Labels := l\<rparr>\<rparr>)) (\<lambda>s. in_ns (re_Meta s))" for l
    by (rule patched(2)) (simp add: assms)
  show ?thesis unfolding label_restore_def by (auto simp: assms intro: ensures_call [OF patch])
qed

lemma start_restore_here:
  assumes "in_ns (re_Meta r)"
  shows "ensures P (start_restore E r n pitr) (\<lambda>x. in_ns (ore_Meta x))"
proof -
  have new: "in_ns (ore_Meta y)" if "setRestoreControllerReference E r (new_op_restore r n pitr) = Ret y" for y
    using owner_ns(2) [OF that] assms by (simp add: new_op_restore_def named_meta_def)
  show ?thesis
    unfolding start_restore_def Let_def assms
    by (intro ensures_if ensures_call_lift ensures_fail ensures_call [OF created(2)] ensures_call [OF found(2)]) (auto intro: new)
qed

lemma SyncRestore_here:
  assumes "in_ns (re_Meta r)"
  shows "keeps P (SyncRestore E r)"
  unfolding SyncRestore_def Let_def
proof (rule keeps_call_ensures [OF label_restore_here [OF assms]], goal_cases)
  case (2 s)
  let ?Q = "\<lambda>x. in_ns (ore_Meta x)"
  show ?case
    unfolding 2
  proof (rule keeps_call [OF restore_source_here [OF 2]], goal_cases)
    case (2 src)
    show ?case
    proof (cases src)
      case (Inr np)
      with start_restore_here [OF \<open>in_ns (re_Meta s)\<close>, of "fst np" "snd np"] show ?thesis
        by (auto simp: case_prod_beta dest!: owner_ns(2)
            intro!: keeps_call_ensures [OF ensures_call [OF found(2), where Q = ?Q]] keeps_call_lift patched(4) [THEN keeps_call])
    qed simp
  qed simp
qed simp

text \<open>The sync of an Instance.\<close>

lemma apply_storages_here: "keeps P (apply_storages E sts acc)"
  by (induction sts arbitrary: acc) (auto intro!: keeps_call calls split: option.split storage_type.split)

lemma applyBackupSettings_here: "keeps P (applyBackupSettings E p)"
  by (auto simp: applyBackupSettings_def intro!: keeps_call calls apply_storages_here split: option.split)

lemma syncPMMServerToken_here: "keeps P (syncPMMServerToken E n token)"
  by (auto simp: syncPMMServerToken_def Let_def intro!: then_steps patched(5) [THEN keeps_call])

lemma apply_bindings_here: "keeps P (apply_bindings E U p live rbs)"
  by (induction rbs)
    (auto simp: apply_binding_def renderPMM_def Let_def intro!: keeps_call keeps_void calls syncPMMServerToken_here)

lemma complete_cluster_here: "keeps P (complete_cluster E U engine proxy p)"
  by (auto simp: complete_cluster_def applyMonitoring_def applyPMM_def
      intro!: keeps_call calls applyBackupSettings_here syncPMMServerToken_here apply_bindings_here)

lemma credentials_here: "keeps P (ensureDataSourceCredentials E ds n)"
  by (auto simp: ensureDataSourceCredentials_def copy_credentials_def dataSourceInstanceName_def copied_secret_def named_meta_def Let_def
      intro!: keeps_call keeps_void calls created(3) split: data_source_type.split)

lemma Sync_here: "keeps P (Sync E U)"
proof -
  have "keeps P (apply_cluster E q)" if "in_ns (pc_Meta q)" for q
    using that by (auto simp: apply_cluster_def seed_data_source_def intro!: keeps_call keeps_void calls credentials_here patched(7) split: option.split)
  moreover have "in_ns (pc_Meta q)" if "render_cluster E = Ret (engine, proxy, p)" "exec (complete_cluster E U engine proxy p) w = (Ret q, w')" for engine proxy p q w w'
    using complete_cluster_Ret [OF that(2) render_cluster_Ret(3) [OF flags that(1)]] by (simp add: cluster_shape_def new_cluster_def here)
  ultimately have "keeps P (call (complete_cluster E U engine proxy p) fail (apply_cluster E))" if "render_cluster E = Ret (engine, proxy, p)" for engine proxy p
    using that by (intro keeps_call_value [OF complete_cluster_here keeps_fail]) blast
  then have "keeps P (call (lift_outcome (render_cluster E)) fail (\<lambda>(engine, proxy, p). call (complete_cluster E U engine proxy p) fail (apply_cluster E)))"
    by (intro keeps_call_lift keeps_fail) auto
  then show ?thesis by (auto simp: Sync_def SyncPXC_def intro!: keeps_call [OF active_here])
qed

end

subsection \<open>The reference cluster\<close>

text \<open>The objects of the other namespaces, and that the objects of a namespace are stored under their names.\<close>

definition outside :: "string \<Rightarrow> 'o store \<Rightarrow> 'o store" where
  "outside ns st = filter (\<lambda>(k, x). fst k \<noteq> ns) st"

definition others_world :: "string \<Rightarrow> cluster \<Rightarrow> pxc store \<times> secret store \<times> op_backup store \<times> op_restore store \<times> backup store \<times> restore store \<times> inst store" where
  "others_world ns w = (outside ns (wl_PXC w), outside ns (wl_Secrets w), outside ns (wl_OpBackups w), outside ns (wl_OpRestores w),
     outside ns (wl_Backups w), outside ns (wl_Restores w), outside ns (wl_Instances w))"

definition keyed :: "('o \<Rightarrow> object_meta) \<Rightarrow> 'o store \<Rightarrow> bool" where
  "keyed meta st \<longleftrightarrow> list_all (\<lambda>(k, x). fst k = om_Namespace (meta x)) st"

definition keyed_world :: "cluster \<Rightarrow> bool" where
  "keyed_world w \<longleftrightarrow> keyed se_Meta (wl_Secrets w) \<and> keyed ob_Meta (wl_OpBackups w) \<and> keyed ore_Meta (wl_OpRestores w)"

lemma outside_update [simp]: "outside ns (AList.update (ns, n) x st) = outside ns st"
  by (induction st) (auto simp: outside_def)

lemma outside_delete [simp]: "outside ns (AList.delete (ns, n) st) = outside ns st"
  by (induction st) (auto simp: outside_def)

lemma keyed_update: "keyed meta st \<Longrightarrow> om_Namespace (meta x) = fst k \<Longrightarrow> keyed meta (AList.update k x st)"
  by (induction st) (auto simp: keyed_def)

lemma keyed_delete: "keyed meta st \<Longrightarrow> keyed meta (AList.delete k st)"
  by (induction st) (auto simp: keyed_def)

lemma keyed_lookup: "keyed meta st \<Longrightarrow> map_of st (ns, n) = Some x \<Longrightarrow> om_Namespace (meta x) = ns"
  by (force simp: keyed_def list_all_iff dest!: map_of_SomeD)

text \<open>Nothing has changed in the other namespaces.\<close>

definition others_as :: "string \<Rightarrow> cluster \<Rightarrow> cluster \<Rightarrow> bool" where
  "others_as ns v w \<longleftrightarrow> keyed_world w \<and> others_world ns w = others_world ns v"

lemmas others_defs = others_as_def others_world_def keyed_world_def

lemma ref_owner_namespace: "ref_controller_ref kind owner m = Ret m' \<Longrightarrow> om_Namespace m' = om_Namespace m"
  by (auto simp: ref_controller_ref_def split: if_splits)

lemma deleted_meta_namespace [simp]: "om_Namespace (deleted_meta m) = om_Namespace m"
  by (simp add: deleted_meta_def)

interpretation ref_here: namespace_calls "ref_env i" "others_as (om_Namespace (in_Meta i)) v" for i v
  by unfold_locales
    (auto simp: keeps_def ensures_def others_defs store_create_def store_write_def store_delete_def Let_def bindO_Ret meta_key_def created_meta_def
      named_meta_def ref_owner_namespace intro!: keyed_update keyed_delete dest: keyed_lookup split: option.split)

text \<open>
  C14. Namespaces are kept apart. A handler that is called for an object of a namespace asks the API about
  objects of this namespace only: it keeps every property of the world that the calls of \<^verbatim>\<open>Context\<close>
  and the client's calls in this namespace keep, such as that the objects of all other namespaces are
  exactly as they were.
\<close>

theorem namespaces_kept_apart:
  assumes "namespace_calls E P" "om_Namespace (b_Meta b) = ctx_Namespace E" "om_Namespace (re_Meta r) = ctx_Namespace E" "om_Namespace (ob_Meta x) = ctx_Namespace E"
  shows "keeps P (Sync E U) \<and> keeps P (Status E) \<and> keeps P (Cleanup E) \<and> keeps P (MonitoringSources E) \<and> keeps P (BackupStorageStatuses E srt)
    \<and> keeps P (SyncBackup E b) \<and> keeps P (CleanupBackup E b) \<and> keeps P (SyncRestore E r) \<and> keeps P (CleanupRestore E r) \<and> keeps P (Mirror E (OpBackupObj x))"
  using assms(2-4)
  by (intro conjI namespace_calls.Sync_here [OF assms(1)] namespace_calls.Status_here [OF assms(1)] namespace_calls.Cleanup_here [OF assms(1)]
    namespace_calls.MonitoringSources_here [OF assms(1)] namespace_calls.BackupStorageStatuses_here [OF assms(1)] namespace_calls.SyncBackup_here [OF assms(1)]
    namespace_calls.CleanupBackup_here [OF assms(1)] namespace_calls.SyncRestore_here [OF assms(1)] namespace_calls.CleanupRestore_here [OF assms(1)]
    namespace_calls.Mirror_here [OF assms(1)]) simp_all

theorem namespaces_kept_apart_witness:
  "others_world ''team-a'' (snd (exec (Sync (ref_env sample_inst) authority_host) empty_cluster)) = others_world ''team-a'' empty_cluster
   \<and> others_world ''team-a'' (snd (exec (SyncBackup (ref_env sample_inst) (sample_backup ''b1'' BackupStateSucceeded 10)) empty_cluster)) = others_world ''team-a'' empty_cluster"
proof -
  have ns: "om_Namespace (in_Meta sample_inst) = ''team-a''" "om_Namespace (b_Meta (sample_backup n st t)) = ''team-a''"
    "om_Namespace (re_Meta seed_restore) = ''team-a''" "om_Namespace (ob_Meta (sample_op_backup n t g)) = ''team-a''" for n st t g
    by (simp_all add: sample_inst_def sample_backup_def seed_restore_def sample_op_backup_def named_meta_def)
  have kept: "keeps (others_as ''team-a'' empty_cluster) (Sync (ref_env sample_inst) authority_host)"
    "keeps (others_as ''team-a'' empty_cluster) (SyncBackup (ref_env sample_inst) (sample_backup ''b1'' BackupStateSucceeded 10))"
    using namespaces_kept_apart [OF ref_here.namespace_calls_axioms [of sample_inst empty_cluster], where b = "sample_backup ''b1'' BackupStateSucceeded 10"
      and r = seed_restore and x = "sample_op_backup ''b1'' 10 False" and U = authority_host] ns by simp_all
  have "others_as ''team-a'' empty_cluster empty_cluster" by (simp add: others_defs empty_cluster_def keyed_def)
  from kept [THEN keepsD, OF this] show ?thesis by (simp add: others_as_def)
qed

end
