(* ===== verification/Mirrored.thy ===== *)
theory Mirrored
  imports Lifecycle Backup_Mirror
begin

text \<open>
  \<open>Mirror\<close> and \<open>SyncBackup\<close> together: what becomes of a Backup that \<open>Mirror\<close> has returned and the runtime has
  created, when it is synced.
\<close>

lemma label_backup_Ret:
  assumes "bks w (meta_key (b_Meta c)) = Some c" "\<not> being_deleted (b_Meta c)" "b_InstanceRef c \<noteq> None"
  shows "\<exists>d w1. exec (label_backup (ref_env i) c) w = (Ret d, w1) \<and> same_backup c d \<and> meta_key (b_Meta d) = meta_key (b_Meta c) \<and> wl_OpBackups w1 = wl_OpBackups w"
proof -
  obtain n where n: "b_InstanceRef c = Some n" using assms(3) by blast
  let ?d = "c\<lparr>b_Meta := (b_Meta c)\<lparr>om_Labels := (om_Labels (b_Meta c))(instanceNameLabelKey \<mapsto> n)\<rparr>\<rparr>"
  have "meta_key (b_Meta ?d) = meta_key (b_Meta c)" by (simp add: meta_key_def)
  with store_write_bk [of ?d w] assms(1,2) n show ?thesis
    by (cases "map_str (om_Labels (b_Meta c)) instanceNameLabelKey = n")
      (auto simp: label_backup_def with_instance_def same_backup_def exec_call fun_upd_idem put_bk_def bks_def)
qed

lemma status_of_same: "same_backup c d \<Longrightarrow> backup_status_of L d y = backup_status_of L c y"
  by (simp add: backup_status_of_def backup_ref_def same_backup_def)

text \<open>
  C34. A scheduled backup of the operator is followed and not touched: once the Backup that \<open>Mirror\<close> returned
  for it is stored, syncing this Backup reports the state of the operator backup and writes nothing but the
  label of the Backup. The name of the schedule decides this: a Backup that was mirrored without one is
  taken over like an on-demand one, so that the operator backup carries the finalizer that deletes its
  data with it, unless its policy is to retain them.
\<close>

theorem mirrored_backup_followed:
  assumes m: "exec (Mirror (ref_env j) (OpBackupObj x)) w0 = (Ret (Some m), w1)" and k: "k = (om_Namespace (ob_Meta x), om_Name (ob_Meta x))"
    and c: "map_of (wl_Backups w) k = Some c" "(om_Namespace (b_Meta c), om_Name (b_Meta c)) = k" "om_DeletionTimestamp (b_Meta c) = None"
      "b_InstanceRef c = b_InstanceRef m" "b_ScheduleName c = b_ScheduleName m"
    and y: "map_of (wl_OpBackups w) k = Some y" "(om_Namespace (ob_Meta y), om_Name (ob_Meta y)) = k" "om_DeletionTimestamp (ob_Meta y) = None"
  shows "(fst (scheduledBackupName (ref_env j) x) \<noteq> [] \<longrightarrow>
      (\<exists>w'. exec (SyncBackup (ref_env i) c) w = (Ret (backup_status_of (ref_env i) c y), w') \<and> wl_OpBackups w' = wl_OpBackups w))
    \<and> (fst (scheduledBackupName (ref_env j) x) = [] \<longrightarrow> (\<forall>ex w'. exec (SyncBackup (ref_env i) c) w = (Ret ex, w') \<longrightarrow>
      (\<exists>z. map_of (wl_OpBackups w') k = Some z \<and> (pxcBackupDeleteDataFinalizer \<in> set (om_Finalizers (ob_Meta z))) = (b_DeletionPolicy c \<noteq> ''Retain''))))"
proof -
  have m': "b_InstanceRef m \<noteq> None" "b_ScheduleName m = fst (scheduledBackupName (ref_env j) x)"
    using m by (rule Mirror_SomeE, simp add: mirrored_def)+
  have key: "meta_key (b_Meta c) = k" "meta_key (ob_Meta y) = k" using c(2) y(2) by (simp_all add: meta_key_def)
  from label_backup_Ret [of w c i] c m'(1) key obtain d w1 where l: "exec (label_backup (ref_env i) c) w = (Ret d, w1)" "same_backup c d" "meta_key (b_Meta d) = k"
    "wl_OpBackups w1 = wl_OpBackups w" by (auto simp: bks_def)
  have run: "exec (SyncBackup (ref_env i) c) w = exec (call (adopt_backup (ref_env i) d y) fail (\<lambda>z. ret (backup_status_of (ref_env i) d z))) w1"
    using SyncBackup_labelled [OF l(1)] l(3,4) y(1) by (simp add: ops_def)
  show ?thesis
  proof (intro conjI impI allI)
    assume "fst (scheduledBackupName (ref_env j) x) \<noteq> []"
    then have "\<not> managedByRuntime d" using l(2) m'(2) c(5) by (simp add: managedByRuntime_def same_backup_def)
    with run l(2,4) show "\<exists>w'. exec (SyncBackup (ref_env i) c) w = (Ret (backup_status_of (ref_env i) c y), w') \<and> wl_OpBackups w' = wl_OpBackups w"
      by (simp add: adopt_backup_def status_of_same)
  next
    fix ex w' assume "fst (scheduledBackupName (ref_env j) x) = []" and r: "exec (SyncBackup (ref_env i) c) w = (Ret ex, w')"
    then have man: "managedByRuntime d" using l(2) m'(2) c(5) by (simp add: managedByRuntime_def same_backup_def)
    with run r obtain z where z: "ensureBackupControllerReference (ref_env i) d (protect_data (ref_env i) d y) = Ret z"
      and p: "exec (cl_PatchOpBackup (ref_env i) y z) w1 = (Ret z, w')"
      by (auto simp: adopt_backup_def exec_call store_write_def Let_def split: outcome.splits prod.splits option.splits)
    note o = ref_backup_api.ensured_owner [OF z]
    have "patches_for (ref_env i) c y z" by (rule ref_backup_api.protect_data_ok [OF man l(2) o])
    then have zp: "(pxcBackupDeleteDataFinalizer \<in> set (om_Finalizers (ob_Meta z))) = (b_DeletionPolicy c \<noteq> ''Retain'')"
      by (simp add: patches_for_def data_protected_def)
    have zk: "meta_key (ob_Meta z) = k" using owner_onlyD(1,2) [OF o] key(2) by (simp add: meta_key_def protect_data_def)
    have zd: "\<not> being_deleted (ob_Meta z)" by (subst o [unfolded owner_only_def]) (simp add: protect_data_def y(3))
    from p zk zd store_write_op [of z w1] y(1) l(4) have "w' = put_op k z w1" by (simp add: ops_def)
    with zp show "\<exists>z. map_of (wl_OpBackups w') k = Some z \<and> (pxcBackupDeleteDataFinalizer \<in> set (om_Finalizers (ob_Meta z))) = (b_DeletionPolicy c \<noteq> ''Retain'')"
      by (auto simp: put_op_def update_conv')
  qed
qed

definition nightly_mirror :: backup where
  "nightly_mirror = mirrored (ref_env sample_inst) nightly ''pxc'' ''s3'' ''nightly''"

definition mirrored_cluster :: cluster where
  "mirrored_cluster = db_cluster\<lparr>wl_Backups := [((''team-a'', ''cron-1''), nightly_mirror)], wl_OpBackups := [((''team-a'', ''cron-1''), nightly)]\<rparr>"

theorem mirrored_backup_followed_witness:
  "\<exists>ex w. exec (SyncBackup (ref_env sample_inst) nightly_mirror) mirrored_cluster = (Ret ex, w) \<and> be_State ex = BackupStateSucceeded
     \<and> wl_OpBackups w = wl_OpBackups mirrored_cluster"
proof -
  have n: "nightly = (sample_op_backup ''cron-1'' 10 False)\<lparr>ob_SchedulerName := ''nightly''\<rparr>" by (rule nightly_def)
  have "fst (scheduledBackupName (ref_env sample_inst) nightly) \<noteq> []" by (simp add: n scheduledBackupName_def)
  moreover have "be_State (backup_status_of (ref_env sample_inst) nightly_mirror nightly) = BackupStateSucceeded"
    by (simp add: n backup_status_of_def sample_op_backup_def)
  ultimately show ?thesis
    using mirrored_backup_followed [OF mirror_nightly [folded nightly_mirror_def] refl, of mirrored_cluster nightly_mirror nightly sample_inst]
    by (auto simp: mirrored_cluster_def n nightly_mirror_def mirrored_def sample_op_backup_def named_meta_def)
qed

end
