(* ===== verification/Spec2Isabelle.thy ===== *)
theory Spec2Isabelle
  imports Rbac Sync_Settles Task_Settles Entry_Point Panic_Freedom Confinement Mirrored
begin

text \<open>
  A verification library for the Percona XtraDB Cluster provider of OpenEverest (Go, under src/). The
  provider is a set of handlers that a runtime calls for the objects of a Kubernetes cluster. For an
  \<^verbatim>\<open>Instance\<close> it renders and applies the operator's \<^verbatim>\<open>PerconaXtraDBCluster\<close>, reports its phase and
  connection details, publishes recovery windows and metrics endpoints; for a \<^verbatim>\<open>Backup\<close> or a \<^verbatim>\<open>Restore\<close>
  it drives the operator's backup or restore object and maps its state back; it mirrors the backups of
  the operator's schedules as \<^verbatim>\<open>Backup\<close> objects; and it validates Instances at admission.

  \<^bold>\<open>How the program is modelled.\<close> A handler is a function of an environment \<open>E\<close> into a state monad over a
  world \<open>'w\<close> (\<^verbatim>\<open>Prelude\<close>): the world is touched only by the calls of the API client and of the runtime,
  which are fields of the environment (\<^verbatim>\<open>Runtime_Api\<close>: \<open>cl_*\<close> for \<^verbatim>\<open>c.Client()\<close>, \<open>ctx_*\<close> for the methods of
  \<^verbatim>\<open>controller.Context\<close>, the rest for library functions such as \<^verbatim>\<open>Quantity.Cmp\<close>). A result is a value, an
  error or a panic (\<open>outcome\<close>); a nil dereference of the source is a \<open>Panic\<close> of the model. \<open>call m h k\<close> is
  Go's \<^verbatim>\<open>if err != nil\<close>. Every call that the source makes is made by the model, in the same order, with
  every early return; log lines are left out. What the code relies on about code outside src/ is stated as
  locales (\<open>object_reads\<close>, \<open>object_creates\<close>, \<open>object_patches\<close>, \<open>finalizer_ops\<close>, \<open>quantity_order\<close>,
  \<open>slice_sort\<close>, \<open>url_parser\<close>, \<open>proxy_flags\<close>, \<open>backup_api\<close>, \<open>secret_store\<close>, ...), each interpreted on
  \<open>ref_env\<close>, an in-memory cluster in the manner of the fake client of the repository's tests
  (\<^verbatim>\<open>Reference_Env\<close>, \<^verbatim>\<open>Samples\<close>), on which the witnesses are run.

  \<^bold>\<open>The theories.\<close>
  \<^item> \<^verbatim>\<open>Prelude\<close>, \<^verbatim>\<open>Go_Time\<close>, \<^verbatim>\<open>Go_Json\<close>, \<^verbatim>\<open>Go_Url\<close>, \<^verbatim>\<open>Go_Sort\<close>, \<^verbatim>\<open>Sha1\<close>: the parts of Go and its library
    that the source uses: strings, errors, effects and the rules \<open>keeps\<close> and \<open>ensures\<close> for them (\<^verbatim>\<open>Relational\<close>
    adds those for reads in two worlds); times and their layouts; \<^verbatim>\<open>json.Unmarshal\<close>; \<^verbatim>\<open>url.URL.String\<close>; \<^verbatim>\<open>sort.Slice\<close>; SHA-1.
  \<^item> \<^verbatim>\<open>Api_Types\<close>: the API objects as records, with the fields the provider reads or writes.
  \<^item> \<^verbatim>\<open>Images\<close>: image selection (provider.go, lines 80 to 145).
  \<^item> \<^verbatim>\<open>Backup_Status\<close>: \<open>BackupStorageStatuses\<close> and the window of backup_status.go. A published window begins at
    the oldest Succeeded backup that is newer than every gap.
  \<^item> \<^verbatim>\<open>Backup_Config\<close>, \<^verbatim>\<open>Validate\<close>: \<open>applyBackupSettings\<close> with retention, bucket and PITR parameters
    (backup_mirror.go) and the admission rules of validate.go; both agree on what is admissible, and with
    the schema of definition/backupclasses.
  \<^item> \<^verbatim>\<open>Backup_Mirror\<close>: \<open>Mirror\<close> and the names of schedules. \<^verbatim>\<open>Mirrored\<close>: how \<open>SyncBackup\<close> treats what was mirrored.
  \<^item> \<^verbatim>\<open>Backups\<close>, \<^verbatim>\<open>Lifecycle\<close>: \<open>SyncBackup\<close> and \<open>CleanupBackup\<close> (backup.go): what they write, where the state
    they report comes from; then all interleavings of users, runtime and operator as a step relation,
    whose reachable states keep the data of retained backups and which refines the life of one backup.
  \<^item> \<^verbatim>\<open>Restores\<close>: \<open>SyncRestore\<close>, \<open>CleanupRestore\<close>, the choice of the base of a point-in-time recovery,
    the restores that are in progress, and that cleaning up one converges. \<^verbatim>\<open>Restore_Life\<close>: the interleavings
    of users, runtime and operator for restores; while the operator restores an Instance it is left alone,
    what a restore does is fixed once it has started, and a deleted source holds the Instance for ever.
  \<^item> \<^verbatim>\<open>Mysql_Configs\<close>, \<^verbatim>\<open>Scheduling\<close>, \<^verbatim>\<open>Metrics\<close>, \<^verbatim>\<open>Pmm\<close>, \<^verbatim>\<open>Monitoring\<close>: the files of these names
    (monitoring_sources.go for the last): presets with their texts, affinity and labels, exporter sidecar,
    PMM resources and token, endpoints and the hold rule.
  \<^item> \<^verbatim>\<open>Provider_Sync\<close>: \<open>SyncPXC\<close> (provider.go). \<^verbatim>\<open>Cluster_Shape\<close>: the rendered cluster; a validated Instance
    renders without failing. \<^verbatim>\<open>Seeding\<close>: the gate of the seeding restore and the copy of credentials.
    \<^verbatim>\<open>Applied_Cluster\<close>: what a successful sync has applied, and that images come from the catalogue.
    \<^verbatim>\<open>Sync_Settles\<close>, \<^verbatim>\<open>Task_Settles\<close>: the reconcile loops of Instances, Backups and Restores come to rest.
  \<^item> \<^verbatim>\<open>Provider_Status\<close>: \<open>StatusPXC\<close>, \<open>buildConnectionDetails\<close> and \<open>CleanupPXC\<close>.
  \<^item> \<^verbatim>\<open>Registration\<close>: \<open>NewPXCProviderInterface\<close>, the watches and the routing of their events; an Instance is
    reconciled again whenever something that its reports depend on changes.
  \<^item> \<^verbatim>\<open>Rbac\<close>: the permissions of rbac.go, and that no handler asks for more. \<^verbatim>\<open>Panic_Freedom\<close>: no handler
    dereferences nil on well-formed objects. \<^verbatim>\<open>Confinement\<close>: no handler leaves its namespace.
    \<^verbatim>\<open>Entry_Point\<close>: cmd/provider.
  \<^item> This theory: what spans status, sync and restores.

  \<^bold>\<open>Bounds and fuel.\<close> Replica counts are 32-bit words read as signed numbers; float64 values are rationals
  rounded as \<^verbatim>\<open>strconv.ParseFloat\<close> does. The JSON parser is the only definition with fuel: it gets twice
  the length of its input and one, and \<open>parse_json_fuel\<close> shows that more never changes its result. All other
  recursions are structural or have a termination proof.

  \<^bold>\<open>Not modelled.\<close> Log lines, contexts and cancellation; the text of decoding errors; what the API packages
  register with the scheme; the reconcile loop, the cache and the webhook server, which are the runtime's; the markers and
  schema types of definition/ other than the PITR parameters and the components' configuration, which no
  code reads; charts, examples and tests.
\<close>

section \<open>Restores and the rest of the provider\<close>

text \<open>
  While a restore of the Instance is in progress the restore owns the cluster: a sync writes nothing
  and succeeds without looking at the Instance's spec, and the status of an Instance whose cluster can
  be read is Restoring, whatever the operator says of the cluster.
\<close>

theorem restore_owns_instance:
  assumes "exec (cl_ListRestores E (ctx_Namespace E)) w = (Ret items, w)" "r \<in> set items" "in_progress (ctx_Name E) r"
    and "exec (ctx_GetPXC E (ctx_Name E)) w = (Ret p, w)" "exec (ctx_GetDataSourceStatus E) w = (Ret ds, w)"
  shows "exec (Sync E U) w = (Ret (), w) \<and> (\<exists>msg. exec (Status E) w = (Ret (Restoring msg, None), w))"
proof
  from assms(1-3) have active: "exec (hasActiveRestoreForInstance E (ctx_Namespace E) (ctx_Name E)) w = (Ret True, w)"
    by (auto simp: hasActiveRestoreForInstance_def active_restore_iff)
  then show "exec (Sync E U) w = (Ret (), w)" by (simp add: Sync_def SyncPXC_def)
  from active assms(4,5) show "\<exists>msg. exec (Status E) w = (Ret (Restoring msg, None), w)"
    by (auto simp: Status_def StatusPXC_def phase_of_cluster_def split: option.split)
qed

definition restoring_cluster :: cluster where
  "restoring_cluster = ready_cluster\<lparr>wl_Restores := [((''team-a'', ''seed''), seed_restore)]\<rparr>"

theorem restore_owns_instance_witness:
  "exec (Sync (ref_env sample_inst) authority_host) restoring_cluster = (Ret (), restoring_cluster)
   \<and> (\<exists>msg. exec (Status (ref_env sample_inst)) restoring_cluster = (Ret (Restoring msg, None), restoring_cluster))"
proof (rule restore_owns_instance)
  show "exec (cl_ListRestores (ref_env sample_inst) (ctx_Namespace (ref_env sample_inst))) restoring_cluster = (Ret [seed_restore], restoring_cluster)"
    by (simp add: restoring_cluster_def sample_inst_def named_meta_def)
  show "in_progress (ctx_Name (ref_env sample_inst)) seed_restore"
    by (simp add: in_progress_def seed_restore_def sample_inst_def named_meta_def IsZero_ptr_def)
  show "exec (ctx_GetPXC (ref_env sample_inst) (ctx_Name (ref_env sample_inst))) restoring_cluster = (Ret engine_only, restoring_cluster)"
    by (simp add: restoring_cluster_def ready_cluster_def running_cluster_def sample_inst_def named_meta_def)
  show "exec (ctx_GetDataSourceStatus (ref_env sample_inst)) restoring_cluster = (Ret None, restoring_cluster)"
    by (simp add: restoring_cluster_def ready_cluster_def running_cluster_def empty_cluster_def)
qed simp

end
